(* ===== verification/Py_Prelude.thy ===== *)
theory Py_Prelude
  imports Main "HOL-Library.AList" "HOL-Library.List_Lexorder" "HOL-Library.Char_ord"
begin

text \<open>
  Shared vocabulary of the development: Python values as the runtime handles them (decoded JSON),
  insertion-ordered dictionaries, the string operations the sources use, exceptions, and the
  state-and-exception effect in which every stateful operation of the runtime is written.
  An exception keeps the state reached when it was raised, as it does in Python.

  Strings are lists of code points below 256 (\<^typ>\<open>char\<close> read as Latin-1), on which
  \<open>strip\<close>, \<open>split\<close> and \<open>lower\<close> agree with Python's.
\<close>

named_theorems wp_rules \<open>weakest preconditions of the effect combinators and of the operations\<close>
named_theorems pres \<open>projections of the state that an operation leaves unchanged\<close>


section \<open>Insertion-ordered dictionaries\<close>

type_synonym ('k, 'v) dict = "('k \<times> 'v) list"

abbreviation dget :: "('k, 'v) dict \<Rightarrow> 'k \<Rightarrow> 'v option" where
  "dget d k \<equiv> map_of d k"

abbreviation dset :: "'k \<Rightarrow> 'v \<Rightarrow> ('k, 'v) dict \<Rightarrow> ('k, 'v) dict" where
  "dset \<equiv> AList.update"

abbreviation dpop :: "'k \<Rightarrow> ('k, 'v) dict \<Rightarrow> ('k, 'v) dict" where
  "dpop \<equiv> AList.delete"

definition dhas :: "('k, 'v) dict \<Rightarrow> 'k \<Rightarrow> bool" where
  "dhas d k \<longleftrightarrow> k \<in> fst ` set d"

text \<open>\<open>{**d, **e}\<close>, \<open>d | e\<close> and \<open>d.update(e)\<close>: the entries of \<open>e\<close> win, new keys go last.\<close>

definition dmerge :: "('k, 'v) dict \<Rightarrow> ('k, 'v) dict \<Rightarrow> ('k, 'v) dict" where
  "dmerge d e = fold (\<lambda>(k, v). dset k v) e d"

definition dsetdefault :: "'k \<Rightarrow> 'v \<Rightarrow> ('k, 'v) dict \<Rightarrow> ('k, 'v) dict" where
  "dsetdefault k v d = (if dhas d k then d else dset k v d)"

text \<open>A dict display or comprehension: later duplicates overwrite earlier ones in place.\<close>

definition dict_of :: "('k \<times> 'v) list \<Rightarrow> ('k, 'v) dict" where
  "dict_of kvs = dmerge [] kvs"

lemma dget_dset [simp]: "dget (dset k v d) k' = (if k' = k then Some v else dget d k')"
  by (simp add: update_conv')

lemma dget_dpop [simp]: "dget (dpop k d) k' = (if k' = k then None else dget d k')"
  by (simp add: delete_conv')

lemma dhas_iff: "dhas d k \<longleftrightarrow> dget d k \<noteq> None"
  by (auto simp: dhas_def map_of_eq_None_iff)

lemma dhas_dset [simp]: "dhas (dset k v d) k' \<longleftrightarrow> k' = k \<or> dhas d k'"
  by (auto simp: dhas_iff)

lemma dmerge_Nil [simp]: "dmerge d [] = d"
  by (simp add: dmerge_def)

lemma dmerge_Cons [simp]: "dmerge d ((k, v) # e) = dmerge (dset k v d) e"
  by (simp add: dmerge_def)

lemma dget_dsetdefault:
  "dget (dsetdefault k v d) k' =
     (if k' = k \<and> dget d k = None then Some v else dget d k')"
  by (auto simp: dsetdefault_def dhas_iff)

lemma dget_dmerge:
  "dget (dmerge d e) k = (case dget (rev e) k of Some v \<Rightarrow> Some v | None \<Rightarrow> dget d k)"
  by (induction e arbitrary: d) (auto simp: map_add_def split: option.splits)

lemma distinct_dmerge: "distinct (map fst d) \<Longrightarrow> distinct (map fst (dmerge d e))"
  by (induction e arbitrary: d) (auto simp: distinct_update)


section \<open>Python values\<close>

text \<open>
  The values of decoded JSON. A float is represented by its \<open>repr\<close>, which determines it.
\<close>

datatype pyval =
    PNone
  | PBool bool
  | PInt int
  | PFloat string
  | PStr string
  | PList "pyval list"
  | PDict "(string \<times> pyval) list"

type_synonym pydict = "(string, pyval) dict"

fun truthy :: "pyval \<Rightarrow> bool" where
  "truthy PNone = False"
| "truthy (PBool b) = b"
| "truthy (PInt i) = (i \<noteq> 0)"
| "truthy (PFloat r) = (r \<noteq> ''0.0'' \<and> r \<noteq> ''-0.0'')"
| "truthy (PStr s) = (s \<noteq> [])"
| "truthy (PList xs) = (xs \<noteq> [])"
| "truthy (PDict d) = (d \<noteq> [])"

text \<open>\<open>d.get(k)\<close> on a dictionary of values: a missing key reads as \<open>None\<close>.\<close>

definition pget :: "pydict \<Rightarrow> string \<Rightarrow> pyval" where
  "pget d k = (case dget d k of Some v \<Rightarrow> v | None \<Rightarrow> PNone)"

text \<open>\<open>d.get(k, v)\<close>\<close>

definition get_default :: "pydict \<Rightarrow> string \<Rightarrow> pyval \<Rightarrow> pyval" where
  "get_default d k v = (case dget d k of Some x \<Rightarrow> x | None \<Rightarrow> v)"

text \<open>\<open>a or b\<close>\<close>

definition por :: "pyval \<Rightarrow> pyval \<Rightarrow> pyval" where
  "por a b = (if truthy a then a else b)"

definition pstr_opt :: "string option \<Rightarrow> pyval" where
  "pstr_opt s = (case s of None \<Rightarrow> PNone | Some t \<Rightarrow> PStr t)"

lemma pget_Nil [simp]: "pget [] k = PNone"
  by (simp add: pget_def)

lemma pget_Cons [simp]: "pget ((k, v) # d) k' = (if k' = k then v else pget d k')"
  by (simp add: pget_def)

lemma pget_dset [simp]: "pget (dset k v d) k' = (if k' = k then v else pget d k')"
  by (simp add: pget_def)

lemma pget_dpop [simp]: "pget (dpop k d) k' = (if k' = k then PNone else pget d k')"
  by (simp add: pget_def)


section \<open>Strings\<close>

definition nl :: string where
  "nl = [CHR 0x0A]"

fun join :: "string \<Rightarrow> string list \<Rightarrow> string" where
  "join sep [] = []"
| "join sep [x] = x"
| "join sep (x # y # xs) = x @ sep @ join sep (y # xs)"

definition is_space :: "char \<Rightarrow> bool" where
  "is_space c \<longleftrightarrow> (of_char c :: nat) \<in> {9, 10, 11, 12, 13, 28, 29, 30, 31, 32, 133, 160}"

definition strip :: "string \<Rightarrow> string" where
  "strip s = rev (dropWhile is_space (rev (dropWhile is_space s)))"

text \<open>\<open>s.split()\<close>: the maximal runs of non-space characters.\<close>

function split_ws :: "string \<Rightarrow> string list" where
  "split_ws s =
     (let t = dropWhile is_space s
      in if t = [] then []
         else takeWhile (\<lambda>c. \<not> is_space c) t # split_ws (dropWhile (\<lambda>c. \<not> is_space c) t))"
  by pat_completeness auto
termination
proof (relation "measure length")
  fix s t :: string
  assume t: "t = dropWhile is_space s" and ne: "t \<noteq> []"
  then have "\<not> is_space (hd t)"
    by (metis hd_dropWhile)
  with ne have "length (dropWhile (\<lambda>c. \<not> is_space c) t) < length t"
    by (cases t) (auto simp: length_dropWhile_le le_imp_less_Suc)
  also have "\<dots> \<le> length s"
    by (simp add: t length_dropWhile_le)
  finally show "(dropWhile (\<lambda>c. \<not> is_space c) t, s) \<in> measure length"
    by simp
qed simp

declare split_ws.simps [simp del]

definition lower_char :: "char \<Rightarrow> char" where
  "lower_char c =
     (let n = (of_char c :: nat)
      in if (65 \<le> n \<and> n \<le> 90) \<or> (192 \<le> n \<and> n \<le> 222 \<and> n \<noteq> 215) then char_of (n + 32) else c)"

definition lower :: "string \<Rightarrow> string" where
  "lower s = map lower_char s"

text \<open>\<open>str.upper\<close> on the letters whose upper case is again below 256.\<close>

definition upper_char :: "char \<Rightarrow> char" where
  "upper_char c =
     (let n = (of_char c :: nat)
      in if (97 \<le> n \<and> n \<le> 122) \<or> (224 \<le> n \<and> n \<le> 254 \<and> n \<noteq> 247) then char_of (n - 32) else c)"

text \<open>\<open>sub in s\<close>\<close>

fun contains :: "string \<Rightarrow> string \<Rightarrow> bool" where
  "contains sub [] = (sub = [])"
| "contains sub (c # cs) = (take (length sub) (c # cs) = sub \<or> contains sub cs)"

text \<open>\<open>s.split(":", 1)\<close>: the text before the first colon and the text after it.\<close>

definition before_colon :: "string \<Rightarrow> string" where
  "before_colon s = takeWhile (\<lambda>c. c \<noteq> CHR '':'') s"

definition after_colon :: "string \<Rightarrow> string" where
  "after_colon s = drop 1 (dropWhile (\<lambda>c. c \<noteq> CHR '':'') s)"

definition digit_char :: "nat \<Rightarrow> char" where
  "digit_char d = char_of (48 + d)"

fun nat_str :: "nat \<Rightarrow> string" where
  "nat_str n = (if n < 10 then [digit_char n] else nat_str (n div 10) @ [digit_char (n mod 10)])"

declare nat_str.simps [simp del]

definition int_str :: "int \<Rightarrow> string" where
  "int_str i = (if i < 0 then ''-'' @ nat_str (nat (- i)) else nat_str (nat i))"

text \<open>Decimal numerals are injective: reading the digits back gives the number.\<close>

definition digit_val :: "char \<Rightarrow> nat" where
  "digit_val c = of_char c - 48"

lemma digit_val_char [simp]: "d < 10 \<Longrightarrow> digit_val (digit_char d) = d"
  by (simp add: digit_val_def digit_char_def)

lemma foldl_nat_str: "foldl (\<lambda>a c. 10 * a + digit_val c) 0 (nat_str n) = n"
proof (induction n rule: nat_str.induct)
  case (1 n)
  show ?case
  proof (cases "n < 10")
    case True
    then show ?thesis by (simp add: nat_str.simps [of n])
  next
    case False
    with 1 show ?thesis by (simp add: nat_str.simps [of n])
  qed
qed

lemma nat_str_inject [simp]: "nat_str m = nat_str n \<longleftrightarrow> m = n"
  by (metis foldl_nat_str)

lemma digit_char_ne_colon: "d < 10 \<Longrightarrow> digit_char d \<noteq> CHR '':''"
proof
  assume d: "d < 10" and "digit_char d = CHR '':''"
  then have "(of_char (digit_char d) :: nat) = of_char (CHR '':'')" by simp
  with d show False by (simp add: digit_char_def)
qed

lemma colon_notin_nat_str: "CHR '':'' \<notin> set (nat_str n)"
proof (induction n rule: nat_str.induct)
  case (1 n)
  have "digit_char (n mod 10) \<noteq> CHR '':''" by (rule digit_char_ne_colon) simp
  with 1 show ?case
    by (cases "n < 10") (auto simp: nat_str.simps [of n] digit_char_ne_colon [symmetric] dest: digit_char_ne_colon)
qed

lemma nat_str_nonempty [simp]: "nat_str n \<noteq> []"
  by (subst nat_str.simps) simp

text \<open>A separator that the suffixes do not contain makes a concatenation injective in the suffix.\<close>

lemma append_sep_eq:
  assumes "xs @ c # ys = xs' @ c # ys'" and "c \<notin> set ys" and "c \<notin> set ys'"
  shows "xs = xs' \<and> ys = ys'"
proof -
  from assms(1) have r: "rev ys @ c # rev xs = rev ys' @ c # rev xs'"
    by (metis append.assoc append_Cons append_Nil rev.simps(2) rev_append)
  have "takeWhile (\<lambda>x. x \<noteq> c) (rev ys @ c # rev xs) = rev ys"
    using assms(2) by (simp add: takeWhile_append)
  moreover have "takeWhile (\<lambda>x. x \<noteq> c) (rev ys' @ c # rev xs') = rev ys'"
    using assms(3) by (simp add: takeWhile_append)
  ultimately have "ys = ys'" using r by (metis rev_is_rev_conv)
  with assms(1) show ?thesis by simp
qed


section \<open>Exceptions\<close>

text \<open>
  The exceptions the runtime raises, plus \<open>OtherError\<close> (class name, message) for those of
  libraries and tools. \<open>PrismApi...Error\<close> and \<open>AgentRunAlreadyTerminalError\<close> are subclasses
  of \<open>RuntimeError\<close>; \<open>ValidationError\<close> (pydantic) is a subclass of \<open>ValueError\<close>.
\<close>

datatype exn =
    PlanNotFoundError string
  | ActionNotFoundError string
  | TypeError string
  | ValueError string
  | ValidationError string
  | KeyError string
  | RuntimeError string
  | AgentRunAlreadyTerminalError string string
  | PrismApiBadRequestError string
  | PrismApiNotFoundError string
  | PrismApiConflictError string
  | PrismApiUnprocessableError string
  | OtherError string string

definition is_RuntimeError :: "exn \<Rightarrow> bool" where
  "is_RuntimeError e = (case e of
       RuntimeError _ \<Rightarrow> True
     | AgentRunAlreadyTerminalError _ _ \<Rightarrow> True
     | PrismApiBadRequestError _ \<Rightarrow> True
     | PrismApiNotFoundError _ \<Rightarrow> True
     | PrismApiConflictError _ \<Rightarrow> True
     | PrismApiUnprocessableError _ \<Rightarrow> True
     | _ \<Rightarrow> False)"

fun exn_type_name :: "exn \<Rightarrow> string" where
  "exn_type_name (PlanNotFoundError _) = ''PlanNotFoundError''"
| "exn_type_name (ActionNotFoundError _) = ''ActionNotFoundError''"
| "exn_type_name (TypeError _) = ''TypeError''"
| "exn_type_name (ValueError _) = ''ValueError''"
| "exn_type_name (ValidationError _) = ''ValidationError''"
| "exn_type_name (KeyError _) = ''KeyError''"
| "exn_type_name (RuntimeError _) = ''RuntimeError''"
| "exn_type_name (AgentRunAlreadyTerminalError _ _) = ''AgentRunAlreadyTerminalError''"
| "exn_type_name (PrismApiBadRequestError _) = ''PrismApiBadRequestError''"
| "exn_type_name (PrismApiNotFoundError _) = ''PrismApiNotFoundError''"
| "exn_type_name (PrismApiConflictError _) = ''PrismApiConflictError''"
| "exn_type_name (PrismApiUnprocessableError _) = ''PrismApiUnprocessableError''"
| "exn_type_name (OtherError c _) = c"

end
