(* ===== verification/Effects.thy ===== *)
theory Effects
  imports Py_Prelude
begin

text \<open>
  The effect in which the stateful operations are written: a function from a state to either an
  exception or a result, together with the state reached. \<open>catch\<close> is Python's \<open>try/except\<close>,
  \<open>efor\<close> a \<open>for\<close> statement. Two ways of reasoning: \<open>wp\<close>, the weakest precondition for a normal
  and an exceptional postcondition, and \<open>preserves\<close>, for the parts of the state an operation never
  writes on any path.
\<close>

type_synonym ('s, 'a) eff = "'s \<Rightarrow> (exn + 'a) \<times> 's"

definition ret :: "'a \<Rightarrow> ('s, 'a) eff" where
  "ret x = (\<lambda>s. (Inr x, s))"

definition raise :: "exn \<Rightarrow> ('s, 'a) eff" where
  "raise e = (\<lambda>s. (Inl e, s))"

definition ebind :: "('s, 'a) eff \<Rightarrow> ('a \<Rightarrow> ('s, 'b) eff) \<Rightarrow> ('s, 'b) eff" where
  "ebind m f = (\<lambda>s. case m s of (Inl e, s') \<Rightarrow> (Inl e, s') | (Inr x, s') \<Rightarrow> f x s')"

definition eseq :: "('s, 'a) eff \<Rightarrow> ('s, 'b) eff \<Rightarrow> ('s, 'b) eff" where
  "eseq m n = ebind m (\<lambda>_. n)"

definition gets :: "('s \<Rightarrow> 'a) \<Rightarrow> ('s, 'a) eff" where
  "gets f = (\<lambda>s. (Inr (f s), s))"

definition modify :: "('s \<Rightarrow> 's) \<Rightarrow> ('s, unit) eff" where
  "modify g = (\<lambda>s. (Inr (), g s))"

definition catch :: "('s, 'a) eff \<Rightarrow> (exn \<Rightarrow> ('s, 'a) eff) \<Rightarrow> ('s, 'a) eff" where
  "catch m h = (\<lambda>s. case m s of (Inl e, s') \<Rightarrow> h e s' | (Inr x, s') \<Rightarrow> (Inr x, s'))"

text \<open>\<open>try: ... except Exception\<close> with the outcome, a result or an exception, as a value.\<close>

definition attempted :: "('s, 'a) eff \<Rightarrow> ('s, exn + 'a) eff" where
  "attempted m = (\<lambda>s. case m s of (r, s') \<Rightarrow> (Inr r, s'))"

definition of_sum :: "exn + 'a \<Rightarrow> ('s, 'a) eff" where
  "of_sum r = (\<lambda>s. (r, s))"

primrec efor :: "'a list \<Rightarrow> ('a \<Rightarrow> ('s, unit) eff) \<Rightarrow> ('s, unit) eff" where
  "efor [] f = ret ()"
| "efor (x # xs) f = eseq (f x) (efor xs f)"

primrec emap :: "('a \<Rightarrow> ('s, 'b) eff) \<Rightarrow> 'a list \<Rightarrow> ('s, 'b list) eff" where
  "emap f [] = ret []"
| "emap f (x # xs) = ebind (f x) (\<lambda>y. ebind (emap f xs) (\<lambda>ys. ret (y # ys)))"

text \<open>Run an operation on a part of the state.\<close>

definition on_part :: "('s \<Rightarrow> 't) \<Rightarrow> (('t \<Rightarrow> 't) \<Rightarrow> 's \<Rightarrow> 's) \<Rightarrow> ('t, 'a) eff \<Rightarrow> ('s, 'a) eff" where
  "on_part sel upd m = (\<lambda>s. case m (sel s) of (r, t) \<Rightarrow> (r, upd (\<lambda>_. t) s))"

lemmas eff_defs =
  ret_def raise_def ebind_def eseq_def gets_def modify_def catch_def of_sum_def on_part_def

text \<open>The sum-valued (pure, fallible) counterpart of \<open>ebind\<close>.\<close>

definition sbind :: "exn + 'a \<Rightarrow> ('a \<Rightarrow> exn + 'b) \<Rightarrow> exn + 'b" where
  "sbind r f = (case r of Inl e \<Rightarrow> Inl e | Inr x \<Rightarrow> f x)"

primrec smap :: "('a \<Rightarrow> exn + 'b) \<Rightarrow> 'a list \<Rightarrow> exn + 'b list" where
  "smap f [] = Inr []"
| "smap f (x # xs) = sbind (f x) (\<lambda>y. sbind (smap f xs) (\<lambda>ys. Inr (y # ys)))"

lemma sbind_simps [simp]: "sbind (Inl e) f = Inl e" "sbind (Inr x) f = f x"
  by (simp_all add: sbind_def)

lemma sbind_Inr_iff: "sbind r f = Inr y \<longleftrightarrow> (\<exists>x. r = Inr x \<and> f x = Inr y)"
  by (cases r) auto

lemma smap_Inr_iff: "smap f xs = Inr ys \<longleftrightarrow> list_all2 (\<lambda>x y. f x = Inr y) xs ys"
proof (induction xs arbitrary: ys)
  case Nil
  then show ?case by auto
next
  case (Cons x xs)
  then show ?case by (cases ys) (auto simp: sbind_Inr_iff)
qed


section \<open>Weakest preconditions\<close>

definition wp :: "('s, 'a) eff \<Rightarrow> ('a \<Rightarrow> 's \<Rightarrow> bool) \<Rightarrow> (exn \<Rightarrow> 's \<Rightarrow> bool) \<Rightarrow> 's \<Rightarrow> bool" where
  "wp m Q E s = (case m s of (Inl e, s') \<Rightarrow> E e s' | (Inr x, s') \<Rightarrow> Q x s')"

lemma wp_ret [wp_rules]: "wp (ret x) Q E s = Q x s"
  by (simp add: wp_def ret_def)

lemma wp_raise [wp_rules]: "wp (raise e) Q E s = E e s"
  by (simp add: wp_def raise_def)

lemma wp_gets [wp_rules]: "wp (gets f) Q E s = Q (f s) s"
  by (simp add: wp_def gets_def)

lemma wp_modify [wp_rules]: "wp (modify g) Q E s = Q () (g s)"
  by (simp add: wp_def modify_def)

lemma wp_ebind [wp_rules]: "wp (ebind m f) Q E s = wp m (\<lambda>x. wp (f x) Q E) E s"
  by (auto simp: wp_def ebind_def split: prod.splits sum.splits)

lemma wp_eseq [wp_rules]: "wp (eseq m n) Q E s = wp m (\<lambda>_. wp n Q E) E s"
  by (simp add: eseq_def wp_ebind)

lemma wp_catch [wp_rules]: "wp (catch m h) Q E s = wp m Q (\<lambda>e. wp (h e) Q E) s"
  by (auto simp: wp_def catch_def split: prod.splits sum.splits)

lemma wp_of_sum [wp_rules]:
  "wp (of_sum r) Q E s = (case r of Inl e \<Rightarrow> E e s | Inr x \<Rightarrow> Q x s)"
  by (simp add: wp_def of_sum_def)

lemma wp_attempted [wp_rules]:
  "wp (attempted m) Q E s = wp m (\<lambda>x. Q (Inr x)) (\<lambda>e. Q (Inl e)) s"
  by (simp add: wp_def attempted_def split: prod.splits sum.splits)

lemma wp_mono:
  assumes "wp m Q E s"
    and "\<And>x s'. Q x s' \<Longrightarrow> Q' x s'"
    and "\<And>e s'. E e s' \<Longrightarrow> E' e s'"
  shows "wp m Q' E' s"
  using assms by (auto simp: wp_def split: prod.splits sum.splits)

lemma wp_conj: "wp m Q E s \<Longrightarrow> wp m Q' E' s \<Longrightarrow> wp m (\<lambda>x s. Q x s \<and> Q' x s) (\<lambda>e s. E e s \<and> E' e s) s"
  by (auto simp: wp_def split: prod.splits sum.splits)

lemma wp_True [simp]: "wp m (\<lambda>_ _. True) (\<lambda>_ _. True) s"
  by (auto simp: wp_def split: prod.splits sum.splits)

lemma wp_iff_snd: "wp m (\<lambda>_. P) (\<lambda>_. P) s \<longleftrightarrow> P (snd (m s))"
  by (auto simp: wp_def split: prod.splits sum.splits)

lemma wp_efor_inv:
  assumes "I s" and "\<And>x s. x \<in> set xs \<Longrightarrow> I s \<Longrightarrow> wp (f x) (\<lambda>_. I) (\<lambda>_. I) s"
  shows "wp (efor xs f) (\<lambda>_. I) (\<lambda>_. I) s"
  using assms
proof (induction xs arbitrary: s)
  case Nil
  then show ?case by (simp add: wp_ret)
next
  case (Cons x xs)
  have "wp (f x) (\<lambda>_. I) (\<lambda>_. I) s" using Cons.prems by simp
  then have "wp (f x) (\<lambda>_. wp (efor xs f) (\<lambda>_. I) (\<lambda>_. I)) (\<lambda>_. I) s"
    by (rule wp_mono) (use Cons in auto)
  then show ?case by (simp add: wp_eseq)
qed


section \<open>Frame conditions\<close>

definition preserves :: "('s, 'a) eff \<Rightarrow> ('s \<Rightarrow> 'b) \<Rightarrow> bool" where
  "preserves m f \<longleftrightarrow> (\<forall>s. f (snd (m s)) = f s)"

lemma preservesD: "preserves m f \<Longrightarrow> m s = (r, s') \<Longrightarrow> f s' = f s"
  by (metis preserves_def snd_conv)

lemma preserves_ret [pres]: "preserves (ret x) f"
  by (simp add: preserves_def ret_def)

lemma preserves_raise [pres]: "preserves (raise e) f"
  by (simp add: preserves_def raise_def)

lemma preserves_gets [pres]: "preserves (gets g) f"
  by (simp add: preserves_def gets_def)

lemma preserves_of_sum [pres]: "preserves (of_sum r) f"
  by (simp add: preserves_def of_sum_def)

lemma preserves_modify: "(\<And>s. f (g s) = f s) \<Longrightarrow> preserves (modify g) f"
  by (simp add: preserves_def modify_def)

lemma preserves_ebind [pres]:
  "preserves m f \<Longrightarrow> (\<And>x. preserves (k x) f) \<Longrightarrow> preserves (ebind m k) f"
  by (auto simp: preserves_def ebind_def split: prod.splits sum.splits) (metis snd_conv)+

lemma preserves_eseq [pres]: "preserves m f \<Longrightarrow> preserves n f \<Longrightarrow> preserves (eseq m n) f"
  by (simp add: eseq_def preserves_ebind)

lemma preserves_catch [pres]:
  "preserves m f \<Longrightarrow> (\<And>e. preserves (h e) f) \<Longrightarrow> preserves (catch m h) f"
  by (auto simp: preserves_def catch_def split: prod.splits sum.splits) (metis snd_conv)+

lemma preserves_attempted [pres]: "preserves m f \<Longrightarrow> preserves (attempted m) f"
  by (auto simp: preserves_def attempted_def split: prod.splits) (metis snd_conv)

lemma preserves_efor [pres]: "(\<And>x. preserves (g x) f) \<Longrightarrow> preserves (efor xs g) f"
  by (induction xs) (simp_all add: preserves_ret preserves_eseq)

lemma preserves_emap [pres]: "(\<And>x. preserves (g x) f) \<Longrightarrow> preserves (emap g xs) f"
  by (induction xs) (simp_all add: preserves_ret preserves_ebind)

lemma preserves_if [pres]:
  "preserves m f \<Longrightarrow> preserves n f \<Longrightarrow> preserves (if b then m else n) f"
  by simp

lemma preserves_case_option [pres]:
  "preserves m f \<Longrightarrow> (\<And>x. preserves (k x) f) \<Longrightarrow>
   preserves (case z of None \<Rightarrow> m | Some x \<Rightarrow> k x) f"
  by (simp split: option.splits)

lemma preserves_case_prod [pres]:
  "(\<And>x y. preserves (k x y) f) \<Longrightarrow> preserves (case z of (x, y) \<Rightarrow> k x y) f"
  by (simp split: prod.splits)

lemma preserves_case_sum [pres]:
  "(\<And>e. preserves (m e) f) \<Longrightarrow> (\<And>x. preserves (k x) f) \<Longrightarrow>
   preserves (case z of Inl e \<Rightarrow> m e | Inr x \<Rightarrow> k x) f"
  by (simp split: sum.splits)

lemma preserves_Let [pres]: "(\<And>x. preserves (k x) f) \<Longrightarrow> preserves (let x = t in k x) f"
  by simp

lemma preserves_comp: "preserves m f \<Longrightarrow> preserves m (\<lambda>s. g (f s))"
  by (simp add: preserves_def)

lemma wp_preserves:
  assumes "preserves m f" and "f s = c"
    and "wp m Q E s"
  shows "wp m (\<lambda>x s'. Q x s' \<and> f s' = c) (\<lambda>e s'. E e s' \<and> f s' = c) s"
  using assms by (auto simp: wp_def preserves_def split: prod.splits sum.splits) (metis snd_conv)+

end
