(* ===== verification/Py_Text.thy ===== *)
theory Py_Text
  imports Effects
begin

text \<open>
  The text conversions of the standard library that the runtime calls: \<open>str\<close> and \<open>repr\<close> of
  decoded JSON values, \<open>json.dumps\<close>, \<open>datetime.isoformat\<close>, \<open>urllib.parse.quote\<close> with an
  empty safe set, and \<open>str(uuid.UUID(s))\<close>.
\<close>

section \<open>str and repr\<close>

definition hex_char :: "nat \<Rightarrow> char" where
  "hex_char d = (if d < 10 then char_of (48 + d) else char_of (87 + d))"

definition hex2 :: "nat \<Rightarrow> string" where
  "hex2 n = [hex_char (n div 16), hex_char (n mod 16)]"

definition repr_char :: "char \<Rightarrow> char \<Rightarrow> string" where
  "repr_char q c =
     (let n = (of_char c :: nat)
      in if c = q \<or> n = 92 then [CHR 0x5C, c]
         else if n = 10 then [CHR 0x5C, CHR ''n'']
         else if n = 13 then [CHR 0x5C, CHR ''r'']
         else if n = 9 then [CHR 0x5C, CHR ''t'']
         else if n < 32 \<or> (127 \<le> n \<and> n \<le> 160) \<or> n = 173 then [CHR 0x5C, CHR ''x''] @ hex2 n
         else [c])"

definition repr_str :: "string \<Rightarrow> string" where
  "repr_str s =
     (let q = (if CHR 0x27 \<in> set s \<and> CHR 0x22 \<notin> set s then CHR 0x22 else CHR 0x27)
      in [q] @ concat (map (repr_char q) s) @ [q])"

lemma size_pair_in_list [termination_simp]:
  "p \<in> set kvs \<Longrightarrow> size (snd p) < Suc (size_list (size_prod size size) kvs)"
  by (induction kvs) (auto split: prod.splits)

fun py_repr :: "pyval \<Rightarrow> string" where
  "py_repr PNone = ''None''"
| "py_repr (PBool b) = (if b then ''True'' else ''False'')"
| "py_repr (PInt i) = int_str i"
| "py_repr (PFloat r) = r"
| "py_repr (PStr s) = repr_str s"
| "py_repr (PList xs) = ''['' @ join '', '' (map py_repr xs) @ '']''"
| "py_repr (PDict d) =
     ''{'' @ join '', '' (map (\<lambda>p. repr_str (fst p) @ '': '' @ py_repr (snd p)) d) @ ''}''"

definition py_str :: "pyval \<Rightarrow> string" where
  "py_str v = (case v of PStr s \<Rightarrow> s | _ \<Rightarrow> py_repr v)"

lemma py_str_PStr [simp]: "py_str (PStr s) = s"
  by (simp add: py_str_def)

fun py_type_name :: "pyval \<Rightarrow> string" where
  "py_type_name PNone = ''NoneType''"
| "py_type_name (PBool _) = ''bool''"
| "py_type_name (PInt _) = ''int''"
| "py_type_name (PFloat _) = ''float''"
| "py_type_name (PStr _) = ''str''"
| "py_type_name (PList _) = ''list''"
| "py_type_name (PDict _) = ''dict''"

text \<open>Calling \<open>.get\<close> on a value that is not a dictionary.\<close>

definition no_get :: "pyval \<Rightarrow> exn" where
  "no_get v = OtherError ''AttributeError''
     (repr_str (py_type_name v) @ '' object has no attribute '' @ repr_str ''get'')"

text \<open>\<open>str(v or "")\<close>, the idiom of every tolerant text read in the sources.\<close>

definition str_or_empty :: "pyval \<Rightarrow> string" where
  "str_or_empty v = py_str (por v (PStr []))"

lemma str_or_empty_simps [simp]:
  "str_or_empty PNone = []" "str_or_empty (PStr s) = s"
  by (auto simp: str_or_empty_def por_def)

fun exn_str :: "exn \<Rightarrow> string" where
  "exn_str (PlanNotFoundError m) = m"
| "exn_str (ActionNotFoundError m) = m"
| "exn_str (TypeError m) = m"
| "exn_str (ValueError m) = m"
| "exn_str (ValidationError m) = m"
| "exn_str (KeyError m) = repr_str m"
| "exn_str (RuntimeError m) = m"
| "exn_str (AgentRunAlreadyTerminalError run_id status) =
     ''Agent run '' @ run_id @ '' is already '' @ status @ ''.''"
| "exn_str (PrismApiBadRequestError m) = m"
| "exn_str (PrismApiNotFoundError m) = m"
| "exn_str (PrismApiConflictError m) = m"
| "exn_str (PrismApiUnprocessableError m) = m"
| "exn_str (OtherError _ m) = m"


section \<open>json.dumps with sorted keys\<close>

definition json_char :: "char \<Rightarrow> string" where
  "json_char c =
     (let n = (of_char c :: nat)
      in if n = 34 \<or> n = 92 then [CHR 0x5C, c]
         else if n = 10 then [CHR 0x5C, CHR ''n'']
         else if n = 13 then [CHR 0x5C, CHR ''r'']
         else if n = 9 then [CHR 0x5C, CHR ''t'']
         else if n = 8 then [CHR 0x5C, CHR ''b'']
         else if n = 12 then [CHR 0x5C, CHR ''f'']
         else if n < 32 \<or> 127 \<le> n then [CHR 0x5C, CHR ''u'', CHR ''0'', CHR ''0''] @ hex2 n
         else [c])"

definition json_str :: "string \<Rightarrow> string" where
  "json_str s = [CHR 0x22] @ concat (map json_char s) @ [CHR 0x22]"

fun json_dumps_sorted :: "pyval \<Rightarrow> string" where
  "json_dumps_sorted PNone = ''null''"
| "json_dumps_sorted (PBool b) = (if b then ''true'' else ''false'')"
| "json_dumps_sorted (PInt i) = int_str i"
| "json_dumps_sorted (PFloat r) = r"
| "json_dumps_sorted (PStr s) = json_str s"
| "json_dumps_sorted (PList xs) = ''['' @ join '', '' (map json_dumps_sorted xs) @ '']''"
| "json_dumps_sorted (PDict d) =
     ''{'' @ join '', '' (map snd (sort_key fst
       (map (\<lambda>p. (fst p, json_str (fst p) @ '': '' @ json_dumps_sorted (snd p))) d))) @ ''}''"


section \<open>datetime\<close>

text \<open>
  An instant (microseconds since the epoch, UTC) and the offset of its time zone in seconds;
  no offset for a naive datetime.
\<close>

datatype datetime = DateTime (dt_utc: int) (dt_offset: "int option")

fun pad :: "nat \<Rightarrow> nat \<Rightarrow> string" where
  "pad w n = (let s = nat_str n in replicate (w - length s) CHR ''0'' @ s)"

definition civil_from_days :: "int \<Rightarrow> int \<times> int \<times> int" where
  "civil_from_days days =
     (let z = days + 719468;
          era = z div 146097;
          doe = z mod 146097;
          yoe = (doe - doe div 1460 + doe div 36524 - doe div 146096) div 365;
          doy = doe - (365 * yoe + yoe div 4 - yoe div 100);
          mp = (5 * doy + 2) div 153;
          d = doy - (153 * mp + 2) div 5 + 1;
          m = (if mp < 10 then mp + 3 else mp - 9)
      in (yoe + era * 400 + (if m \<le> 2 then 1 else 0), m, d))"

definition offset_suffix :: "int \<Rightarrow> string" where
  "offset_suffix off =
     (let a = nat \<bar>off\<bar>
      in (if off < 0 then ''-'' else ''+'') @ pad 2 (a div 3600) @ '':'' @ pad 2 (a div 60 mod 60)
         @ (if a mod 60 = 0 then [] else '':'' @ pad 2 (a mod 60)))"

definition isoformat :: "datetime \<Rightarrow> string" where
  "isoformat t =
     (let off = (case dt_offset t of None \<Rightarrow> 0 | Some s \<Rightarrow> s);
          us = dt_utc t + off * 1000000;
          secs = us div 1000000;
          frac = us mod 1000000;
          (y, m, d) = civil_from_days (secs div 86400);
          sod = nat (secs mod 86400)
      in pad 4 (nat y) @ ''-'' @ pad 2 (nat m) @ ''-'' @ pad 2 (nat d) @ ''T''
         @ pad 2 (sod div 3600) @ '':'' @ pad 2 (sod div 60 mod 60) @ '':'' @ pad 2 (sod mod 60)
         @ (if frac = 0 then [] else ''.'' @ pad 6 (nat frac))
         @ (case dt_offset t of None \<Rightarrow> [] | Some s \<Rightarrow> offset_suffix s))"


section \<open>URL quoting\<close>

definition quote_safe :: "char \<Rightarrow> bool" where
  "quote_safe c \<longleftrightarrow>
     (let n = (of_char c :: nat)
      in (48 \<le> n \<and> n \<le> 57) \<or> (65 \<le> n \<and> n \<le> 90) \<or> (97 \<le> n \<and> n \<le> 122)
         \<or> n = 95 \<or> n = 46 \<or> n = 45 \<or> n = 126)"

definition upper_hex_char :: "nat \<Rightarrow> char" where
  "upper_hex_char d = (if d < 10 then char_of (48 + d) else char_of (55 + d))"

definition percent :: "nat \<Rightarrow> string" where
  "percent n = [CHR 0x25, upper_hex_char (n div 16), upper_hex_char (n mod 16)]"

definition quote_char :: "char \<Rightarrow> string" where
  "quote_char c =
     (let n = (of_char c :: nat)
      in if quote_safe c then [c]
         else if n < 128 then percent n
         else percent (192 + n div 64) @ percent (128 + n mod 64))"

definition quote :: "string \<Rightarrow> string" where
  "quote s = concat (map quote_char s)"

text \<open>A quoted path segment contains no slash, so it never changes the shape of a path.\<close>

lemma upper_hex_char_ne_slash: "d < 16 \<Longrightarrow> upper_hex_char d \<noteq> CHR ''/''"
proof
  assume d: "d < 16" and "upper_hex_char d = CHR ''/''"
  then have "(of_char (upper_hex_char d) :: nat) = 47" by simp
  with d show False by (auto simp: upper_hex_char_def split: if_splits)
qed

lemma slash_notin_percent: "n < 256 \<Longrightarrow> CHR ''/'' \<notin> set (percent n)"
proof -
  assume "n < 256"
  then have "n div 16 < 16" by (simp add: less_mult_imp_div_less)
  then show ?thesis
    using upper_hex_char_ne_slash [of "n div 16"] upper_hex_char_ne_slash [of "n mod 16"]
    by (auto simp: percent_def simp del: div_less_iff_less_mult)
qed

lemma quote_no_slash: "CHR ''/'' \<notin> set (quote s)"
proof -
  have "CHR ''/'' \<notin> set (quote_char c)" for c
  proof -
    define n where "n = (of_char c :: nat)"
    have n: "n < 256" by (simp add: n_def)
    have "\<not> quote_safe CHR ''/''" by (simp add: quote_safe_def)
    then show ?thesis
      using n slash_notin_percent [of n] slash_notin_percent [of "192 + n div 64"]
        slash_notin_percent [of "128 + n mod 64"]
      by (auto simp: quote_char_def n_def [symmetric] Let_def)
  qed
  then show ?thesis by (auto simp: quote_def)
qed


section \<open>UUID text\<close>

fun drop_prefix :: "string \<Rightarrow> string \<Rightarrow> string option" where
  "drop_prefix [] s = Some s"
| "drop_prefix (p # ps) [] = None"
| "drop_prefix (p # ps) (c # cs) = (if p = c then drop_prefix ps cs else None)"

lemma drop_prefix_length: "drop_prefix p s = Some t \<Longrightarrow> length t \<le> length s"
  by (induction p s rule: drop_prefix.induct) (auto split: if_splits)

text \<open>\<open>s.replace(p # ps, "")\<close>\<close>

function remove_all :: "char \<Rightarrow> string \<Rightarrow> string \<Rightarrow> string" where
  "remove_all p ps [] = []"
| "remove_all p ps (c # cs) =
     (case drop_prefix (p # ps) (c # cs) of
        Some t \<Rightarrow> remove_all p ps t
      | None \<Rightarrow> c # remove_all p ps cs)"
  by pat_completeness auto
termination
  by (relation "measure (\<lambda>(p, ps, s). length s)")
    (auto split: if_splits dest: drop_prefix_length)

definition strip_braces :: "string \<Rightarrow> string" where
  "strip_braces s =
     (let brace = (\<lambda>c. c = CHR ''{'' \<or> c = CHR ''}'')
      in rev (dropWhile brace (rev (dropWhile brace s))))"

definition hex_digit_val :: "char \<Rightarrow> int option" where
  "hex_digit_val c =
     (let n = (of_char c :: int)
      in if 48 \<le> n \<and> n \<le> 57 then Some (n - 48)
         else if 97 \<le> n \<and> n \<le> 102 then Some (n - 87)
         else if 65 \<le> n \<and> n \<le> 70 then Some (n - 55)
         else None)"

text \<open>Hexadecimal digits with single underscores between them, as \<open>int(s, 16)\<close> accepts them.\<close>

fun hex_digits :: "int \<Rightarrow> string \<Rightarrow> int option" where
  "hex_digits acc [] = Some acc"
| "hex_digits acc (c # cs) =
     (case hex_digit_val c of
        Some d \<Rightarrow> hex_digits (16 * acc + d) cs
      | None \<Rightarrow>
          if c = CHR ''_'' then
            (case cs of
               [] \<Rightarrow> None
             | c' # cs' \<Rightarrow> (case hex_digit_val c' of
                   Some d \<Rightarrow> hex_digits (16 * acc + d) cs'
                 | None \<Rightarrow> None))
          else None)"

definition hex_number :: "string \<Rightarrow> int option" where
  "hex_number s =
     (case s of
        [] \<Rightarrow> None
      | c # cs \<Rightarrow> (case hex_digit_val c of Some d \<Rightarrow> hex_digits d cs | None \<Rightarrow> None))"

definition int_base16 :: "string \<Rightarrow> int option" where
  "int_base16 s =
     (let t = strip s;
          neg = (take 1 t = ''-'');
          u = (if take 1 t = ''-'' \<or> take 1 t = ''+'' then drop 1 t else t);
          v = (if take 2 u = ''0x'' \<or> take 2 u = ''0X''
               then (if take 1 (drop 2 u) = ''_'' then drop 3 u else drop 2 u) else u)
      in map_option (\<lambda>n. if neg then - n else n) (hex_number v))"

fun hex_pad :: "nat \<Rightarrow> int \<Rightarrow> string" where
  "hex_pad 0 n = []"
| "hex_pad (Suc w) n = hex_pad w (n div 16) @ [hex_char (nat (n mod 16))]"

definition uuid_format :: "int \<Rightarrow> string" where
  "uuid_format n =
     (let h = hex_pad 32 n
      in take 8 h @ ''-'' @ take 4 (drop 8 h) @ ''-'' @ take 4 (drop 12 h) @ ''-''
         @ take 4 (drop 16 h) @ ''-'' @ drop 20 h)"

text \<open>\<open>str(UUID(s))\<close>; \<open>None\<close> where the constructor raises \<open>ValueError\<close>.\<close>

definition uuid_str :: "string \<Rightarrow> string option" where
  "uuid_str s =
     (let h = remove_all (CHR ''-'') [] (strip_braces
                (remove_all (CHR ''u'') ''uid:'' (remove_all (CHR ''u'') ''rn:'' s)))
      in if length h \<noteq> 32 then None
         else case int_base16 h of
                Some i \<Rightarrow> if 0 \<le> i then Some (uuid_format i) else None
              | None \<Rightarrow> None)"

lemma length_hex_pad [simp]: "length (hex_pad w n) = w"
  by (induction w arbitrary: n) auto

lemma uuid_str_length: "uuid_str s = Some u \<Longrightarrow> length u = 36"
  by (auto simp: uuid_str_def uuid_format_def Let_def split: if_splits option.splits)

end
