(* ===== verification/Runtime_IO.thy ===== *)
theory Runtime_IO
  imports Py_Text
begin

text \<open>
  What the runtime takes from outside itself: random identifiers, the clock, the name-based UUIDs
  and the ISO 8601 reader of the standard library (no result where it raises \<open>ValueError\<close>) and the
  Prizmatic API server. They are parameters, gathered in the
  record \<open>io_env\<close>. The server may answer any request as a function of the whole history of
  requests, so nothing is assumed of it. The state \<open>io\<close> counts the identifiers and clock readings
  drawn, logs the requests sent and holds the client's entity-version cache
  (\<open>PrismApiClient._versions\<close>).
\<close>

datatype api_request =
  Api_Request (rq_method: string) (rq_path: string) (rq_payload: "pyval option")
    (rq_headers: "(string \<times> string) list")

text \<open>A response body is represented by what \<open>json.loads\<close> makes of it.\<close>

datatype http_outcome =
    Http_Json pyval
  | Http_Empty
  | Http_Invalid_Json
  | Http_Error int string
  | Http_Unreachable string

text \<open>Entity versions are strings or integers (\<open>dict[str, str | int]\<close>).\<close>

datatype version = VStr string | VInt int

type_synonym versions = "(string, version) dict"

fun version_val :: "version \<Rightarrow> pyval" where
  "version_val (VStr s) = PStr s"
| "version_val (VInt i) = PInt i"

definition versions_val :: "versions \<Rightarrow> pyval" where
  "versions_val vs = PDict (map (\<lambda>(k, v). (k, version_val v)) vs)"

record io_env =
  uuid4_at :: "nat \<Rightarrow> string"
  clock_at :: "nat \<Rightarrow> int"
  uuid5_of :: "string \<Rightarrow> string"
  fromisoformat_of :: "string \<Rightarrow> datetime option"
  server :: "api_request list \<Rightarrow> api_request \<Rightarrow> http_outcome"
  base_url :: "string option"
  api_token :: "string option"

record io =
  io_uuids :: nat
  io_clock :: nat
  io_requests :: "api_request list"
  io_versions :: versions

definition uuid4 :: "'e io_env_scheme \<Rightarrow> (io, string) eff" where
  "uuid4 env = (\<lambda>i. (Inr (uuid4_at env (io_uuids i)), i\<lparr>io_uuids := Suc (io_uuids i)\<rparr>))"

definition utc_now :: "'e io_env_scheme \<Rightarrow> (io, datetime) eff" where
  "utc_now env =
     (\<lambda>i. (Inr (DateTime (clock_at env (io_clock i)) (Some 0)), i\<lparr>io_clock := Suc (io_clock i)\<rparr>))"

lemma wp_uuid4 [wp_rules]:
  "wp (uuid4 env) Q E i = Q (uuid4_at env (io_uuids i)) (i\<lparr>io_uuids := Suc (io_uuids i)\<rparr>)"
  by (simp add: wp_def uuid4_def)

lemma wp_utc_now [wp_rules]:
  "wp (utc_now env) Q E i =
     Q (DateTime (clock_at env (io_clock i)) (Some 0)) (i\<lparr>io_clock := Suc (io_clock i)\<rparr>)"
  by (simp add: wp_def utc_now_def)

lemma preserves_uuid4 [pres]:
  "preserves (uuid4 env) io_clock" "preserves (uuid4 env) io_requests"
  "preserves (uuid4 env) io_versions"
  by (simp_all add: preserves_def uuid4_def)

lemma preserves_utc_now [pres]:
  "preserves (utc_now env) io_uuids" "preserves (utc_now env) io_requests"
  "preserves (utc_now env) io_versions"
  by (simp_all add: preserves_def utc_now_def)

text \<open>The Python idioms \<open>a or b\<close> on optional strings.\<close>

definition str_or :: "string option \<Rightarrow> string \<Rightarrow> string" where
  "str_or a b = (case a of Some s \<Rightarrow> if s = [] then b else s | None \<Rightarrow> b)"

definition opt_or :: "string option \<Rightarrow> string option \<Rightarrow> string option" where
  "opt_or a b = (case a of Some s \<Rightarrow> if s = [] then b else Some s | None \<Rightarrow> b)"

definition or_str :: "string \<Rightarrow> string \<Rightarrow> string" where
  "or_str a b = (if a = [] then b else a)"

definition opt_truthy :: "string option \<Rightarrow> bool" where
  "opt_truthy a \<longleftrightarrow> a \<noteq> None \<and> a \<noteq> Some []"

end
