(* ===== verification/Events.thy ===== *)
theory Events
  imports Runtime_IO
begin

text \<open>
  \<open>domain/events.py\<close>: causality chains, the six runtime event classes and the envelope.
  The discriminated union is one record whose class carries the fields its subclass adds.
\<close>

record EventCausality =
  ca_root_event_id :: "string option"
  ca_parent_event_id :: "string option"
  ca_depth :: int
  ca_chain :: "string list"

definition empty_causality :: EventCausality where
  "empty_causality =
     \<lparr>ca_root_event_id = None, ca_parent_event_id = None, ca_depth = 0, ca_chain = []\<rparr>"

definition child :: "EventCausality \<Rightarrow> string \<Rightarrow> EventCausality" where
  "child ca parent_event_id =
     \<lparr>ca_root_event_id = Some (str_or (ca_root_event_id ca) parent_event_id),
      ca_parent_event_id = Some parent_event_id,
      ca_depth = ca_depth ca + 1,
      ca_chain = ca_chain ca @ [parent_event_id]\<rparr>"

datatype event_class =
    DomainEvent
  | ScheduledEvent (schedule_id: "string option")
  | ManualInvocationEvent (actor_id: "string option")
  | AgentActionEvent (aa_plan_id: string) (aa_action_id: string)
  | SubAgentTaskEvent (st_plan_id: string) (st_node_id: string)
  | SubAgentCompletedEvent (sc_plan_id: string) (sc_node_id: string) (sc_status: string)

fun kind_of :: "event_class \<Rightarrow> string" where
  "kind_of DomainEvent = ''domain''"
| "kind_of (ScheduledEvent _) = ''scheduled''"
| "kind_of (ManualInvocationEvent _) = ''manual''"
| "kind_of (AgentActionEvent _ _) = ''agent_action''"
| "kind_of (SubAgentTaskEvent _ _) = ''subagent_task''"
| "kind_of (SubAgentCompletedEvent _ _ _) = ''subagent_completed''"

record RuntimeEvent =
  ev_class :: event_class
  ev_event_id :: string
  ev_event_type :: string
  ev_workspace_id :: string
  ev_project_id :: "string option"
  ev_payload :: pydict
  ev_occurred_at :: datetime
  ev_correlation_id :: "string option"
  ev_causality :: EventCausality
  ev_idempotency_key :: "string option"

abbreviation ev_kind :: "RuntimeEvent \<Rightarrow> string" where
  "ev_kind ev \<equiv> kind_of (ev_class ev)"

record EventEnvelope =
  en_envelope_id :: string
  en_event :: RuntimeEvent
  en_received_at :: datetime
  en_attempt :: int

text \<open>Event construction draws the default \<open>event_id\<close> and \<open>occurred_at\<close>.\<close>

definition new_event ::
  "'e io_env_scheme \<Rightarrow> event_class \<Rightarrow> string \<Rightarrow> string \<Rightarrow> string option \<Rightarrow> pydict \<Rightarrow> string option
   \<Rightarrow> EventCausality \<Rightarrow> string option \<Rightarrow> (io, RuntimeEvent) eff" where
  "new_event env cls event_type workspace_id project_id payload correlation_id causality key =
     ebind (uuid4 env) (\<lambda>eid.
     ebind (utc_now env) (\<lambda>now.
     ret \<lparr>ev_class = cls, ev_event_id = eid, ev_event_type = event_type,
          ev_workspace_id = workspace_id, ev_project_id = project_id, ev_payload = payload,
          ev_occurred_at = now, ev_correlation_id = correlation_id, ev_causality = causality,
          ev_idempotency_key = key\<rparr>))"

definition new_envelope :: "'e io_env_scheme \<Rightarrow> RuntimeEvent \<Rightarrow> int \<Rightarrow> (io, EventEnvelope) eff" where
  "new_envelope env ev attempt =
     ebind (uuid4 env) (\<lambda>eid.
     ebind (utc_now env) (\<lambda>now.
     ret \<lparr>en_envelope_id = eid, en_event = ev, en_received_at = now, en_attempt = attempt\<rparr>))"

definition wrap :: "'e io_env_scheme \<Rightarrow> RuntimeEvent \<Rightarrow> (io, EventEnvelope) eff" where
  "wrap env ev = new_envelope env ev 0"

abbreviation en_event_id :: "EventEnvelope \<Rightarrow> string" where
  "en_event_id en \<equiv> ev_event_id (en_event en)"

text \<open>The typed constructors, with the event types the classes fix.\<close>

definition new_action_event ::
  "'e io_env_scheme \<Rightarrow> string \<Rightarrow> string option \<Rightarrow> string \<Rightarrow> string \<Rightarrow> string option \<Rightarrow> EventCausality
   \<Rightarrow> (io, RuntimeEvent) eff" where
  "new_action_event env workspace_id project_id plan_id action_id correlation_id causality =
     new_event env (AgentActionEvent plan_id action_id) ''agent.action.requested''
       workspace_id project_id [] correlation_id causality None"

definition new_task_event ::
  "'e io_env_scheme \<Rightarrow> string \<Rightarrow> string option \<Rightarrow> string \<Rightarrow> string \<Rightarrow> string option \<Rightarrow> EventCausality
   \<Rightarrow> (io, RuntimeEvent) eff" where
  "new_task_event env workspace_id project_id plan_id node_id correlation_id causality =
     new_event env (SubAgentTaskEvent plan_id node_id) ''agent.subagent.requested''
       workspace_id project_id [] correlation_id causality None"

definition new_completed_event ::
  "'e io_env_scheme \<Rightarrow> string \<Rightarrow> string option \<Rightarrow> string \<Rightarrow> string \<Rightarrow> string \<Rightarrow> string option
   \<Rightarrow> EventCausality \<Rightarrow> pydict \<Rightarrow> (io, RuntimeEvent) eff" where
  "new_completed_event env workspace_id project_id plan_id node_id status correlation_id causality
     payload =
     new_event env (SubAgentCompletedEvent plan_id node_id status) ''agent.subagent.completed''
       workspace_id project_id payload correlation_id causality None"

lemma preserves_new_event [pres]:
  "preserves (new_event env c t w p pl co ca k) io_requests"
  "preserves (new_event env c t w p pl co ca k) io_versions"
  unfolding new_event_def by (intro pres)+

lemma preserves_new_envelope [pres]:
  "preserves (new_envelope env ev n) io_requests"
  "preserves (new_envelope env ev n) io_versions"
  unfolding new_envelope_def by (intro pres)+

text \<open>
  A well-formed chain: its length is the depth, and below the root the first element is the root
  and the last the parent.
\<close>

definition causality_ok :: "EventCausality \<Rightarrow> bool" where
  "causality_ok ca \<longleftrightarrow>
     ca_depth ca = int (length (ca_chain ca)) \<and>
     (if ca_chain ca = [] then ca_root_event_id ca = None \<and> ca_parent_event_id ca = None
      else ca_root_event_id ca = Some (hd (ca_chain ca)) \<and>
           ca_parent_event_id ca = Some (last (ca_chain ca)) \<and> hd (ca_chain ca) \<noteq> [])"

lemma causality_ok_empty: "causality_ok empty_causality"
  by (simp add: causality_ok_def empty_causality_def)

lemma causality_ok_child:
  "causality_ok ca \<Longrightarrow> pid \<noteq> [] \<Longrightarrow> causality_ok (child ca pid)"
  by (auto simp: causality_ok_def child_def str_or_def split: if_splits)

end
