(* ===== verification/Plans.thy ===== *)
theory Plans
  imports Events
begin

text \<open>
  \<open>domain/actions.py\<close> and \<open>domain/plans.py\<close>: planned actions with the typed drafts the planner
  may attach, agent plans, the choice of the next action and the plan status that follows from
  the action statuses. Timestamps written by \<open>utc_now()\<close> are arguments here; the effectful
  callers read the clock.
\<close>

datatype ActionStatus = PENDING | RUNNING | COMPLETED | FAILED | SKIPPED | REQUIRES_APPROVAL | STALE

fun action_status_value :: "ActionStatus \<Rightarrow> string" where
  "action_status_value ActionStatus.PENDING = ''pending''"
| "action_status_value ActionStatus.RUNNING = ''running''"
| "action_status_value ActionStatus.COMPLETED = ''completed''"
| "action_status_value ActionStatus.FAILED = ''failed''"
| "action_status_value ActionStatus.SKIPPED = ''skipped''"
| "action_status_value ActionStatus.REQUIRES_APPROVAL = ''requires_approval''"
| "action_status_value ActionStatus.STALE = ''stale''"

record WorkItemLeafDraft =
  wd_title :: string
  wd_description :: string
  wd_start_date :: "string option"
  wd_due_date :: "string option"
  wd_priority :: "string option"
  wd_status :: "string option"
  wd_assignee_usernames :: "string list"
  wd_label_names :: "string list"

record WorkItemChildDraft = WorkItemLeafDraft +
  wcd_children :: "WorkItemLeafDraft list"

record WorkItemDraft = WorkItemLeafDraft +
  wid_children :: "WorkItemChildDraft list"

record WorkItemUpdateDraft =
  wu_item_id :: string
  wu_title :: "string option"
  wu_description :: "string option"
  wu_priority :: "string option"
  wu_status :: "string option"
  wu_due_date :: "string option"
  wu_assignee_usernames :: "string list"
  wu_label_names :: "string list"

record PlannedAction =
  pa_action_id :: string
  pa_plan_id :: string
  pa_action_type :: string
  pa_tool_name :: string
  pa_instruction :: string
  pa_input :: pydict
  pa_work_items :: "WorkItemDraft list"
  pa_work_item_updates :: "WorkItemUpdateDraft list"
  pa_target_item_ids :: "string list"
  pa_depends_on :: "string list"
  pa_requires_approval :: bool
  pa_status :: ActionStatus
  pa_idempotency_key :: string
  pa_expected_entity_versions :: versions
  pa_created_at :: datetime
  pa_updated_at :: datetime

definition is_unblocked :: "PlannedAction \<Rightarrow> string set \<Rightarrow> bool" where
  "is_unblocked a completed_action_ids \<longleftrightarrow> list_all (\<lambda>i. i \<in> completed_action_ids) (pa_depends_on a)"

definition with_status :: "datetime \<Rightarrow> ActionStatus \<Rightarrow> PlannedAction \<Rightarrow> PlannedAction" where
  "with_status now status a = a\<lparr>pa_status := status, pa_updated_at := now\<rparr>"

datatype PlanStatus =
  PLANNED | RUNNING | COMPLETED | FAILED | CANCELLED | WAITING_FOR_APPROVAL | REPLAN_REQUIRED

fun plan_status_value :: "PlanStatus \<Rightarrow> string" where
  "plan_status_value PlanStatus.PLANNED = ''planned''"
| "plan_status_value PlanStatus.RUNNING = ''running''"
| "plan_status_value PlanStatus.COMPLETED = ''completed''"
| "plan_status_value PlanStatus.FAILED = ''failed''"
| "plan_status_value PlanStatus.CANCELLED = ''cancelled''"
| "plan_status_value PlanStatus.WAITING_FOR_APPROVAL = ''waiting_for_approval''"
| "plan_status_value PlanStatus.REPLAN_REQUIRED = ''replan_required''"

record AgentPlan =
  ap_plan_id :: string
  ap_parent_run_id :: "string option"
  ap_node_id :: "string option"
  ap_source_event_id :: string
  ap_workspace_id :: string
  ap_project_id :: "string option"
  ap_goal :: string
  ap_prompt_id :: string
  ap_prompt_version :: string
  ap_skill_ids :: "string list"
  ap_tool_names :: "string list"
  ap_actions :: "PlannedAction list"
  ap_status :: PlanStatus
  ap_context_snapshot_ref :: string
  ap_created_at :: datetime
  ap_updated_at :: datetime

definition is_subplan :: "AgentPlan \<Rightarrow> bool" where
  "is_subplan p \<longleftrightarrow> ap_parent_run_id p \<noteq> None"

definition get_action :: "AgentPlan \<Rightarrow> string \<Rightarrow> PlannedAction option" where
  "get_action p action_id = List.find (\<lambda>a. pa_action_id a = action_id) (ap_actions p)"

definition completed_action_ids :: "AgentPlan \<Rightarrow> string set" where
  "completed_action_ids p =
     set (map pa_action_id (filter (\<lambda>a. pa_status a = ActionStatus.COMPLETED) (ap_actions p)))"

definition inactive_statuses :: "PlanStatus set" where
  "inactive_statuses = {PlanStatus.COMPLETED, PlanStatus.FAILED, PlanStatus.CANCELLED,
     PlanStatus.WAITING_FOR_APPROVAL, PlanStatus.REPLAN_REQUIRED}"

definition next_pending_action :: "AgentPlan \<Rightarrow> PlannedAction option" where
  "next_pending_action p =
     (if ap_status p \<in> inactive_statuses then None
      else let completed = completed_action_ids p
           in List.find (\<lambda>a. pa_status a = ActionStatus.PENDING \<and> is_unblocked a completed)
                (ap_actions p))"

definition derived_status :: "PlannedAction list \<Rightarrow> PlanStatus" where
  "derived_status actions =
     (if list_all (\<lambda>a. pa_status a \<in> {ActionStatus.COMPLETED, ActionStatus.SKIPPED}) actions
      then PlanStatus.COMPLETED
      else if list_ex (\<lambda>a. pa_status a = ActionStatus.FAILED) actions then PlanStatus.FAILED
      else if list_ex (\<lambda>a. pa_status a = ActionStatus.REQUIRES_APPROVAL) actions
      then PlanStatus.WAITING_FOR_APPROVAL
      else if list_ex (\<lambda>a. pa_status a = ActionStatus.STALE) actions then PlanStatus.REPLAN_REQUIRED
      else PlanStatus.RUNNING)"

definition replace_action :: "datetime \<Rightarrow> PlannedAction \<Rightarrow> AgentPlan \<Rightarrow> AgentPlan" where
  "replace_action now updated_action p =
     (let actions = map (\<lambda>a. if pa_action_id a = pa_action_id updated_action then updated_action else a)
                      (ap_actions p)
      in p\<lparr>ap_actions := actions, ap_status := derived_status actions, ap_updated_at := now\<rparr>)"


section \<open>Action ids and lookups\<close>

abbreviation action_ids :: "AgentPlan \<Rightarrow> string list" where
  "action_ids p \<equiv> map pa_action_id (ap_actions p)"

lemma with_status_simps [simp]:
  "pa_action_id (with_status now s a) = pa_action_id a"
  "pa_plan_id (with_status now s a) = pa_plan_id a"
  "pa_tool_name (with_status now s a) = pa_tool_name a"
  "pa_status (with_status now s a) = s"
  "pa_depends_on (with_status now s a) = pa_depends_on a"
  "pa_idempotency_key (with_status now s a) = pa_idempotency_key a"
  "pa_requires_approval (with_status now s a) = pa_requires_approval a"
  "pa_instruction (with_status now s a) = pa_instruction a"
  "pa_input (with_status now s a) = pa_input a"
  by (simp_all add: with_status_def)

lemma replace_action_simps [simp]:
  "ap_plan_id (replace_action now a p) = ap_plan_id p"
  "ap_parent_run_id (replace_action now a p) = ap_parent_run_id p"
  "ap_node_id (replace_action now a p) = ap_node_id p"
  "ap_workspace_id (replace_action now a p) = ap_workspace_id p"
  "ap_project_id (replace_action now a p) = ap_project_id p"
  "ap_context_snapshot_ref (replace_action now a p) = ap_context_snapshot_ref p"
  "ap_status (replace_action now a p) = derived_status (ap_actions (replace_action now a p))"
  "ap_tool_names (replace_action now a p) = ap_tool_names p"
  by (simp_all add: replace_action_def Let_def)

lemma ap_actions_replace_action:
  "ap_actions (replace_action now a p) =
     map (\<lambda>b. if pa_action_id b = pa_action_id a then a else b) (ap_actions p)"
  by (simp add: replace_action_def Let_def)

lemma is_subplan_replace_action [simp]: "is_subplan (replace_action now a p) = is_subplan p"
  by (simp add: is_subplan_def)

lemma action_ids_replace_action [simp]: "action_ids (replace_action now a p) = action_ids p"
  by (simp add: ap_actions_replace_action)

lemma find_map_id:
  "(\<And>x. f (g x) = f x) \<Longrightarrow>
   List.find (\<lambda>x. f x = k) (map g xs) = map_option g (List.find (\<lambda>x. f x = k) xs)"
  by (induction xs) auto

lemma find_skip: "\<forall>x \<in> set xs. \<not> P x \<Longrightarrow> P y \<Longrightarrow> List.find P (xs @ y # ys) = Some y"
  by (induction xs) auto

lemma get_action_SomeD: "get_action p i = Some a \<Longrightarrow> a \<in> set (ap_actions p) \<and> pa_action_id a = i"
  by (auto simp: get_action_def find_Some_iff in_set_conv_nth)

lemma get_action_None_iff: "get_action p i = None \<longleftrightarrow> i \<notin> set (action_ids p)"
  by (auto simp: get_action_def find_None_iff)

lemma get_action_replace_action:
  "get_action (replace_action now a p) i =
     (if i = pa_action_id a \<and> i \<in> set (action_ids p) then Some a else get_action p i)"
proof -
  let ?g = "\<lambda>b. if pa_action_id b = pa_action_id a then a else b"
  have eq: "get_action (replace_action now a p) i = map_option ?g (get_action p i)"
    unfolding get_action_def ap_actions_replace_action by (rule find_map_id) simp
  show ?thesis
  proof (cases "get_action p i")
    case None
    then show ?thesis using get_action_None_iff [of p i] by (simp add: eq)
  next
    case (Some b)
    then have "pa_action_id b = i" and "i \<in> set (action_ids p)"
      using get_action_SomeD [OF Some] by auto
    then show ?thesis by (simp add: eq Some)
  qed
qed

lemma replace_other_action:
  "b \<in> set (ap_actions p) \<Longrightarrow> pa_action_id b \<noteq> pa_action_id a \<Longrightarrow>
   b \<in> set (ap_actions (replace_action now a p))"
  by (force simp: ap_actions_replace_action)

lemma next_pending_actionD:
  assumes "next_pending_action p = Some a"
  shows "a \<in> set (ap_actions p)" and "pa_status a = ActionStatus.PENDING"
    and "set (pa_depends_on a) \<subseteq> completed_action_ids p" and "ap_status p \<notin> inactive_statuses"
  using assms
  by (auto simp: next_pending_action_def is_unblocked_def list_all_iff Let_def find_Some_iff
      split: if_splits)

text \<open>A status that stops the plan always hides its remaining pending actions.\<close>

lemma next_pending_inactive: "ap_status p \<in> inactive_statuses \<Longrightarrow> next_pending_action p = None"
  by (simp add: next_pending_action_def)


section \<open>The derived plan status\<close>

lemma derived_status_COMPLETED_iff:
  "derived_status as = PlanStatus.COMPLETED \<longleftrightarrow>
     (\<forall>a \<in> set as. pa_status a \<in> {ActionStatus.COMPLETED, ActionStatus.SKIPPED})"
  by (auto simp: derived_status_def list_all_iff)

lemma derived_status_FAILED_iff:
  "derived_status as = PlanStatus.FAILED \<longleftrightarrow> (\<exists>a \<in> set as. pa_status a = ActionStatus.FAILED)"
  by (force simp: derived_status_def list_all_iff list_ex_iff)

lemma derived_status_WAITING_iff:
  "derived_status as = PlanStatus.WAITING_FOR_APPROVAL \<longleftrightarrow>
     (\<exists>a \<in> set as. pa_status a = ActionStatus.REQUIRES_APPROVAL) \<and>
     (\<forall>a \<in> set as. pa_status a \<noteq> ActionStatus.FAILED)"
  by (force simp: derived_status_def list_all_iff list_ex_iff)

lemma derived_status_REPLAN_iff:
  "derived_status as = PlanStatus.REPLAN_REQUIRED \<longleftrightarrow>
     (\<exists>a \<in> set as. pa_status a = ActionStatus.STALE) \<and>
     (\<forall>a \<in> set as. pa_status a \<noteq> ActionStatus.FAILED \<and> pa_status a \<noteq> ActionStatus.REQUIRES_APPROVAL)"
  by (force simp: derived_status_def list_all_iff list_ex_iff)

lemma derived_status_RUNNING_iff:
  "derived_status as = PlanStatus.RUNNING \<longleftrightarrow>
     (\<forall>a \<in> set as. pa_status a \<in>
        {ActionStatus.PENDING, ActionStatus.RUNNING, ActionStatus.COMPLETED, ActionStatus.SKIPPED}) \<and>
     (\<exists>a \<in> set as. pa_status a \<in> {ActionStatus.PENDING, ActionStatus.RUNNING})"
proof -
  have ok: "s \<in> {ActionStatus.PENDING, ActionStatus.RUNNING, ActionStatus.COMPLETED, ActionStatus.SKIPPED}
      \<longleftrightarrow> s \<noteq> ActionStatus.FAILED \<and> s \<noteq> ActionStatus.REQUIRES_APPROVAL \<and> s \<noteq> ActionStatus.STALE"
    and open_iff: "s \<in> {ActionStatus.PENDING, ActionStatus.RUNNING} \<longleftrightarrow>
      s \<notin> {ActionStatus.COMPLETED, ActionStatus.SKIPPED} \<and> s \<noteq> ActionStatus.FAILED \<and>
      s \<noteq> ActionStatus.REQUIRES_APPROVAL \<and> s \<noteq> ActionStatus.STALE" for s
    by (cases s; simp)+
  show ?thesis
    unfolding derived_status_def list_all_iff list_ex_iff ok open_iff
    by (auto split: if_splits)
qed

lemma derived_status_range:
  "derived_status as \<notin> {PlanStatus.PLANNED, PlanStatus.CANCELLED}"
  by (auto simp: derived_status_def)


section \<open>Sequential plans\<close>

text \<open>
  The shape \<open>Planner._normalize_plan_for_runtime\<close> gives every plan: each action depends on
  exactly its predecessor.
\<close>

fun chained_from :: "string option \<Rightarrow> PlannedAction list \<Rightarrow> bool" where
  "chained_from prev [] = True"
| "chained_from prev (a # as) =
     (pa_depends_on a = (case prev of None \<Rightarrow> [] | Some i \<Rightarrow> [i]) \<and>
      chained_from (Some (pa_action_id a)) as)"

abbreviation chained :: "PlannedAction list \<Rightarrow> bool" where
  "chained \<equiv> chained_from None"

lemma chained_from_append:
  "chained_from prev (as @ b # bs) \<Longrightarrow>
   pa_depends_on b = (if as = [] then (case prev of None \<Rightarrow> [] | Some i \<Rightarrow> [i])
                      else [pa_action_id (last as)])"
  by (induction as arbitrary: prev) auto

lemma chained_from_cong:
  "map pa_action_id as = map pa_action_id bs \<Longrightarrow> map pa_depends_on as = map pa_depends_on bs \<Longrightarrow>
   chained_from prev as = chained_from prev bs"
proof (induction as arbitrary: prev bs)
  case Nil
  then show ?case by simp
next
  case (Cons a as)
  from Cons.prems obtain b bs' where bs: "bs = b # bs'"
    and hd_eq: "pa_action_id a = pa_action_id b" "pa_depends_on a = pa_depends_on b"
    and tl_eq: "map pa_action_id as = map pa_action_id bs'" "map pa_depends_on as = map pa_depends_on bs'"
    by (auto simp: Cons_eq_map_conv)
  show ?case
    using Cons.IH [OF tl_eq, of "Some (pa_action_id b)"] by (simp only: bs chained_from.simps hd_eq)
qed

text \<open>In a chained plan whose first actions are done and whose rest is pending, the next action is
  the first of the rest: exactly one action is runnable at any time.\<close>

lemma next_pending_chained:
  assumes acts: "ap_actions p = done @ b # rest"
    and chain: "chained (ap_actions p)"
    and "distinct (action_ids p)"
    and active: "ap_status p \<notin> inactive_statuses"
    and "\<forall>a \<in> set done. pa_status a = ActionStatus.COMPLETED"
    and "\<forall>a \<in> set (b # rest). pa_status a = ActionStatus.PENDING"
  shows "next_pending_action p = Some b"
proof -
  have dep: "pa_depends_on b = (if done = [] then [] else [pa_action_id (last done)])"
    using chained_from_append [of None "done" b rest] chain acts by simp
  have "filter (\<lambda>a. pa_status a = ActionStatus.COMPLETED) (b # rest) = []"
    and "filter (\<lambda>a. pa_status a = ActionStatus.COMPLETED) done = done"
    using assms(5,6) by (auto simp: filter_empty_conv filter_id_conv)
  then have "completed_action_ids p = pa_action_id ` set done"
    by (simp add: completed_action_ids_def acts)
  then have unb: "is_unblocked b (completed_action_ids p)"
    using dep by (simp add: is_unblocked_def)
  have "List.find (\<lambda>a. pa_status a = ActionStatus.PENDING \<and> is_unblocked a (completed_action_ids p))
          (done @ b # rest) = Some b"
    by (rule find_skip) (use assms(5,6) unb in auto)
  then show ?thesis
    using active acts by (simp add: next_pending_action_def Let_def)
qed

text \<open>Complete the next action, repeatedly, recording the order in which actions run.\<close>

fun run_to_completion :: "datetime \<Rightarrow> nat \<Rightarrow> AgentPlan \<Rightarrow> string list \<times> AgentPlan" where
  "run_to_completion now 0 p = ([], p)"
| "run_to_completion now (Suc n) p =
     (case next_pending_action p of
        None \<Rightarrow> ([], p)
      | Some a \<Rightarrow>
          (let (ids, q) = run_to_completion now n
                 (replace_action now (with_status now ActionStatus.COMPLETED a) p)
           in (pa_action_id a # ids, q)))"

lemma replace_completed_split:
  assumes "ap_actions p = done @ b # rest" and "distinct (action_ids p)"
  shows "ap_actions (replace_action now (with_status now s b) p) = done @ with_status now s b # rest"
proof -
  have "map (\<lambda>a. if pa_action_id a = pa_action_id b then with_status now s b else a) xs = xs"
    if "pa_action_id b \<notin> pa_action_id ` set xs" for xs
    using that by (induction xs) auto
  then show ?thesis
    using assms by (simp add: ap_actions_replace_action)
qed

lemma run_to_completion_chained:
  assumes "ap_actions p = done @ rest"
    and "chained (ap_actions p)" and "distinct (action_ids p)"
    and "ap_status p \<notin> inactive_statuses \<or> rest = [] \<and> ap_status p = PlanStatus.COMPLETED"
    and "\<forall>a \<in> set done. pa_status a = ActionStatus.COMPLETED"
    and "\<forall>a \<in> set rest. pa_status a = ActionStatus.PENDING"
    and "rest \<noteq> [] \<or> ap_status p = PlanStatus.COMPLETED"
  shows "fst (run_to_completion now (length rest) p) = map pa_action_id rest \<and>
         ap_status (snd (run_to_completion now (length rest) p)) = PlanStatus.COMPLETED"
  using assms
proof (induction rest arbitrary: p "done")
  case Nil
  then show ?case by simp
next
  case (Cons b rest)
  let ?b = "with_status now ActionStatus.COMPLETED b"
  let ?p = "replace_action now ?b p"
  have nxt: "next_pending_action p = Some b"
    using Cons.prems by (intro next_pending_chained) auto
  have acts: "ap_actions ?p = done @ ?b # rest"
    using Cons.prems(1,3) by (rule replace_completed_split)
  have split: "ap_actions ?p = (done @ [?b]) @ rest"
    by (simp add: acts)
  have chain: "chained (ap_actions ?p)"
  proof -
    have "map pa_depends_on (ap_actions ?p) = map pa_depends_on (ap_actions p)"
      by (simp add: acts Cons.prems(1))
    then have "chained (ap_actions ?p) = chained (ap_actions p)"
      using chained_from_cong [OF action_ids_replace_action] by blast
    then show ?thesis using Cons.prems(2) by simp
  qed
  have st: "ap_status ?p = (if rest = [] then PlanStatus.COMPLETED else PlanStatus.RUNNING)"
    using Cons.prems(5,6)
    by (auto simp: acts derived_status_def list_all_iff list_ex_iff neq_Nil_conv)
  have "fst (run_to_completion now (length rest) ?p) = map pa_action_id rest \<and>
        ap_status (snd (run_to_completion now (length rest) ?p)) = PlanStatus.COMPLETED"
    by (rule Cons.IH [OF split chain])
      (use Cons.prems(3,5,6) st in \<open>auto simp: inactive_statuses_def\<close>)
  then show ?case
    by (auto simp: nxt split: prod.splits)
qed

end
