(* ===== verification/Policies.thy ===== *)
theory Policies
  imports Plans
begin

text \<open>
  \<open>domain/policies.py\<close> and \<open>application/trigger_policy.py\<close>: which events start the agent, which
  tools need approval, the recursion limit, staleness of entity versions and idempotency keys.
\<close>

definition ALLOWED_MANUAL_TRIGGERS :: "string list" where
  "ALLOWED_MANUAL_TRIGGERS =
     [''decompose_story'', ''improve_workitem_description'', ''generate_acceptance_criteria'',
      ''plan_sprint'', ''summarize_project'', ''refine_backlog'', ''explain_project_risk'']"

definition ALLOWED_DOMAIN_TRIGGERS :: "string list" where
  "ALLOWED_DOMAIN_TRIGGERS =
     [''epic.created'', ''epic.description.updated'', ''feature.provisioning.requested'',
      ''story.created'', ''story.ready_for_breakdown'', ''sprint.started'', ''sprint.ended'',
      ''pr.opened'', ''pr.synchronize'', ''pr.review_requested'', ''pr.merged'']"

definition ALLOWED_SCHEDULED_TRIGGERS :: "string list" where
  "ALLOWED_SCHEDULED_TRIGGERS =
     [''daily_summary'', ''sprint_planning'', ''sprint_midpoint_risk_check'',
      ''sprint_end_risk_check'', ''sprint_report_generation'', ''stale_work_scan'']"

definition IGNORED_LOW_VALUE_TRIGGERS :: "string list" where
  "IGNORED_LOW_VALUE_TRIGGERS =
     [''task.updated'', ''comment.created'', ''field.updated'', ''artifact.updated'',
      ''status.changed.minor'']"

definition TERMINAL_EVENT_TYPES :: "string list" where
  "TERMINAL_EVENT_TYPES =
     [''agent_suggestion.created'', ''insight.created'', ''agent.completed'', ''agent.failed'']"

lemmas trigger_lists =
  ALLOWED_MANUAL_TRIGGERS_def ALLOWED_DOMAIN_TRIGGERS_def ALLOWED_SCHEDULED_TRIGGERS_def
  IGNORED_LOW_VALUE_TRIGGERS_def TERMINAL_EVENT_TYPES_def

record TriggerPolicyDecision =
  td_allowed :: bool
  td_trigger_key :: string
  td_reason :: string

definition trigger_key_for :: "RuntimeEvent \<Rightarrow> string" where
  "trigger_key_for ev =
     (if ev_kind ev = ''agent_action'' then ''agent.action.requested''
      else ev_kind ev @ ''.'' @ ev_event_type ev)"

definition evaluate :: "RuntimeEvent \<Rightarrow> TriggerPolicyDecision" where
  "evaluate ev =
     (let trigger_key = trigger_key_for ev; event_type = ev_event_type ev
      in if event_type \<in> set IGNORED_LOW_VALUE_TRIGGERS then
           \<lparr>td_allowed = False, td_trigger_key = trigger_key, td_reason = ''ignored_low_value_event''\<rparr>
         else if event_type \<in> set TERMINAL_EVENT_TYPES then
           \<lparr>td_allowed = False, td_trigger_key = trigger_key, td_reason = ''terminal_event''\<rparr>
         else
           let allowed =
             (if ev_kind ev = ''manual'' then event_type \<in> set ALLOWED_MANUAL_TRIGGERS
              else if ev_kind ev = ''domain'' then event_type \<in> set ALLOWED_DOMAIN_TRIGGERS
              else if ev_kind ev = ''scheduled'' then event_type \<in> set ALLOWED_SCHEDULED_TRIGGERS
              else if ev_kind ev = ''agent_action'' then True
              else False)
           in \<lparr>td_allowed = allowed, td_trigger_key = trigger_key,
               td_reason = (if allowed then ''allowed'' else ''unsupported_event'')\<rparr>)"

datatype ApprovalMode = AUTO_COMMIT | USER_APPROVAL_REQUIRED | SUGGEST_ONLY

record ActionApprovalPolicy =
  aap_default_mode :: ApprovalMode
  aap_tool_modes :: "(string, ApprovalMode) dict"

definition tool_mode :: "ActionApprovalPolicy \<Rightarrow> string \<Rightarrow> ApprovalMode" where
  "tool_mode p tool_name =
     (case dget (aap_tool_modes p) tool_name of Some m \<Rightarrow> m | None \<Rightarrow> aap_default_mode p)"

definition requires_approval :: "ActionApprovalPolicy \<Rightarrow> string \<Rightarrow> bool" where
  "requires_approval p tool_name \<longleftrightarrow> tool_mode p tool_name \<in> {USER_APPROVAL_REQUIRED, SUGGEST_ONLY}"

definition should_auto_commit :: "ActionApprovalPolicy \<Rightarrow> string \<Rightarrow> bool" where
  "should_auto_commit p tool_name \<longleftrightarrow> tool_mode p tool_name = AUTO_COMMIT"

definition allows :: "int \<Rightarrow> int \<Rightarrow> bool" where
  "allows max_depth depth \<longleftrightarrow> depth \<le> max_depth"

type_synonym stale_entities = "(string, version \<times> version) dict"

text \<open>Each stale entity maps to its (expected, current) versions.\<close>

definition diff :: "versions \<Rightarrow> versions \<Rightarrow> stale_entities" where
  "diff expected_versions current_versions =
     fold (\<lambda>(entity_ref, expected) stale.
       case dget current_versions entity_ref of
         Some current \<Rightarrow> if current \<noteq> expected then dset entity_ref (expected, current) stale else stale
       | None \<Rightarrow> stale) expected_versions []"

definition key_for :: "string \<Rightarrow> string \<Rightarrow> string \<Rightarrow> string" where
  "key_for plan_id action_id tool_name = plan_id @ '':'' @ action_id @ '':'' @ tool_name"


section \<open>Properties of the policies\<close>

lemma evaluate_cases:
  "td_allowed (evaluate ev) \<longleftrightarrow>
     ev_event_type ev \<notin> set IGNORED_LOW_VALUE_TRIGGERS \<and> ev_event_type ev \<notin> set TERMINAL_EVENT_TYPES \<and>
     (case ev_class ev of
        ManualInvocationEvent _ \<Rightarrow> ev_event_type ev \<in> set ALLOWED_MANUAL_TRIGGERS
      | DomainEvent \<Rightarrow> ev_event_type ev \<in> set ALLOWED_DOMAIN_TRIGGERS
      | ScheduledEvent _ \<Rightarrow> ev_event_type ev \<in> set ALLOWED_SCHEDULED_TRIGGERS
      | AgentActionEvent _ _ \<Rightarrow> True
      | _ \<Rightarrow> False)"
  by (cases "ev_class ev") (simp_all add: evaluate_def Let_def)

lemma auto_commit_iff: "should_auto_commit p t \<longleftrightarrow> \<not> requires_approval p t"
  by (cases "tool_mode p t") (simp_all add: should_auto_commit_def requires_approval_def)

text \<open>An entity is stale exactly when a different version of it was observed.\<close>

lemma diff_fold:
  "distinct (map fst es) \<Longrightarrow>
   dget (fold (\<lambda>(r, e) st. case dget cur r of Some c \<Rightarrow> if c \<noteq> e then dset r (e, c) st else st
                                          | None \<Rightarrow> st) es st0) r =
   (case (dget es r, dget cur r) of
      (Some e, Some c) \<Rightarrow> if c \<noteq> e then Some (e, c) else dget st0 r
    | _ \<Rightarrow> dget st0 r)"
proof (induction es arbitrary: st0)
  case Nil
  then show ?case by simp
next
  case (Cons x es)
  obtain k e where x: "x = (k, e)" by fastforce
  have nk: "dget es k = None" using Cons.prems by (simp add: x map_of_eq_None_iff)
  show ?case
    using Cons nk by (auto simp: x split: option.splits)
qed

lemma dget_diff:
  "distinct (map fst expected) \<Longrightarrow>
   dget (diff expected current) r =
     (case (dget expected r, dget current r) of
        (Some e, Some c) \<Rightarrow> if c \<noteq> e then Some (e, c) else None
      | _ \<Rightarrow> None)"
  unfolding diff_def by (subst diff_fold) (auto split: option.splits)

lemma dict_Nil_iff: "d = [] \<longleftrightarrow> (\<forall>k. dget d k = None)"
  by (cases d) auto

lemma diff_empty_iff:
  assumes "distinct (map fst expected)"
  shows "diff expected current = [] \<longleftrightarrow>
     (\<forall>r e c. dget expected r = Some e \<longrightarrow> dget current r = Some c \<longrightarrow> c = e)"
proof -
  have "diff expected current = [] \<longleftrightarrow> (\<forall>r. dget (diff expected current) r = None)"
    by (rule dict_Nil_iff)
  also have "\<dots> \<longleftrightarrow> (\<forall>r e c. dget expected r = Some e \<longrightarrow> dget current r = Some c \<longrightarrow> c = e)"
    unfolding dget_diff [OF assms] by (auto split: option.splits)
  finally show ?thesis .
qed

end
