(* ===== verification/Results.thy ===== *)
theory Results
  imports Policies
begin

text \<open>
  \<open>domain/context.py\<close>, \<open>domain/results.py\<close> and \<open>domain/suggestions.py\<close>: the hydrated context of a
  run, tool and validation results, suggestions and trace events, with the constructors whose
  defaults draw an identifier and a timestamp.
\<close>

record AgentContext =
  cx_workspace_id :: string
  cx_project_id :: "string option"
  cx_source_event :: EventEnvelope
  cx_workflow_id :: string
  cx_entities :: pydict
  cx_retrieved_documents :: "pydict list"
  cx_permissions :: "(string, bool) dict"
  cx_entity_versions :: versions
  cx_previous_agent_outputs :: "pydict list"
  cx_runtime_metadata :: pydict

record ContextSnapshot =
  cs_snapshot_id :: string
  cs_plan_id :: "string option"
  cs_workspace_id :: string
  cs_project_id :: "string option"
  cs_workflow_id :: string
  cs_context :: AgentContext
  cs_created_at :: datetime

definition snapshot_ref :: "ContextSnapshot \<Rightarrow> string" where
  "snapshot_ref s = cs_snapshot_id s"

record AgentSuggestion =
  su_suggestion_id :: string
  su_workspace_id :: string
  su_project_id :: "string option"
  su_plan_id :: string
  su_action_id :: string
  su_title :: string
  su_body :: string
  su_target_entity_ref :: "string option"
  su_proposed_changes :: pydict
  su_created_at :: datetime

datatype ValidationDecision = COMMIT | SUGGEST | RETRY | REPLAN | FAIL | NOOP

fun decision_value :: "ValidationDecision \<Rightarrow> string" where
  "decision_value COMMIT = ''commit''"
| "decision_value SUGGEST = ''suggest''"
| "decision_value RETRY = ''retry''"
| "decision_value REPLAN = ''replan''"
| "decision_value FAIL = ''fail''"
| "decision_value NOOP = ''noop''"

record ToolResult =
  tr_result_id :: string
  tr_plan_id :: string
  tr_action_id :: string
  tr_tool_name :: string
  tr_success :: bool
  tr_output :: pydict
  tr_error :: "string option"
  tr_emitted_events :: "EventEnvelope list"
  tr_suggestion :: "AgentSuggestion option"
  tr_created_at :: datetime

record ValidationResult =
  vr_decision :: ValidationDecision
  vr_valid :: bool
  vr_reason :: "string option"
  vr_stale_entities :: stale_entities
  vr_emitted_events :: "EventEnvelope list"
  vr_suggestion :: "AgentSuggestion option"

definition validation_result :: "ValidationDecision \<Rightarrow> bool \<Rightarrow> string option \<Rightarrow> ValidationResult" where
  "validation_result decision valid reason =
     \<lparr>vr_decision = decision, vr_valid = valid, vr_reason = reason, vr_stale_entities = [],
      vr_emitted_events = [], vr_suggestion = None\<rparr>"

lemma validation_result_simps [simp]:
  "vr_decision (validation_result d v r) = d" "vr_valid (validation_result d v r) = v"
  "vr_reason (validation_result d v r) = r"
  by (simp_all add: validation_result_def)

record TraceEvent =
  te_trace_id :: string
  te_event_name :: string
  te_workspace_id :: string
  te_project_id :: "string option"
  te_plan_id :: "string option"
  te_action_id :: "string option"
  te_message :: string
  te_data :: pydict
  te_created_at :: datetime

definition new_suggestion ::
  "'e io_env_scheme \<Rightarrow> string \<Rightarrow> string option \<Rightarrow> string \<Rightarrow> string \<Rightarrow> string \<Rightarrow> string \<Rightarrow> string option
   \<Rightarrow> pydict \<Rightarrow> (io, AgentSuggestion) eff" where
  "new_suggestion env ws proj plan_id action_id title body target changes =
     ebind (uuid4 env) (\<lambda>sid.
     ebind (utc_now env) (\<lambda>now.
     ret \<lparr>su_suggestion_id = sid, su_workspace_id = ws, su_project_id = proj, su_plan_id = plan_id,
          su_action_id = action_id, su_title = title, su_body = body, su_target_entity_ref = target,
          su_proposed_changes = changes, su_created_at = now\<rparr>))"

definition new_tool_result ::
  "'e io_env_scheme \<Rightarrow> string \<Rightarrow> string \<Rightarrow> string \<Rightarrow> bool \<Rightarrow> pydict \<Rightarrow> string option \<Rightarrow> EventEnvelope list
   \<Rightarrow> AgentSuggestion option \<Rightarrow> (io, ToolResult) eff" where
  "new_tool_result env plan_id action_id tool_name success output error emitted suggestion =
     ebind (uuid4 env) (\<lambda>rid.
     ebind (utc_now env) (\<lambda>now.
     ret \<lparr>tr_result_id = rid, tr_plan_id = plan_id, tr_action_id = action_id,
          tr_tool_name = tool_name, tr_success = success, tr_output = output, tr_error = error,
          tr_emitted_events = emitted, tr_suggestion = suggestion, tr_created_at = now\<rparr>))"

definition new_snapshot ::
  "'e io_env_scheme \<Rightarrow> string option \<Rightarrow> string \<Rightarrow> string option \<Rightarrow> string \<Rightarrow> AgentContext
   \<Rightarrow> (io, ContextSnapshot) eff" where
  "new_snapshot env plan_id ws proj workflow_id context =
     ebind (uuid4 env) (\<lambda>sid.
     ebind (utc_now env) (\<lambda>now.
     ret \<lparr>cs_snapshot_id = sid, cs_plan_id = plan_id, cs_workspace_id = ws, cs_project_id = proj,
          cs_workflow_id = workflow_id, cs_context = context, cs_created_at = now\<rparr>))"

definition new_trace ::
  "'e io_env_scheme \<Rightarrow> string \<Rightarrow> string \<Rightarrow> string option \<Rightarrow> string option \<Rightarrow> string option \<Rightarrow> string
   \<Rightarrow> pydict \<Rightarrow> (io, TraceEvent) eff" where
  "new_trace env event_name ws proj plan_id action_id message data =
     ebind (uuid4 env) (\<lambda>tid.
     ebind (utc_now env) (\<lambda>now.
     ret \<lparr>te_trace_id = tid, te_event_name = event_name, te_workspace_id = ws, te_project_id = proj,
          te_plan_id = plan_id, te_action_id = action_id, te_message = message, te_data = data,
          te_created_at = now\<rparr>))"

lemma preserves_new_values [pres]:
  "preserves (new_suggestion env a b c d e f g h) io_requests"
  "preserves (new_suggestion env a b c d e f g h) io_versions"
  "preserves (new_tool_result env a c d s u v w x) io_requests"
  "preserves (new_tool_result env a c d s u v w x) io_versions"
  "preserves (new_snapshot env b' a b c cx) io_requests"
  "preserves (new_snapshot env b' a b c cx) io_versions"
  "preserves (new_trace env a c b b' b'' d u) io_requests"
  "preserves (new_trace env a c b b' b'' d u) io_versions"
  unfolding new_suggestion_def new_tool_result_def new_snapshot_def new_trace_def
  by (intro pres)+

end
