(* ===== verification/Memory_Queue.thy ===== *)
theory Memory_Queue
  imports Results
begin

text \<open>
  \<open>infrastructure/queue\<close>: the queue interface the handlers and the recursion runner rely on, as
  a locale, and the in-memory queue that implements it.
\<close>

record QueueMessage =
  qm_message_id :: string
  qm_envelope :: EventEnvelope
  qm_receipt :: "string option"

record memory_queue =
  mq_messages :: "QueueMessage list"
  mq_failed :: "(QueueMessage \<times> string) list"
  mq_acked :: "string list"

definition empty_queue :: memory_queue where
  "empty_queue = \<lparr>mq_messages = [], mq_failed = [], mq_acked = []\<rparr>"

definition mq_enqueue :: "QueueMessage \<Rightarrow> memory_queue \<Rightarrow> memory_queue" where
  "mq_enqueue message q = q\<lparr>mq_messages := mq_messages q @ [message]\<rparr>"

definition mq_dequeue :: "memory_queue \<Rightarrow> QueueMessage option \<times> memory_queue" where
  "mq_dequeue q = (case mq_messages q of
       [] \<Rightarrow> (None, q)
     | m # ms \<Rightarrow> (Some m, q\<lparr>mq_messages := ms\<rparr>))"

definition mq_ack :: "QueueMessage \<Rightarrow> memory_queue \<Rightarrow> memory_queue" where
  "mq_ack message q = q\<lparr>mq_acked := mq_acked q @ [qm_message_id message]\<rparr>"

definition mq_fail :: "QueueMessage \<Rightarrow> string \<Rightarrow> memory_queue \<Rightarrow> memory_queue" where
  "mq_fail message reason q = q\<lparr>mq_failed := mq_failed q @ [(message, reason)]\<rparr>"

definition mq_is_empty :: "memory_queue \<Rightarrow> bool" where
  "mq_is_empty q \<longleftrightarrow> mq_messages q = []"

definition mq_len :: "memory_queue \<Rightarrow> nat" where
  "mq_len q = length (mq_messages q)"


section \<open>The queue interface\<close>

text \<open>
  What a client may assume of a queue: messages come out in the order they went in, an empty queue
  yields nothing, and settling a message (acknowledging or failing it) does not touch the pending
  ones but moves exactly that message to the settled side.
\<close>

locale fifo_queue =
  fixes pending :: "'q \<Rightarrow> 'm list"
    and settled :: "'q \<Rightarrow> nat"
    and enq :: "'m \<Rightarrow> 'q \<Rightarrow> 'q"
    and deq :: "'q \<Rightarrow> 'm option \<times> 'q"
    and ack :: "'m \<Rightarrow> 'q \<Rightarrow> 'q"
    and fail :: "'m \<Rightarrow> string \<Rightarrow> 'q \<Rightarrow> 'q"
    and is_empty :: "'q \<Rightarrow> bool"
  assumes pending_enq: "pending (enq m q) = pending q @ [m]"
    and deq_empty: "pending q = [] \<Longrightarrow> deq q = (None, q)"
    and deq_first: "pending q = m # ms \<Longrightarrow> fst (deq q) = Some m \<and> pending (snd (deq q)) = ms"
    and pending_ack: "pending (ack m q) = pending q"
    and pending_fail: "pending (fail m r q) = pending q"
    and is_empty_iff: "is_empty q \<longleftrightarrow> pending q = []"
    and settled_enq: "settled (enq m q) = settled q"
    and settled_deq: "settled (snd (deq q)) = settled q"
    and settled_ack: "settled (ack m q) = Suc (settled q)"
    and settled_fail: "settled (fail m r q) = Suc (settled q)"
begin

text \<open>Deliver and settle up to \<open>n\<close> messages; \<open>ok\<close> says which ones are acknowledged.\<close>

primrec deliver :: "('m \<Rightarrow> bool) \<Rightarrow> nat \<Rightarrow> 'q \<Rightarrow> 'm list \<times> 'q" where
  "deliver ok 0 q = ([], q)"
| "deliver ok (Suc n) q =
     (case deq q of
        (None, q') \<Rightarrow> ([], q')
      | (Some m, q') \<Rightarrow>
          (let q'' = (if ok m then ack m q' else fail m [] q'); (ms, r) = deliver ok n q''
           in (m # ms, r)))"

lemma pending_enqs: "pending (fold enq ms q) = pending q @ ms"
  by (induction ms arbitrary: q) (simp_all add: pending_enq)

lemma deliver_take:
  "fst (deliver ok n q) = take n (pending q) \<and>
   pending (snd (deliver ok n q)) = drop n (pending q) \<and>
   settled (snd (deliver ok n q)) = settled q + min n (length (pending q))"
proof (induction n arbitrary: q)
  case 0
  then show ?case by simp
next
  case (Suc n)
  show ?case
  proof (cases "pending q")
    case Nil
    then show ?thesis by (simp add: deq_empty)
  next
    case (Cons m ms)
    obtain q' where q': "deq q = (Some m, q')" "pending q' = ms" "settled q' = settled q"
      using deq_first [OF Cons] settled_deq [of q] by (cases "deq q") auto
    then show ?thesis
      using Suc [of "ack m q'"] Suc [of "fail m [] q'"] Cons
      by (auto simp: Let_def pending_ack pending_fail settled_ack settled_fail split: prod.splits)
  qed
qed

text \<open>Whatever is enqueued is delivered, in order, and nothing is lost or duplicated.\<close>

lemma deliver_all:
  assumes "is_empty q"
  shows "fst (deliver ok (length ms) (fold enq ms q)) = ms"
    and "is_empty (snd (deliver ok (length ms) (fold enq ms q)))"
  using assms deliver_take [of ok "length ms" "fold enq ms q"]
  by (simp_all add: is_empty_iff pending_enqs)

end

interpretation mq: fifo_queue mq_messages "\<lambda>q. length (mq_acked q) + length (mq_failed q)"
  mq_enqueue mq_dequeue mq_ack mq_fail mq_is_empty
  by unfold_locales
    (auto simp: mq_enqueue_def mq_dequeue_def mq_ack_def mq_fail_def mq_is_empty_def split: list.splits)

text \<open>Taking up to \<open>n\<close> messages off the memory queue and settling each, as the runner does.\<close>

primrec settle_messages ::
  "(QueueMessage \<Rightarrow> bool) \<Rightarrow> nat \<Rightarrow> memory_queue \<Rightarrow> QueueMessage list \<times> memory_queue" where
  "settle_messages ok 0 q = ([], q)"
| "settle_messages ok (Suc n) q =
     (case mq_dequeue q of
        (None, q') \<Rightarrow> ([], q')
      | (Some m, q') \<Rightarrow>
          (let (ms, r) = settle_messages ok n (if ok m then mq_ack m q' else mq_fail m [] q')
           in (m # ms, r)))"

lemma settle_messages_deliver: "settle_messages ok n q = mq.deliver ok n q"
  by (induction n arbitrary: q) (simp_all add: Let_def split: prod.splits option.splits)

end
