(* ===== verification/Subtasks.thy ===== *)
theory Subtasks
  imports Plans
begin

text \<open>
  \<open>domain/subtasks.py\<close>: the task graph of an orchestrated run. The operations are the pure
  \<open>claim_ready\<close> and \<open>plan_advance\<close> that both state stores apply to the persisted graph.
\<close>

datatype SubTaskStatus = PENDING | RUNNING | COMPLETED | FAILED

fun subtask_status_value :: "SubTaskStatus \<Rightarrow> string" where
  "subtask_status_value SubTaskStatus.PENDING = ''pending''"
| "subtask_status_value SubTaskStatus.RUNNING = ''running''"
| "subtask_status_value SubTaskStatus.COMPLETED = ''completed''"
| "subtask_status_value SubTaskStatus.FAILED = ''failed''"

record SubTask =
  sn_node_id :: string
  sn_skill_ids :: "string list"
  sn_objective :: string
  sn_depends_on :: "string list"
  sn_context_scope :: "string list"
  sn_model_tier :: string
  sn_status :: SubTaskStatus

definition node_unblocked :: "SubTask \<Rightarrow> string set \<Rightarrow> bool" where
  "node_unblocked n completed \<longleftrightarrow> set (sn_depends_on n) \<subseteq> completed"

record TaskGraph =
  tg_plan_id :: string
  tg_workspace_id :: string
  tg_project_id :: "string option"
  tg_context_snapshot_ref :: "string option"
  tg_version :: int
  tg_nodes :: "SubTask list"
  tg_synthesizer_node :: "SubTask option"

record SubAgentResult =
  sr_node_id :: string
  sr_skill_ids :: "string list"
  sr_summary :: string
  sr_structured_output :: pydict
  sr_status :: SubTaskStatus

record TaskGraphAdvance =
  adv_graph :: TaskGraph
  adv_newly_ready :: "SubTask list"
  adv_dispatch_synthesizer :: "SubTask option"
  adv_run_completed :: bool
  adv_run_failed :: bool
  adv_blocked :: bool
  adv_is_synthesizer :: bool
  adv_already_processed :: bool

definition advance_with :: "TaskGraph \<Rightarrow> TaskGraphAdvance" where
  "advance_with g = \<lparr>adv_graph = g, adv_newly_ready = [], adv_dispatch_synthesizer = None,
     adv_run_completed = False, adv_run_failed = False, adv_blocked = False,
     adv_is_synthesizer = False, adv_already_processed = False\<rparr>"

definition bumped :: "TaskGraph \<Rightarrow> TaskGraph" where
  "bumped g = g\<lparr>tg_version := tg_version g + 1\<rparr>"

definition get_node :: "TaskGraph \<Rightarrow> string \<Rightarrow> SubTask option" where
  "get_node g node_id =
     (case List.find (\<lambda>n. sn_node_id n = node_id) (tg_nodes g) of
        Some n \<Rightarrow> Some n
      | None \<Rightarrow> (case tg_synthesizer_node g of
            Some s \<Rightarrow> if sn_node_id s = node_id then Some s else None
          | None \<Rightarrow> None))"

definition set_status_if :: "string \<Rightarrow> SubTaskStatus \<Rightarrow> SubTask \<Rightarrow> SubTask" where
  "set_status_if node_id status n = (if sn_node_id n = node_id then n\<lparr>sn_status := status\<rparr> else n)"

definition with_node_status :: "TaskGraph \<Rightarrow> string \<Rightarrow> SubTaskStatus \<Rightarrow> TaskGraph" where
  "with_node_status g node_id status =
     g\<lparr>tg_nodes := map (set_status_if node_id status) (tg_nodes g),
       tg_synthesizer_node := map_option (set_status_if node_id status) (tg_synthesizer_node g)\<rparr>"

definition all_nodes_completed :: "TaskGraph \<Rightarrow> bool" where
  "all_nodes_completed g \<longleftrightarrow>
     tg_nodes g \<noteq> [] \<and> list_all (\<lambda>n. sn_status n = SubTaskStatus.COMPLETED) (tg_nodes g)"

definition is_synthesizer :: "TaskGraph \<Rightarrow> string \<Rightarrow> bool" where
  "is_synthesizer g node_id \<longleftrightarrow>
     (case tg_synthesizer_node g of Some s \<Rightarrow> sn_node_id s = node_id | None \<Rightarrow> False)"

definition completed_node_ids :: "TaskGraph \<Rightarrow> string set" where
  "completed_node_ids g =
     set (map sn_node_id (filter (\<lambda>n. sn_status n = SubTaskStatus.COMPLETED) (tg_nodes g)))"

definition ready_nodes :: "TaskGraph \<Rightarrow> string set \<Rightarrow> SubTask list" where
  "ready_nodes g completed =
     filter (\<lambda>n. sn_status n = SubTaskStatus.PENDING \<and> node_unblocked n completed) (tg_nodes g)"

definition mark_running :: "SubTask list \<Rightarrow> TaskGraph \<Rightarrow> TaskGraph" where
  "mark_running ready g =
     fold (\<lambda>n g. with_node_status g (sn_node_id n) SubTaskStatus.RUNNING) ready g"

definition claim_ready :: "TaskGraph \<Rightarrow> TaskGraph \<times> SubTask list" where
  "claim_ready g =
     (let ready = ready_nodes g (completed_node_ids g);
          g' = mark_running ready g
      in (g', List.map_filter (\<lambda>n. get_node g' (sn_node_id n)) ready))"

definition plan_advance :: "TaskGraph \<Rightarrow> string \<Rightarrow> SubTaskStatus \<Rightarrow> TaskGraphAdvance" where
  "plan_advance self node_id status =
     (case get_node self node_id of
        None \<Rightarrow> advance_with self
      | Some node \<Rightarrow>
     if sn_status node = status then (advance_with self)\<lparr>adv_already_processed := True\<rparr>
     else
     let graph = with_node_status self node_id status in
     if status = SubTaskStatus.FAILED then (advance_with graph)\<lparr>adv_run_failed := True\<rparr>
     else if status \<noteq> SubTaskStatus.COMPLETED then advance_with graph
     else if is_synthesizer graph node_id
     then (advance_with graph)\<lparr>adv_is_synthesizer := True, adv_run_completed := True\<rparr>
     else
     let ready = ready_nodes graph (completed_node_ids graph) in
     if ready \<noteq> [] then
       let graph' = mark_running ready graph in
       (advance_with graph')
         \<lparr>adv_newly_ready := List.map_filter (\<lambda>n. get_node graph' (sn_node_id n)) ready\<rparr>
     else if all_nodes_completed graph then
       (case tg_synthesizer_node graph of
          Some s \<Rightarrow>
            if sn_status s = SubTaskStatus.PENDING then
              let graph' = with_node_status graph (sn_node_id s) SubTaskStatus.RUNNING in
              (advance_with graph')\<lparr>adv_dispatch_synthesizer := tg_synthesizer_node graph'\<rparr>
            else if sn_status s \<noteq> SubTaskStatus.COMPLETED then advance_with graph
            else (advance_with graph)\<lparr>adv_run_completed := True\<rparr>
        | None \<Rightarrow> (advance_with graph)\<lparr>adv_run_completed := True\<rparr>)
     else if list_ex (\<lambda>n. sn_status n = SubTaskStatus.RUNNING) (tg_nodes graph)
     then advance_with graph
     else (advance_with graph)\<lparr>adv_blocked := True\<rparr>)"


section \<open>Basic facts\<close>

abbreviation node_ids :: "TaskGraph \<Rightarrow> string list" where
  "node_ids g \<equiv> map sn_node_id (tg_nodes g)"

lemma advance_with_simps [simp]:
  "adv_graph (advance_with g) = g" "adv_newly_ready (advance_with g) = []"
  "adv_dispatch_synthesizer (advance_with g) = None" "\<not> adv_run_completed (advance_with g)"
  "\<not> adv_run_failed (advance_with g)" "\<not> adv_blocked (advance_with g)"
  "\<not> adv_is_synthesizer (advance_with g)" "\<not> adv_already_processed (advance_with g)"
  by (simp_all add: advance_with_def)

lemma set_status_if_simps [simp]:
  "sn_node_id (set_status_if i s n) = sn_node_id n"
  "sn_depends_on (set_status_if i s n) = sn_depends_on n"
  "sn_status (set_status_if i s n) = (if sn_node_id n = i then s else sn_status n)"
  by (simp_all add: set_status_if_def)

lemma with_node_status_simps [simp]:
  "tg_nodes (with_node_status g i s) = map (set_status_if i s) (tg_nodes g)"
  "tg_synthesizer_node (with_node_status g i s) =
     map_option (set_status_if i s) (tg_synthesizer_node g)"
  "tg_plan_id (with_node_status g i s) = tg_plan_id g"
  "tg_workspace_id (with_node_status g i s) = tg_workspace_id g"
  "tg_project_id (with_node_status g i s) = tg_project_id g"
  "tg_context_snapshot_ref (with_node_status g i s) = tg_context_snapshot_ref g"
  "tg_version (with_node_status g i s) = tg_version g"
  by (simp_all add: with_node_status_def)

lemma node_ids_with_node_status [simp]: "node_ids (with_node_status g i s) = node_ids g"
  by simp

text \<open>The simultaneous form of marking a list of nodes as running.\<close>

definition run_if :: "string set \<Rightarrow> SubTask \<Rightarrow> SubTask" where
  "run_if I n = (if sn_node_id n \<in> I then n\<lparr>sn_status := SubTaskStatus.RUNNING\<rparr> else n)"

lemma run_if_simps [simp]:
  "sn_node_id (run_if I n) = sn_node_id n" "sn_depends_on (run_if I n) = sn_depends_on n"
  "sn_status (run_if I n) = (if sn_node_id n \<in> I then SubTaskStatus.RUNNING else sn_status n)"
  by (simp_all add: run_if_def)

lemma run_if_insert:
  "run_if I (set_status_if i SubTaskStatus.RUNNING n) = run_if (insert i I) n"
  by (auto simp: run_if_def set_status_if_def)

lemma run_if_empty: "run_if {} = (\<lambda>n. n)"
  by (simp add: run_if_def fun_eq_iff)

lemma mark_running_nodes:
  "tg_nodes (mark_running ready g) = map (run_if (sn_node_id ` set ready)) (tg_nodes g)"
  "tg_synthesizer_node (mark_running ready g) =
     map_option (run_if (sn_node_id ` set ready)) (tg_synthesizer_node g)"
  unfolding mark_running_def
  by (induction ready arbitrary: g)
    (simp_all add: run_if_insert run_if_empty option.map_comp comp_def option.map_ident map_idI)

lemma mark_running_simps [simp]:
  "tg_plan_id (mark_running ready g) = tg_plan_id g"
  "tg_workspace_id (mark_running ready g) = tg_workspace_id g"
  "tg_project_id (mark_running ready g) = tg_project_id g"
  "tg_context_snapshot_ref (mark_running ready g) = tg_context_snapshot_ref g"
  "tg_version (mark_running ready g) = tg_version g"
  unfolding mark_running_def by (induction ready arbitrary: g) auto

lemma node_ids_mark_running [simp]: "node_ids (mark_running ready g) = node_ids g"
  by (simp add: mark_running_nodes)

lemma get_node_SomeD:
  "get_node g i = Some n \<Longrightarrow>
     sn_node_id n = i \<and> (n \<in> set (tg_nodes g) \<or> tg_synthesizer_node g = Some n)"
  by (auto simp: get_node_def find_Some_iff in_set_conv_nth split: option.splits if_splits)

lemma get_node_None_iff:
  "get_node g i = None \<longleftrightarrow>
     i \<notin> set (node_ids g) \<and> (\<forall>s. tg_synthesizer_node g = Some s \<longrightarrow> sn_node_id s \<noteq> i)"
proof (cases "List.find (\<lambda>n. sn_node_id n = i) (tg_nodes g)")
  case None
  then have "i \<notin> set (node_ids g)" by (auto simp: find_None_iff)
  with None show ?thesis by (simp add: get_node_def split: option.splits)
next
  case (Some n)
  then have "i \<in> set (node_ids g)" by (auto simp: find_Some_iff)
  with Some show ?thesis by (simp add: get_node_def)
qed

lemma find_map_node:
  "(\<And>n. sn_node_id (f n) = sn_node_id n) \<Longrightarrow>
   List.find (\<lambda>n. sn_node_id n = i) (map f ns) = map_option f (List.find (\<lambda>n. sn_node_id n = i) ns)"
  by (induction ns) simp_all

lemma get_node_with_node_status:
  "get_node (with_node_status g i s) j = map_option (set_status_if i s) (get_node g j)"
  by (auto simp: get_node_def find_map_node split: option.splits)

lemma get_node_mark_running:
  "get_node (mark_running ready g) j =
     map_option (run_if (sn_node_id ` set ready)) (get_node g j)"
  by (auto simp: get_node_def mark_running_nodes find_map_node split: option.splits)

text \<open>The nodes a claim returns are exactly the ready ones, re-read from the updated graph.\<close>

lemma claimed_nodes:
  assumes "set ready \<subseteq> set (tg_nodes g)"
  shows "map sn_node_id (List.map_filter (\<lambda>n. get_node (mark_running ready g) (sn_node_id n)) ready)
           = map sn_node_id ready"
    and "\<forall>n \<in> set (List.map_filter (\<lambda>n. get_node (mark_running ready g) (sn_node_id n)) ready).
           sn_status n = SubTaskStatus.RUNNING"
proof -
  let ?g = "mark_running ready g"
  have found: "\<exists>m. get_node ?g (sn_node_id n) = Some m \<and> sn_node_id m = sn_node_id n \<and>
      sn_status m = SubTaskStatus.RUNNING" if "n \<in> set ready" for n
  proof -
    have "get_node g (sn_node_id n) \<noteq> None"
      using that assms by (auto simp: get_node_None_iff)
    then obtain m where m: "get_node g (sn_node_id n) = Some m" by blast
    then have "sn_node_id m = sn_node_id n" using get_node_SomeD by blast
    with m that show ?thesis by (simp add: get_node_mark_running)
  qed
  have "map sn_node_id (List.map_filter (\<lambda>n. get_node ?g (sn_node_id n)) ns) = map sn_node_id ns"
    if "set ns \<subseteq> set ready" for ns
    using that by (induction ns) (use found in \<open>fastforce simp: map_filter_simps split: option.splits\<close>)+
  then show "map sn_node_id (List.map_filter (\<lambda>n. get_node ?g (sn_node_id n)) ready)
      = map sn_node_id ready" by blast
  show "\<forall>n \<in> set (List.map_filter (\<lambda>n. get_node ?g (sn_node_id n)) ready).
      sn_status n = SubTaskStatus.RUNNING"
    using found by (force simp: map_filter_def)
qed

lemma ready_nodes_subset: "set (ready_nodes g c) \<subseteq> set (tg_nodes g)"
  by (auto simp: ready_nodes_def)

text \<open>Marking ready nodes as running leaves no node ready.\<close>

lemma completed_mark_running:
  "completed_node_ids (mark_running ready g) =
     set (map sn_node_id (filter (\<lambda>n. sn_status n = SubTaskStatus.COMPLETED \<and>
       sn_node_id n \<notin> sn_node_id ` set ready) (tg_nodes g)))"
  by (auto simp: completed_node_ids_def mark_running_nodes filter_map comp_def image_image
      split: if_splits intro!: image_cong)

lemma completed_mark_running_subset:
  "completed_node_ids (mark_running ready g) \<subseteq> completed_node_ids g"
  by (auto simp only: completed_mark_running completed_node_ids_def [of g] set_map set_filter)

lemma no_ready_after_mark_running:
  "ready_nodes (mark_running (ready_nodes g (completed_node_ids g)) g)
     (completed_node_ids (mark_running (ready_nodes g (completed_node_ids g)) g)) = []"
proof -
  let ?r = "ready_nodes g (completed_node_ids g)"
  have "\<not> (sn_status m = SubTaskStatus.PENDING \<and> node_unblocked m (completed_node_ids (mark_running ?r g)))"
    if "m \<in> set (tg_nodes (mark_running ?r g))" for m
  proof
    assume m: "sn_status m = SubTaskStatus.PENDING \<and> node_unblocked m (completed_node_ids (mark_running ?r g))"
    from that obtain n where n: "n \<in> set (tg_nodes g)" "m = run_if (sn_node_id ` set ?r) n"
      by (auto simp: mark_running_nodes)
    with m have "sn_status n = SubTaskStatus.PENDING" "sn_node_id n \<notin> sn_node_id ` set ?r"
      by (auto split: if_splits)
    moreover have "node_unblocked n (completed_node_ids g)"
      using m n completed_mark_running_subset [of ?r g] by (auto simp: node_unblocked_def)
    ultimately have "n \<in> set ?r" using n(1) by (simp add: ready_nodes_def)
    with \<open>sn_node_id n \<notin> sn_node_id ` set ?r\<close> show False by blast
  qed
  then show ?thesis by (auto simp: ready_nodes_def [of "mark_running _ _"] filter_empty_conv)
qed

end
