(* ===== verification/Graph_Runs.thy ===== *)
theory Graph_Runs
  imports Subtasks
begin

text \<open>
  How a task graph evolves under the events of a run: every node is dispatched at most once for
  any sequence of completion reports, dependencies are respected, and an acyclic graph always has
  a node in flight until it is finished. The events are those \<open>SubAgentCoordinator\<close> feeds to
  \<open>plan_advance\<close>.
\<close>

section \<open>The outcomes of one advance\<close>

lemma plan_advance_cases:
  fixes g :: TaskGraph and i :: string and s :: SubTaskStatus
  defines "h \<equiv> with_node_status g i s"
  obtains
    (missing) "get_node g i = None" "plan_advance g i s = advance_with g"
  | (same) n where "get_node g i = Some n" "sn_status n = s"
      "plan_advance g i s = (advance_with g)\<lparr>adv_already_processed := True\<rparr>"
  | (failed) n where "get_node g i = Some n" "sn_status n \<noteq> s" "s = SubTaskStatus.FAILED"
      "plan_advance g i s = (advance_with h)\<lparr>adv_run_failed := True\<rparr>"
  | (unsettled) n where "get_node g i = Some n" "sn_status n \<noteq> s"
      "s \<notin> {SubTaskStatus.FAILED, SubTaskStatus.COMPLETED}" "plan_advance g i s = advance_with h"
  | (synth) n where "get_node g i = Some n" "sn_status n \<noteq> s" "s = SubTaskStatus.COMPLETED"
      "is_synthesizer g i"
      "plan_advance g i s = (advance_with h)\<lparr>adv_is_synthesizer := True, adv_run_completed := True\<rparr>"
  | (ready) n where "get_node g i = Some n" "sn_status n \<noteq> s" "s = SubTaskStatus.COMPLETED"
      "\<not> is_synthesizer g i" "ready_nodes h (completed_node_ids h) \<noteq> []"
      "plan_advance g i s =
        (advance_with (mark_running (ready_nodes h (completed_node_ids h)) h))
          \<lparr>adv_newly_ready := List.map_filter
             (\<lambda>n. get_node (mark_running (ready_nodes h (completed_node_ids h)) h) (sn_node_id n))
             (ready_nodes h (completed_node_ids h))\<rparr>"
  | (dispatch) n t where "get_node g i = Some n" "sn_status n \<noteq> s" "s = SubTaskStatus.COMPLETED"
      "\<not> is_synthesizer g i" "ready_nodes h (completed_node_ids h) = []" "all_nodes_completed h"
      "tg_synthesizer_node g = Some t" "sn_status t = SubTaskStatus.PENDING"
      "plan_advance g i s =
        (advance_with (with_node_status h (sn_node_id t) SubTaskStatus.RUNNING))
          \<lparr>adv_dispatch_synthesizer := Some (t\<lparr>sn_status := SubTaskStatus.RUNNING\<rparr>)\<rparr>"
  | (synth_open) n t where "get_node g i = Some n" "sn_status n \<noteq> s" "s = SubTaskStatus.COMPLETED"
      "\<not> is_synthesizer g i" "ready_nodes h (completed_node_ids h) = []" "all_nodes_completed h"
      "tg_synthesizer_node g = Some t" "sn_status t \<notin> {SubTaskStatus.PENDING, SubTaskStatus.COMPLETED}"
      "plan_advance g i s = advance_with h"
  | (run_completed) n where "get_node g i = Some n" "sn_status n \<noteq> s" "s = SubTaskStatus.COMPLETED"
      "\<not> is_synthesizer g i" "ready_nodes h (completed_node_ids h) = []" "all_nodes_completed h"
      "\<forall>t. tg_synthesizer_node g = Some t \<longrightarrow> sn_status t = SubTaskStatus.COMPLETED"
      "plan_advance g i s = (advance_with h)\<lparr>adv_run_completed := True\<rparr>"
  | (waiting) n where "get_node g i = Some n" "sn_status n \<noteq> s" "s = SubTaskStatus.COMPLETED"
      "\<not> is_synthesizer g i" "ready_nodes h (completed_node_ids h) = []" "\<not> all_nodes_completed h"
      "list_ex (\<lambda>n. sn_status n = SubTaskStatus.RUNNING) (tg_nodes h)"
      "plan_advance g i s = advance_with h"
  | (blocked) n where "get_node g i = Some n" "sn_status n \<noteq> s" "s = SubTaskStatus.COMPLETED"
      "\<not> is_synthesizer g i" "ready_nodes h (completed_node_ids h) = []" "\<not> all_nodes_completed h"
      "\<not> list_ex (\<lambda>n. sn_status n = SubTaskStatus.RUNNING) (tg_nodes h)"
      "plan_advance g i s = (advance_with h)\<lparr>adv_blocked := True\<rparr>"
proof -
  have syn: "is_synthesizer h i = is_synthesizer g i"
    by (simp add: h_def is_synthesizer_def split: option.splits)
  note d = plan_advance_def [of g i s, folded h_def]
  show thesis
  proof (cases "get_node g i")
    case None
    then show thesis by (intro missing) (simp_all add: d)
  next
    case n: (Some n)
    show thesis
    proof (cases "sn_status n = s \<or> s \<noteq> SubTaskStatus.COMPLETED \<or> is_synthesizer g i")
      case True
      then consider "sn_status n = s" | "sn_status n \<noteq> s" "s = SubTaskStatus.FAILED"
        | "sn_status n \<noteq> s" "s \<notin> {SubTaskStatus.FAILED, SubTaskStatus.COMPLETED}"
        | "sn_status n \<noteq> s" "s = SubTaskStatus.COMPLETED" "is_synthesizer g i"
        by auto
      then show thesis
      proof cases
        case 1
        show thesis by (rule same [OF n 1]) (unfold d, simp add: n 1)
      next
        case 2
        show thesis by (rule failed [OF n 2]) (unfold d, use 2 in \<open>simp add: n\<close>)
      next
        case 3
        show thesis by (rule unsettled [OF n 3]) (unfold d, use 3 in \<open>simp add: n\<close>)
      next
        case 4
        show thesis by (rule synth [OF n 4]) (unfold d, use 4 in \<open>simp add: n syn\<close>)
      qed
    next
      case False
      then have nn: "sn_status n \<noteq> s" "s = SubTaskStatus.COMPLETED" "\<not> is_synthesizer g i"
        by auto
      let ?r = "ready_nodes h (completed_node_ids h)"
      have neq: "sn_node_id t \<noteq> i" if "tg_synthesizer_node g = Some t" for t
        using nn(3) that by (simp add: is_synthesizer_def)
      have st: "tg_synthesizer_node h = Some t" if "tg_synthesizer_node g = Some t" for t
        using neq [OF that] that by (simp add: h_def set_status_if_def)
      have sn: "tg_synthesizer_node h = None" if "tg_synthesizer_node g = None"
        using that by (simp add: h_def)
      show thesis
      proof (cases "?r = [] \<and> all_nodes_completed h")
        case True
        show thesis
        proof (cases "tg_synthesizer_node g")
          case None
          have "plan_advance g i s = (advance_with h)\<lparr>adv_run_completed := True\<rparr>"
            unfolding d using n nn True sn [OF None] syn by simp
          then show thesis using run_completed [OF n nn(1,2,3)] True None by simp
        next
          case (Some t)
          have "plan_advance g i s =
            (if sn_status t = SubTaskStatus.PENDING then
               (advance_with (with_node_status h (sn_node_id t) SubTaskStatus.RUNNING))
                 \<lparr>adv_dispatch_synthesizer := Some (t\<lparr>sn_status := SubTaskStatus.RUNNING\<rparr>)\<rparr>
             else if sn_status t \<noteq> SubTaskStatus.COMPLETED then advance_with h
             else (advance_with h)\<lparr>adv_run_completed := True\<rparr>)"
            unfolding d using n nn True st [OF Some] syn by (simp add: Let_def set_status_if_def)
          then show thesis
            using True Some dispatch [OF n nn(1,2,3) _ _ Some] synth_open [OF n nn(1,2,3) _ _ Some]
              run_completed [OF n nn(1,2,3)]
            by (auto split: if_splits)
        qed
      next
        case False
        have "plan_advance g i s =
          (if ?r \<noteq> [] then (advance_with (mark_running ?r h))
             \<lparr>adv_newly_ready := List.map_filter (\<lambda>n. get_node (mark_running ?r h) (sn_node_id n)) ?r\<rparr>
           else if list_ex (\<lambda>n. sn_status n = SubTaskStatus.RUNNING) (tg_nodes h) then advance_with h
           else (advance_with h)\<lparr>adv_blocked := True\<rparr>)"
          unfolding d using n nn False syn by (simp add: Let_def)
        then show thesis
          using False ready [OF n nn(1,2,3)] waiting [OF n nn(1,2,3)] blocked [OF n nn(1,2,3)]
          by (auto split: if_splits)
      qed
    qed
  qed
qed

lemma get_node_settled:
  "get_node g i = Some n \<Longrightarrow> \<exists>m. get_node (with_node_status g i s) i = Some m \<and> sn_status m = s"
  by (auto simp: get_node_with_node_status dest: get_node_SomeD)

lemma status_settled:
  "m \<in> set (tg_nodes (with_node_status g i s)) \<Longrightarrow> sn_status m = (if sn_node_id m = i then s else sn_status m)"
  by auto

text \<open>Applying the same report to the graph that recorded it changes nothing.\<close>

lemma get_node_after_advance:
  assumes "get_node g i \<noteq> None"
  shows "\<exists>m. get_node (adv_graph (plan_advance g i s)) i = Some m \<and> sn_status m = s"
proof (cases rule: plan_advance_cases [of g i s])
  case (ready n)
  let ?h = "with_node_status g i s"
  let ?r = "ready_nodes ?h (completed_node_ids ?h)"
  from ready(1) obtain m where m: "get_node ?h i = Some m" "sn_status m = s"
    using get_node_settled by blast
  have "i \<notin> sn_node_id ` set ?r"
    using ready(3) by (auto simp: ready_nodes_def simp del: with_node_status_simps dest!: status_settled)
  moreover have "sn_node_id m = i" using m(1) get_node_SomeD by blast
  ultimately show ?thesis using ready m by (simp add: get_node_mark_running)
next
  case (dispatch n t)
  from dispatch(1) obtain m where m: "get_node (with_node_status g i s) i = Some m" "sn_status m = s"
    using get_node_settled by blast
  have "sn_node_id t \<noteq> i" using dispatch(4,7) by (simp add: is_synthesizer_def)
  moreover have "sn_node_id m = i" using m(1) get_node_SomeD by blast
  ultimately show ?thesis
    unfolding dispatch(9) by (simp add: get_node_with_node_status [of "with_node_status g i s"] m)
qed (use assms get_node_settled in auto)

lemma plan_advance_again:
  assumes "get_node g i \<noteq> None"
  shows "plan_advance (adv_graph (plan_advance g i s)) i s =
           (advance_with (adv_graph (plan_advance g i s)))\<lparr>adv_already_processed := True\<rparr>"
  using get_node_after_advance [OF assms, of s] by (auto simp: plan_advance_def [of "adv_graph _"])


section \<open>Every node is dispatched at most once\<close>

definition synth_list :: "TaskGraph \<Rightarrow> SubTask list" where
  "synth_list g = (case tg_synthesizer_node g of None \<Rightarrow> [] | Some t \<Rightarrow> [t])"

abbreviation all_tasks :: "TaskGraph \<Rightarrow> SubTask list" where
  "all_tasks g \<equiv> tg_nodes g @ synth_list g"

abbreviation task_ids :: "TaskGraph \<Rightarrow> string list" where
  "task_ids g \<equiv> map sn_node_id (all_tasks g)"

text \<open>The nodes for which one advance makes the coordinator enqueue a task event.\<close>

definition dispatched :: "TaskGraphAdvance \<Rightarrow> string list" where
  "dispatched adv = map sn_node_id (adv_newly_ready adv) @
     (case adv_dispatch_synthesizer adv of None \<Rightarrow> [] | Some t \<Rightarrow> [sn_node_id t])"

fun advance_all :: "TaskGraph \<Rightarrow> (string \<times> SubTaskStatus) list \<Rightarrow> TaskGraph \<times> string list" where
  "advance_all g [] = (g, [])"
| "advance_all g ((i, s) # reports) =
     (let adv = plan_advance g i s; (g', ids) = advance_all (adv_graph adv) reports
      in (g', dispatched adv @ ids))"

definition pending_ids :: "TaskGraph \<Rightarrow> string set" where
  "pending_ids g = sn_node_id ` {n \<in> set (all_tasks g). sn_status n = SubTaskStatus.PENDING}"

lemma synth_list_simps [simp]:
  "synth_list (with_node_status g i s) = map (set_status_if i s) (synth_list g)"
  "synth_list (mark_running r g) = map (run_if (sn_node_id ` set r)) (synth_list g)"
  by (simp_all add: synth_list_def mark_running_nodes split: option.splits)

lemma run_if_set_status:
  "run_if (set []) (set_status_if i s n) = set_status_if i s n"
  "set_status_if j SubTaskStatus.RUNNING m = run_if (set [j]) m"
  by (auto simp: run_if_def set_status_if_def)

lemma dispatched_simps [simp]:
  "dispatched (advance_with h) = []"
  "dispatched ((advance_with h)\<lparr>adv_dispatch_synthesizer := Some t\<rparr>) = [sn_node_id t]"
  "dispatched (a\<lparr>adv_run_failed := b\<rparr>) = dispatched a"
  "dispatched (a\<lparr>adv_run_completed := b\<rparr>) = dispatched a"
  "dispatched (a\<lparr>adv_blocked := b\<rparr>) = dispatched a"
  "dispatched (a\<lparr>adv_is_synthesizer := b\<rparr>) = dispatched a"
  "dispatched (a\<lparr>adv_already_processed := b\<rparr>) = dispatched a"
  by (simp_all add: dispatched_def)

lemma dispatched_ready:
  assumes "set ready \<subseteq> set (tg_nodes h)"
  shows "dispatched ((advance_with (mark_running ready h))\<lparr>adv_newly_ready :=
           List.map_filter (\<lambda>n. get_node (mark_running ready h) (sn_node_id n)) ready\<rparr>)
         = map sn_node_id ready"
  using claimed_nodes(1) [OF assms] by (simp add: dispatched_def)

lemmas dispatched_ready_nodes [simp] = dispatched_ready [OF ready_nodes_subset]

text \<open>One advance settles its node and marks exactly the dispatched nodes as running.\<close>

lemma adv_nodes:
  assumes "get_node g i = Some n" and "sn_status n \<noteq> s"
  defines "F \<equiv> \<lambda>m. run_if (set (dispatched (plan_advance g i s))) (set_status_if i s m)"
  shows "tg_nodes (adv_graph (plan_advance g i s)) = map F (tg_nodes g)"
    and "tg_synthesizer_node (adv_graph (plan_advance g i s)) = map_option F (tg_synthesizer_node g)"
  unfolding F_def
  by (atomize (full), cases rule: plan_advance_cases [of g i s])
    (use assms(1,2) in \<open>simp_all add: run_if_empty mark_running_nodes option.map_comp comp_def
      run_if_set_status(2)\<close>)

lemma adv_tasks:
  assumes "get_node g i = Some n" and "sn_status n \<noteq> s"
  shows "all_tasks (adv_graph (plan_advance g i s)) =
           map (\<lambda>m. run_if (set (dispatched (plan_advance g i s))) (set_status_if i s m)) (all_tasks g)"
  using adv_nodes [OF assms] by (simp add: synth_list_def split: option.splits)

lemma dispatched_pending:
  assumes "j \<in> set (dispatched (plan_advance g i s))"
  shows "s = SubTaskStatus.COMPLETED \<and> j \<noteq> i \<and> j \<in> pending_ids g"
proof (cases rule: plan_advance_cases [of g i s])
  case (ready n)
  let ?h = "with_node_status g i s"
  have "j \<in> sn_node_id ` set (ready_nodes ?h (completed_node_ids ?h))"
    using assms ready by simp
  then obtain m where m: "m \<in> set (tg_nodes ?h)" "sn_status m = SubTaskStatus.PENDING" "sn_node_id m = j"
    by (auto simp: ready_nodes_def)
  with ready(3) show ?thesis by (force simp: pending_ids_def split: if_splits)
next
  case (dispatch n t)
  then have "j = sn_node_id t" using assms by (simp add: dispatched_def)
  with dispatch show ?thesis
    by (auto simp: pending_ids_def synth_list_def is_synthesizer_def)
qed (use assms in simp_all)

lemma advance_noop:
  assumes "\<nexists>n. get_node g i = Some n \<and> sn_status n \<noteq> s"
  shows "adv_graph (plan_advance g i s) = g" and "dispatched (plan_advance g i s) = []"
  using assms by (auto simp: plan_advance_def split: option.splits)

lemma task_ids_advance: "task_ids (adv_graph (plan_advance g i s)) = task_ids g"
proof (cases "\<exists>n. get_node g i = Some n \<and> sn_status n \<noteq> s")
  case True
  then obtain n where "get_node g i = Some n" "sn_status n \<noteq> s" by blast
  from adv_tasks [OF this] show ?thesis by simp
qed (simp add: advance_noop)

lemma pending_ids_advance:
  assumes "s \<noteq> SubTaskStatus.PENDING"
  shows "pending_ids (adv_graph (plan_advance g i s)) \<subseteq>
           pending_ids g - set (dispatched (plan_advance g i s))"
proof (cases "\<exists>n. get_node g i = Some n \<and> sn_status n \<noteq> s")
  case True
  then obtain n where "get_node g i = Some n" "sn_status n \<noteq> s" by blast
  from adv_tasks [OF this] show ?thesis
    using assms unfolding pending_ids_def by (auto split: if_splits)
qed (simp add: advance_noop)

lemma distinct_ready_ids:
  "distinct (node_ids g) \<Longrightarrow> distinct (map sn_node_id (ready_nodes g c))"
  by (simp add: ready_nodes_def distinct_map_filter)

lemma distinct_dispatched:
  assumes "distinct (task_ids g)"
  shows "distinct (dispatched (plan_advance g i s))"
proof (cases rule: plan_advance_cases [of g i s])
  case (ready n)
  then show ?thesis
    using assms distinct_ready_ids [of "with_node_status g i s"] by (simp add: comp_def)
qed (simp_all add: dispatched_def)

lemma advance_all_dispatches_once:
  assumes "distinct (task_ids g)" and "\<forall>(i, s) \<in> set reports. s \<noteq> SubTaskStatus.PENDING"
  shows "distinct (snd (advance_all g reports)) \<and> set (snd (advance_all g reports)) \<subseteq> pending_ids g"
  using assms
proof (induction reports arbitrary: g)
  case Nil
  then show ?case by simp
next
  case (Cons r reports)
  obtain i s where r: "r = (i, s)" by fastforce
  let ?adv = "plan_advance g i s"
  have "distinct (task_ids (adv_graph ?adv))"
    using Cons.prems(1) by (simp only: task_ids_advance)
  from Cons.IH [OF this] Cons.prems(2)
  have IH: "distinct (snd (advance_all (adv_graph ?adv) reports))"
    "set (snd (advance_all (adv_graph ?adv) reports)) \<subseteq> pending_ids (adv_graph ?adv)"
    by auto
  have "pending_ids (adv_graph ?adv) \<subseteq> pending_ids g - set (dispatched ?adv)"
    using Cons.prems r by (intro pending_ids_advance) auto
  then show ?case
    using IH distinct_dispatched [OF Cons.prems(1)] dispatched_pending
    by (auto simp: r Let_def split: prod.splits)
qed


section \<open>Dependencies are respected\<close>

text \<open>
  The moves of a run: claiming the ready nodes, the report of a running node, and the redelivery
  of a report already recorded.
\<close>

inductive gstep :: "TaskGraph \<Rightarrow> TaskGraph \<Rightarrow> bool" where
  claim: "gstep g (fst (claim_ready g))"
| settle: "get_node g i = Some n \<Longrightarrow> sn_status n = SubTaskStatus.RUNNING \<Longrightarrow>
     s \<in> {SubTaskStatus.COMPLETED, SubTaskStatus.FAILED} \<Longrightarrow> gstep g (adv_graph (plan_advance g i s))"
| redeliver: "get_node g i = Some n \<Longrightarrow> sn_status n = s \<Longrightarrow> gstep g (adv_graph (plan_advance g i s))"

inductive_cases gstepE: "gstep g h"

definition deps_ok :: "TaskGraph \<Rightarrow> bool" where
  "deps_ok g \<longleftrightarrow>
     (\<forall>n \<in> set (tg_nodes g). sn_status n \<noteq> SubTaskStatus.PENDING \<longrightarrow>
        node_unblocked n (completed_node_ids g)) \<and>
     (\<forall>t. tg_synthesizer_node g = Some t \<longrightarrow> sn_status t \<noteq> SubTaskStatus.PENDING \<longrightarrow>
        all_nodes_completed g)"

lemma completed_node_ids_image:
  "completed_node_ids g = sn_node_id ` {n \<in> set (tg_nodes g). sn_status n = SubTaskStatus.COMPLETED}"
  by (auto simp: completed_node_ids_def)

lemma unique_task:
  "distinct (task_ids g) \<Longrightarrow> m \<in> set (all_tasks g) \<Longrightarrow> n \<in> set (all_tasks g) \<Longrightarrow>
   sn_node_id m = sn_node_id n \<Longrightarrow> m = n"
  by (metis distinct_map inj_onD)

lemma synth_id_fresh:
  "distinct (task_ids g) \<Longrightarrow> tg_synthesizer_node g = Some t \<Longrightarrow> m \<in> set (tg_nodes g) \<Longrightarrow>
   sn_node_id m \<noteq> sn_node_id t"
  by (auto simp: synth_list_def dest: image_eqI [of _ sn_node_id, OF sym])

lemma get_node_task:
  "get_node g i = Some n \<Longrightarrow> n \<in> set (all_tasks g) \<and> sn_node_id n = i"
  by (auto simp: synth_list_def dest!: get_node_SomeD)

lemma get_node_eqI:
  assumes "distinct (task_ids g)" and "n \<in> set (all_tasks g)"
  shows "get_node g (sn_node_id n) = Some n"
proof (cases "get_node g (sn_node_id n)")
  case None
  with assms(2) have False
    by (cases "tg_synthesizer_node g") (auto simp: get_node_None_iff synth_list_def)
  then show ?thesis ..
next
  case (Some m)
  with get_node_task [OF Some] unique_task [OF assms(1), of m n] assms(2) show ?thesis by simp
qed

text \<open>What the nodes dispatched by an advance wait for is complete in the resulting graph.\<close>

lemma completed_mark_ready:
  "completed_node_ids (mark_running (ready_nodes g c) g) = completed_node_ids g"
  if "distinct (node_ids g)"
proof -
  have "sn_node_id n \<notin> sn_node_id ` set (ready_nodes g c)"
    if n: "n \<in> set (tg_nodes g)" "sn_status n = SubTaskStatus.COMPLETED" for n
  proof
    assume "sn_node_id n \<in> sn_node_id ` set (ready_nodes g c)"
    then obtain m where m: "m \<in> set (tg_nodes g)" "sn_status m = SubTaskStatus.PENDING"
      "sn_node_id m = sn_node_id n" by (auto simp: ready_nodes_def)
    then have "m = n" using n(1) \<open>distinct (node_ids g)\<close> by (metis distinct_map inj_onD)
    with m n show False by simp
  qed
  then show ?thesis
    by (auto simp: completed_mark_running completed_node_ids_def [of g])
qed

lemma dispatched_justified:
  assumes dist: "distinct (task_ids g)" and j: "j \<in> set (dispatched (plan_advance g i s))"
  defines "g' \<equiv> adv_graph (plan_advance g i s)"
  shows "(\<exists>m \<in> set (tg_nodes g). sn_node_id m = j \<and> node_unblocked m (completed_node_ids g')) \<or>
         (\<exists>t. tg_synthesizer_node g = Some t \<and> sn_node_id t = j \<and> all_nodes_completed g')"
proof (cases rule: plan_advance_cases [of g i s])
  case (ready n)
  let ?h = "with_node_status g i s"
  let ?r = "ready_nodes ?h (completed_node_ids ?h)"
  have "distinct (node_ids ?h)" using dist by (simp add: comp_def)
  then have "completed_node_ids g' = completed_node_ids ?h"
    unfolding g'_def ready(6) by (simp add: completed_mark_ready)
  moreover have "j \<in> sn_node_id ` set ?r" using j unfolding ready(6) by simp
  then obtain m' where "m' \<in> set (tg_nodes ?h)" "sn_node_id m' = j" "node_unblocked m' (completed_node_ids ?h)"
    by (auto simp: ready_nodes_def simp del: with_node_status_simps)
  ultimately show ?thesis by (auto simp: node_unblocked_def)
next
  case (dispatch n t)
  let ?h = "with_node_status g i s"
  have "\<forall>m \<in> set (tg_nodes g). sn_node_id m \<noteq> sn_node_id t"
    using synth_id_fresh [OF dist dispatch(7)] by blast
  then have "all_nodes_completed g'"
    using dispatch(6) unfolding g'_def dispatch(9) by (auto simp: all_nodes_completed_def list_all_iff)
  then show ?thesis using dispatch j by simp
qed (use j in simp_all)

lemma running_not_completed:
  assumes "distinct (task_ids g)" and "get_node g i = Some n" and "sn_status n = SubTaskStatus.RUNNING"
    and "m \<in> set (all_tasks g)" and "sn_status m \<noteq> SubTaskStatus.RUNNING"
  shows "sn_node_id m \<noteq> i"
  using assms get_node_task [OF assms(2)] unique_task [OF assms(1), of m n] by auto

lemma not_dispatched:
  assumes "distinct (task_ids g)" and "m \<in> set (all_tasks g)" and "sn_status m \<noteq> SubTaskStatus.PENDING"
  shows "sn_node_id m \<notin> set (dispatched (plan_advance g i s))"
proof
  assume "sn_node_id m \<in> set (dispatched (plan_advance g i s))"
  then have "sn_node_id m \<in> pending_ids g" using dispatched_pending by blast
  then obtain k where "k \<in> set (all_tasks g)" "sn_status k = SubTaskStatus.PENDING"
    "sn_node_id k = sn_node_id m"
    unfolding pending_ids_def by (elim imageE) auto
  with unique_task [OF assms(1,2), of k] assms(3) show False by simp
qed

text \<open>A report of a running node leaves every settled node as it is.\<close>

lemma settled_kept:
  assumes "distinct (task_ids g)" and "get_node g i = Some n" and "sn_status n = SubTaskStatus.RUNNING"
    and "s \<noteq> SubTaskStatus.RUNNING"
    and "m \<in> set (all_tasks g)" and "sn_status m \<notin> {SubTaskStatus.PENDING, SubTaskStatus.RUNNING}"
  shows "run_if (set (dispatched (plan_advance g i s))) (set_status_if i s m) = m"
  using running_not_completed [OF assms(1-3,5)] not_dispatched [OF assms(1,5), of i s] assms(6)
  by (simp add: run_if_def set_status_if_def)

lemma completed_grows:
  assumes "distinct (task_ids g)" and "get_node g i = Some n" and "sn_status n = SubTaskStatus.RUNNING"
    and "s \<noteq> SubTaskStatus.RUNNING"
  shows "completed_node_ids g \<subseteq> completed_node_ids (adv_graph (plan_advance g i s))"
proof
  fix j assume "j \<in> completed_node_ids g"
  then obtain m where m: "m \<in> set (tg_nodes g)" "sn_status m = SubTaskStatus.COMPLETED" "sn_node_id m = j"
    by (auto simp: completed_node_ids_image)
  have "m \<in> set (tg_nodes (adv_graph (plan_advance g i s)))"
    using m settled_kept [OF assms, of m] adv_nodes(1) [OF assms(2), of s] assms(3,4)
    by (auto intro!: image_eqI [where x = m])
  with m show "j \<in> completed_node_ids (adv_graph (plan_advance g i s))"
    by (auto simp: completed_node_ids_image)
qed

lemma deps_ok_settle:
  assumes ok: "deps_ok g" and d: "distinct (task_ids g)" and n: "get_node g i = Some n"
    and run: "sn_status n = SubTaskStatus.RUNNING"
    and s: "s \<in> {SubTaskStatus.COMPLETED, SubTaskStatus.FAILED}"
  shows "deps_ok (adv_graph (plan_advance g i s))"
proof -
  let ?g = "adv_graph (plan_advance g i s)"
  let ?D = "set (dispatched (plan_advance g i s))"
  let ?F = "\<lambda>m. run_if ?D (set_status_if i s m)"
  have ne: "sn_status n \<noteq> s" "s \<noteq> SubTaskStatus.RUNNING" using run s by auto
  note nodes = adv_nodes [OF n ne(1)]
  have grow: "completed_node_ids g \<subseteq> completed_node_ids ?g"
    by (rule completed_grows [OF d n run ne(2)])
  have open_cases: "sn_status m \<noteq> SubTaskStatus.PENDING \<or> sn_node_id m \<in> ?D"
    if "m \<in> set (all_tasks g)" "sn_status (?F m) \<noteq> SubTaskStatus.PENDING" for m
    using that running_not_completed [OF d n run that(1)] by (auto split: if_splits)
  note synth_notin = synth_id_fresh [OF d]
  have "node_unblocked (?F m) (completed_node_ids ?g)"
    if m: "m \<in> set (tg_nodes g)" and np: "sn_status (?F m) \<noteq> SubTaskStatus.PENDING" for m
  proof -
    consider "sn_status m \<noteq> SubTaskStatus.PENDING" | "sn_node_id m \<in> ?D"
      using open_cases m np by auto
    then have "node_unblocked m (completed_node_ids ?g)"
    proof cases
      case 1
      then show ?thesis using ok m grow by (auto simp: deps_ok_def node_unblocked_def)
    next
      case 2
      from dispatched_justified [OF d 2] m synth_notin obtain k where
        k: "k \<in> set (tg_nodes g)" "sn_node_id k = sn_node_id m" "node_unblocked k (completed_node_ids ?g)"
        by metis
      with unique_task [OF d, of k m] m show ?thesis by simp
    qed
    then show ?thesis by (simp add: node_unblocked_def)
  qed
  moreover have "all_nodes_completed ?g"
    if t: "tg_synthesizer_node g = Some t" and np: "sn_status (?F t) \<noteq> SubTaskStatus.PENDING" for t
  proof -
    consider "sn_status t \<noteq> SubTaskStatus.PENDING" | "sn_node_id t \<in> ?D"
      using open_cases [of t] t np by (auto simp: synth_list_def)
    then show ?thesis
    proof cases
      case 1
      then have "all_nodes_completed g" using ok t by (auto simp: deps_ok_def)
      then show ?thesis
        using settled_kept [OF d n run ne(2)] by (auto simp: all_nodes_completed_def list_all_iff nodes)
    next
      case 2
      from dispatched_justified [OF d 2] synth_notin [OF t] show ?thesis by blast
    qed
  qed
  ultimately show ?thesis by (auto simp: deps_ok_def nodes)
qed

lemma deps_ok_claim:
  assumes "deps_ok g" and d: "distinct (task_ids g)"
  shows "deps_ok (fst (claim_ready g))"
proof -
  let ?r = "ready_nodes g (completed_node_ids g)"
  have dn: "distinct (node_ids g)" using d by simp
  have cm: "completed_node_ids (mark_running ?r g) = completed_node_ids g"
    by (rule completed_mark_ready [OF dn])
  have "node_unblocked m (completed_node_ids g)"
    if "m \<in> set (tg_nodes g)" "sn_node_id m \<in> sn_node_id ` set ?r" for m
  proof -
    from that(2) obtain k where k: "k \<in> set ?r" "sn_node_id k = sn_node_id m" by auto
    then have "k = m" using that(1) ready_nodes_subset dn by (metis distinct_map inj_onD subsetD)
    with k show ?thesis by (simp add: ready_nodes_def)
  qed
  moreover have "all_nodes_completed (mark_running ?r g)" if "all_nodes_completed g"
  proof -
    have "?r = []" using that by (auto simp: all_nodes_completed_def list_all_iff ready_nodes_def filter_empty_conv)
    with that show ?thesis by (simp add: mark_running_def)
  qed
  moreover have "sn_node_id t \<notin> sn_node_id ` set ?r" if "tg_synthesizer_node g = Some t" for t
    using d that ready_nodes_subset [of g "completed_node_ids g"] by (auto simp: synth_list_def)
  ultimately show ?thesis
    using assms(1) unfolding deps_ok_def claim_ready_def Let_def fst_conv cm
    by (auto simp: mark_running_nodes node_unblocked_def split: if_splits)
qed

lemma task_ids_claim: "task_ids (fst (claim_ready g)) = task_ids g"
  by (simp add: claim_ready_def Let_def mark_running_nodes)

lemma gstep_invariant:
  assumes "gstep g h" and "distinct (task_ids g) \<and> deps_ok g"
  shows "distinct (task_ids h) \<and> deps_ok h"
  using assms
proof (cases rule: gstep.cases)
  case claim
  then show ?thesis using assms(2) deps_ok_claim task_ids_claim by metis
next
  case (settle i n s)
  then show ?thesis using assms(2) deps_ok_settle task_ids_advance by metis
next
  case (redeliver i n s)
  then have "h = g" using advance_noop(1) [of g i s] by auto
  then show ?thesis using assms(2) by simp
qed

lemma gsteps_invariant:
  assumes "gstep\<^sup>*\<^sup>* g h" and "distinct (task_ids g) \<and> deps_ok g"
  shows "distinct (task_ids h) \<and> deps_ok h"
  using assms by (induction rule: rtranclp_induct) (use gstep_invariant in blast)+


section \<open>Progress\<close>

text \<open>
  Dependencies that decrease a rank exclude cycles and dangling references. Under completion
  reports alone, such a graph has a node in flight until everything is complete.
\<close>

definition ranked :: "(string \<Rightarrow> nat) \<Rightarrow> TaskGraph \<Rightarrow> bool" where
  "ranked r g \<longleftrightarrow>
     list_all (\<lambda>n. list_all (\<lambda>d. d \<in> set (node_ids g) \<and> r d < r (sn_node_id n)) (sn_depends_on n))
       (tg_nodes g)"

definition done_ids :: "TaskGraph \<Rightarrow> string set" where
  "done_ids g = sn_node_id ` {n \<in> set (all_tasks g). sn_status n = SubTaskStatus.COMPLETED}"

definition live :: "(string \<Rightarrow> nat) \<Rightarrow> TaskGraph \<Rightarrow> bool" where
  "live r g \<longleftrightarrow>
     distinct (task_ids g) \<and> tg_nodes g \<noteq> [] \<and> ranked r g \<and>
     (\<forall>n \<in> set (all_tasks g). sn_status n \<noteq> SubTaskStatus.FAILED) \<and>
     ready_nodes g (completed_node_ids g) = [] \<and>
     (\<forall>t. tg_synthesizer_node g = Some t \<longrightarrow>
        (sn_status t = SubTaskStatus.PENDING \<longleftrightarrow> \<not> all_nodes_completed g))"

definition running_ids :: "TaskGraph \<Rightarrow> string list" where
  "running_ids g = map sn_node_id (filter (\<lambda>n. sn_status n = SubTaskStatus.RUNNING) (all_tasks g))"

lemma done_ids_subset: "done_ids g \<subseteq> set (task_ids g)"
  by (auto simp: done_ids_def)

lemma done_ids_all_iff:
  assumes "distinct (task_ids g)"
  shows "done_ids g = set (task_ids g) \<longleftrightarrow>
           (\<forall>n \<in> set (all_tasks g). sn_status n = SubTaskStatus.COMPLETED)"
proof
  assume eq: "done_ids g = set (task_ids g)"
  show "\<forall>n \<in> set (all_tasks g). sn_status n = SubTaskStatus.COMPLETED"
  proof
    fix n assume n: "n \<in> set (all_tasks g)"
    then have "sn_node_id n \<in> done_ids g" unfolding eq by auto
    then obtain m where "m \<in> set (all_tasks g)" "sn_status m = SubTaskStatus.COMPLETED"
      "sn_node_id n = sn_node_id m" unfolding done_ids_def by blast
    with unique_task [OF assms n] show "sn_status n = SubTaskStatus.COMPLETED" by simp
  qed
qed (auto simp: done_ids_def)

lemma running_exists:
  assumes "live r g" and open_task: "\<not> (\<forall>n \<in> set (all_tasks g). sn_status n = SubTaskStatus.COMPLETED)"
  shows "running_ids g \<noteq> []"
proof (cases "all_nodes_completed g")
  case True
  then have "\<forall>n \<in> set (tg_nodes g). sn_status n = SubTaskStatus.COMPLETED"
    by (simp add: all_nodes_completed_def list_all_iff)
  with open_task obtain t where t: "tg_synthesizer_node g = Some t" "sn_status t \<noteq> SubTaskStatus.COMPLETED"
    by (cases "tg_synthesizer_node g") (auto simp: synth_list_def)
  with True assms(1) have "sn_status t = SubTaskStatus.RUNNING"
    by (cases "sn_status t") (auto simp: live_def synth_list_def)
  with t show ?thesis by (auto simp: running_ids_def filter_empty_conv synth_list_def)
next
  case False
  let ?open = "\<lambda>n. n \<in> set (tg_nodes g) \<and> sn_status n \<noteq> SubTaskStatus.COMPLETED"
  have "\<exists>n. ?open n"
    using False assms(1) by (auto simp: all_nodes_completed_def live_def list_all_iff)
  then obtain n where n: "?open n" and least: "\<And>m. ?open m \<Longrightarrow> r (sn_node_id n) \<le> r (sn_node_id m)"
    using ex_has_least_nat [of ?open _ "\<lambda>n. r (sn_node_id n)"] by blast
  have "d \<in> completed_node_ids g" if d: "d \<in> set (sn_depends_on n)" for d
  proof -
    have "d \<in> set (node_ids g)" "r d < r (sn_node_id n)"
      using assms(1) n d by (auto simp: live_def ranked_def list_all_iff)
    then obtain m where "m \<in> set (tg_nodes g)" "sn_node_id m = d" by auto
    moreover from this have "sn_status m = SubTaskStatus.COMPLETED"
      using least [of m] \<open>r d < r (sn_node_id n)\<close> by auto
    ultimately show ?thesis by (auto simp: completed_node_ids_image)
  qed
  then have "node_unblocked n (completed_node_ids g)" by (auto simp: node_unblocked_def)
  moreover have "n \<notin> set (ready_nodes g (completed_node_ids g))"
    using assms(1) by (simp add: live_def)
  ultimately have "sn_status n = SubTaskStatus.RUNNING"
    using n assms(1) by (cases "sn_status n") (auto simp: ready_nodes_def live_def)
  with n show ?thesis by (auto simp: running_ids_def filter_empty_conv)
qed

lemma running_get_node:
  assumes "distinct (task_ids g)" and "i \<in> set (running_ids g)"
  obtains n where "get_node g i = Some n" "sn_status n = SubTaskStatus.RUNNING"
  using assms get_node_eqI [OF assms(1)] by (auto simp: running_ids_def)

lemma image_filter_map: "f ` {x \<in> set (map h xs). P x} = (\<lambda>x. f (h x)) ` {x \<in> set xs. P (h x)}"
  by auto

lemma done_ids_advance:
  assumes d: "distinct (task_ids g)" and n: "get_node g i = Some n" "sn_status n = SubTaskStatus.RUNNING"
  shows "done_ids (adv_graph (plan_advance g i SubTaskStatus.COMPLETED)) = insert i (done_ids g)"
    and "i \<notin> done_ids g"
proof -
  let ?D = "set (dispatched (plan_advance g i SubTaskStatus.COMPLETED))"
  have ne: "sn_status n \<noteq> SubTaskStatus.COMPLETED" using n by simp
  have i: "n \<in> set (all_tasks g)" "sn_node_id n = i" using get_node_task [OF n(1)] by auto
  have iD: "i \<notin> ?D" using dispatched_pending by blast
  have comp: "sn_status (run_if ?D (set_status_if i SubTaskStatus.COMPLETED m)) = SubTaskStatus.COMPLETED
      \<longleftrightarrow> sn_node_id m = i \<or> sn_status m = SubTaskStatus.COMPLETED" if "m \<in> set (all_tasks g)" for m
    using not_dispatched [OF d that, of i SubTaskStatus.COMPLETED] iD by auto
  have "done_ids (adv_graph (plan_advance g i SubTaskStatus.COMPLETED)) =
      sn_node_id ` {m \<in> set (all_tasks g). sn_node_id m = i \<or> sn_status m = SubTaskStatus.COMPLETED}"
    unfolding done_ids_def adv_tasks [OF n(1) ne] image_filter_map
    by (intro image_cong Collect_cong conj_cong) (simp_all only: comp run_if_simps(1) set_status_if_simps(1))
  also have "\<dots> = insert i (done_ids g)"
    using i by (auto simp: done_ids_def)
  finally show "done_ids (adv_graph (plan_advance g i SubTaskStatus.COMPLETED)) = insert i (done_ids g)" .
  show "i \<notin> done_ids g"
  proof
    assume "i \<in> done_ids g"
    then obtain m where "m \<in> set (all_tasks g)" "sn_status m = SubTaskStatus.COMPLETED" "sn_node_id m = i"
      unfolding done_ids_def by blast
    with running_not_completed [OF d n, of m] show False by simp
  qed
qed


text \<open>The outcome flags of a completion report of a running node in a live graph.\<close>

lemma completed_with_node_status:
  "completed_node_ids (with_node_status g i SubTaskStatus.COMPLETED) \<subseteq> insert i (completed_node_ids g)"
  by (auto simp: completed_node_ids_image split: if_splits)

lemma ranked_advance: "ranked r (adv_graph (plan_advance g i s)) = ranked r g"
proof (cases "\<exists>n. get_node g i = Some n \<and> sn_status n \<noteq> s")
  case True
  then obtain n where "get_node g i = Some n" "sn_status n \<noteq> s" by blast
  from adv_nodes(1) [OF this] show ?thesis by (simp add: ranked_def list_all_iff)
qed (simp add: advance_noop)

lemma ready_nodes_cong:
  "tg_nodes g = tg_nodes h \<Longrightarrow>
   ready_nodes g (completed_node_ids g) = ready_nodes h (completed_node_ids h)"
  by (simp add: ready_nodes_def completed_node_ids_def)

lemma ready_after_advance:
  assumes "get_node g i = Some n" and "sn_status n \<noteq> SubTaskStatus.COMPLETED"
    and "distinct (task_ids g)"
    and old: "ready_nodes g (completed_node_ids g) = []"
  shows "ready_nodes (adv_graph (plan_advance g i SubTaskStatus.COMPLETED))
           (completed_node_ids (adv_graph (plan_advance g i SubTaskStatus.COMPLETED))) = []"
proof -
  let ?h = "with_node_status g i SubTaskStatus.COMPLETED"
  have same: "ready_nodes ?h (completed_node_ids ?h) = []" if "is_synthesizer g i"
  proof -
    obtain t where t: "tg_synthesizer_node g = Some t" "sn_node_id t = i"
      using \<open>is_synthesizer g i\<close> by (auto simp: is_synthesizer_def split: option.splits)
    then have "map (set_status_if i SubTaskStatus.COMPLETED) (tg_nodes g) = tg_nodes g"
      using synth_id_fresh [OF assms(3) t(1)] by (intro map_idI) (auto simp: set_status_if_def)
    then show ?thesis using old by (simp add: ready_nodes_def completed_node_ids_def)
  qed
  show ?thesis
  proof (cases rule: plan_advance_cases [of g i SubTaskStatus.COMPLETED])
    case (ready n)
    then show ?thesis by (simp add: no_ready_after_mark_running)
  next
    case (dispatch n t)
    have "\<forall>m \<in> set (tg_nodes ?h). sn_node_id m \<noteq> sn_node_id t"
      using synth_id_fresh [OF assms(3) dispatch(7)] by auto
    then have "map (set_status_if (sn_node_id t) SubTaskStatus.RUNNING) (tg_nodes ?h) = tg_nodes ?h"
      by (intro map_idI) (auto simp: set_status_if_def)
    then have "tg_nodes (with_node_status ?h (sn_node_id t) SubTaskStatus.RUNNING) = tg_nodes ?h"
      by (simp only: with_node_status_simps(1) [of ?h])
    from ready_nodes_cong [OF this] show ?thesis
      using dispatch(5) unfolding dispatch(9) by simp
  qed (use assms same in simp_all)
qed

lemma running_node_blocks:
  assumes "n \<in> set (tg_nodes g)" and "sn_status n \<noteq> SubTaskStatus.COMPLETED"
  shows "\<not> all_nodes_completed g"
  using assms by (auto simp: all_nodes_completed_def list_all_iff)

text \<open>The synthesizer leaves \<open>PENDING\<close> exactly when the last node completes.\<close>

lemma synth_gate_advance:
  assumes d: "distinct (task_ids g)" and n: "get_node g i = Some n" "sn_status n = SubTaskStatus.RUNNING"
    and t: "tg_synthesizer_node g = Some t"
    and gate: "sn_status t = SubTaskStatus.PENDING \<longleftrightarrow> \<not> all_nodes_completed g"
  defines "adv \<equiv> plan_advance g i SubTaskStatus.COMPLETED"
  shows "sn_status (run_if (set (dispatched adv)) (set_status_if i SubTaskStatus.COMPLETED t)) =
           SubTaskStatus.PENDING \<longleftrightarrow> \<not> all_nodes_completed (adv_graph adv)"
proof (cases "is_synthesizer g i")
  case True
  then have "sn_node_id t = i" using t by (simp add: is_synthesizer_def)
  moreover have "t = n"
    using unique_task [OF d, of t n] get_node_task [OF n(1)] t \<open>sn_node_id t = i\<close> by (simp add: synth_list_def)
  moreover have "map (set_status_if i SubTaskStatus.COMPLETED) (tg_nodes g) = tg_nodes g"
    using synth_id_fresh [OF d t] \<open>sn_node_id t = i\<close> by (intro map_idI) (auto simp: set_status_if_def)
  ultimately show ?thesis
    using gate n True unfolding adv_def plan_advance_def
    by (simp add: all_nodes_completed_def is_synthesizer_def t)
next
  case False
  then have ti: "sn_node_id t \<noteq> i" using t by (simp add: is_synthesizer_def)
  have node: "n \<in> set (tg_nodes g)" "sn_node_id n = i"
    using get_node_SomeD [OF n(1)] t ti by auto
  have pend: "sn_status t = SubTaskStatus.PENDING"
    using gate running_node_blocks [OF node(1)] n(2) by simp
  show ?thesis
  proof (cases rule: plan_advance_cases [of g i SubTaskStatus.COMPLETED])
    case (ready n')
    let ?h = "with_node_status g i SubTaskStatus.COMPLETED"
    let ?r = "ready_nodes ?h (completed_node_ids ?h)"
    obtain m where m: "m \<in> set ?r" using ready(5) by (cases ?r) auto
    then have "m \<in> set (tg_nodes ?h)" using ready_nodes_subset by blast
    then have "run_if (sn_node_id ` set ?r) m \<in> set (tg_nodes (adv_graph adv))"
      unfolding adv_def ready(6) by (auto simp: mark_running_nodes simp del: with_node_status_simps)
    then have "\<not> all_nodes_completed (adv_graph adv)"
      by (rule running_node_blocks) (use m in simp)
    moreover have "sn_node_id t \<notin> sn_node_id ` set ?r"
      using synth_id_fresh [OF d t] ready_nodes_subset [of ?h "completed_node_ids ?h"] by force
    ultimately show ?thesis using pend ti unfolding adv_def ready(6) by simp
  next
    case (dispatch n' t')
    then have "t' = t" using t by simp
    have "sn_node_id t \<in> set (dispatched adv)" using dispatch \<open>t' = t\<close> by (simp add: adv_def)
    from dispatched_justified [OF d this [unfolded adv_def]] synth_id_fresh [OF d t] this
    show ?thesis by (auto simp: adv_def)
  qed (use n t pend ti False in \<open>simp_all add: adv_def\<close>)
qed

lemma live_advance:
  assumes live: "live r g" and i: "i \<in> set (running_ids g)"
  shows "live r (adv_graph (plan_advance g i SubTaskStatus.COMPLETED))"
proof -
  let ?C = SubTaskStatus.COMPLETED
  let ?g = "adv_graph (plan_advance g i ?C)"
  have d: "distinct (task_ids g)" using live by (simp add: live_def)
  from running_get_node [OF d i] obtain n
    where n: "get_node g i = Some n" "sn_status n = SubTaskStatus.RUNNING" .
  have ne: "sn_status n \<noteq> ?C" using n by simp
  have "distinct (task_ids ?g)" using d by (simp only: task_ids_advance)
  moreover have "tg_nodes ?g \<noteq> []" using live by (simp add: adv_nodes(1) [OF n(1) ne] live_def)
  moreover have "ranked r ?g" using live by (simp add: ranked_advance live_def)
  moreover have "\<forall>m \<in> set (all_tasks ?g). sn_status m \<noteq> SubTaskStatus.FAILED"
    using live unfolding adv_tasks [OF n(1) ne] live_def by (auto split: if_splits)
  moreover have "ready_nodes ?g (completed_node_ids ?g) = []"
    using live by (intro ready_after_advance [OF n(1) ne d]) (simp add: live_def)
  moreover have "sn_status t = SubTaskStatus.PENDING \<longleftrightarrow> \<not> all_nodes_completed ?g"
    if "tg_synthesizer_node ?g = Some t" for t
    using that live synth_gate_advance [OF d n] by (auto simp: adv_nodes(2) [OF n(1) ne] live_def)
  ultimately show ?thesis by (simp add: live_def)
qed

lemma advance_flags:
  assumes live: "live r g" and i: "i \<in> set (running_ids g)"
  defines "adv \<equiv> plan_advance g i SubTaskStatus.COMPLETED"
  shows "\<not> adv_blocked adv \<and> \<not> adv_run_failed adv \<and> \<not> adv_already_processed adv \<and>
    (adv_run_completed adv \<longleftrightarrow>
       (\<forall>n \<in> set (all_tasks (adv_graph adv)). sn_status n = SubTaskStatus.COMPLETED))"
proof -
  let ?h = "with_node_status g i SubTaskStatus.COMPLETED"
  have d: "distinct (task_ids g)" using live by (simp add: live_def)
  from running_get_node [OF d i] obtain n
    where n: "get_node g i = Some n" "sn_status n = SubTaskStatus.RUNNING" .
  have live': "live r (adv_graph adv)" unfolding adv_def by (rule live_advance [OF live i])
  have not_all: "\<not> (\<forall>n \<in> set (all_tasks (adv_graph adv)). sn_status n = SubTaskStatus.COMPLETED)"
    if "\<not> all_nodes_completed (adv_graph adv)"
    using that live' by (auto simp: all_nodes_completed_def list_all_iff live_def)
  have running: "list_ex (\<lambda>n. sn_status n = SubTaskStatus.RUNNING) (tg_nodes (adv_graph adv))"
    if "\<not> all_nodes_completed (adv_graph adv)"
    using running_exists [OF live' not_all [OF that]] that live'
    by (auto simp: running_ids_def filter_empty_conv list_ex_iff live_def synth_list_def split: option.splits)
  show ?thesis
  proof (cases rule: plan_advance_cases [of g i SubTaskStatus.COMPLETED])
    case (synth n')
    then have g': "adv_graph adv = ?h" by (simp add: adv_def)
    obtain t where t: "tg_synthesizer_node g = Some t" "sn_node_id t = i"
      using synth(4) by (auto simp: is_synthesizer_def split: option.splits)
    then have t': "tg_synthesizer_node (adv_graph adv) = Some (t\<lparr>sn_status := SubTaskStatus.COMPLETED\<rparr>)"
      by (simp add: g' set_status_if_def)
    with live' have "all_nodes_completed (adv_graph adv)" by (auto simp: live_def)
    then have "\<forall>n \<in> set (tg_nodes (adv_graph adv)). sn_status n = SubTaskStatus.COMPLETED"
      unfolding all_nodes_completed_def list_all_iff by (rule conjunct2)
    moreover have "synth_list (adv_graph adv) = [t\<lparr>sn_status := SubTaskStatus.COMPLETED\<rparr>]"
      by (simp only: synth_list_def t' option.case)
    ultimately have "\<forall>n \<in> set (all_tasks (adv_graph adv)). sn_status n = SubTaskStatus.COMPLETED"
      by auto
    then show ?thesis using synth by (simp add: adv_def)
  next
    case (ready n')
    let ?r = "ready_nodes ?h (completed_node_ids ?h)"
    obtain m where m: "m \<in> set ?r" using ready(5) by (cases ?r) auto
    have "m \<in> set (tg_nodes ?h)" using m ready_nodes_subset by blast
    then have "run_if (sn_node_id ` set ?r) m \<in> set (tg_nodes (adv_graph adv))"
      unfolding adv_def ready(6) by (auto simp: mark_running_nodes simp del: with_node_status_simps)
    then have "\<not> all_nodes_completed (adv_graph adv)"
      by (rule running_node_blocks) (use m in simp)
    from not_all [OF this] show ?thesis using ready by (simp add: adv_def)
  next
    case (dispatch n' t)
    then have mem: "t\<lparr>sn_status := SubTaskStatus.RUNNING\<rparr> \<in> set (all_tasks (adv_graph adv))"
      by (auto simp: adv_def synth_list_def set_status_if_def is_synthesizer_def)
    have "\<not> (\<forall>n \<in> set (all_tasks (adv_graph adv)). sn_status n = SubTaskStatus.COMPLETED)"
    proof
      assume "\<forall>n \<in> set (all_tasks (adv_graph adv)). sn_status n = SubTaskStatus.COMPLETED"
      from bspec [OF this mem] show False by simp
    qed
    then show ?thesis using dispatch by (simp add: adv_def)
  next
    case (synth_open n' t)
    then have "t \<in> set (all_tasks (adv_graph adv))"
      by (auto simp: adv_def synth_list_def set_status_if_def is_synthesizer_def)
    then show ?thesis using synth_open by (auto simp: adv_def)
  next
    case (run_completed n')
    then have g': "adv_graph adv = ?h" by (simp add: adv_def)
    then have "\<forall>n \<in> set (all_tasks (adv_graph adv)). sn_status n = SubTaskStatus.COMPLETED"
      using run_completed(6,7) by (auto simp: all_nodes_completed_def list_all_iff synth_list_def split: option.splits)
    then show ?thesis using run_completed by (simp add: adv_def)
  next
    case (waiting n')
    then show ?thesis using not_all by (simp add: adv_def)
  next
    case (blocked n')
    then show ?thesis using running by (simp add: adv_def)
  qed (use n in simp_all)
qed


text \<open>
  Completing nodes one after another, in whatever order a scheduler picks them among those in
  flight; the run-completed flags in order.
\<close>

fun drive :: "(TaskGraph \<Rightarrow> string) \<Rightarrow> nat \<Rightarrow> TaskGraph \<Rightarrow> bool list \<times> TaskGraph" where
  "drive pick 0 g = ([], g)"
| "drive pick (Suc k) g =
     (let adv = plan_advance g (pick g) SubTaskStatus.COMPLETED;
          (flags, g') = drive pick k (adv_graph adv)
      in (adv_run_completed adv # flags, g'))"

lemma drive_live:
  assumes pick: "\<And>h. running_ids h \<noteq> [] \<Longrightarrow> pick h \<in> set (running_ids h)"
    and "live r g" and "card (done_ids g) + k = length (all_tasks g)"
  shows "fst (drive pick k g) = (if k = 0 then [] else replicate (k - 1) False @ [True]) \<and>
         (\<forall>n \<in> set (all_tasks (snd (drive pick k g))). sn_status n = SubTaskStatus.COMPLETED)"
  using assms(2,3)
proof (induction k arbitrary: g)
  case 0
  then have d: "distinct (task_ids g)" by (simp add: live_def)
  have "card (set (task_ids g)) = length (all_tasks g)"
    using distinct_card [OF d] by simp
  then have "done_ids g = set (task_ids g)"
    using 0 by (intro card_subset_eq done_ids_subset) auto
  then show ?case using done_ids_all_iff [OF d] by simp
next
  case (Suc k)
  from Suc.prems(1) have d: "distinct (task_ids g)" by (simp add: live_def)
  let ?adv = "plan_advance g (pick g) SubTaskStatus.COMPLETED"
  have "done_ids g \<noteq> set (task_ids g)"
    using Suc.prems(2) distinct_card [OF d] by auto
  then have run: "pick g \<in> set (running_ids g)"
    using done_ids_all_iff [OF d] by (intro pick running_exists [OF Suc.prems(1)]) simp
  from running_get_node [OF d run] obtain n
    where n: "get_node g (pick g) = Some n" "sn_status n = SubTaskStatus.RUNNING" .
  have fin: "finite (done_ids g)" by (simp add: done_ids_def)
  have card: "card (done_ids (adv_graph ?adv)) + k = length (all_tasks (adv_graph ?adv))"
    using Suc.prems(2) done_ids_advance [OF d n] fin arg_cong [OF task_ids_advance, of length g "pick g" SubTaskStatus.COMPLETED]
    by simp
  have live': "live r (adv_graph ?adv)" by (rule live_advance [OF Suc.prems(1) run])
  note IH = Suc.IH [OF live' card]
  have d': "distinct (task_ids (adv_graph ?adv))" using d by (simp only: task_ids_advance)
  have "adv_run_completed ?adv \<longleftrightarrow> done_ids (adv_graph ?adv) = set (task_ids (adv_graph ?adv))"
    using advance_flags [OF Suc.prems(1) run] done_ids_all_iff [OF d'] by simp
  also have "\<dots> \<longleftrightarrow> k = 0"
    using card distinct_card [OF d'] card_subset_eq [OF _ done_ids_subset [of "adv_graph ?adv"]]
    by (metis List.finite_set add_cancel_right_right length_map)
  finally show ?case
    using IH by (cases k) (auto simp: Let_def split: prod.splits)
qed

text \<open>The graph a run starts from: nothing has started, and the first claim makes it live.\<close>

definition fresh :: "TaskGraph \<Rightarrow> bool" where
  "fresh g \<longleftrightarrow> list_all (\<lambda>n. sn_status n = SubTaskStatus.PENDING) (all_tasks g)"

lemma fresh_deps_ok: "fresh g \<Longrightarrow> deps_ok g"
  by (auto simp: fresh_def deps_ok_def list_all_iff synth_list_def)

lemma live_claim:
  assumes "fresh g" and d: "distinct (task_ids g)" and "tg_nodes g \<noteq> []" and "ranked r g"
  shows "live r (fst (claim_ready g))" and "done_ids (fst (claim_ready g)) = {}"
proof -
  let ?r = "ready_nodes g (completed_node_ids g)"
  let ?g = "mark_running ?r g"
  have st: "\<forall>n \<in> set (all_tasks ?g). sn_status n \<in> {SubTaskStatus.PENDING, SubTaskStatus.RUNNING}"
    using assms(1) by (auto simp: fresh_def list_all_iff mark_running_nodes)
  have na: "\<not> all_nodes_completed ?g"
    using st assms(3) by (auto simp: all_nodes_completed_def list_all_iff mark_running_nodes neq_Nil_conv)
  have "sn_status t = SubTaskStatus.PENDING" if "tg_synthesizer_node ?g = Some t" for t
  proof -
    from that obtain t0 where t0: "tg_synthesizer_node g = Some t0" "t = run_if (sn_node_id ` set ?r) t0"
      by (auto simp: mark_running_nodes)
    have "sn_node_id t0 \<notin> sn_node_id ` set ?r"
      using synth_id_fresh [OF d t0(1)] ready_nodes_subset [of g "completed_node_ids g"] by force
    with t0 assms(1) show ?thesis by (auto simp: fresh_def list_all_iff synth_list_def)
  qed
  moreover have "ranked r ?g" using assms(4) by (simp add: ranked_def mark_running_nodes list_all_iff)
  moreover have "distinct (task_ids ?g)" using d task_ids_claim [of g] by (simp only: claim_ready_def Let_def fst_conv)
  moreover have "\<forall>n \<in> set (all_tasks ?g). sn_status n \<noteq> SubTaskStatus.FAILED"
    using st by (metis SubTaskStatus.distinct(5,9) insertE singletonD)
  moreover have "tg_nodes ?g \<noteq> []" using assms(3) by (simp add: mark_running_nodes)
  ultimately show "live r (fst (claim_ready g))"
    using na no_ready_after_mark_running unfolding live_def claim_ready_def Let_def fst_conv by blast
  show "done_ids (fst (claim_ready g)) = {}"
    using st unfolding done_ids_def claim_ready_def Let_def fst_conv by force
qed



section \<open>The first claim and all later reports\<close>

lemma claimed_ids: "map sn_node_id (snd (claim_ready g)) = map sn_node_id (ready_nodes g (completed_node_ids g))"
  by (simp add: claim_ready_def Let_def claimed_nodes(1) [OF ready_nodes_subset])

lemma pending_after_claim:
  "pending_ids (fst (claim_ready g)) \<inter> set (map sn_node_id (snd (claim_ready g))) = {}"
  unfolding claimed_ids
  by (auto simp: claim_ready_def Let_def pending_ids_def mark_running_nodes split: if_splits)

lemma claim_and_reports_once:
  assumes "distinct (task_ids g)" and "\<forall>(i, s) \<in> set reports. s \<noteq> SubTaskStatus.PENDING"
  shows "distinct (map sn_node_id (snd (claim_ready g)) @ snd (advance_all (fst (claim_ready g)) reports))"
    and "set (map sn_node_id (snd (claim_ready g)) @ snd (advance_all (fst (claim_ready g)) reports))
           \<subseteq> set (task_ids g)"
proof -
  have d: "distinct (task_ids (fst (claim_ready g)))" by (simp only: task_ids_claim assms(1))
  note once = advance_all_dispatches_once [OF d assms(2)]
  show "distinct (map sn_node_id (snd (claim_ready g)) @ snd (advance_all (fst (claim_ready g)) reports))"
    using once pending_after_claim [of g] distinct_ready_ids [of g "completed_node_ids g"] assms(1)
    by (auto simp: claimed_ids simp del: set_map)
  have "pending_ids (fst (claim_ready g)) \<subseteq> set (task_ids g)"
    unfolding task_ids_claim [symmetric, of g] by (auto simp: pending_ids_def)
  then show "set (map sn_node_id (snd (claim_ready g)) @ snd (advance_all (fst (claim_ready g)) reports))
      \<subseteq> set (task_ids g)"
    using once ready_nodes_subset [of g "completed_node_ids g"]
    by (auto simp: claimed_ids simp del: set_map) (auto simp: image_iff)
qed

end
