(* ===== verification/State_Store.thy ===== *)
theory State_Store
  imports Memory_Queue Graph_Runs
begin

text \<open>
  \<open>infrastructure/state\<close>: the state-store interface as a locale, with the contract the runtime
  relies on (reads return the last write to the same key, writes to other keys and of other kinds
  do not interfere, consumed idempotency keys stay consumed), and \<open>MemoryStateStore\<close>, which
  implements it. The clock readings of \<open>mark_action_completed\<close> are arguments.
\<close>

record memory_store =
  ms_plans :: "(string \<times> string, AgentPlan) dict"
  ms_task_graphs :: "(string \<times> string, TaskGraph) dict"
  ms_sub_agent_results :: "(string \<times> string, (string, SubAgentResult) dict) dict"
  ms_context_snapshots :: "(string \<times> string, ContextSnapshot) dict"
  ms_action_results :: "(string \<times> string, ToolResult) dict"
  ms_traces :: "TraceEvent list"
  ms_idempotency_keys :: "string set"

definition empty_store :: memory_store where
  "empty_store = \<lparr>ms_plans = [], ms_task_graphs = [], ms_sub_agent_results = [],
     ms_context_snapshots = [], ms_action_results = [], ms_traces = [], ms_idempotency_keys = {}\<rparr>"

definition save_plan :: "AgentPlan \<Rightarrow> memory_store \<Rightarrow> memory_store" where
  "save_plan plan s = s\<lparr>ms_plans := dset (ap_workspace_id plan, ap_plan_id plan) plan (ms_plans s)\<rparr>"

definition get_plan :: "string \<Rightarrow> string \<Rightarrow> memory_store \<Rightarrow> AgentPlan option" where
  "get_plan workspace_id plan_id s = dget (ms_plans s) (workspace_id, plan_id)"

definition save_task_graph :: "TaskGraph \<Rightarrow> memory_store \<Rightarrow> memory_store" where
  "save_task_graph graph s =
     s\<lparr>ms_task_graphs := dset (tg_workspace_id graph, tg_plan_id graph) graph (ms_task_graphs s)\<rparr>"

definition get_task_graph :: "string \<Rightarrow> string \<Rightarrow> memory_store \<Rightarrow> TaskGraph option" where
  "get_task_graph workspace_id plan_id s = dget (ms_task_graphs s) (workspace_id, plan_id)"

definition save_sub_agent_result ::
  "string \<Rightarrow> string \<Rightarrow> SubAgentResult \<Rightarrow> memory_store \<Rightarrow> memory_store" where
  "save_sub_agent_result workspace_id run_id result s =
     (let results = (case dget (ms_sub_agent_results s) (workspace_id, run_id) of
                       Some d \<Rightarrow> d | None \<Rightarrow> [])
      in s\<lparr>ms_sub_agent_results := dset (workspace_id, run_id)
             (dset (sr_node_id result) result results) (ms_sub_agent_results s)\<rparr>)"

definition get_sub_agent_results :: "string \<Rightarrow> string \<Rightarrow> memory_store \<Rightarrow> SubAgentResult list" where
  "get_sub_agent_results workspace_id run_id s =
     (case dget (ms_sub_agent_results s) (workspace_id, run_id) of
        Some d \<Rightarrow> map snd d | None \<Rightarrow> [])"

definition claim_ready_nodes ::
  "string \<Rightarrow> string \<Rightarrow> memory_store \<Rightarrow> SubTask list \<times> memory_store" where
  "claim_ready_nodes workspace_id run_id s =
     (case get_task_graph workspace_id run_id s of
        None \<Rightarrow> ([], s)
      | Some graph \<Rightarrow> (let (graph', claimed) = claim_ready graph
                       in (claimed, save_task_graph graph' s)))"

definition advance_task_graph ::
  "string \<Rightarrow> string \<Rightarrow> string \<Rightarrow> SubTaskStatus \<Rightarrow> memory_store
   \<Rightarrow> TaskGraphAdvance option \<times> memory_store" where
  "advance_task_graph workspace_id run_id node_id status s =
     (case get_task_graph workspace_id run_id s of
        None \<Rightarrow> (None, s)
      | Some graph \<Rightarrow> (let advance = plan_advance graph node_id status
                       in (Some advance, save_task_graph (adv_graph advance) s)))"

definition update_plan :: "AgentPlan \<Rightarrow> memory_store \<Rightarrow> memory_store" where
  "update_plan plan s = save_plan plan s"

definition save_context_snapshot :: "ContextSnapshot \<Rightarrow> memory_store \<Rightarrow> memory_store" where
  "save_context_snapshot snapshot s =
     s\<lparr>ms_context_snapshots :=
         dset (cs_workspace_id snapshot, cs_snapshot_id snapshot) snapshot (ms_context_snapshots s)\<rparr>"

definition get_context_snapshot ::
  "string \<Rightarrow> string \<Rightarrow> memory_store \<Rightarrow> ContextSnapshot option" where
  "get_context_snapshot workspace_id ref s = dget (ms_context_snapshots s) (workspace_id, ref)"

definition save_action_result :: "ToolResult \<Rightarrow> memory_store \<Rightarrow> memory_store" where
  "save_action_result result s =
     s\<lparr>ms_action_results := dset (tr_plan_id result, tr_action_id result) result (ms_action_results s)\<rparr>"

definition get_action_result :: "string \<Rightarrow> string \<Rightarrow> memory_store \<Rightarrow> ToolResult option" where
  "get_action_result plan_id action_id s = dget (ms_action_results s) (plan_id, action_id)"

definition append_trace_event :: "TraceEvent \<Rightarrow> memory_store \<Rightarrow> memory_store" where
  "append_trace_event trace_event s = s\<lparr>ms_traces := ms_traces s @ [trace_event]\<rparr>"

definition mark_action_completed ::
  "datetime \<Rightarrow> datetime \<Rightarrow> string \<Rightarrow> string \<Rightarrow> string \<Rightarrow> memory_store \<Rightarrow> memory_store" where
  "mark_action_completed now1 now2 workspace_id plan_id action_id s =
     (case get_plan workspace_id plan_id s of
        None \<Rightarrow> s
      | Some plan \<Rightarrow>
          (case get_action plan action_id of
             None \<Rightarrow> s
           | Some action \<Rightarrow>
               update_plan (replace_action now2 (with_status now1 ActionStatus.COMPLETED action) plan) s))"

definition check_idempotency_key :: "string \<Rightarrow> memory_store \<Rightarrow> bool" where
  "check_idempotency_key key s \<longleftrightarrow> key \<in> ms_idempotency_keys s"

definition record_idempotency_key :: "string \<Rightarrow> memory_store \<Rightarrow> memory_store" where
  "record_idempotency_key key s = s\<lparr>ms_idempotency_keys := insert key (ms_idempotency_keys s)\<rparr>"

lemmas store_defs =
  save_plan_def get_plan_def save_task_graph_def get_task_graph_def save_sub_agent_result_def
  get_sub_agent_results_def update_plan_def save_context_snapshot_def get_context_snapshot_def
  save_action_result_def get_action_result_def append_trace_event_def check_idempotency_key_def
  record_idempotency_key_def


text \<open>Reads after writes of another kind.\<close>

lemma store_frame [simp]:
  "get_plan w p (save_task_graph g s) = get_plan w p s"
  "get_plan w p (save_sub_agent_result a b r s) = get_plan w p s"
  "get_plan w p (save_context_snapshot c s) = get_plan w p s"
  "get_plan w p (save_action_result t s) = get_plan w p s"
  "get_plan w p (append_trace_event e s) = get_plan w p s"
  "get_plan w p (record_idempotency_key k s) = get_plan w p s"
  "get_task_graph w p (save_plan q s) = get_task_graph w p s"
  "get_task_graph w p (update_plan q s) = get_task_graph w p s"
  "get_task_graph w p (save_sub_agent_result a b r s) = get_task_graph w p s"
  "get_task_graph w p (save_context_snapshot c s) = get_task_graph w p s"
  "get_task_graph w p (save_action_result t s) = get_task_graph w p s"
  "get_task_graph w p (append_trace_event e s) = get_task_graph w p s"
  "get_task_graph w p (record_idempotency_key k s) = get_task_graph w p s"
  "check_idempotency_key k (save_plan q s) = check_idempotency_key k s"
  "check_idempotency_key k (update_plan q s) = check_idempotency_key k s"
  "check_idempotency_key k (save_task_graph g s) = check_idempotency_key k s"
  "check_idempotency_key k (save_sub_agent_result a b r s) = check_idempotency_key k s"
  "check_idempotency_key k (save_context_snapshot c s) = check_idempotency_key k s"
  "check_idempotency_key k (save_action_result t s) = check_idempotency_key k s"
  "check_idempotency_key k (append_trace_event e s) = check_idempotency_key k s"
  "get_context_snapshot w sr (save_plan q s) = get_context_snapshot w sr s"
  "get_context_snapshot w sr (update_plan q s) = get_context_snapshot w sr s"
  "get_context_snapshot w sr (save_task_graph g s) = get_context_snapshot w sr s"
  "get_context_snapshot w sr (save_action_result t s) = get_context_snapshot w sr s"
  "get_context_snapshot w sr (append_trace_event e s) = get_context_snapshot w sr s"
  "get_context_snapshot w sr (record_idempotency_key k s) = get_context_snapshot w sr s"
  by (simp_all add: store_defs Let_def)

lemma store_read_write [simp]:
  "get_plan w p (save_plan q s) =
     (if (w, p) = (ap_workspace_id q, ap_plan_id q) then Some q else get_plan w p s)"
  "get_plan w p (update_plan q s) =
     (if (w, p) = (ap_workspace_id q, ap_plan_id q) then Some q else get_plan w p s)"
  "get_task_graph w p (save_task_graph g s) =
     (if (w, p) = (tg_workspace_id g, tg_plan_id g) then Some g else get_task_graph w p s)"
  "check_idempotency_key k (record_idempotency_key k' s) \<longleftrightarrow> k = k' \<or> check_idempotency_key k s"
  by (simp_all add: store_defs)


section \<open>The store interface\<close>

text \<open>Keyed storage: the contract shared by plans, graphs, snapshots and action results.\<close>

locale keyed_store =
  fixes save :: "'v \<Rightarrow> 's \<Rightarrow> 's"
    and get :: "'k \<Rightarrow> 's \<Rightarrow> 'v option"
    and key_of :: "'v \<Rightarrow> 'k"
  assumes get_save: "get k (save v s) = (if k = key_of v then Some v else get k s)"
begin

lemma get_save_same: "get (key_of v) (save v s) = Some v"
  by (simp add: get_save)

lemma get_save_other: "k \<noteq> key_of v \<Longrightarrow> get k (save v s) = get k s"
  by (simp add: get_save)

text \<open>A read after a sequence of writes returns the last write to its key.\<close>

lemma get_fold_save:
  "get k (fold save vs s) =
     (case filter (\<lambda>v. key_of v = k) (rev vs) of v # _ \<Rightarrow> Some v | [] \<Rightarrow> get k s)"
  by (induction vs arbitrary: s) (auto simp: get_save filter_append split: list.splits)

end

locale state_store =
  plan: keyed_store save_plan "\<lambda>(w, p). get_plan w p" "\<lambda>p. (ap_workspace_id p, ap_plan_id p)" +
  graph: keyed_store save_graph "\<lambda>(w, p). get_graph w p" "\<lambda>g. (tg_workspace_id g, tg_plan_id g)" +
  result: keyed_store save_result "\<lambda>(p, a). get_result p a" "\<lambda>r. (tr_plan_id r, tr_action_id r)"
  for save_plan :: "AgentPlan \<Rightarrow> 's \<Rightarrow> 's" and get_plan :: "string \<Rightarrow> string \<Rightarrow> 's \<Rightarrow> AgentPlan option"
  and save_graph :: "TaskGraph \<Rightarrow> 's \<Rightarrow> 's" and get_graph :: "string \<Rightarrow> string \<Rightarrow> 's \<Rightarrow> TaskGraph option"
  and save_result :: "ToolResult \<Rightarrow> 's \<Rightarrow> 's" and get_result :: "string \<Rightarrow> string \<Rightarrow> 's \<Rightarrow> ToolResult option" +
  fixes claim :: "string \<Rightarrow> string \<Rightarrow> 's \<Rightarrow> SubTask list \<times> 's"
    and advance :: "string \<Rightarrow> string \<Rightarrow> string \<Rightarrow> SubTaskStatus \<Rightarrow> 's \<Rightarrow> TaskGraphAdvance option \<times> 's"
    and consumed :: "string \<Rightarrow> 's \<Rightarrow> bool"
    and consume :: "string \<Rightarrow> 's \<Rightarrow> 's"
    and keyed :: "'s \<Rightarrow> bool"
  assumes claim_some: "get_graph w r s = Some g \<Longrightarrow>
      claim w r s = (snd (claim_ready g), save_graph (fst (claim_ready g)) s)"
    and claim_none: "get_graph w r s = None \<Longrightarrow> claim w r s = ([], s)"
    and advance_some: "get_graph w r s = Some g \<Longrightarrow>
      advance w r i st s = (Some (plan_advance g i st), save_graph (adv_graph (plan_advance g i st)) s)"
    and advance_none: "get_graph w r s = None \<Longrightarrow> advance w r i st s = (None, s)"
    and consumed_consume: "consumed k (consume k' s) \<longleftrightarrow> k = k' \<or> consumed k s"
    and graph_key: "keyed s \<Longrightarrow> get_graph w r s = Some g \<Longrightarrow> tg_workspace_id g = w \<and> tg_plan_id g = r"
    and keyed_save_graph: "keyed s \<Longrightarrow> keyed (save_graph g s)"
begin

lemma plan_key_advance:
  "tg_workspace_id (adv_graph (plan_advance g i st)) = tg_workspace_id g"
  "tg_plan_id (adv_graph (plan_advance g i st)) = tg_plan_id g"
  by (cases rule: plan_advance_cases [of g i st]; simp)+

text \<open>Claiming twice hands out nothing the second time.\<close>

lemma claim_twice:
  assumes "keyed s"
  shows "fst (claim w r (snd (claim w r s))) = []"
proof (cases "get_graph w r s")
  case None
  then show ?thesis by (simp add: claim_none)
next
  case (Some g)
  then have key: "tg_workspace_id g = w \<and> tg_plan_id g = r" using assms graph_key by blast
  let ?g = "fst (claim_ready g)"
  have k: "tg_workspace_id ?g = w" "tg_plan_id ?g = r"
    using key by (simp_all add: claim_ready_def Let_def)
  have "get_graph w r (snd (claim w r s)) = Some ?g"
    using graph.get_save_same [of ?g s] k by (simp add: claim_some [OF Some])
  then show ?thesis
    by (simp add: claim_some) (simp add: claim_ready_def Let_def no_ready_after_mark_running map_filter_def)
qed

text \<open>Redelivering a completion report changes neither the store's graph nor dispatches anything.\<close>

lemma advance_twice:
  assumes "keyed s" and g: "get_graph w r s = Some g" and "get_node g i \<noteq> None"
  shows "\<exists>a. fst (advance w r i st (snd (advance w r i st s))) = Some a \<and> adv_already_processed a \<and>
            dispatched a = [] \<and>
            get_graph w r (snd (advance w r i st (snd (advance w r i st s)))) =
            get_graph w r (snd (advance w r i st s))"
proof -
  let ?h = "adv_graph (plan_advance g i st)"
  have k: "tg_workspace_id ?h = w" "tg_plan_id ?h = r"
    using graph_key [OF assms(1) g] by (simp_all add: plan_key_advance)
  have h: "get_graph w r (snd (advance w r i st s)) = Some ?h"
    using graph.get_save_same [of ?h s] k by (simp add: advance_some [OF g])
  have again: "plan_advance ?h i st = (advance_with ?h)\<lparr>adv_already_processed := True\<rparr>"
    by (rule plan_advance_again [OF assms(3)])
  have "get_graph w r (save_graph ?h t) = Some ?h" for t
    using graph.get_save_same [of ?h t] k by simp
  then show ?thesis
    unfolding advance_some [OF h] by (simp add: again h)
qed

end

text \<open>Every graph is stored under its own key.\<close>

definition graphs_keyed :: "memory_store \<Rightarrow> bool" where
  "graphs_keyed s \<longleftrightarrow>
     (\<forall>w r g. get_task_graph w r s = Some g \<longrightarrow> tg_workspace_id g = w \<and> tg_plan_id g = r)"

interpretation ms: state_store save_plan get_plan save_task_graph get_task_graph
  save_action_result get_action_result claim_ready_nodes advance_task_graph
  check_idempotency_key record_idempotency_key graphs_keyed
  by unfold_locales
    (auto simp: store_defs claim_ready_nodes_def advance_task_graph_def graphs_keyed_def Let_def
      split: option.splits prod.splits)

end
