(* ===== verification/Samples.thy ===== *)
theory Samples
  imports State_Store
begin

text \<open>
  Concrete data at which the properties are instantiated: a task graph of three nodes (two
  independent ones and one that needs both) closed by a synthesizer, and a plan of two actions.
\<close>

definition sample_time :: datetime where
  "sample_time = DateTime 0 (Some 0)"

definition sample_node :: "string \<Rightarrow> string list \<Rightarrow> SubTask" where
  "sample_node i deps =
     \<lparr>sn_node_id = i, sn_skill_ids = [''sprint_planning''], sn_objective = ''plan'', sn_depends_on = deps,
      sn_context_scope = [], sn_model_tier = ''pro'', sn_status = SubTaskStatus.PENDING\<rparr>"

definition sample_graph :: TaskGraph where
  "sample_graph =
     \<lparr>tg_plan_id = ''run'', tg_workspace_id = ''ws'', tg_project_id = Some ''proj'',
      tg_context_snapshot_ref = Some ''snap'', tg_version = 0,
      tg_nodes = [sample_node ''a'' [], sample_node ''b'' [], sample_node ''c'' [''a'', ''b'']],
      tg_synthesizer_node = Some (sample_node ''z'' [''a'', ''b'', ''c''])\<rparr>"

definition sample_rank :: "string \<Rightarrow> nat" where
  "sample_rank i = (if i = ''c'' then 1 else 0)"

definition first_running :: "TaskGraph \<Rightarrow> string" where
  "first_running g = hd (running_ids g)"

definition sample_action :: "string \<Rightarrow> string list \<Rightarrow> PlannedAction" where
  "sample_action i deps =
     \<lparr>pa_action_id = i, pa_plan_id = ''run'', pa_action_type = ''create'', pa_tool_name = ''create_workitem'',
      pa_instruction = ''create it'', pa_input = [], pa_work_items = [], pa_work_item_updates = [],
      pa_target_item_ids = [], pa_depends_on = deps, pa_requires_approval = False,
      pa_status = ActionStatus.PENDING, pa_idempotency_key = ''key:'' @ i, pa_expected_entity_versions = [],
      pa_created_at = sample_time, pa_updated_at = sample_time\<rparr>"

definition sample_plan :: AgentPlan where
  "sample_plan =
     \<lparr>ap_plan_id = ''run'', ap_parent_run_id = None, ap_node_id = None, ap_source_event_id = ''ev'',
      ap_workspace_id = ''ws'', ap_project_id = Some ''proj'', ap_goal = ''plan'', ap_prompt_id = ''prompt'',
      ap_prompt_version = ''1'', ap_skill_ids = [], ap_tool_names = [''create_workitem''],
      ap_actions = [sample_action ''a1'' [], sample_action ''a2'' [''a1'']],
      ap_status = PlanStatus.PLANNED, ap_context_snapshot_ref = ''snap'',
      ap_created_at = sample_time, ap_updated_at = sample_time\<rparr>"

definition sample_subplan :: AgentPlan where
  "sample_subplan = sample_plan\<lparr>ap_plan_id := ''run::a'', ap_parent_run_id := Some ''run'', ap_node_id := Some ''a''\<rparr>"

definition sample_event :: "event_class \<Rightarrow> RuntimeEvent" where
  "sample_event c =
     \<lparr>ev_class = c, ev_event_id = ''ev'', ev_event_type = ''manual.review_sprint_plan'',
      ev_workspace_id = ''ws'', ev_project_id = Some ''proj'', ev_payload = [], ev_occurred_at = sample_time,
      ev_correlation_id = None, ev_causality = empty_causality, ev_idempotency_key = None\<rparr>"

definition sample_envelope :: "event_class \<Rightarrow> EventEnvelope" where
  "sample_envelope c =
     \<lparr>en_envelope_id = ''env'', en_event = sample_event c, en_received_at = sample_time, en_attempt = 0\<rparr>"

definition sample_message :: "string \<Rightarrow> QueueMessage" where
  "sample_message i =
     \<lparr>qm_message_id = i, qm_envelope = sample_envelope (AgentActionEvent ''run'' ''a1''), qm_receipt = None\<rparr>"

lemmas sample_defs =
  sample_time_def sample_node_def sample_graph_def sample_rank_def sample_action_def sample_plan_def
  sample_subplan_def sample_event_def sample_envelope_def sample_message_def

lemma first_running_in: "running_ids h \<noteq> [] \<Longrightarrow> first_running h \<in> set (running_ids h)"
  by (simp add: first_running_def)

lemma sample_graph_ok:
  "fresh sample_graph" "distinct (task_ids sample_graph)" "tg_nodes sample_graph \<noteq> []"
  "ranked sample_rank sample_graph" "length (all_tasks sample_graph) = 4"
  by (simp_all add: fresh_def ranked_def synth_list_def sample_defs)

end
