(* ===== verification/Task_Properties.thy ===== *)
theory Task_Properties
  imports State_Store Samples
begin

text \<open>
  What the task graph, the state store, the queue and the plans promise: the properties of an
  orchestrated run and of a sequential plan.
\<close>

section \<open>Orchestrated runs\<close>

text \<open>
  C1: an orchestrated run always makes progress and finishes exactly once. Take a task graph whose
  nodes are all pending, with distinct ids and dependencies that decrease some rank. After the
  first claim, whichever of the running nodes reports completion next, some node is running until
  all are complete: as many reports as there are nodes complete every node and the synthesizer,
  and the run-completed flag is raised by the last report and by no earlier one.
\<close>

theorem run_progress:
  assumes "fresh g" and "distinct (task_ids g)" and "tg_nodes g \<noteq> []" and "ranked r g"
    and pick: "\<And>h. running_ids h \<noteq> [] \<Longrightarrow> pick h \<in> set (running_ids h)"
    and k: "k = length (all_tasks g)"
  shows "fst (drive pick k (fst (claim_ready g))) = replicate (k - 1) False @ [True] \<and>
         (\<forall>n \<in> set (all_tasks (snd (drive pick k (fst (claim_ready g))))).
            sn_status n = SubTaskStatus.COMPLETED)"
proof -
  have "length (all_tasks (fst (claim_ready g))) = k"
    using arg_cong [OF task_ids_claim, of length g] k by simp
  then show ?thesis
    using drive_live [OF pick live_claim(1) [OF assms(1-4)], of k] live_claim(2) [OF assms(1-4)] assms(3) k
    by simp
qed

theorem run_progress_witness:
  "fst (drive first_running 4 (fst (claim_ready sample_graph))) = [False, False, False, True]"
  using run_progress [OF sample_graph_ok(1-4) first_running_in refl] sample_graph_ok(5)
  by (simp add: numeral_eq_Suc)

text \<open>
  Every node is handed out at most once. The nodes returned by the first claim and the nodes
  dispatched while processing any sequence of reports, in any order and with any redeliveries, are
  pairwise different.
\<close>

theorem dispatch_once:
  assumes "distinct (task_ids g)" and "\<forall>(i, s) \<in> set reports. s \<noteq> SubTaskStatus.PENDING"
  shows "distinct (map sn_node_id (snd (claim_ready g)) @ snd (advance_all (fst (claim_ready g)) reports))"
  using assms by (rule claim_and_reports_once)

theorem dispatch_once_witness:
  "distinct (map sn_node_id (snd (claim_ready sample_graph)) @
     snd (advance_all (fst (claim_ready sample_graph))
       [(''a'', SubTaskStatus.COMPLETED), (''a'', SubTaskStatus.COMPLETED), (''b'', SubTaskStatus.COMPLETED)]))"
  by (rule dispatch_once) (use sample_graph_ok(2) in simp_all)

text \<open>
  C3: dependencies are respected. In every graph reachable by claims, reports of running nodes and
  redeliveries from a graph in which nothing has started, a node that has started has all its
  dependencies completed, and a synthesizer that has started sees every node completed.
\<close>

theorem dependencies_respected:
  assumes "gstep\<^sup>*\<^sup>* g h" and "fresh g" and "distinct (task_ids g)"
  shows "list_all (\<lambda>n. sn_status n = SubTaskStatus.PENDING \<or> set (sn_depends_on n) \<subseteq> completed_node_ids h)
           (tg_nodes h) \<and>
         (case tg_synthesizer_node h of None \<Rightarrow> True
          | Some t \<Rightarrow> sn_status t = SubTaskStatus.PENDING \<or> all_nodes_completed h)"
  using gsteps_invariant [OF assms(1)] fresh_deps_ok [OF assms(2)] assms(3)
  by (auto simp: deps_ok_def node_unblocked_def list_all_iff split: option.splits)

theorem dependencies_respected_witness:
  "list_all (\<lambda>n. sn_status n = SubTaskStatus.PENDING \<or>
       set (sn_depends_on n) \<subseteq> completed_node_ids (fst (claim_ready sample_graph)))
     (tg_nodes (fst (claim_ready sample_graph)))"
  using dependencies_respected [OF r_into_rtranclp [of gstep, OF gstep.claim] sample_graph_ok(1,2)] by blast

text \<open>
  Processing a report is idempotent. Applying the same report of a known node to the graph that
  already recorded it changes nothing, dispatches nothing, raises no completion or failure flag, and
  is recognised as already processed.
\<close>

theorem report_idempotent:
  assumes "get_node g i \<noteq> None"
  shows "plan_advance (adv_graph (plan_advance g i s)) i s =
           (advance_with (adv_graph (plan_advance g i s)))\<lparr>adv_already_processed := True\<rparr>"
  using assms by (rule plan_advance_again)

theorem report_idempotent_witness:
  "adv_already_processed (plan_advance (adv_graph (plan_advance sample_graph ''a'' SubTaskStatus.COMPLETED))
     ''a'' SubTaskStatus.COMPLETED)"
proof -
  have "get_node sample_graph ''a'' \<noteq> None" by (simp add: get_node_def sample_defs)
  from report_idempotent [OF this, of SubTaskStatus.COMPLETED] show ?thesis by simp
qed


section \<open>The store and the queue\<close>

text \<open>
  Claiming the ready nodes of a run twice hands out nothing the second time, so two redelivered
  triggers do not start a node twice. The store only needs every graph to be under its own key.
\<close>

theorem store_claim_twice:
  assumes "graphs_keyed s"
  shows "fst (claim_ready_nodes w r (snd (claim_ready_nodes w r s))) = []"
  using assms by (rule ms.claim_twice)

theorem store_claim_twice_witness:
  "fst (claim_ready_nodes ''ws'' ''run'' (snd (claim_ready_nodes ''ws'' ''run''
     (save_task_graph sample_graph empty_store)))) = []"
  by (rule store_claim_twice) (simp add: graphs_keyed_def store_defs empty_store_def sample_defs)

text \<open>
  A redelivered completion report leaves the stored graph as it was and dispatches no node: the
  store answers that the report was already processed.
\<close>

theorem store_advance_twice:
  assumes "graphs_keyed s" and "get_task_graph w r s = Some g" and "get_node g i \<noteq> None"
  shows "\<exists>a. fst (advance_task_graph w r i st (snd (advance_task_graph w r i st s))) = Some a \<and>
            adv_already_processed a \<and> dispatched a = [] \<and>
            get_task_graph w r (snd (advance_task_graph w r i st (snd (advance_task_graph w r i st s)))) =
            get_task_graph w r (snd (advance_task_graph w r i st s))"
  using assms by (rule ms.advance_twice)

theorem store_advance_twice_witness:
  "\<exists>a. fst (advance_task_graph ''ws'' ''run'' ''b'' SubTaskStatus.FAILED
      (snd (advance_task_graph ''ws'' ''run'' ''b'' SubTaskStatus.FAILED
        (save_task_graph sample_graph empty_store)))) = Some a \<and> adv_already_processed a"
proof -
  have "graphs_keyed (save_task_graph sample_graph empty_store)"
    and "get_task_graph ''ws'' ''run'' (save_task_graph sample_graph empty_store) = Some sample_graph"
    and "get_node sample_graph ''b'' \<noteq> None"
    by (simp_all add: graphs_keyed_def store_defs empty_store_def sample_defs get_node_def)
  from store_advance_twice [OF this, of SubTaskStatus.FAILED] show ?thesis by blast
qed




section \<open>Sequential plans\<close>

text \<open>
  A plan whose actions are chained one to the next runs them all, in plan order and each once,
  and is completed exactly then.
\<close>

theorem plan_runs_in_order:
  assumes "chained (ap_actions p)" and "distinct (action_ids p)" and "ap_actions p \<noteq> []"
    and "ap_status p \<notin> inactive_statuses"
    and "\<forall>a \<in> set (ap_actions p). pa_status a = ActionStatus.PENDING"
  shows "fst (run_to_completion now (length (ap_actions p)) p) = action_ids p \<and>
         ap_status (snd (run_to_completion now (length (ap_actions p)) p)) = PlanStatus.COMPLETED"
  using run_to_completion_chained [of p "[]" "ap_actions p" now] assms by simp

theorem plan_runs_in_order_witness:
  "fst (run_to_completion sample_time 2 sample_plan) = [''a1'', ''a2'']"
  using plan_runs_in_order [of sample_plan sample_time]
  by (simp add: sample_defs inactive_statuses_def numeral_eq_Suc)

text \<open>
  The status of a plan after an action update is decided by the statuses of its actions alone,
  in a fixed order of precedence: all completed or skipped; then failed, waiting for approval,
  replan required; otherwise running. It is never planned or cancelled.
\<close>

theorem plan_status_table:
  "derived_status actions =
    (let S = pa_status ` set actions in
     if S \<subseteq> {ActionStatus.COMPLETED, ActionStatus.SKIPPED} then PlanStatus.COMPLETED
     else if ActionStatus.FAILED \<in> S then PlanStatus.FAILED
     else if ActionStatus.REQUIRES_APPROVAL \<in> S then PlanStatus.WAITING_FOR_APPROVAL
     else if ActionStatus.STALE \<in> S then PlanStatus.REPLAN_REQUIRED
     else PlanStatus.RUNNING)"
proof -
  have ex: "list_ex (\<lambda>a. pa_status a = s) actions \<longleftrightarrow> s \<in> pa_status ` set actions" for s
    by (auto simp: list_ex_iff)
  have all: "list_all (\<lambda>a. pa_status a \<in> T) actions \<longleftrightarrow> pa_status ` set actions \<subseteq> T" for T
    by (auto simp: list_all_iff)
  show ?thesis unfolding derived_status_def ex all Let_def ..
qed

end
