(* ===== verification/Registries.thy ===== *)
theory Registries
  imports Results
begin

text \<open>
  \<open>capabilities/definitions.py\<close>, \<open>capabilities/skills.py\<close>, \<open>capabilities/tools/base.py\<close> and
  \<open>infrastructure/registries\<close>: prompt definitions and the workflow, skill and tool registries built
  from them. Reading and validating the YAML files is outside the model: a prompt registry is the
  dictionary of definitions it has loaded, with of the model settings only the model's name. A tool is its definition with its \<open>execute\<close> method.
\<close>

section \<open>Definitions\<close>

record OrchestrationNodeDef =
  od_node :: string
  od_skill :: "string option"
  od_skills :: "string list"
  od_objective :: string
  od_context_scope :: "string list"
  od_depends_on :: "string list"
  od_model_tier :: "string option"

definition node_skill_ids :: "OrchestrationNodeDef \<Rightarrow> string list" where
  "node_skill_ids n =
     (case od_skill n of
        Some s \<Rightarrow> if s \<noteq> [] \<and> s \<notin> set (od_skills n) then s # od_skills n else od_skills n
      | None \<Rightarrow> od_skills n)"

record OrchestrationDef =
  oo_mode :: string
  oo_default_graph :: "OrchestrationNodeDef list"
  oo_synthesizer :: "OrchestrationNodeDef option"

record WorkflowPromptDefinition =
  wp_id :: string
  wp_version :: string
  wp_name :: string
  wp_description :: string
  wp_model_name :: string
  wp_output_schema :: string
  wp_goal :: string
  wp_system :: string
  wp_constraints :: "string list"
  wp_required_context :: "string list"
  wp_trigger_types :: "string list"
  wp_required_skills :: "string list"
  wp_default_execution_mode :: string
  wp_approval_policy :: "(string, string) dict"
  wp_max_recursion_depth :: int
  wp_orchestration :: "OrchestrationDef option"

record SkillPromptDefinition =
  sk_id :: string
  sk_version :: string
  sk_name :: string
  sk_description :: string
  sk_instruction :: string
  sk_reasoning_instructions :: "string list"
  sk_allowed_tools :: "string list"
  sk_guardrails :: pydict
  sk_quality_expectations :: "string list"
  sk_model_tier :: string

record ToolPromptDefinition =
  tp_id :: string
  tp_version :: string
  tp_name :: string
  tp_description :: string
  tp_usage :: "string list"
  tp_do_not_use :: "string list"
  tp_risk_level :: string
  tp_approval_policy :: string
  tp_input_contract :: pydict

text \<open>\<open>RuntimeSkill\<close> is determined by its definition.\<close>

definition render_instruction :: "SkillPromptDefinition \<Rightarrow> string" where
  "render_instruction d =
     (let bullets = (\<lambda>xs. join nl (map (\<lambda>x. ''- '' @ x) xs))
      in join nl (
           [''Capability: '' @ sk_name d @ '' ('' @ sk_id d @ '')'', sk_instruction d]
           @ (if sk_reasoning_instructions d \<noteq> []
              then [''Reasoning instructions:'' @ nl @ bullets (sk_reasoning_instructions d)] else [])
           @ (if sk_quality_expectations d \<noteq> []
              then [''Quality expectations:'' @ nl @ bullets (sk_quality_expectations d)] else [])
           @ (if sk_guardrails d \<noteq> []
              then [''Guardrails:'' @ nl
                    @ bullets (map (\<lambda>(k, v). k @ '': '' @ py_str v) (sk_guardrails d))] else [])
           @ [''Allowed tools:'' @ nl @ bullets (sk_allowed_tools d)]))"

datatype agent_tool =
  Agent_Tool (tool_name: string) (tool_definition: ToolPromptDefinition)
    (tool_execute: "PlannedAction \<Rightarrow> AgentContext \<Rightarrow> (io, ToolResult) eff")

text \<open>\<open>BaseAgentTool.__init__\<close>: the definition must carry the executable tool's name.\<close>

definition new_tool ::
  "string \<Rightarrow> (PlannedAction \<Rightarrow> AgentContext \<Rightarrow> (io, ToolResult) eff) \<Rightarrow> ToolPromptDefinition
   \<Rightarrow> exn + agent_tool" where
  "new_tool name execute defn =
     (if tp_id defn \<noteq> name
      then Inl (ValueError (''Tool definition id does not match executable tool name: ''
                  @ tp_id defn @ '' != '' @ name))
      else Inr (Agent_Tool name defn execute))"


section \<open>Workflow registry\<close>

record WorkflowDefinition =
  wf_id :: string
  wf_trigger_types :: "string list"
  wf_required_skills :: "string list"
  wf_prompt_id :: string
  wf_prompt_version :: string
  wf_goal :: string
  wf_default_execution_mode :: string
  wf_approval_policy :: "(string, string) dict"
  wf_max_recursion_depth :: int
  wf_orchestration :: "OrchestrationDef option"

record workflow_registry =
  wr_by_id :: "(string, WorkflowDefinition) dict"
  wr_by_trigger :: "(string, WorkflowDefinition) dict"

definition workflow_from_prompt :: "WorkflowPromptDefinition \<Rightarrow> WorkflowDefinition" where
  "workflow_from_prompt p =
     \<lparr>wf_id = wp_id p, wf_trigger_types = wp_trigger_types p, wf_required_skills = wp_required_skills p,
      wf_prompt_id = wp_id p, wf_prompt_version = wp_version p, wf_goal = wp_goal p,
      wf_default_execution_mode = wp_default_execution_mode p,
      wf_approval_policy = wp_approval_policy p, wf_max_recursion_depth = wp_max_recursion_depth p,
      wf_orchestration = wp_orchestration p\<rparr>"

definition register_workflow :: "WorkflowDefinition \<Rightarrow> workflow_registry \<Rightarrow> exn + workflow_registry" where
  "register_workflow workflow r =
     (if wf_required_skills workflow = [] then
        Inl (ValueError (''Workflow must require at least one skill: '' @ wf_id workflow))
      else if wf_trigger_types workflow = [] then
        Inl (ValueError (''Workflow must define at least one trigger: '' @ wf_id workflow))
      else Inr (r\<lparr>wr_by_id := dset (wf_id workflow) workflow (wr_by_id r),
                  wr_by_trigger := fold (\<lambda>t. dset t workflow) (wf_trigger_types workflow) (wr_by_trigger r)\<rparr>))"

fun register_workflows :: "WorkflowPromptDefinition list \<Rightarrow> workflow_registry \<Rightarrow> exn + workflow_registry" where
  "register_workflows [] r = Inr r"
| "register_workflows (p # ps) r =
     sbind (register_workflow (workflow_from_prompt p) r) (register_workflows ps)"

definition workflows_from_prompt_registry :: "WorkflowPromptDefinition list \<Rightarrow> exn + workflow_registry" where
  "workflows_from_prompt_registry prompts =
     register_workflows prompts \<lparr>wr_by_id = [], wr_by_trigger = []\<rparr>"

definition get_workflow :: "workflow_registry \<Rightarrow> string \<Rightarrow> exn + WorkflowDefinition" where
  "get_workflow r workflow_id =
     (case dget (wr_by_id r) workflow_id of
        Some w \<Rightarrow> Inr w
      | None \<Rightarrow> Inl (KeyError (''Workflow not registered: '' @ workflow_id)))"

definition get_by_trigger :: "workflow_registry \<Rightarrow> string \<Rightarrow> WorkflowDefinition option" where
  "get_by_trigger r trigger_type = dget (wr_by_trigger r) trigger_type"


section \<open>Skill registry\<close>

type_synonym skill_registry = "(string, SkillPromptDefinition) dict"

definition register_skill :: "SkillPromptDefinition \<Rightarrow> skill_registry \<Rightarrow> skill_registry" where
  "register_skill d r = dset (sk_id d) d r"

definition skills_from_prompt_registry :: "SkillPromptDefinition list \<Rightarrow> skill_registry" where
  "skills_from_prompt_registry ds = fold register_skill ds []"

definition get_skill :: "skill_registry \<Rightarrow> string \<Rightarrow> exn + SkillPromptDefinition" where
  "get_skill r skill_id =
     (case dget r skill_id of
        Some d \<Rightarrow> Inr d
      | None \<Rightarrow> Inl (KeyError (''Skill not registered: '' @ skill_id)))"

definition select_skills :: "skill_registry \<Rightarrow> string list \<Rightarrow> exn + SkillPromptDefinition list" where
  "select_skills r skill_ids = smap (get_skill r) skill_ids"

definition merge_tools :: "string list \<Rightarrow> string list \<Rightarrow> string list" where
  "merge_tools allowed names = fold (\<lambda>t acc. if t \<in> set acc then acc else acc @ [t]) names allowed"

definition allowed_tools_for :: "skill_registry \<Rightarrow> string list \<Rightarrow> exn + string list" where
  "allowed_tools_for r skill_ids =
     sbind (select_skills r skill_ids) (\<lambda>skills.
       Inr (fold (\<lambda>s acc. merge_tools acc (sk_allowed_tools s)) skills []))"

definition skill_definition :: "skill_registry \<Rightarrow> string \<Rightarrow> exn + SkillPromptDefinition" where
  "skill_definition r skill_id =
     (case dget r skill_id of
        Some d \<Rightarrow> Inr d
      | None \<Rightarrow> Inl (KeyError (''Skill definition not registered: '' @ skill_id)))"

definition skill_model_tier :: "skill_registry \<Rightarrow> string \<Rightarrow> exn + string" where
  "skill_model_tier r skill_id = sbind (skill_definition r skill_id) (\<lambda>d. Inr (sk_model_tier d))"


section \<open>Tool registry\<close>

type_synonym tool_registry = "(string, agent_tool) dict"

definition register_tool :: "agent_tool \<Rightarrow> tool_registry \<Rightarrow> tool_registry" where
  "register_tool t r = dset (tool_name t) t r"

fun tools_from_prompt_registry ::
  "(string, PlannedAction \<Rightarrow> AgentContext \<Rightarrow> (io, ToolResult) eff) dict \<Rightarrow> ToolPromptDefinition list
   \<Rightarrow> tool_registry \<Rightarrow> exn + tool_registry" where
  "tools_from_prompt_registry impls [] r = Inr r"
| "tools_from_prompt_registry impls (d # ds) r =
     (case dget impls (tp_id d) of
        None \<Rightarrow> tools_from_prompt_registry impls ds r
      | Some execute \<Rightarrow>
          sbind (new_tool (tp_id d) execute d) (\<lambda>t. tools_from_prompt_registry impls ds (register_tool t r)))"

definition get_tool :: "tool_registry \<Rightarrow> string \<Rightarrow> exn + agent_tool" where
  "get_tool r name =
     (case dget r name of
        Some t \<Rightarrow> Inr t
      | None \<Rightarrow> Inl (KeyError (''Tool not registered: '' @ name)))"

definition select_tools :: "tool_registry \<Rightarrow> string list \<Rightarrow> exn + agent_tool list" where
  "select_tools r names = smap (get_tool r) names"

definition tool_names_sorted :: "tool_registry \<Rightarrow> string list" where
  "tool_names_sorted r = sort (map fst r)"

definition definition_of :: "tool_registry \<Rightarrow> string \<Rightarrow> exn + ToolPromptDefinition" where
  "definition_of r name =
     (case dget r name of
        Some t \<Rightarrow> Inr (tool_definition t)
      | None \<Rightarrow> Inl (KeyError (''Tool definition not registered: '' @ name)))"

text \<open>\<open>Executor.execute_one\<close>\<close>

definition execute_one :: "tool_registry \<Rightarrow> PlannedAction \<Rightarrow> AgentContext \<Rightarrow> (io, ToolResult) eff" where
  "execute_one r action context =
     ebind (of_sum (get_tool r (pa_tool_name action))) (\<lambda>t. tool_execute t action context)"


section \<open>Facts\<close>

lemma set_merge_tools: "set (merge_tools acc ns) = set acc \<union> set ns"
  unfolding merge_tools_def by (induction ns arbitrary: acc) auto

lemma distinct_merge_tools: "distinct acc \<Longrightarrow> distinct (merge_tools acc ns)"
  unfolding merge_tools_def by (induction ns arbitrary: acc) auto

lemma fold_merge_tools:
  "set (fold (\<lambda>s acc. merge_tools acc (sk_allowed_tools s)) skills acc) =
     set acc \<union> (\<Union>s \<in> set skills. set (sk_allowed_tools s))"
  "distinct acc \<Longrightarrow> distinct (fold (\<lambda>s acc. merge_tools acc (sk_allowed_tools s)) skills acc)"
  by (induction skills arbitrary: acc) (auto simp: set_merge_tools distinct_merge_tools)

text \<open>The allowed tools are exactly the tools some selected skill allows, each once.\<close>

lemma allowed_tools_for_set:
  assumes "allowed_tools_for r ids = Inr tools"
  obtains skills where "select_skills r ids = Inr skills"
    and "set tools = (\<Union>s \<in> set skills. set (sk_allowed_tools s))" and "distinct tools"
  using assms fold_merge_tools(1) [where acc = "[]"] fold_merge_tools(2) [where acc = "[]"]
  by (auto simp: allowed_tools_for_def sbind_def split: sum.splits)

lemma dget_fold_dset:
  "dget (fold (\<lambda>t. dset t w) ts d) t = (if t \<in> set ts then Some w else dget d t)"
  by (induction ts arbitrary: d) auto

text \<open>Every workflow reachable by a trigger declares that trigger and at least one skill.\<close>

definition registry_ok :: "workflow_registry \<Rightarrow> bool" where
  "registry_ok r \<longleftrightarrow> (\<forall>t w. get_by_trigger r t = Some w \<longrightarrow>
     t \<in> set (wf_trigger_types w) \<and> wf_required_skills w \<noteq> [])"

lemma register_workflow_ok:
  "registry_ok r \<Longrightarrow> register_workflow w r = Inr r' \<Longrightarrow> registry_ok r'"
  by (auto simp: registry_ok_def register_workflow_def get_by_trigger_def dget_fold_dset
      split: if_splits)

lemma register_workflows_ok:
  "registry_ok r \<Longrightarrow> register_workflows ps r = Inr r' \<Longrightarrow> registry_ok r'"
  by (induction ps arbitrary: r) (auto simp: sbind_def split: sum.splits dest: register_workflow_ok)

lemma workflows_from_prompt_registry_ok:
  "workflows_from_prompt_registry ps = Inr r \<Longrightarrow> registry_ok r"
  unfolding workflows_from_prompt_registry_def
  by (rule register_workflows_ok) (simp_all add: registry_ok_def get_by_trigger_def)

end
