(* ===== verification/Agent_Run.thy ===== *)
theory Agent_Run
  imports Results
begin

text \<open>
  \<open>domain/agent_run.py\<close>: the identity of a run, the status vocabulary of the Prizmatic API and the
  identifiers, types and targets under which actions are mirrored there.
\<close>

definition AGENT_RUN_ID_KEYS :: "string list" where
  "AGENT_RUN_ID_KEYS = [''agentRunId'', ''runId'', ''agent_run_id'']"

definition TARGET_TYPES_BY_ID_FIELD :: "(string \<times> string) list" where
  "TARGET_TYPES_BY_ID_FIELD =
     [(''itemId'', ''work_item''), (''workItemId'', ''work_item''), (''sprintId'', ''sprint'')]"

fun first_string :: "pydict \<Rightarrow> string list \<Rightarrow> string option" where
  "first_string data [] = None"
| "first_string data (key # keys) =
     (case pget data key of
        PStr value \<Rightarrow> if strip value \<noteq> [] then Some (strip value) else first_string data keys
      | _ \<Rightarrow> first_string data keys)"

definition resolve_agent_run_id :: "AgentContext \<Rightarrow> string" where
  "resolve_agent_run_id context =
     (let event = en_event (cx_source_event context); payload = ev_payload event
      in case first_string payload AGENT_RUN_ID_KEYS of
           Some value \<Rightarrow> value
         | None \<Rightarrow>
             (case (case pget payload ''queue_pointer'' of
                      PDict queue_pointer \<Rightarrow> first_string queue_pointer AGENT_RUN_ID_KEYS
                    | _ \<Rightarrow> None) of
                Some value \<Rightarrow> value
              | None \<Rightarrow> str_or (ev_correlation_id event)
                          (str_or (ev_idempotency_key event) (ev_event_id event))))"

definition action_status_to_api :: "ActionStatus \<Rightarrow> bool \<Rightarrow> string" where
  "action_status_to_api status approval =
     (if status = ActionStatus.COMPLETED then ''executed''
      else if status = ActionStatus.FAILED then ''failed''
      else if status \<in> {ActionStatus.SKIPPED, ActionStatus.STALE} then ''cancelled''
      else if status = ActionStatus.RUNNING then ''approved''
      else if status = ActionStatus.REQUIRES_APPROVAL \<or> approval then ''proposed''
      else ''approved'')"

definition step_status_to_api :: "ActionStatus \<Rightarrow> string" where
  "step_status_to_api status =
     (if status = ActionStatus.COMPLETED then ''completed''
      else if status \<in> {ActionStatus.FAILED, ActionStatus.STALE} then ''failed''
      else if status = ActionStatus.SKIPPED then ''skipped''
      else if status = ActionStatus.RUNNING then ''running''
      else ''pending'')"

definition run_status_to_api :: "AgentPlan \<Rightarrow> string" where
  "run_status_to_api plan =
     (let v = plan_status_value (ap_status plan)
      in if v = ''completed'' then ''completed''
         else if v = ''failed'' then ''failed''
         else if v = ''cancelled'' then ''cancelled''
         else if v \<in> {''waiting_for_approval'', ''replan_required''} then ''waiting''
         else if list_ex (\<lambda>a. pa_status a = ActionStatus.RUNNING) (ap_actions plan) then ''running''
         else ''running'')"

fun index_of_action :: "nat \<Rightarrow> PlannedAction list \<Rightarrow> string \<Rightarrow> nat option" where
  "index_of_action i [] action_id = None"
| "index_of_action i (a # as) action_id =
     (if pa_action_id a = action_id then Some i else index_of_action (Suc i) as action_id)"

definition action_step_order :: "AgentPlan \<Rightarrow> PlannedAction \<Rightarrow> exn + nat" where
  "action_step_order plan action =
     (case index_of_action 1 (ap_actions plan) (pa_action_id action) of
        Some i \<Rightarrow> Inr i
      | None \<Rightarrow> Inl (ValueError (''Action '' @ pa_action_id action @ '' is not part of plan ''
                       @ ap_plan_id plan @ ''.'')))"

definition action_step_title :: "PlannedAction \<Rightarrow> string" where
  "action_step_title action =
     join '' '' (split_ws (or_str (strip (pa_instruction action)) (pa_tool_name action)))"

definition stable_agent_run_uuid :: "'e io_env_scheme \<Rightarrow> string list \<Rightarrow> string" where
  "stable_agent_run_uuid env parts =
     (let raw = join '':'' parts
      in case uuid_str raw of Some u \<Rightarrow> u | None \<Rightarrow> uuid5_of env raw)"

definition action_api_id :: "'e io_env_scheme \<Rightarrow> PlannedAction \<Rightarrow> string" where
  "action_api_id env action = stable_agent_run_uuid env [pa_plan_id action, pa_action_id action]"

definition action_api_type :: "PlannedAction \<Rightarrow> string" where
  "action_api_type action =
     take 50 (or_str (pa_tool_name action) (or_str (pa_action_type action) ''agent_action''))"

definition uuid_string :: "string option \<Rightarrow> string option" where
  "uuid_string value = (case value of None \<Rightarrow> None | Some v \<Rightarrow> uuid_str v)"

fun target_type_by_field :: "pydict \<Rightarrow> (string \<times> string) list \<Rightarrow> string option" where
  "target_type_by_field data [] = None"
| "target_type_by_field data ((key, target_type) # rest) =
     (if uuid_string (first_string data [key]) \<noteq> None then Some target_type
      else target_type_by_field data rest)"

definition action_target_type :: "PlannedAction \<Rightarrow> string option \<Rightarrow> string" where
  "action_target_type action target_id =
     (case target_id of
        None \<Rightarrow> ''tool''
      | Some _ \<Rightarrow>
          (case first_string (pa_input action) [''targetType'', ''target_type''] of
             Some explicit \<Rightarrow> take 50 explicit
           | None \<Rightarrow>
               (let target_ref = first_string (pa_input action) [''target_entity_ref'', ''targetEntityRef'']
                in case target_ref of
                     Some r \<Rightarrow>
                       if CHR '':'' \<in> set r \<and> uuid_str (after_colon r) \<noteq> None
                       then take 50 (before_colon r)
                       else (case target_type_by_field (pa_input action) TARGET_TYPES_BY_ID_FIELD of
                               Some t \<Rightarrow> t | None \<Rightarrow> ''tool'')
                   | None \<Rightarrow> (case target_type_by_field (pa_input action) TARGET_TYPES_BY_ID_FIELD of
                               Some t \<Rightarrow> t | None \<Rightarrow> ''tool''))))"

definition action_target_id :: "PlannedAction \<Rightarrow> string option" where
  "action_target_id action =
     (case first_string (pa_input action)
             [''targetId'', ''target_id'', ''itemId'', ''workItemId'', ''sprintId''] of
        Some value \<Rightarrow> uuid_str value
      | None \<Rightarrow>
          (case first_string (pa_input action) [''target_entity_ref'', ''targetEntityRef''] of
             Some r \<Rightarrow> if CHR '':'' \<in> set r then uuid_str (after_colon r) else None
           | None \<Rightarrow> None))"


section \<open>Facts\<close>

text \<open>The run id is a function of the source event alone: every retry of the same event resolves
  to the same run, and never to the empty string when the event has an id.\<close>

lemma first_string_nonempty: "first_string d ks = Some v \<Longrightarrow> v \<noteq> []"
  by (induction d ks rule: first_string.induct) (auto split: pyval.splits if_splits)

lemma str_or_nonempty: "b \<noteq> [] \<Longrightarrow> str_or a b \<noteq> []"
  by (simp add: str_or_def split: option.splits)

lemma resolve_agent_run_id_nonempty:
  assumes "ev_event_id (en_event (cx_source_event context)) \<noteq> []"
  shows "resolve_agent_run_id context \<noteq> []"
  unfolding resolve_agent_run_id_def
  by (auto simp: Let_def str_or_nonempty assms dest: first_string_nonempty
      split: option.splits pyval.splits)

lemma resolve_agent_run_id_cong:
  "cx_source_event c = cx_source_event d \<Longrightarrow> resolve_agent_run_id c = resolve_agent_run_id d"
  by (simp add: resolve_agent_run_id_def)

lemma action_target_type_length: "length (action_target_type action target) \<le> 50"
proof -
  have "length t \<le> 50" if "target_type_by_field d TARGET_TYPES_BY_ID_FIELD = Some t" for d t
    using that by (auto simp: TARGET_TYPES_BY_ID_FIELD_def split: if_splits)
  then show ?thesis
    by (auto simp: action_target_type_def Let_def split: option.splits)
qed

text \<open>The step order is the 1-based position of the first action with that id.\<close>

lemma index_of_action_bounds:
  "index_of_action i as x = Some j \<Longrightarrow>
     i \<le> j \<and> j < i + length as \<and> pa_action_id (as ! (j - i)) = x \<and>
     (\<forall>k < j - i. pa_action_id (as ! k) \<noteq> x)"
proof (induction i as x rule: index_of_action.induct)
  case (2 i a as x)
  show ?case
  proof (cases "pa_action_id a = x")
    case False
    with 2 have "Suc i \<le> j" "j < Suc i + length as" "pa_action_id (as ! (j - Suc i)) = x"
      "\<forall>k < j - Suc i. pa_action_id (as ! k) \<noteq> x" by auto
    moreover from this have "j - i = Suc (j - Suc i)" by simp
    ultimately show ?thesis using False by (auto simp: nth_Cons less_Suc_eq_0_disj)
  qed (use 2 in auto)
qed simp

lemma index_of_action_None: "index_of_action i as x = None \<longleftrightarrow> x \<notin> pa_action_id ` set as"
  by (induction i as x rule: index_of_action.induct) auto

end
