(* ===== verification/Prism_Client.thy ===== *)
theory Prism_Client
  imports Agent_Run
begin

text \<open>
  \<open>infrastructure/prism_api/client.py\<close>: the HTTP boundary (\<open>_request_json\<close> with its error
  mapping and envelope unwrapping), the API methods built on it, and the per-process cache of entity
  versions. The server is the parameter \<open>server\<close> of \<^typ>\<open>io_env\<close>; every request is logged.
\<close>

section \<open>Requests\<close>

definition rstrip_slash :: "string \<Rightarrow> string" where
  "rstrip_slash s = rev (dropWhile (\<lambda>c. c = CHR ''/'') (rev s))"

definition client_base_url :: "'e io_env_scheme \<Rightarrow> string option" where
  "client_base_url env =
     (case base_url env of None \<Rightarrow> None | Some u \<Rightarrow> if u = [] then None else Some (rstrip_slash u))"

definition is_configured :: "'e io_env_scheme \<Rightarrow> bool" where
  "is_configured env \<longleftrightarrow> opt_truthy (client_base_url env)"

definition format_request_payload :: "pydict option \<Rightarrow> string" where
  "format_request_payload payload =
     (case payload of None \<Rightarrow> [] | Some p \<Rightarrow> '' request_payload='' @ json_dumps_sorted (PDict p))"

definition request_headers :: "'e io_env_scheme \<Rightarrow> pydict option \<Rightarrow> string \<Rightarrow> (string \<times> string) list" where
  "request_headers env payload auth_mode =
     [(''Accept'', ''application/json'')]
     @ (if payload \<noteq> None then [(''Content-Type'', ''application/json'')] else [])
     @ (if opt_truthy (api_token env) \<and> auth_mode \<in> {''internal'', ''both''}
        then [(''x-internal-api-token'', str_or (api_token env) [])] else [])
     @ (if opt_truthy (api_token env) \<and> auth_mode \<in> {''bearer'', ''both''}
        then [(''Authorization'', ''Bearer '' @ str_or (api_token env) [])] else [])"

text \<open>What the client makes of a response: HTTP errors by code, then the decoded body.\<close>

definition http_error :: "string \<Rightarrow> string \<Rightarrow> pydict option \<Rightarrow> int \<Rightarrow> string \<Rightarrow> exn" where
  "http_error method path payload code detail =
     (let where = ''Prism API '' @ method @ '' '' @ path; req = format_request_payload payload
      in if code = 400 then PrismApiBadRequestError (where @ '' returned 400: '' @ detail @ req)
         else if code = 404 then PrismApiNotFoundError (where @ '' returned 404: '' @ detail @ req)
         else if code = 409 then PrismApiConflictError (where @ '' returned 409: '' @ detail @ req)
         else if code = 422 then PrismApiUnprocessableError (where @ '' returned 422: '' @ detail @ req)
         else RuntimeError (where @ '' failed: '' @ int_str code @ '' '' @ detail @ req))"

definition read_response :: "string \<Rightarrow> string \<Rightarrow> pydict option \<Rightarrow> http_outcome \<Rightarrow> exn + pyval" where
  "read_response method path payload outcome =
     (let where = ''Prism API '' @ method @ '' '' @ path
      in case outcome of
           Http_Error code detail \<Rightarrow> Inl (http_error method path payload code detail)
         | Http_Unreachable e \<Rightarrow> Inl (RuntimeError (where @ '' unreachable: '' @ e))
         | Http_Empty \<Rightarrow> Inr (PDict [])
         | Http_Invalid_Json \<Rightarrow> Inl (RuntimeError (where @ '' returned invalid JSON.''))
         | Http_Json (PDict decoded) \<Rightarrow>
             (case dget decoded ''data'' of Some data \<Rightarrow> Inr data | None \<Rightarrow> Inr (PDict decoded))
         | Http_Json _ \<Rightarrow> Inl (RuntimeError (where @ '' returned unsupported JSON.'')))"

definition request_json ::
  "'e io_env_scheme \<Rightarrow> string \<Rightarrow> string \<Rightarrow> pydict option \<Rightarrow> string \<Rightarrow> (io, pyval) eff" where
  "request_json env method path payload auth_mode =
     (\<lambda>i. if \<not> is_configured env
          then (Inl (RuntimeError ''PRISM_API_BASE_URL is required for live Prism API calls.''), i)
          else let rq = Api_Request method (str_or (client_base_url env) [] @ path)
                          (map_option PDict payload) (request_headers env payload auth_mode)
               in (read_response method path payload (server env (io_requests i) rq),
                   i\<lparr>io_requests := io_requests i @ [rq]\<rparr>))"

definition get_json :: "'e io_env_scheme \<Rightarrow> string \<Rightarrow> (io, pyval) eff" where
  "get_json env path = request_json env ''GET'' path None ''internal''"

definition send_json :: "'e io_env_scheme \<Rightarrow> string \<Rightarrow> string \<Rightarrow> pydict \<Rightarrow> (io, pyval) eff" where
  "send_json env method path payload = request_json env method path (Some payload) ''internal''"


text \<open>\<open>try: ... except RuntimeError\<close>\<close>

definition on_runtime_error :: "(io, 'a) eff \<Rightarrow> (exn \<Rightarrow> (io, 'a) eff) \<Rightarrow> (io, 'a) eff" where
  "on_runtime_error m h = catch m (\<lambda>e. if is_RuntimeError e then h e else raise e)"

section \<open>Response shapes\<close>

definition dict_items :: "pyval list \<Rightarrow> pydict list" where
  "dict_items xs = List.map_filter (\<lambda>v. case v of PDict d \<Rightarrow> Some d | _ \<Rightarrow> None) xs"

fun first_list :: "pydict \<Rightarrow> string list \<Rightarrow> pyval list" where
  "first_list d [] = []"
| "first_list d (k # ks) = (case pget d k of PList xs \<Rightarrow> xs | _ \<Rightarrow> first_list d ks)"

definition extract_items :: "pyval \<Rightarrow> pydict list" where
  "extract_items data =
     (case data of
        PList xs \<Rightarrow> dict_items xs
      | PDict d \<Rightarrow> dict_items (first_list d [''items'', ''members'', ''jobs'', ''data''])
      | _ \<Rightarrow> [])"

definition quote_plus :: "string \<Rightarrow> string" where
  "quote_plus s = concat (map (\<lambda>c. if c = CHR '' '' then ''+'' else quote_char c) s)"

definition encode_param :: "string \<times> pyval \<Rightarrow> string list" where
  "encode_param kv =
     (case kv of
        (k, PList xs) \<Rightarrow> map (\<lambda>x. quote_plus k @ ''='' @ quote_plus (py_str x)) xs
      | (k, PDict d) \<Rightarrow> map (\<lambda>x. quote_plus k @ ''='' @ quote_plus (fst x)) d
      | (k, v) \<Rightarrow> [quote_plus k @ ''='' @ quote_plus (py_str v)])"

definition query_string :: "pydict \<Rightarrow> string" where
  "query_string params =
     (let filtered = filter (\<lambda>(k, v). v \<noteq> PNone \<and> v \<noteq> PStr [] \<and> v \<noteq> PList []) params
      in if filtered = [] then []
         else ''?'' @ join ''&'' (concat (map encode_param filtered)))"


section \<open>API methods\<close>

definition ws_path :: "string \<Rightarrow> string" where
  "ws_path workspace_id = ''/workspaces/'' @ quote workspace_id"

definition project_path :: "string \<Rightarrow> string" where
  "project_path project_id = ''/projects/'' @ quote project_id"

definition run_path :: "string \<Rightarrow> string \<Rightarrow> string" where
  "run_path workspace_id run_id = ws_path workspace_id @ ''/agent-runs/internal/'' @ quote run_id"

definition get_workspace_members :: "'e io_env_scheme \<Rightarrow> string \<Rightarrow> (io, pydict list) eff" where
  "get_workspace_members env workspace_id =
     ebind (request_json env ''GET'' (ws_path workspace_id @ ''/members'') None ''bearer'')
       (\<lambda>data. ret (extract_items data))"

definition get_workspace_jobs :: "'e io_env_scheme \<Rightarrow> string \<Rightarrow> (io, pydict list) eff" where
  "get_workspace_jobs env workspace_id =
     ebind (request_json env ''GET'' (ws_path workspace_id @ ''/jobs'') None ''bearer'')
       (\<lambda>data. ret (extract_items data))"

definition get_workspace_member_workloads ::
  "'e io_env_scheme \<Rightarrow> string \<Rightarrow> bool \<Rightarrow> (io, pydict list) eff" where
  "get_workspace_member_workloads env workspace_id internal =
     ebind (get_json env (ws_path workspace_id @ ''/member-workloads'' @ (if internal then ''/internal'' else [])))
       (\<lambda>data. ret (extract_items data))"

definition get_workspace_member_workload ::
  "'e io_env_scheme \<Rightarrow> string \<Rightarrow> string \<Rightarrow> bool \<Rightarrow> (io, pydict) eff" where
  "get_workspace_member_workload env workspace_id user_id internal =
     ebind (get_json env (ws_path workspace_id @ ''/member-workloads''
              @ (if internal then ''/internal'' else []) @ ''/'' @ quote user_id))
       (\<lambda>data. case data of PDict d \<Rightarrow> ret d
          | _ \<Rightarrow> raise (RuntimeError ''Prism API member workload response must be an object.''))"

definition search_work_items :: "'e io_env_scheme \<Rightarrow> string \<Rightarrow> pydict \<Rightarrow> bool \<Rightarrow> (io, pydict) eff" where
  "search_work_items env project_id params internal =
     ebind (get_json env (project_path project_id @ ''/work-items''
              @ (if internal then ''/internal'' else []) @ query_string params))
       (\<lambda>data. case data of
          PDict d \<Rightarrow> ret d
        | PList xs \<Rightarrow> ret [(''items'', PList xs), (''total'', PInt (int (length xs))),
                          (''limit'', PInt (int (length xs))), (''offset'', PInt 0)]
        | _ \<Rightarrow> ret [(''items'', PList []), (''total'', PInt 0), (''limit'', PInt 0), (''offset'', PInt 0)])"

definition get_workspace_sprints :: "'e io_env_scheme \<Rightarrow> string \<Rightarrow> (io, pydict list) eff" where
  "get_workspace_sprints env workspace_id =
     ebind (get_json env (ws_path workspace_id @ ''/sprints/internal'')) (\<lambda>data. ret (extract_items data))"

definition add_sprint_work_items ::
  "'e io_env_scheme \<Rightarrow> string \<Rightarrow> string \<Rightarrow> pydict \<Rightarrow> (io, pyval) eff" where
  "add_sprint_work_items env workspace_id sprint_id payload =
     send_json env ''POST''
       (ws_path workspace_id @ ''/sprints/internal/'' @ quote sprint_id @ ''/work-items'') payload"

definition find_similar_work_items ::
  "'e io_env_scheme \<Rightarrow> string \<Rightarrow> pyval list \<Rightarrow> int \<Rightarrow> (io, pydict list) eff" where
  "find_similar_work_items env project_id embedding limit =
     ebind (send_json env ''POST'' (project_path project_id @ ''/work-items/internal/similar'')
              [(''embedding'', PList embedding), (''limit'', PInt limit)])
       (\<lambda>data. case data of PList xs \<Rightarrow> ret (dict_items xs) | _ \<Rightarrow> ret [])"

definition create_sprint :: "'e io_env_scheme \<Rightarrow> string \<Rightarrow> pydict \<Rightarrow> (io, pyval) eff" where
  "create_sprint env workspace_id payload =
     send_json env ''POST'' (ws_path workspace_id @ ''/sprints/internal'') payload"

definition create_work_item :: "'e io_env_scheme \<Rightarrow> string \<Rightarrow> pydict \<Rightarrow> (io, pyval) eff" where
  "create_work_item env project_id payload =
     send_json env ''POST'' (project_path project_id @ ''/work-items/internal'') payload"

definition update_work_item :: "'e io_env_scheme \<Rightarrow> string \<Rightarrow> string \<Rightarrow> pydict \<Rightarrow> (io, pyval) eff" where
  "update_work_item env project_id item_id payload =
     send_json env ''PATCH'' (project_path project_id @ ''/work-items/internal/'' @ quote item_id) payload"

definition get_pull_request :: "'e io_env_scheme \<Rightarrow> string \<Rightarrow> pyval \<Rightarrow> bool \<Rightarrow> bool \<Rightarrow> (io, pyval) eff" where
  "get_pull_request env project_id pull_number include_diff include_files =
     get_json env (project_path project_id @ ''/pull-requests/internal/'' @ quote (py_str pull_number)
       @ query_string [(''includeDiff'', PStr (if include_diff then ''true'' else ''false'')),
                       (''includeFiles'', PStr (if include_files then ''true'' else ''false''))])"

definition create_pull_request_review ::
  "'e io_env_scheme \<Rightarrow> string \<Rightarrow> pyval \<Rightarrow> pydict \<Rightarrow> (io, pyval) eff" where
  "create_pull_request_review env project_id pull_number payload =
     send_json env ''POST'' (project_path project_id @ ''/pull-requests/internal/''
       @ quote (py_str pull_number) @ ''/reviews'') payload"

definition create_agent_run :: "'e io_env_scheme \<Rightarrow> string \<Rightarrow> pydict \<Rightarrow> (io, pyval) eff" where
  "create_agent_run env workspace_id payload =
     send_json env ''POST'' (ws_path workspace_id @ ''/agent-runs/internal'') payload"

definition get_agent_run_state :: "'e io_env_scheme \<Rightarrow> string \<Rightarrow> string \<Rightarrow> (io, pydict) eff" where
  "get_agent_run_state env workspace_id run_id =
     ebind (get_json env (run_path workspace_id run_id @ ''/state''))
       (\<lambda>data. case data of PDict d \<Rightarrow> ret d
          | _ \<Rightarrow> raise (RuntimeError ''Prism API agent run state response must be an object.''))"

definition update_agent_run_status ::
  "'e io_env_scheme \<Rightarrow> string \<Rightarrow> string \<Rightarrow> pydict \<Rightarrow> (io, pyval) eff" where
  "update_agent_run_status env workspace_id run_id payload =
     send_json env ''PATCH'' (run_path workspace_id run_id @ ''/status'') payload"

definition upsert_agent_run_step ::
  "'e io_env_scheme \<Rightarrow> string \<Rightarrow> string \<Rightarrow> pydict \<Rightarrow> (io, pyval) eff" where
  "upsert_agent_run_step env workspace_id run_id payload =
     send_json env ''POST'' (run_path workspace_id run_id @ ''/steps'') payload"

definition upsert_agent_action ::
  "'e io_env_scheme \<Rightarrow> string \<Rightarrow> string \<Rightarrow> pydict \<Rightarrow> (io, pyval) eff" where
  "upsert_agent_action env workspace_id run_id payload =
     send_json env ''POST'' (run_path workspace_id run_id @ ''/actions'') payload"

definition create_agent_action_event ::
  "'e io_env_scheme \<Rightarrow> string \<Rightarrow> string \<Rightarrow> pydict \<Rightarrow> (io, pyval) eff" where
  "create_agent_action_event env workspace_id action_id payload =
     send_json env ''POST''
       (ws_path workspace_id @ ''/agent-actions/internal/'' @ quote action_id @ ''/events'') payload"

definition upsert_agent_memory :: "'e io_env_scheme \<Rightarrow> string \<Rightarrow> pydict \<Rightarrow> (io, pyval) eff" where
  "upsert_agent_memory env workspace_id payload =
     request_json env ''POST'' (ws_path workspace_id @ ''/agent-memories'') (Some payload) ''bearer''"

lemmas api_method_defs =
  get_workspace_members_def get_workspace_jobs_def get_workspace_member_workloads_def
  get_workspace_member_workload_def search_work_items_def get_workspace_sprints_def
  add_sprint_work_items_def find_similar_work_items_def create_sprint_def create_work_item_def
  update_work_item_def get_pull_request_def create_pull_request_review_def create_agent_run_def
  get_agent_run_state_def update_agent_run_status_def upsert_agent_run_step_def
  upsert_agent_action_def create_agent_action_event_def upsert_agent_memory_def


section \<open>Entity versions\<close>

definition get_current_entity_versions :: "string list \<Rightarrow> (io, versions) eff" where
  "get_current_entity_versions entity_refs =
     gets (\<lambda>i. dict_of (List.map_filter
       (\<lambda>r. map_option (\<lambda>v. (r, v)) (dget (io_versions i) r)) entity_refs))"

definition set_entity_version :: "string \<Rightarrow> version \<Rightarrow> (io, unit) eff" where
  "set_entity_version entity_ref version =
     modify (\<lambda>i. i\<lparr>io_versions := dset entity_ref version (io_versions i)\<rparr>)"


section \<open>Facts\<close>

text \<open>
  The client touches nothing but the request log, and every failure it raises is a
  \<open>RuntimeError\<close> (of which the status-specific classes are subclasses).
\<close>

lemma preserves_request_json [pres]:
  "preserves (request_json env m p pl a) io_uuids" "preserves (request_json env m p pl a) io_clock"
  "preserves (request_json env m p pl a) io_versions"
  by (simp_all add: preserves_def request_json_def Let_def)

lemma preserves_json [pres]:
  "preserves (get_json env p) io_uuids" "preserves (get_json env p) io_clock"
  "preserves (get_json env p) io_versions"
  "preserves (send_json env m p pl) io_uuids" "preserves (send_json env m p pl) io_clock"
  "preserves (send_json env m p pl) io_versions"
  unfolding get_json_def send_json_def by (intro pres)+

lemma read_response_error: "read_response m p pl out = Inl e \<Longrightarrow> is_RuntimeError e"
  by (auto simp: read_response_def http_error_def is_RuntimeError_def Let_def
      split: http_outcome.splits pyval.splits option.splits if_splits)

lemma request_json_error:
  "request_json env m p pl a i = (Inl e, i') \<Longrightarrow> is_RuntimeError e"
  by (auto simp: request_json_def Let_def is_RuntimeError_def [of "RuntimeError _"]
      dest: read_response_error split: if_splits)

lemma not_found_iff:
  "read_response m p pl out = Inl (PrismApiNotFoundError msg) \<Longrightarrow> \<exists>d. out = Http_Error 404 d"
  by (auto simp: read_response_def http_error_def Let_def
      split: http_outcome.splits pyval.splits option.splits if_splits)

lemma request_json_log:
  "io_requests (snd (request_json env m p pl a i)) =
     (if is_configured env then io_requests i @
        [Api_Request m (str_or (client_base_url env) [] @ p) (map_option PDict pl) (request_headers env pl a)]
      else io_requests i)"
  by (simp add: request_json_def Let_def)

text \<open>Without a token no credential is ever sent.\<close>

lemma no_token_no_credentials:
  "\<not> opt_truthy (api_token env) \<Longrightarrow>
   fst ` set (request_headers env pl a) \<subseteq> {''Accept'', ''Content-Type''}"
  by (auto simp: request_headers_def)

lemma current_versions_get:
  "fst (get_current_entity_versions refs i) = Inr cur \<Longrightarrow>
     dget cur r = (if r \<in> set refs then dget (io_versions i) r else None)"
proof -
  let ?kvs = "List.map_filter (\<lambda>r. map_option (\<lambda>v. (r, v)) (dget (io_versions i) r)) refs"
  assume "fst (get_current_entity_versions refs i) = Inr cur"
  then have "cur = dmerge [] ?kvs" by (simp add: get_current_entity_versions_def gets_def dict_of_def)
  moreover have "dget (rev ?kvs) r = (if r \<in> set refs then dget (io_versions i) r else None)"
    by (induction refs) (auto simp: map_filter_simps map_add_def split: option.splits if_splits)
  ultimately show ?thesis by (simp add: dget_dmerge split: option.splits)
qed

end
