(* ===== verification/Trace_Data.thy ===== *)
theory Trace_Data
  imports Agent_Run
begin

text \<open>\<open>application/trace_data.py\<close>: the payloads attached to trace events.\<close>

definition strs :: "string list \<Rightarrow> pyval" where
  "strs xs = PList (map PStr xs)"

definition action_trace_data :: "PlannedAction \<Rightarrow> pydict \<Rightarrow> pydict" where
  "action_trace_data action extra =
     dmerge
       [(''action_id'', PStr (pa_action_id action)),
        (''action_type'', PStr (pa_action_type action)),
        (''tool_name'', PStr (pa_tool_name action)),
        (''instruction'', PStr (pa_instruction action)),
        (''input'', PDict (pa_input action)),
        (''depends_on'', strs (pa_depends_on action)),
        (''requires_approval'', PBool (pa_requires_approval action)),
        (''status'', PStr (action_status_value (pa_status action))),
        (''idempotency_key'', PStr (pa_idempotency_key action)),
        (''expected_entity_versions'', versions_val (pa_expected_entity_versions action))]
       extra"

definition context_trace_data :: "AgentContext \<Rightarrow> pydict" where
  "context_trace_data context =
     [(''workflow_id'', PStr (cx_workflow_id context)),
      (''entity_keys'', strs (sort (map fst (cx_entities context)))),
      (''entity_versions'', versions_val (cx_entity_versions context)),
      (''permissions'', PDict (map (\<lambda>(k, b). (k, PBool b)) (cx_permissions context))),
      (''retrieved_document_count'', PInt (int (length (cx_retrieved_documents context)))),
      (''previous_agent_output_count'', PInt (int (length (cx_previous_agent_outputs context)))),
      (''runtime_metadata_keys'', strs (sort (map fst (cx_runtime_metadata context))))]"

definition event_trace_data :: "RuntimeEvent \<Rightarrow> pydict" where
  "event_trace_data event =
     [(''event_id'', PStr (ev_event_id event)),
      (''event_type'', PStr (ev_event_type event)),
      (''event_kind'', PStr (ev_kind event)),
      (''correlation_id'', pstr_opt (ev_correlation_id event)),
      (''causality_depth'', PInt (ca_depth (ev_causality event))),
      (''idempotency_key'', pstr_opt (ev_idempotency_key event))]"

definition emitted_event_trace_data :: "EventEnvelope list \<Rightarrow> pyval" where
  "emitted_event_trace_data envelopes =
     PList (map (\<lambda>en. PDict (dmerge [(''envelope_id'', PStr (en_envelope_id en))]
                              (event_trace_data (en_event en)))) envelopes)"

definition suggestion_trace_data :: "AgentSuggestion option \<Rightarrow> pyval" where
  "suggestion_trace_data suggestion =
     (case suggestion of
        None \<Rightarrow> PNone
      | Some s \<Rightarrow> PDict [(''suggestion_id'', PStr (su_suggestion_id s)),
                        (''title'', PStr (su_title s)),
                        (''target_entity_ref'', pstr_opt (su_target_entity_ref s))])"

definition stale_val :: "stale_entities \<Rightarrow> pyval" where
  "stale_val st = PDict (map (\<lambda>(k, e, c). (k, PDict [(''expected'', version_val e), (''current'', version_val c)])) st)"

definition validation_trace_data :: "ValidationResult \<Rightarrow> pydict" where
  "validation_trace_data validation =
     [(''decision'', PStr (decision_value (vr_decision validation))),
      (''valid'', PBool (vr_valid validation)),
      (''reason'', pstr_opt (vr_reason validation)),
      (''stale_entities'', stale_val (vr_stale_entities validation)),
      (''emitted_event_count'', PInt (int (length (vr_emitted_events validation)))),
      (''emitted_events'', emitted_event_trace_data (vr_emitted_events validation)),
      (''suggestion'', suggestion_trace_data (vr_suggestion validation))]"

definition tool_result_trace_data :: "ToolResult \<Rightarrow> pydict" where
  "tool_result_trace_data result =
     [(''result_id'', PStr (tr_result_id result)),
      (''tool_name'', PStr (tr_tool_name result)),
      (''success'', PBool (tr_success result)),
      (''output'', PDict (tr_output result)),
      (''error'', pstr_opt (tr_error result)),
      (''emitted_event_count'', PInt (int (length (tr_emitted_events result)))),
      (''emitted_events'', emitted_event_trace_data (tr_emitted_events result)),
      (''suggestion'', suggestion_trace_data (tr_suggestion result))]"

end
