(* ===== verification/World.thy ===== *)
theory World
  imports State_Store Registries Prism_Client Trace_Data
begin

text \<open>
  The wiring of \<open>app/container.py\<close>: the parameters a container is built from and the state its
  components share. \<open>generate_plan\<close> stands for the language model behind
  \<open>PydanticAIAgentFactory\<close>, \<open>fetch_json\<close> for the object storage that holds pull-request diffs.
\<close>

record app_env = io_env +
  ae_sync_enabled :: bool
  ae_workflow_prompts :: "(string \<times> string, WorkflowPromptDefinition) dict"
  ae_workflows :: workflow_registry
  ae_skills :: skill_registry
  ae_tools :: tool_registry
  ae_generate_plan :: "WorkflowPromptDefinition \<Rightarrow> SkillPromptDefinition list \<Rightarrow> agent_tool list
    \<Rightarrow> string option \<Rightarrow> AgentContext \<Rightarrow> string \<Rightarrow> ActionApprovalPolicy \<Rightarrow> (io, AgentPlan) eff"
  ae_fetch_json :: "(pyval \<Rightarrow> pyval \<Rightarrow> exn + pydict) option"
  ae_max_recursion_depth :: int

text \<open>
  The mutable state: the API boundary, the queue, the state store, the inline-action counter of
  \<open>ActionEventHandler\<close> and the seen event ids of \<open>RecursionRunner\<close>.
\<close>

record world =
  w_io :: io
  w_queue :: memory_queue
  w_store :: memory_store
  w_inline :: int
  w_seen :: "string set"

definition io_do :: "(io, 'a) eff \<Rightarrow> (world, 'a) eff" where
  "io_do m = on_part w_io w_io_update m"

definition store_get :: "(memory_store \<Rightarrow> 'a) \<Rightarrow> (world, 'a) eff" where
  "store_get f = gets (\<lambda>w. f (w_store w))"

definition store_do :: "(memory_store \<Rightarrow> memory_store) \<Rightarrow> (world, unit) eff" where
  "store_do f = modify (\<lambda>w. w\<lparr>w_store := f (w_store w)\<rparr>)"

text \<open>A store operation with a result (\<open>claim_ready_nodes\<close>, \<open>advance_task_graph\<close>).\<close>

definition store_run :: "(memory_store \<Rightarrow> 'a \<times> memory_store) \<Rightarrow> (world, 'a) eff" where
  "store_run f = (\<lambda>w. case f (w_store w) of (r, s) \<Rightarrow> (Inr r, w\<lparr>w_store := s\<rparr>))"

text \<open>\<open>Queue.enqueue\<close>: the message draws its id.\<close>

definition enqueue :: "'e io_env_scheme \<Rightarrow> EventEnvelope \<Rightarrow> (world, QueueMessage) eff" where
  "enqueue env envelope =
     ebind (io_do (uuid4 env)) (\<lambda>mid.
     let message = \<lparr>qm_message_id = mid, qm_envelope = envelope, qm_receipt = None\<rparr> in
     eseq (modify (\<lambda>w. w\<lparr>w_queue := mq_enqueue message (w_queue w)\<rparr>)) (ret message))"

definition trace ::
  "'e io_env_scheme \<Rightarrow> string \<Rightarrow> string \<Rightarrow> string option \<Rightarrow> string option \<Rightarrow> string option \<Rightarrow> string
   \<Rightarrow> pydict \<Rightarrow> (world, unit) eff" where
  "trace env event_name workspace_id project_id plan_id action_id message data =
     ebind (io_do (new_trace env event_name workspace_id project_id plan_id action_id message data))
       (\<lambda>t. store_do (append_trace_event t))"

abbreviation now :: "'e io_env_scheme \<Rightarrow> (world, datetime) eff" where
  "now env \<equiv> io_do (utc_now env)"

text \<open>\<open>action.with_status(s)\<close> followed by \<open>plan.replace_action(...)\<close>, each reading the clock.\<close>

definition restatus ::
  "'e io_env_scheme \<Rightarrow> ActionStatus \<Rightarrow> PlannedAction \<Rightarrow> AgentPlan
   \<Rightarrow> (world, PlannedAction \<times> AgentPlan) eff" where
  "restatus env status action plan =
     ebind (now env) (\<lambda>t1.
     let updated_action = with_status t1 status action in
     ebind (now env) (\<lambda>t2. ret (updated_action, replace_action t2 updated_action plan)))"


section \<open>Frame conditions\<close>

lemma preserves_io_do [pres]:
  "preserves (io_do m) w_queue" "preserves (io_do m) w_store" "preserves (io_do m) w_inline"
  "preserves (io_do m) w_seen"
  by (simp_all add: preserves_def io_do_def on_part_def split: prod.splits)

lemma preserves_io_do_io [pres]: "preserves m f \<Longrightarrow> preserves (io_do m) (\<lambda>w. f (w_io w))"
  by (auto simp: preserves_def io_do_def on_part_def split: prod.splits) (metis snd_conv)

lemma preserves_store [pres]:
  "preserves (store_get g) f"
  "preserves (store_do h) w_queue" "preserves (store_do h) w_inline" "preserves (store_do h) w_seen"
  "preserves (store_do h) w_io"
  "preserves (store_run r) w_queue" "preserves (store_run r) w_inline" "preserves (store_run r) w_seen"
  "preserves (store_run r) w_io"
  by (simp_all add: preserves_def store_get_def store_do_def store_run_def gets_def modify_def
      split: prod.splits)

lemma preserves_store_part:
  "(\<And>s. f (h s) = f s) \<Longrightarrow> preserves (store_do h) (\<lambda>w. f (w_store w))"
  by (simp add: preserves_def store_do_def modify_def)

lemma preserves_enqueue [pres]:
  "preserves (enqueue env e) w_store" "preserves (enqueue env e) w_inline"
  "preserves (enqueue env e) w_seen"
  unfolding enqueue_def by (intro pres preserves_modify; simp)+

lemma preserves_trace [pres]:
  "preserves (trace env n ws p pl a m d) w_queue" "preserves (trace env n ws p pl a m d) w_inline"
  "preserves (trace env n ws p pl a m d) w_seen"
  unfolding trace_def by (intro pres)+

lemma preserves_trace_store [pres]:
  "(\<And>s t. f (append_trace_event t s) = f s) \<Longrightarrow>
   preserves (trace env n ws p pl a m d) (\<lambda>w. f (w_store w))"
  unfolding trace_def
  by (intro pres preserves_store_part preserves_comp [where f = w_store]) auto

lemma preserves_restatus [pres]:
  "preserves (restatus env s a p) w_queue" "preserves (restatus env s a p) w_store"
  "preserves (restatus env s a p) w_inline" "preserves (restatus env s a p) w_seen"
  unfolding restatus_def by (intro pres)+


section \<open>Weakest preconditions\<close>

lemma wp_io_do [wp_rules]:
  "wp (io_do m) Q E w \<longleftrightarrow>
     wp m (\<lambda>x i. Q x (w\<lparr>w_io := i\<rparr>)) (\<lambda>e i. E e (w\<lparr>w_io := i\<rparr>)) (w_io w)"
  by (auto simp: wp_def io_do_def on_part_def split: prod.splits sum.splits)

lemma wp_store_get [wp_rules]: "wp (store_get f) Q E w \<longleftrightarrow> Q (f (w_store w)) w"
  by (simp add: wp_def store_get_def gets_def)

lemma wp_store_do [wp_rules]: "wp (store_do f) Q E w \<longleftrightarrow> Q () (w\<lparr>w_store := f (w_store w)\<rparr>)"
  by (simp add: wp_def store_do_def modify_def)

lemma wp_store_run [wp_rules]:
  "wp (store_run f) Q E w \<longleftrightarrow> Q (fst (f (w_store w))) (w\<lparr>w_store := snd (f (w_store w))\<rparr>)"
  by (simp add: wp_def store_run_def split: prod.splits)

end
