(* ===== verification/Planner.thy ===== *)
theory Planner
  imports World
begin

text \<open>
  \<open>application/planner.py\<close>, \<open>application/orchestrator.py\<close> and \<open>application/subagent_runner.py\<close>:
  from a workflow and a hydrated context to a task graph and to the plan of each of its nodes.
\<close>

section \<open>Planner\<close>

definition APPROVAL_VALUE_MAP :: "(string, ApprovalMode) dict" where
  "APPROVAL_VALUE_MAP =
     [(''auto_commit'', AUTO_COMMIT), (''user_approval_required'', USER_APPROVAL_REQUIRED),
      (''suggest_only'', SUGGEST_ONLY), (''suggest'', SUGGEST_ONLY)]"

definition scope_context :: "AgentContext \<Rightarrow> string list option \<Rightarrow> AgentContext" where
  "scope_context context context_scope =
     (case context_scope of
        None \<Rightarrow> context
      | Some [] \<Rightarrow> context
      | Some scope \<Rightarrow> context\<lparr>cx_entities := filter (\<lambda>(k, v). k \<in> set scope) (cx_entities context)\<rparr>)"

definition idempotency_prefix :: "AgentContext \<Rightarrow> string \<Rightarrow> string option \<Rightarrow> string" where
  "idempotency_prefix context agent_run_id plan_id =
     (case plan_id of
        Some p \<Rightarrow> if p \<noteq> agent_run_id then p
                  else str_or (ev_idempotency_key (en_event (cx_source_event context))) agent_run_id
      | None \<Rightarrow> str_or (ev_idempotency_key (en_event (cx_source_event context))) agent_run_id)"

definition approval_policy :: "(string, string) dict \<Rightarrow> ActionApprovalPolicy" where
  "approval_policy raw_policy =
     \<lparr>aap_default_mode = AUTO_COMMIT,
      aap_tool_modes = map (\<lambda>(tool_name, mode). (tool_name,
        case dget APPROVAL_VALUE_MAP mode of Some m \<Rightarrow> m | None \<Rightarrow> USER_APPROVAL_REQUIRED)) raw_policy\<rparr>"

definition tool_approval_policy :: "tool_registry \<Rightarrow> string list \<Rightarrow> exn + (string, string) dict" where
  "tool_approval_policy r tool_names =
     sbind (smap (\<lambda>n. sbind (definition_of r n) (\<lambda>d. Inr (n, tp_approval_policy d))) tool_names)
       (\<lambda>kvs. Inr (dict_of kvs))"

definition ensure_plan_uses_allowed_tools :: "AgentPlan \<Rightarrow> string list \<Rightarrow> exn + unit" where
  "ensure_plan_uses_allowed_tools plan allowed_tool_names =
     (let disallowed = filter (\<lambda>t. t \<notin> set allowed_tool_names) (map pa_tool_name (ap_actions plan))
      in if disallowed \<noteq> []
         then Inl (ValueError (''Plan contains tools not allowed by selected skills: ''
                    @ join '', '' (sort (remdups disallowed))))
         else Inr ())"

fun normalize_actions ::
  "AgentContext \<Rightarrow> string \<Rightarrow> string \<Rightarrow> ActionApprovalPolicy \<Rightarrow> nat \<Rightarrow> string option
   \<Rightarrow> PlannedAction list \<Rightarrow> PlannedAction list" where
  "normalize_actions context plan_id prefix policy index prev [] = []"
| "normalize_actions context plan_id prefix policy index prev (action # actions) =
     action\<lparr>pa_plan_id := plan_id,
            pa_depends_on := (if opt_truthy prev then [str_or prev []] else []),
            pa_requires_approval := requires_approval policy (pa_tool_name action),
            pa_status := ActionStatus.PENDING,
            pa_idempotency_key := prefix @ '':'' @ pa_tool_name action @ '':'' @ nat_str index,
            pa_expected_entity_versions := cx_entity_versions context\<rparr>
     # normalize_actions context plan_id prefix policy (Suc index) (Some (pa_action_id action)) actions"

definition normalize_plan_for_runtime ::
  "AgentPlan \<Rightarrow> AgentContext \<Rightarrow> string \<Rightarrow> string \<Rightarrow> string \<Rightarrow> string \<Rightarrow> string \<Rightarrow> string
   \<Rightarrow> string list \<Rightarrow> string list \<Rightarrow> ActionApprovalPolicy \<Rightarrow> AgentPlan" where
  "normalize_plan_for_runtime plan context ref plan_id prefix prompt_id prompt_version goal
     skill_ids tool_names policy =
     plan\<lparr>ap_plan_id := plan_id,
          ap_source_event_id := en_event_id (cx_source_event context),
          ap_workspace_id := cx_workspace_id context,
          ap_project_id := cx_project_id context,
          ap_goal := goal,
          ap_prompt_id := prompt_id,
          ap_prompt_version := prompt_version,
          ap_skill_ids := skill_ids,
          ap_tool_names := tool_names,
          ap_context_snapshot_ref := ref,
          ap_actions := normalize_actions context plan_id prefix policy 1 None (ap_actions plan),
          ap_status := PlanStatus.PLANNED\<rparr>"

definition get_workflow_prompt :: "app_env \<Rightarrow> string \<Rightarrow> string \<Rightarrow> exn + WorkflowPromptDefinition" where
  "get_workflow_prompt env prompt_id version =
     (case dget (ae_workflow_prompts env) (prompt_id, version) of
        Some p \<Rightarrow> Inr p
      | None \<Rightarrow> Inl (KeyError (''Workflow prompt not registered: '' @ prompt_id @ '':'' @ version)))"

definition create_plan ::
  "app_env \<Rightarrow> AgentContext \<Rightarrow> string \<Rightarrow> WorkflowDefinition \<Rightarrow> string \<Rightarrow> string option
   \<Rightarrow> string list option \<Rightarrow> string list option \<Rightarrow> string option \<Rightarrow> (io, AgentPlan) eff" where
  "create_plan env context ref workflow agent_run_id plan_id skill_ids context_scope model_tier =
     ebind (of_sum (get_workflow_prompt env (wf_prompt_id workflow) (wf_prompt_version workflow)))
       (\<lambda>workflow_prompt.
     let skill_names = (case skill_ids of Some ids \<Rightarrow> ids | None \<Rightarrow> wf_required_skills workflow);
         target_plan_id = str_or plan_id agent_run_id in
     ebind (of_sum (select_skills (ae_skills env) skill_names)) (\<lambda>skills.
     ebind (of_sum (allowed_tools_for (ae_skills env) skill_names)) (\<lambda>allowed_tool_names.
     ebind (of_sum (select_tools (ae_tools env) allowed_tool_names)) (\<lambda>tools.
     ebind (of_sum (tool_approval_policy (ae_tools env) allowed_tool_names)) (\<lambda>tool_policy.
     let policy = approval_policy (dmerge tool_policy (wf_approval_policy workflow));
         planning_context = scope_context context context_scope in
     ebind (ae_generate_plan env workflow_prompt skills tools model_tier planning_context ref policy)
       (\<lambda>plan.
     let plan' = normalize_plan_for_runtime plan context ref target_plan_id
           (idempotency_prefix context agent_run_id plan_id) (wp_id workflow_prompt)
           (wp_version workflow_prompt) (wp_goal workflow_prompt) (map sk_id skills)
           (map tool_name tools) policy in
     eseq (of_sum (ensure_plan_uses_allowed_tools plan' allowed_tool_names)) (ret plan')))))))"


section \<open>Orchestrator\<close>

definition ROOT_NODE_ID :: string where
  "ROOT_NODE_ID = ''root''"

definition SYNTHESIZER_NODE_ID :: string where
  "SYNTHESIZER_NODE_ID = ''synthesizer''"

definition DEFAULT_MODEL_TIER :: string where
  "DEFAULT_MODEL_TIER = ''pro''"

definition new_task_graph ::
  "app_env \<Rightarrow> string \<Rightarrow> string option \<Rightarrow> SubTask list \<Rightarrow> SubTask option \<Rightarrow> (io, TaskGraph) eff" where
  "new_task_graph env workspace_id project_id nodes synthesizer =
     ebind (uuid4 env) (\<lambda>pid.
     ret \<lparr>tg_plan_id = pid, tg_workspace_id = workspace_id, tg_project_id = project_id,
          tg_context_snapshot_ref = None, tg_version = 0, tg_nodes = nodes,
          tg_synthesizer_node = synthesizer\<rparr>)"

definition build_task_graph :: "app_env \<Rightarrow> AgentContext \<Rightarrow> WorkflowDefinition \<Rightarrow> (io, TaskGraph) eff" where
  "build_task_graph env context workflow =
     new_task_graph env (cx_workspace_id context) (cx_project_id context)
       [\<lparr>sn_node_id = ROOT_NODE_ID, sn_skill_ids = wf_required_skills workflow,
         sn_objective = wf_goal workflow, sn_depends_on = [], sn_context_scope = [],
         sn_model_tier = DEFAULT_MODEL_TIER, sn_status = SubTaskStatus.PENDING\<rparr>] None"

definition resolve_tier :: "skill_registry \<Rightarrow> OrchestrationNodeDef \<Rightarrow> string list \<Rightarrow> string" where
  "resolve_tier skills node_def skill_ids =
     (if opt_truthy (od_model_tier node_def) then str_or (od_model_tier node_def) []
      else case skill_ids of
             [] \<Rightarrow> DEFAULT_MODEL_TIER
           | sid # _ \<Rightarrow> (case skill_model_tier skills sid of
                           Inr tier \<Rightarrow> tier | Inl _ \<Rightarrow> DEFAULT_MODEL_TIER))"

definition single_quoted :: "string \<Rightarrow> string" where
  "single_quoted s = [CHR 0x27] @ s @ [CHR 0x27]"

definition build_node ::
  "skill_registry \<Rightarrow> WorkflowDefinition \<Rightarrow> string \<Rightarrow> string list \<Rightarrow> OrchestrationNodeDef \<Rightarrow> exn + SubTask" where
  "build_node skills workflow fallback_node_id default_depends_on node_def =
     (let node_id = or_str (od_node node_def) fallback_node_id;
          skill_ids = node_skill_ids node_def
      in if skill_ids = [] then
           Inl (ValueError (''Orchestration node '' @ single_quoted node_id @ '' in workflow ''
                  @ single_quoted (wf_id workflow) @ '' declares no skill.''))
         else Inr \<lparr>sn_node_id = node_id, sn_skill_ids = skill_ids,
                   sn_objective = or_str (od_objective node_def) (wf_goal workflow),
                   sn_depends_on = (if od_depends_on node_def \<noteq> [] then od_depends_on node_def
                                    else default_depends_on),
                   sn_context_scope = od_context_scope node_def,
                   sn_model_tier = resolve_tier skills node_def skill_ids,
                   sn_status = SubTaskStatus.PENDING\<rparr>)"

definition build_nodes ::
  "skill_registry \<Rightarrow> WorkflowDefinition \<Rightarrow> OrchestrationNodeDef list \<Rightarrow> exn + SubTask list" where
  "build_nodes skills workflow defs =
     smap (\<lambda>(index, node_def). build_node skills workflow (''node_'' @ nat_str index) [] node_def)
       (enumerate 0 defs)"

definition build_orchestrated_graph ::
  "app_env \<Rightarrow> AgentContext \<Rightarrow> WorkflowDefinition \<Rightarrow> (io, TaskGraph) eff" where
  "build_orchestrated_graph env context workflow =
     (case wf_orchestration workflow of
        None \<Rightarrow> build_task_graph env context workflow
      | Some orchestration \<Rightarrow>
          if oo_default_graph orchestration = [] then build_task_graph env context workflow
          else
          ebind (of_sum (build_nodes (ae_skills env) workflow (oo_default_graph orchestration))) (\<lambda>nodes.
          ebind (case oo_synthesizer orchestration of
                   None \<Rightarrow> ret None
                 | Some node_def \<Rightarrow>
                     ebind (of_sum (build_node (ae_skills env) workflow SYNTHESIZER_NODE_ID
                              (map sn_node_id nodes) node_def)) (\<lambda>n. ret (Some n)))
            (\<lambda>synthesizer.
          new_task_graph env (cx_workspace_id context) (cx_project_id context) nodes synthesizer)))"


section \<open>Sub-agent runner\<close>

definition sub_plan_id :: "string \<Rightarrow> string \<Rightarrow> string" where
  "sub_plan_id agent_run_id node_id = agent_run_id @ ''::'' @ node_id"

definition plan_for_node ::
  "app_env \<Rightarrow> SubTask \<Rightarrow> AgentContext \<Rightarrow> string \<Rightarrow> WorkflowDefinition \<Rightarrow> string \<Rightarrow> (io, AgentPlan) eff" where
  "plan_for_node env node context ref workflow agent_run_id =
     (if sn_node_id node = ROOT_NODE_ID
      then create_plan env context ref workflow agent_run_id None None None None
      else
      ebind (create_plan env context ref workflow agent_run_id
               (Some (sub_plan_id agent_run_id (sn_node_id node)))
               (if sn_skill_ids node = [] then None else Some (sn_skill_ids node))
               (if sn_context_scope node = [] then None else Some (sn_context_scope node))
               (if sn_model_tier node = [] then None else Some (sn_model_tier node)))
        (\<lambda>plan. ret (plan\<lparr>ap_parent_run_id := Some agent_run_id, ap_node_id := Some (sn_node_id node)\<rparr>)))"


section \<open>Properties of plans\<close>

lemma length_normalize [simp]:
  "length (normalize_actions c p pre pol i prev as) = length as"
  by (induction as arbitrary: i prev) auto

lemma normalize_keeps:
  "map pa_action_id (normalize_actions c p pre pol i prev as) = map pa_action_id as"
  "map pa_tool_name (normalize_actions c p pre pol i prev as) = map pa_tool_name as"
  by (induction as arbitrary: i prev) auto

lemma normalize_all:
  "a \<in> set (normalize_actions c p pre pol i prev as) \<Longrightarrow>
     pa_plan_id a = p \<and> pa_status a = ActionStatus.PENDING \<and>
     pa_requires_approval a = requires_approval pol (pa_tool_name a) \<and>
     pa_expected_entity_versions a = cx_entity_versions c"
  by (induction as arbitrary: i prev) auto

lemma normalize_chained:
  assumes "\<forall>a \<in> set as. pa_action_id a \<noteq> []" and "prev \<noteq> Some []"
  shows "chained_from prev (normalize_actions c p pre pol i prev as)"
  using assms
  by (induction as arbitrary: i prev) (auto simp: opt_truthy_def str_or_def split: option.splits)

text \<open>Idempotency keys carry the position, so no two actions of a plan share one.\<close>

lemma normalize_key:
  "k < length as \<Longrightarrow> pa_idempotency_key (normalize_actions c p pre pol i prev as ! k) =
     (pre @ '':'' @ pa_tool_name (as ! k)) @ '':'' @ nat_str (i + k)"
  by (induction as arbitrary: i prev k) (auto simp: nth_Cons split: nat.splits)

lemma distinct_keys:
  "distinct (map pa_idempotency_key (normalize_actions c p pre pol i prev as))"
proof -
  have "j = k" if "j < length as" "k < length as"
    "pa_idempotency_key (normalize_actions c p pre pol i prev as ! j) =
     pa_idempotency_key (normalize_actions c p pre pol i prev as ! k)" for j k
  proof -
    from that(3) have "(pre @ '':'' @ pa_tool_name (as ! j)) @ CHR '':'' # nat_str (i + j) =
        (pre @ '':'' @ pa_tool_name (as ! k)) @ CHR '':'' # nat_str (i + k)"
      by (simp add: normalize_key that(1,2))
    from append_sep_eq [OF this colon_notin_nat_str colon_notin_nat_str] show ?thesis by simp
  qed
  then show ?thesis by (auto simp: distinct_conv_nth)
qed

lemma ensure_Inr_iff:
  "ensure_plan_uses_allowed_tools p allowed = Inr () \<longleftrightarrow> pa_tool_name ` set (ap_actions p) \<subseteq> set allowed"
  by (auto simp: ensure_plan_uses_allowed_tools_def Let_def filter_empty_conv)

text \<open>What \<open>create_plan\<close> returns, whatever the language model produced.\<close>

lemma create_plan_result:
  assumes "create_plan env context ref workflow run plan_id skill_ids scope tier i = (Inr plan, i')"
  obtains raw prompt skills tools allowed tool_policy where
    "get_workflow_prompt env (wf_prompt_id workflow) (wf_prompt_version workflow) = Inr prompt"
    "select_skills (ae_skills env)
       (case skill_ids of Some ids \<Rightarrow> ids | None \<Rightarrow> wf_required_skills workflow) = Inr skills"
    "allowed_tools_for (ae_skills env)
       (case skill_ids of Some ids \<Rightarrow> ids | None \<Rightarrow> wf_required_skills workflow) = Inr allowed"
    "select_tools (ae_tools env) allowed = Inr tools"
    "tool_approval_policy (ae_tools env) allowed = Inr tool_policy"
    "plan = normalize_plan_for_runtime raw context ref (str_or plan_id run)
       (idempotency_prefix context run plan_id) (wp_id prompt) (wp_version prompt) (wp_goal prompt)
       (map sk_id skills) (map tool_name tools)
       (approval_policy (dmerge tool_policy (wf_approval_policy workflow)))"
    "ensure_plan_uses_allowed_tools plan allowed = Inr ()"
  using assms unfolding create_plan_def
  by (auto simp: eff_defs Let_def split: sum.splits prod.splits)

text \<open>A tool whose configured approval mode is not exactly \<open>auto_commit\<close> needs approval.\<close>

lemma approval_policy_mode:
  "dget (aap_tool_modes (approval_policy raw)) t =
     map_option (\<lambda>mode. case dget APPROVAL_VALUE_MAP mode of Some m \<Rightarrow> m | None \<Rightarrow> USER_APPROVAL_REQUIRED)
       (dget raw t)"
  unfolding approval_policy_def by (induction raw) auto

lemma approval_policy_requires:
  assumes "dget raw t = Some mode"
  shows "requires_approval (approval_policy raw) t \<longleftrightarrow> mode \<noteq> ''auto_commit''"
  using assms
  by (auto simp: requires_approval_def tool_mode_def approval_policy_mode APPROVAL_VALUE_MAP_def)

lemma smap_pair_keys:
  "smap (\<lambda>n. sbind (f n) (\<lambda>d. Inr (n, g d))) ns = Inr kvs \<Longrightarrow> map fst kvs = ns"
  by (induction ns arbitrary: kvs) (auto simp: sbind_def split: sum.splits)

text \<open>Every tool a plan may use has an approval mode: the permissive default is never reached.\<close>

lemma tool_policy_total:
  assumes "tool_approval_policy r names = Inr pol" and "t \<in> set names"
  shows "\<exists>m. dget (dmerge pol extra) t = Some m"
proof -
  from assms(1) obtain kvs where kvs: "map fst kvs = names" "pol = dict_of kvs"
    by (auto simp: tool_approval_policy_def sbind_Inr_iff dest: smap_pair_keys)
  then have "dget (rev kvs) t \<noteq> None"
    using assms(2) by (auto simp: map_of_eq_None_iff)
  then have "dget pol t \<noteq> None" by (auto simp: kvs dict_of_def dget_dmerge split: option.splits)
  then show ?thesis by (auto simp: dget_dmerge split: option.splits)
qed

text \<open>The mode in force: the workflow's entry for the tool, or else the tool definition's.\<close>

lemma smap_pair_values:
  "smap (\<lambda>n. sbind (f n) (\<lambda>d. Inr (n, g d))) ns = Inr kvs \<Longrightarrow> (k, v) \<in> set kvs \<Longrightarrow>
     \<exists>d. f k = Inr d \<and> v = g d"
  by (induction ns arbitrary: kvs) (auto simp: sbind_def split: sum.splits)

lemma tool_policy_mode:
  assumes "tool_approval_policy r names = Inr pol" and "t \<in> set names" and "distinct (map fst extra)"
  obtains d where "definition_of r t = Inr d"
    and "dget (dmerge pol extra) t =
      Some (case dget extra t of Some mode \<Rightarrow> mode | None \<Rightarrow> tp_approval_policy d)"
proof -
  from assms(1) obtain kvs where kvs: "map fst kvs = names" "pol = dict_of kvs"
    "\<And>k v. (k, v) \<in> set kvs \<Longrightarrow> \<exists>d. definition_of r k = Inr d \<and> v = tp_approval_policy d"
    by (auto simp: tool_approval_policy_def sbind_Inr_iff dest: smap_pair_keys smap_pair_values)
  have extra: "dget (rev extra) t = dget extra t"
    using map_of_inject_set [of "rev extra" extra] assms(3) by (simp add: rev_map [symmetric])
  obtain v where v: "dget (rev kvs) t = Some v"
    using assms(2) kvs(1) by (cases "dget (rev kvs) t") (auto simp: map_of_eq_None_iff)
  then have "(t, v) \<in> set kvs" using map_of_SomeD by fastforce
  then obtain d where d: "definition_of r t = Inr d" "v = tp_approval_policy d" using kvs(3) by blast
  show ?thesis
    by (rule that [OF d(1)]) (simp add: dget_dmerge kvs(2) dict_of_def v d(2) extra split: option.splits)
qed

lemma build_node_fields:
  assumes "build_node skills flow fb dd nd = Inr n"
  shows "sn_status n = SubTaskStatus.PENDING" and "sn_skill_ids n \<noteq> []"
    and "fb \<noteq> [] \<Longrightarrow> sn_node_id n \<noteq> []"
  using assms by (auto simp: build_node_def Let_def or_str_def split: if_splits)

lemma sub_plan_id_inject: "sub_plan_id r n = sub_plan_id r m \<longleftrightarrow> n = m"
  by (simp add: sub_plan_id_def)

end
