(* ===== verification/Backlog.thy ===== *)
theory Backlog
  imports Runtime_IO
begin

text \<open>\<open>domain/backlog.py\<close>: the refinement signals computed from the open work items.\<close>

definition STALE_AFTER_DAYS :: int where "STALE_AFTER_DAYS = 14"
definition THIN_DESCRIPTION_LENGTH :: nat where "THIN_DESCRIPTION_LENGTH = 30"
definition OVERLOADED_ACTIVE_ITEM_COUNT :: int where "OVERLOADED_ACTIVE_ITEM_COUNT = 8"
definition MAX_SIGNAL_EXAMPLES :: nat where "MAX_SIGNAL_EXAMPLES = 15"

lemmas backlog_constants [simp] =
  STALE_AFTER_DAYS_def THIN_DESCRIPTION_LENGTH_def OVERLOADED_ACTIVE_ITEM_COUNT_def
  MAX_SIGNAL_EXAMPLES_def

definition OPEN_STATUSES :: "string list" where
  "OPEN_STATUSES = [''todo'', ''in_progress'', ''in_review'']"

definition CLOSED_STATUSES :: "string list" where
  "CLOSED_STATUSES = [''done'', ''archived'']"

definition item_ref :: "pydict \<Rightarrow> pydict" where
  "item_ref item = [(''itemId'', pget item ''itemId''), (''title'', pget item ''title''),
                    (''status'', pget item ''status'')]"

fun replace_Z :: "string \<Rightarrow> string" where
  "replace_Z [] = []"
| "replace_Z (c # cs) = (if c = CHR ''Z'' then ''+00:00'' @ replace_Z cs else c # replace_Z cs)"

text \<open>A naive datetime is read as UTC.\<close>

definition parse_datetime :: "'e io_env_scheme \<Rightarrow> pyval \<Rightarrow> datetime option" where
  "parse_datetime env value =
     (if \<not> truthy value then None
      else case fromisoformat_of env (replace_Z (strip (py_str value))) of
             None \<Rightarrow> None
           | Some parsed \<Rightarrow>
               Some (case dt_offset parsed of None \<Rightarrow> DateTime (dt_utc parsed) (Some 0) | Some _ \<Rightarrow> parsed))"

definition is_closed :: "pydict \<Rightarrow> bool" where
  "is_closed item \<longleftrightarrow> str_or_empty (pget item ''status'') \<in> set CLOSED_STATUSES"

definition items_by_id :: "pydict list \<Rightarrow> (string, pydict) dict" where
  "items_by_id items =
     dict_of (map (\<lambda>item. (py_str (pget item ''itemId''), item))
       (filter (\<lambda>item. truthy (pget item ''itemId'')) items))"

definition day_us :: int where "day_us = 86400000000"

definition stale_signal :: "'e io_env_scheme \<Rightarrow> datetime \<Rightarrow> pydict \<Rightarrow> pydict option" where
  "stale_signal env current item =
     (case parse_datetime env (por (pget item ''statusChangedAt'') (pget item ''createdAt'')) of
        None \<Rightarrow> None
      | Some changed_at \<Rightarrow>
          (let idle = dt_utc current - dt_utc changed_at
           in if idle > STALE_AFTER_DAYS * day_us
              then Some (dmerge (item_ref item) [(''daysIdle'', PInt (idle div day_us))]) else None))"

definition overdue_signal :: "'e io_env_scheme \<Rightarrow> datetime \<Rightarrow> pydict \<Rightarrow> pydict option" where
  "overdue_signal env current item =
     (case parse_datetime env (pget item ''dueDate'') of
        None \<Rightarrow> None
      | Some due_date \<Rightarrow>
          if dt_utc due_date < dt_utc current
          then Some (dmerge (item_ref item) [(''dueDate'', PStr (py_str (pget item ''dueDate'')))]) else None)"

definition unassigned_signal :: "pydict \<Rightarrow> pydict option" where
  "unassigned_signal item =
     (if str_or_empty (pget item ''priority'') \<in> {''high'', ''urgent''}
         \<and> \<not> truthy (pget item ''assigneeUsernames'')
      then Some (dmerge (item_ref item) [(''priority'', pget item ''priority'')]) else None)"

definition thin_signal :: "pydict \<Rightarrow> pydict option" where
  "thin_signal item =
     (if length (strip (str_or_empty (pget item ''description''))) < THIN_DESCRIPTION_LENGTH
      then Some (item_ref item) else None)"

definition parent_signal :: "(string, pydict) dict \<Rightarrow> pydict \<Rightarrow> pydict option" where
  "parent_signal by_id item =
     (case dget by_id (py_str (pget item ''parentId'')) of
        None \<Rightarrow> None
      | Some parent \<Rightarrow>
          if is_closed parent
          then Some (dmerge (item_ref item)
                 [(''parentItemId'', pget parent ''itemId''), (''parentTitle'', pget parent ''title''),
                  (''parentStatus'', pget parent ''status'')])
          else None)"

fun as_int :: "pyval \<Rightarrow> int option" where
  "as_int (PInt i) = Some i"
| "as_int (PBool b) = Some (if b then 1 else 0)"
| "as_int _ = None"

definition overloaded_members :: "pydict list \<Rightarrow> pydict list" where
  "overloaded_members member_workloads =
     map (\<lambda>w. [(''username'', pget w ''username''), (''activeItemCount'', pget w ''activeItemCount'')])
       (filter (\<lambda>w. case as_int (pget w ''activeItemCount'') of
                      Some n \<Rightarrow> n \<ge> OVERLOADED_ACTIVE_ITEM_COUNT | None \<Rightarrow> False) member_workloads)"

definition dicts :: "pydict list \<Rightarrow> pyval" where
  "dicts ds = PList (map PDict ds)"

definition signals_of :: "(pydict \<Rightarrow> pydict option) \<Rightarrow> pydict list \<Rightarrow> pyval" where
  "signals_of f items = dicts (take MAX_SIGNAL_EXAMPLES (List.map_filter f items))"

definition compute_backlog_signals ::
  "'e io_env_scheme \<Rightarrow> datetime \<Rightarrow> pydict list \<Rightarrow> pydict list \<Rightarrow> pydict" where
  "compute_backlog_signals env current items member_workloads =
     (let by_id = items_by_id items;
          open_items = filter (\<lambda>item. \<not> is_closed item) items
      in [(''computedAt'', PStr (isoformat current)),
          (''thresholds'', PDict [(''staleAfterDays'', PInt STALE_AFTER_DAYS),
                                 (''thinDescriptionLength'', PInt (int THIN_DESCRIPTION_LENGTH)),
                                 (''overloadedActiveItemCount'', PInt OVERLOADED_ACTIVE_ITEM_COUNT)]),
          (''openItemCount'', PInt (int (length (filter
             (\<lambda>item. str_or_empty (pget item ''status'') \<in> set OPEN_STATUSES) items)))),
          (''staleItems'', signals_of (stale_signal env current) open_items),
          (''overdueItems'', signals_of (overdue_signal env current) open_items),
          (''unassignedUrgentItems'', signals_of unassigned_signal open_items),
          (''thinDescriptionItems'', signals_of thin_signal open_items),
          (''closedParentWithOpenChildren'', signals_of (parent_signal by_id) open_items),
          (''overloadedMembers'', dicts (overloaded_members member_workloads))])"


section \<open>Facts\<close>

text \<open>Every reported example is an open item of the input, and an idle item is reported with a
  number of idle days at or above the threshold.\<close>

lemma stale_signal_days:
  assumes "stale_signal env current item = Some s"
  obtains n where "pget s ''daysIdle'' = PInt n" and "n \<ge> STALE_AFTER_DAYS"
proof -
  from assms obtain changed where
    idle: "dt_utc current - dt_utc changed > STALE_AFTER_DAYS * day_us" and
    s: "s = dmerge (item_ref item) [(''daysIdle'', PInt ((dt_utc current - dt_utc changed) div day_us))]"
    by (auto simp: stale_signal_def Let_def split: option.splits if_splits)
  have "STALE_AFTER_DAYS \<le> (dt_utc current - dt_utc changed) div day_us"
    using idle by (simp add: day_us_def)
  with s show thesis by (intro that) auto
qed

lemma signals_of_bounded:
  assumes "signals_of f items = PList xs"
  shows "length xs \<le> MAX_SIGNAL_EXAMPLES" and "\<forall>x \<in> set xs. \<exists>i \<in> set items. f i \<noteq> None \<and> x = PDict (the (f i))"
proof -
  from assms have xs: "xs = map PDict (take MAX_SIGNAL_EXAMPLES (List.map_filter f items))"
    by (simp add: signals_of_def dicts_def)
  then show "length xs \<le> MAX_SIGNAL_EXAMPLES" by simp
  show "\<forall>x \<in> set xs. \<exists>i \<in> set items. f i \<noteq> None \<and> x = PDict (the (f i))"
  proof
    fix x assume "x \<in> set xs"
    then obtain y where "y \<in> set (take MAX_SIGNAL_EXAMPLES (List.map_filter f items))" "x = PDict y"
      unfolding xs by (auto simp del: backlog_constants)
    then have y: "y \<in> set (List.map_filter f items)" "x = PDict y"
      using in_set_takeD by metis+
    then obtain i where "i \<in> set items" "f i = Some y"
      by (auto simp: map_filter_def)
    with y show "\<exists>i \<in> set items. f i \<noteq> None \<and> x = PDict (the (f i))" by force
  qed
qed

end
