(* ===== verification/Context_Hydration.thy ===== *)
theory Context_Hydration
  imports Planner Backlog
begin

text \<open>
  \<open>application/context_provider.py\<close> and the context methods of \<open>PrismApiClient\<close>: which entities a
  workflow needs, where each of them comes from (the event payload, the API, a default), the
  permissions and the entity versions a run is planned against. Logging is left out.
\<close>

section \<open>Reading the payload\<close>

fun split_on :: "char \<Rightarrow> string \<Rightarrow> string list" where
  "split_on sep [] = [[]]"
| "split_on sep (c # cs) =
     (if c = sep then [] # split_on sep cs
      else case split_on sep cs of [] \<Rightarrow> [[c]] | w # ws \<Rightarrow> (c # w) # ws)"

definition capitalize_first :: "string \<Rightarrow> string" where
  "capitalize_first s = (case s of [] \<Rightarrow> [] | c # cs \<Rightarrow> upper_char c # cs)"

definition snake_to_camel :: "string \<Rightarrow> string" where
  "snake_to_camel value =
     (case split_on CHR ''_'' value of
        [] \<Rightarrow> [] | head # tail \<Rightarrow> head @ concat (map capitalize_first tail))"

definition payload_context_value :: "pydict \<Rightarrow> string \<Rightarrow> pyval" where
  "payload_context_value payload context_key =
     (case dget payload context_key of Some v \<Rightarrow> v | None \<Rightarrow> pget payload (snake_to_camel context_key))"

definition default_entity :: "string \<Rightarrow> RuntimeEvent \<Rightarrow> pyval" where
  "default_entity context_key event =
     PDict [(''id'', case dget (ev_payload event) (context_key @ ''_id'') of
                       Some v \<Rightarrow> v | None \<Rightarrow> PStr (context_key @ ''-unknown'')),
            (''type'', PStr context_key),
            (''version'', case dget (ev_payload event) ''version'' of Some v \<Rightarrow> v | None \<Rightarrow> PInt 1)]"

definition keep_fields :: "string list \<Rightarrow> pydict \<Rightarrow> pydict" where
  "keep_fields names item =
     List.map_filter (\<lambda>f. if pget item f \<noteq> PNone then Some (f, pget item f) else None) names"

definition WORK_ITEM_CONTEXT_FIELDS :: "string list" where
  "WORK_ITEM_CONTEXT_FIELDS = [''itemId'', ''parentId'', ''title'', ''status'', ''priority'',
     ''dueDate'', ''assigneeUsernames'', ''labelNames'']"

definition slim_work_item :: "pydict \<Rightarrow> pydict" where
  "slim_work_item item = keep_fields WORK_ITEM_CONTEXT_FIELDS item"

definition backlog_work_item :: "pydict \<Rightarrow> pydict" where
  "backlog_work_item item =
     (let slim = slim_work_item item;
          slim' = fold (\<lambda>f s. if pget item f \<noteq> PNone then dset f (PStr (py_str (pget item f))) s else s)
                    [''statusChangedAt'', ''createdAt''] slim
      in dset ''description'' (PStr (take 240 (strip (str_or_empty (pget item ''description''))))) slim')"

definition slim_sprint :: "pydict \<Rightarrow> pydict" where
  "slim_sprint sprint =
     keep_fields [''sprintId'', ''name'', ''goal'', ''status'', ''startsAt'', ''endsAt''] sprint"


section \<open>Pull requests\<close>

definition PULL_NUMBER_KEYS :: "string list" where
  "PULL_NUMBER_KEYS = [''pullNumber'', ''pull_number'', ''pullRequestNumber'', ''pull_request_number'',
     ''githubPullNumber'', ''github_pull_number'', ''number'']"

definition PULL_PARENT_KEYS :: "string list" where
  "PULL_PARENT_KEYS = [''pull_request'', ''pullRequest'', ''github_pull_request'',
     ''githubPullRequest'', ''queue_pointer'', ''queuePointer'']"

fun first_not_none :: "pydict \<Rightarrow> string list \<Rightarrow> pyval" where
  "first_not_none d [] = PNone"
| "first_not_none d (k # ks) = (if pget d k \<noteq> PNone then pget d k else first_not_none d ks)"

lemma size_nested: "pget d k = PDict n \<Longrightarrow> size (PDict n) < size (PDict d)"
  by (induction d) (auto split: if_splits)

function pull_request_number :: "pyval \<Rightarrow> pyval"
  and nested_pull_number :: "pydict \<Rightarrow> string list \<Rightarrow> pyval" where
  "pull_request_number payload =
     (case payload of
        PDict d \<Rightarrow>
          (if first_not_none d PULL_NUMBER_KEYS \<noteq> PNone then first_not_none d PULL_NUMBER_KEYS
           else nested_pull_number d PULL_PARENT_KEYS)
      | _ \<Rightarrow> PNone)"
| "nested_pull_number d keys =
     (case keys of
        [] \<Rightarrow> PNone
      | k # ks \<Rightarrow>
          (case pget d k of
             PDict n \<Rightarrow> (if pull_request_number (PDict n) \<noteq> PNone then pull_request_number (PDict n)
                        else nested_pull_number d ks)
           | _ \<Rightarrow> nested_pull_number d ks))"
  by pat_completeness auto
termination
  by (relation "measures [\<lambda>x. case x of Inl v \<Rightarrow> size v | Inr (d, ks) \<Rightarrow> size (PDict d),
      \<lambda>x. case x of Inl v \<Rightarrow> Suc (length PULL_PARENT_KEYS) | Inr (d, ks) \<Rightarrow> length ks]")
    (auto dest!: size_nested simp: PULL_PARENT_KEYS_def)

declare pull_request_number.simps [simp del] nested_pull_number.simps [simp del]

definition has_hydrated_pull_request_diff :: "pyval \<Rightarrow> bool" where
  "has_hydrated_pull_request_diff value =
     (case value of
        PDict d \<Rightarrow>
          (case pget d ''files'' of
             PList files \<Rightarrow>
               pget d ''truncated'' = PBool True \<or>
               list_ex (\<lambda>f. case f of PDict fd \<Rightarrow> strip (str_or_empty (pget fd ''patch'')) \<noteq> [] | _ \<Rightarrow> False) files
           | _ \<Rightarrow> False)
      | _ \<Rightarrow> False)"

definition embedded_pull_request_diff :: "pydict \<Rightarrow> pyval" where
  "embedded_pull_request_diff payload =
     (case por (pget payload ''pull_request'') (pget payload ''pullRequest'') of
        PDict pull_request \<Rightarrow>
          (let number = pull_request_number (PDict payload);
               d1 = (if pget pull_request ''pullNumber'' = PNone \<and> pget pull_request ''pull_number'' = PNone
                        \<and> number \<noteq> PNone
                     then dset ''pullNumber'' number pull_request else pull_request);
               head = por (pget payload ''headSha'') (pget payload ''head_sha'');
               d2 = (if \<not> truthy (pget d1 ''headSha'') \<and> \<not> truthy (pget d1 ''head_sha'') \<and> truthy head
                     then dset ''headSha'' head d1 else d1);
               repo = por (pget payload ''repositoryFullName'') (pget payload ''repository_full_name'');
               d3 = (if \<not> truthy (pget d2 ''repositoryFullName'') \<and> \<not> truthy (pget d2 ''repository_full_name'')
                        \<and> truthy repo
                     then dset ''repositoryFullName'' repo d2 else d2)
           in PDict d3)
      | _ \<Rightarrow> PNone)"

definition dict_or :: "pyval \<Rightarrow> pyval \<Rightarrow> pyval" where
  "dict_or v w = (case v of PDict _ \<Rightarrow> v | _ \<Rightarrow> w)"

definition pull_request_diff_context ::
  "'e io_env_scheme \<Rightarrow> RuntimeEvent \<Rightarrow> pyval \<Rightarrow> (io, pyval) eff" where
  "pull_request_diff_context env event explicit_value =
     (if has_hydrated_pull_request_diff explicit_value then ret explicit_value
      else
      let embedded = embedded_pull_request_diff (ev_payload event);
          pull_number = por (pull_request_number explicit_value)
                            (pull_request_number (PDict (ev_payload event))) in
      if has_hydrated_pull_request_diff embedded then ret embedded
      else if \<not> (is_configured env \<and> opt_truthy (ev_project_id event) \<and> pull_number \<noteq> PNone)
      then ret (dict_or explicit_value embedded)
      else catch (get_pull_request env (str_or (ev_project_id event) []) pull_number True True)
             (\<lambda>e. case e of PrismApiNotFoundError _ \<Rightarrow> ret (dict_or explicit_value embedded)
                 | _ \<Rightarrow> raise e))"

definition pull_request_event_context :: "RuntimeEvent \<Rightarrow> pyval \<Rightarrow> pyval" where
  "pull_request_event_context event explicit_value =
     (case explicit_value of
        PDict _ \<Rightarrow> explicit_value
      | _ \<Rightarrow>
          (let payload = ev_payload event;
               pull_request = por (pget payload ''pull_request'') (pget payload ''pullRequest'');
               number = pull_request_number (PDict payload)
           in PDict ((case pull_request of PDict _ \<Rightarrow> [(''pullRequest'', pull_request)] | _ \<Rightarrow> [])
                @ (if number \<noteq> PNone then [(''pullNumber'', number)] else [])
                @ keep_fields [''action'', ''repository'', ''sender'', ''installation''] payload)))"


section \<open>Members, jobs, work items and sprints\<close>

definition workspace_members_context :: "pyval \<Rightarrow> pyval" where
  "workspace_members_context explicit_value =
     (if extract_items explicit_value \<noteq> [] \<or> explicit_value \<noteq> PNone
      then dicts (extract_items explicit_value) else dicts (extract_items explicit_value))"

definition workspace_jobs_context :: "pyval \<Rightarrow> pyval" where
  "workspace_jobs_context explicit_value =
     (if extract_items explicit_value \<noteq> [] \<or> explicit_value \<noteq> PNone
      then dicts (extract_items explicit_value) else dicts (extract_items explicit_value))"

definition project_members_context :: "pydict \<Rightarrow> pyval \<Rightarrow> pyval" where
  "project_members_context entities explicit_value =
     (if extract_items explicit_value \<noteq> [] then dicts (extract_items explicit_value)
      else case pget entities ''workspace_members'' of
             PList ms \<Rightarrow> PList ms
           | _ \<Rightarrow> workspace_members_context explicit_value)"

definition project_jobs_context :: "pydict \<Rightarrow> pyval \<Rightarrow> pyval" where
  "project_jobs_context entities explicit_value =
     (if extract_items explicit_value \<noteq> [] \<or> explicit_value \<noteq> PNone
      then dicts (extract_items explicit_value)
      else dicts (extract_items (pget entities ''workspace_jobs'')))"

definition PROJECT_WORK_ITEMS_CONTEXT_LIMIT :: int where
  "PROJECT_WORK_ITEMS_CONTEXT_LIMIT = 100"

definition SPRINTS_CONTEXT_LIMIT :: nat where
  "SPRINTS_CONTEXT_LIMIT = 10"

definition items_of :: "pydict \<Rightarrow> pydict list" where
  "items_of result = (case pget result ''items'' of PList xs \<Rightarrow> dict_items xs | _ \<Rightarrow> [])"

definition project_work_items_context ::
  "'e io_env_scheme \<Rightarrow> RuntimeEvent \<Rightarrow> pyval \<Rightarrow> (io, pyval) eff" where
  "project_work_items_context env event explicit_value =
     (if extract_items explicit_value \<noteq> [] \<or> \<not> is_configured env \<or> \<not> opt_truthy (ev_project_id event)
      then ret (dicts (extract_items explicit_value))
      else on_runtime_error
        (ebind (search_work_items env (str_or (ev_project_id event) [])
                  [(''limit'', PInt PROJECT_WORK_ITEMS_CONTEXT_LIMIT)] True)
           (\<lambda>result. ret (dicts (map slim_work_item (items_of result)))))
        (\<lambda>_. ret (PList [])))"

fun backlog_loop ::
  "'e io_env_scheme \<Rightarrow> string \<Rightarrow> string list \<Rightarrow> pydict list \<Rightarrow> (io, pydict list) eff" where
  "backlog_loop env project_id [] items = ret items"
| "backlog_loop env project_id (status # rest) items =
     (if int (length items) \<ge> PROJECT_WORK_ITEMS_CONTEXT_LIMIT then ret items
      else ebind (on_runtime_error
                (ebind (search_work_items env project_id
                   [(''status'', PStr status),
                    (''limit'', PInt (PROJECT_WORK_ITEMS_CONTEXT_LIMIT - int (length items)))] True)
                   (\<lambda>result. ret (map backlog_work_item (items_of result))))
                (\<lambda>_. ret []))
             (\<lambda>fetched. backlog_loop env project_id rest (items @ fetched)))"

definition backlog_work_items_context ::
  "'e io_env_scheme \<Rightarrow> RuntimeEvent \<Rightarrow> pyval \<Rightarrow> (io, pyval) eff" where
  "backlog_work_items_context env event explicit_value =
     (if extract_items explicit_value \<noteq> [] \<or> \<not> is_configured env \<or> \<not> opt_truthy (ev_project_id event)
      then ret (dicts (extract_items explicit_value))
      else ebind (backlog_loop env (str_or (ev_project_id event) [])
                    [''todo'', ''in_progress'', ''in_review''] [])
             (\<lambda>items. ret (dicts items)))"

definition sprints_context :: "'e io_env_scheme \<Rightarrow> RuntimeEvent \<Rightarrow> pyval \<Rightarrow> (io, pyval) eff" where
  "sprints_context env event explicit_value =
     (if extract_items explicit_value \<noteq> [] \<or> \<not> is_configured env
      then ret (dicts (extract_items explicit_value))
      else on_runtime_error
        (ebind (get_workspace_sprints env (ev_workspace_id event))
           (\<lambda>sprints. ret (dicts (map slim_sprint (take SPRINTS_CONTEXT_LIMIT sprints)))))
        (\<lambda>_. ret (PList [])))"

definition unavailable_member_workload :: "exn \<Rightarrow> pydict \<Rightarrow> pydict" where
  "unavailable_member_workload e member =
     [(''userId'', pget member ''userId''), (''fullName'', pget member ''fullName''),
      (''username'', pget member ''username''), (''role'', pget member ''role''),
      (''jobIds'', get_default member ''jobIds'' (PList [])),
      (''jobNames'', get_default member ''jobNames'' (PList [])),
      (''assignedItemCount'', PNone), (''activeItemCount'', PNone), (''todoItemCount'', PNone),
      (''inProgressItemCount'', PNone), (''inReviewItemCount'', PNone), (''doneItemCount'', PNone),
      (''archivedItemCount'', PNone), (''overdueItemCount'', PNone), (''dueTodayItemCount'', PNone),
      (''dueThisWeekItemCount'', PNone), (''source'', PStr ''unavailable''),
      (''limitations'', PStr (''The current API exposes workspace member workload counts but no ''
         @ ''capacity, availability, estimate, or project-breakdown fields.'')),
      (''error'', PStr (take 500 (exn_str e)))]"

definition unavailable_member_workloads :: "pydict \<Rightarrow> exn \<Rightarrow> pyval" where
  "unavailable_member_workloads entities e =
     (case por (pget entities ''project_members'') (por (pget entities ''workspace_members'') (PList [])) of
        PList ms \<Rightarrow> dicts (map (unavailable_member_workload e) (dict_items ms))
      | _ \<Rightarrow> PList [])"

definition member_workloads_context ::
  "'e io_env_scheme \<Rightarrow> string \<Rightarrow> pydict \<Rightarrow> pyval \<Rightarrow> (io, pyval) eff" where
  "member_workloads_context env workspace_id entities explicit_value =
     (if extract_items explicit_value \<noteq> [] \<or> \<not> is_configured env
      then ret (dicts (extract_items explicit_value))
      else on_runtime_error
        (ebind (get_workspace_member_workloads env workspace_id True) (\<lambda>ws. ret (dicts ws)))
        (\<lambda>e. ret (unavailable_member_workloads entities e)))"


section \<open>Hydration\<close>

definition fetch_entity ::
  "'e io_env_scheme \<Rightarrow> RuntimeEvent \<Rightarrow> pydict \<Rightarrow> string \<Rightarrow> (io, pyval) eff" where
  "fetch_entity env event entities key =
     (let explicit_value = payload_context_value (ev_payload event) key in
      if key = ''workspace_members'' then ret (workspace_members_context explicit_value)
      else if key = ''workspace_jobs'' then ret (workspace_jobs_context explicit_value)
      else if key = ''project_members'' then ret (project_members_context entities explicit_value)
      else if key = ''project_jobs'' then ret (project_jobs_context entities explicit_value)
      else if key = ''member_workloads''
      then member_workloads_context env (ev_workspace_id event) entities explicit_value
      else if key = ''project_work_items'' then project_work_items_context env event explicit_value
      else if key = ''backlog_work_items'' then backlog_work_items_context env event explicit_value
      else if key \<in> {''sprints'', ''recent_sprints''} then sprints_context env event explicit_value
      else if key = ''pull_request_diff'' then pull_request_diff_context env event explicit_value
      else if key = ''pull_request_event'' then ret (pull_request_event_context event explicit_value)
      else ret (if explicit_value \<noteq> PNone then explicit_value else default_entity key event))"

fun fetch_loop :: "'e io_env_scheme \<Rightarrow> RuntimeEvent \<Rightarrow> string list \<Rightarrow> pydict \<Rightarrow> (io, pydict) eff" where
  "fetch_loop env event [] entities = ret entities"
| "fetch_loop env event (key # keys) entities =
     (if key = ''backlog_signals'' then fetch_loop env event keys entities
      else ebind (fetch_entity env event entities key)
             (\<lambda>v. fetch_loop env event keys (dset key v entities)))"

definition fetch_context_entities ::
  "'e io_env_scheme \<Rightarrow> RuntimeEvent \<Rightarrow> string list \<Rightarrow> (io, pydict) eff" where
  "fetch_context_entities env event required_context =
     ebind (fetch_loop env event required_context []) (\<lambda>entities.
     if ''backlog_signals'' \<in> set required_context then
       (case payload_context_value (ev_payload event) ''backlog_signals'' of
          PDict d \<Rightarrow> ret (dset ''backlog_signals'' (PDict d) entities)
        | _ \<Rightarrow> ebind (utc_now env) (\<lambda>current.
                ret (dset ''backlog_signals'' (PDict (compute_backlog_signals env current
                       (extract_items (pget entities ''backlog_work_items''))
                       (extract_items (pget entities ''member_workloads'')))) entities)))
     else ret entities)"

definition fetch_permissions :: "RuntimeEvent \<Rightarrow> (string, bool) dict" where
  "fetch_permissions event =
     (case pget (ev_payload event) ''permissions'' of
        PDict d \<Rightarrow> map (\<lambda>(k, v). (k, truthy v)) d
      | _ \<Rightarrow> [(''create_workitem'', True), (''update_workitem'', True), (''create_agent_suggestion'', True),
              (''create_dashboard_insight'', True), (''generate_sprint_report'', True)])"

text \<open>
  Versions are \<open>str | int\<close>; a context built from any other value is rejected by its schema
  (a boolean is read as the integer it equals).
\<close>

fun version_of :: "pyval \<Rightarrow> version option" where
  "version_of (PStr s) = Some (VStr s)"
| "version_of (PInt i) = Some (VInt i)"
| "version_of (PBool b) = Some (VInt (if b then 1 else 0))"
| "version_of _ = None"

definition raw_entity_versions :: "RuntimeEvent \<Rightarrow> pydict \<Rightarrow> pydict" where
  "raw_entity_versions event entities =
     (case pget (ev_payload event) ''entity_versions'' of
        PDict explicit_versions \<Rightarrow> explicit_versions
      | _ \<Rightarrow>
          dict_of (List.map_filter (\<lambda>(entity_type, entity).
            case entity of
              PDict d \<Rightarrow>
                (let entity_id = por (pget d ''id'') (pget d (entity_type @ ''_id''))
                 in if truthy entity_id
                    then Some (entity_type @ '':'' @ py_str entity_id, get_default d ''version'' (PInt 1))
                    else None)
            | _ \<Rightarrow> None) entities))"

definition capture_entity_versions :: "RuntimeEvent \<Rightarrow> pydict \<Rightarrow> (io, versions) eff" where
  "capture_entity_versions event entities =
     (let raw = raw_entity_versions event entities;
          typed = List.map_filter (\<lambda>(r, v). map_option (Pair r) (version_of v)) raw in
      eseq (modify (\<lambda>i. i\<lparr>io_versions := fold (\<lambda>(r, v). dsetdefault r v) typed (io_versions i)\<rparr>))
        (if length typed = length raw then ret typed
         else raise (ValidationError ''entity_versions'')))"

definition dict_list_of :: "string \<Rightarrow> pyval \<Rightarrow> exn + pydict list" where
  "dict_list_of field v =
     (case v of
        PList xs \<Rightarrow> if length (dict_items xs) = length xs then Inr (dict_items xs) else Inl (ValidationError field)
      | _ \<Rightarrow> Inl (ValidationError field))"

fun scoped_context :: "OrchestrationNodeDef list \<Rightarrow> string list option" where
  "scoped_context [] = Some []"
| "scoped_context (n # ns) =
     (if od_context_scope n = [] then None
      else map_option (\<lambda>s. od_context_scope n @ s) (scoped_context ns))"

definition required_context :: "WorkflowDefinition \<Rightarrow> string list \<Rightarrow> string list" where
  "required_context workflow declared =
     (case wf_orchestration workflow of
        None \<Rightarrow> declared
      | Some orchestration \<Rightarrow>
          if oo_default_graph orchestration = [] then declared
          else
            (case scoped_context (oo_default_graph orchestration
                @ (case oo_synthesizer orchestration of None \<Rightarrow> [] | Some n \<Rightarrow> [n])) of
               None \<Rightarrow> declared
             | Some scoped \<Rightarrow> filter (\<lambda>e. e \<in> set scoped) declared))"

definition resolve_diff_pointer :: "app_env \<Rightarrow> RuntimeEvent \<Rightarrow> string list \<Rightarrow> RuntimeEvent" where
  "resolve_diff_pointer env event required =
     (case ae_fetch_json env of
        None \<Rightarrow> event
      | Some fetch_json \<Rightarrow>
          let payload = ev_payload event;
              object_name = por (pget payload ''diffObjectName'') (pget payload ''diff_object_name'');
              version_id = por (pget payload ''diffObjectVersionId'') (pget payload ''diff_object_version_id'') in
          if ''pull_request_diff'' \<notin> set required \<or> \<not> truthy object_name
             \<or> pget payload ''pull_request_diff'' \<noteq> PNone \<or> pget payload ''pullRequest'' \<noteq> PNone
          then event
          else case fetch_json object_name version_id of
                 Inl _ \<Rightarrow> event
               | Inr blob \<Rightarrow>
                   (case por (pget blob ''pullRequest'') (pget blob ''pull_request'') of
                      PDict pull_request \<Rightarrow>
                        (let repo = por (pget blob ''repositoryFullName'')
                               (por (pget payload ''repositoryFullName'') (pget payload ''repository_full_name''));
                             d = (if truthy repo \<and> \<not> truthy (pget pull_request ''repositoryFullName'')
                                  then dset ''repositoryFullName'' repo pull_request else pull_request)
                         in (event\<lparr>ev_payload := dmerge payload
                              [(''pull_request_diff'', PDict d), (''pullRequest'', PDict pull_request)]\<rparr>))
                    | _ \<Rightarrow> event))"

definition hydrate :: "app_env \<Rightarrow> EventEnvelope \<Rightarrow> WorkflowDefinition \<Rightarrow> (io, ContextSnapshot) eff" where
  "hydrate env envelope workflow =
     (let event = en_event envelope in
      ebind (of_sum (get_workflow_prompt env (wf_prompt_id workflow) (wf_prompt_version workflow))) (\<lambda>prompt.
      let required = required_context workflow (wp_required_context prompt) in
      ebind (fetch_context_entities env (resolve_diff_pointer env event required) required) (\<lambda>entities.
      let permissions = fetch_permissions event in
      ebind (capture_entity_versions event entities) (\<lambda>entity_versions.
      ebind (of_sum (dict_list_of ''retrieved_documents''
               (get_default (ev_payload event) ''retrieved_documents'' (PList [])))) (\<lambda>docs.
      ebind (of_sum (dict_list_of ''previous_agent_outputs''
               (get_default (ev_payload event) ''previous_agent_outputs'' (PList [])))) (\<lambda>outputs.
      let context = \<lparr>cx_workspace_id = ev_workspace_id event, cx_project_id = ev_project_id event,
            cx_source_event = envelope, cx_workflow_id = wf_id workflow, cx_entities = entities,
            cx_retrieved_documents = docs, cx_permissions = permissions,
            cx_entity_versions = entity_versions, cx_previous_agent_outputs = outputs,
            cx_runtime_metadata = [(''trigger_event_type'', PStr (ev_event_type event)),
                                   (''trigger_kind'', PStr (ev_kind event))]\<rparr> in
      new_snapshot env None (cx_workspace_id context) (cx_project_id context) (cx_workflow_id context) context))))))"


section \<open>Facts\<close>

text \<open>The hydrated snapshot describes the triggering event; the run id it resolves to depends on
  that event alone.\<close>

lemma hydrate_context:
  assumes "hydrate env envelope workflow i = (Inr snap, i')"
  shows "cx_source_event (cs_context snap) = envelope"
    and "cx_workspace_id (cs_context snap) = ev_workspace_id (en_event envelope)"
    and "cs_workspace_id snap = ev_workspace_id (en_event envelope)"
    and "cx_project_id (cs_context snap) = ev_project_id (en_event envelope)"
    and "cx_workflow_id (cs_context snap) = wf_id workflow"
    and "cs_plan_id snap = None"
  using assms unfolding hydrate_def new_snapshot_def
  by (auto simp: eff_defs Let_def uuid4_def utc_now_def split: sum.splits prod.splits)

end
