(* ===== verification/Run_Sync.thy ===== *)
theory Run_Sync
  imports World
begin

text \<open>
  \<open>application/agent_run_sync.py\<close>: mirroring a run, its steps and its actions to the Prizmatic API.
\<close>

definition AGENT_RUN_STEP_TITLE_MAX_LENGTH :: nat where
  "AGENT_RUN_STEP_TITLE_MAX_LENGTH = 255"

definition AGENT_RUN_TERMINAL_STATUSES :: "string list" where
  "AGENT_RUN_TERMINAL_STATUSES = [''completed'', ''failed'', ''cancelled'']"

definition sync_on :: "app_env \<Rightarrow> bool" where
  "sync_on env \<longleftrightarrow> ae_sync_enabled env \<and> is_configured env"

definition api_run_id :: "AgentPlan \<Rightarrow> string" where
  "api_run_id plan = str_or (ap_parent_run_id plan) (ap_plan_id plan)"

definition raise_if_run_terminal :: "pyval \<Rightarrow> string \<Rightarrow> exn + unit" where
  "raise_if_run_terminal response run_id =
     (case response of
        PDict d \<Rightarrow>
          (case pget d ''status'' of
             PStr status \<Rightarrow> if status \<in> set AGENT_RUN_TERMINAL_STATUSES
                           then Inl (AgentRunAlreadyTerminalError run_id status) else Inr ()
           | _ \<Rightarrow> Inr ())
      | _ \<Rightarrow> Inl (no_get response))"

definition trigger_type :: "AgentContext \<Rightarrow> string" where
  "trigger_type context =
     (let kind = ev_kind (en_event (cx_source_event context))
      in if kind = ''manual'' then ''manual''
         else if kind = ''scheduled'' then ''scheduled''
         else if kind = ''agent_action'' then ''recursive''
         else ''event'')"

definition event_actor_id :: "RuntimeEvent \<Rightarrow> string option" where
  "event_actor_id ev = (case ev_class ev of ManualInvocationEvent a \<Rightarrow> a | _ \<Rightarrow> None)"

definition triggered_by_user_id :: "AgentContext \<Rightarrow> string option" where
  "triggered_by_user_id context =
     (let event = en_event (cx_source_event context);
          payload = ev_payload event;
          keys = [''triggeredByUserId'', ''requestedByUserId'', ''userId'']
      in case uuid_string (event_actor_id event) of
           Some user_id \<Rightarrow> Some user_id
         | None \<Rightarrow>
             (case uuid_string (first_string payload keys) of
                Some user_id \<Rightarrow> Some user_id
              | None \<Rightarrow>
                  (case pget payload ''queue_pointer'' of
                     PDict queue_pointer \<Rightarrow> uuid_string (first_string queue_pointer keys)
                   | _ \<Rightarrow> None)))"

definition work_item_id :: "AgentContext \<Rightarrow> string option" where
  "work_item_id context =
     (let payload = ev_payload (en_event (cx_source_event context));
          keys = [''workItemId'', ''work_item_id'', ''itemId'']
      in case uuid_string (first_string payload keys) of
           Some i \<Rightarrow> Some i
         | None \<Rightarrow>
             (case pget payload ''queue_pointer'' of
                PDict queue_pointer \<Rightarrow> uuid_string (first_string queue_pointer keys)
              | _ \<Rightarrow> None))"

definition opt_field :: "string \<Rightarrow> string option \<Rightarrow> pydict" where
  "opt_field key v = (case v of None \<Rightarrow> [] | Some s \<Rightarrow> [(key, PStr s)])"

definition agent_run_create_payload :: "string \<Rightarrow> AgentContext \<Rightarrow> string \<Rightarrow> string \<Rightarrow> pydict" where
  "agent_run_create_payload run_id context objective prompt_version =
     [(''agentType'', PStr ''project_manager''),
      (''objective'', PStr (take 5000 (or_str (strip objective) (cx_workflow_id context)))),
      (''runId'', PStr run_id),
      (''systemPromptVersion'', PStr (take 100 prompt_version)),
      (''triggerType'', PStr (trigger_type context)),
      (''status'', PStr ''running''),
      (''createdAt'', PStr (isoformat (ev_occurred_at (en_event (cx_source_event context)))))]
     @ opt_field ''triggeredByUserId'' (triggered_by_user_id context)
     @ opt_field ''workItemId'' (work_item_id context)"

definition record_run_started :: "app_env \<Rightarrow> AgentContext \<Rightarrow> string \<Rightarrow> string \<Rightarrow> string \<Rightarrow> (io, unit) eff" where
  "record_run_started env context run_id objective prompt_version =
     (if \<not> sync_on env then ret ()
      else ebind (create_agent_run env (cx_workspace_id context)
                    (agent_run_create_payload run_id context objective prompt_version))
             (\<lambda>response. of_sum (raise_if_run_terminal response run_id)))"

definition action_payload ::
  "app_env \<Rightarrow> PlannedAction \<Rightarrow> bool \<Rightarrow> string option \<Rightarrow> pydict" where
  "action_payload env action include_step_id message =
     (let target_id = action_target_id action;
          status = action_status_to_api (pa_status action) (pa_requires_approval action)
      in [(''actionId'', PStr (action_api_id env action)),
          (''actionType'', PStr (action_api_type action)),
          (''targetType'', PStr (action_target_type action target_id)),
          (''status'', PStr status),
          (''reasoningSummary'', PStr (take 5000 (pa_instruction action))),
          (''requiresApproval'', PBool (pa_requires_approval action))]
         @ (if include_step_id then [(''stepId'', PStr (action_api_id env action))] else [])
         @ opt_field ''targetId'' target_id
         @ (if status \<in> {''failed'', ''cancelled''} \<and> opt_truthy message
            then [(''errorMessage'', PStr (take 5000 (str_or message [])))] else []))"

definition upsert_action ::
  "app_env \<Rightarrow> AgentPlan \<Rightarrow> PlannedAction \<Rightarrow> bool \<Rightarrow> string option \<Rightarrow> (io, pyval) eff" where
  "upsert_action env plan action include_step_id message =
     upsert_agent_action env (ap_workspace_id plan) (api_run_id plan)
       (action_payload env action include_step_id message)"

definition record_plan_created :: "app_env \<Rightarrow> AgentPlan \<Rightarrow> (io, unit) eff" where
  "record_plan_created env plan =
     (if \<not> sync_on env then ret ()
      else eseq (upsert_agent_run_step env (ap_workspace_id plan) (api_run_id plan)
             [(''stepId'', PStr (stable_agent_run_uuid env [ap_plan_id plan, ''plan''])),
              (''stepOrder'', PInt 0), (''stepType'', PStr ''plan''), (''status'', PStr ''completed''),
              (''title'', PStr (take AGENT_RUN_STEP_TITLE_MAX_LENGTH (or_str (strip (ap_goal plan)) ''Plan''))),
              (''outputSummary'',
               PStr (''Planned '' @ nat_str (length (ap_actions plan)) @ '' action(s).''))])
           (efor (ap_actions plan) (\<lambda>action. eseq (upsert_action env plan action False None) (ret ()))))"

definition record_run_failed :: "app_env \<Rightarrow> string \<Rightarrow> string \<Rightarrow> string \<Rightarrow> (io, unit) eff" where
  "record_run_failed env workspace_id run_id message =
     (if \<not> sync_on env then ret ()
      else eseq (upsert_agent_run_step env workspace_id run_id
             [(''stepId'', PStr (stable_agent_run_uuid env [run_id, ''plan''])),
              (''stepOrder'', PInt 0), (''stepType'', PStr ''plan''), (''status'', PStr ''failed''),
              (''title'', PStr ''Plan''), (''outputSummary'', PStr ''Planning failed.''),
              (''errorMessage'', PStr (take 5000 message))])
           (eseq (update_agent_run_status env workspace_id run_id [(''status'', PStr ''failed'')]) (ret ())))"

definition record_run_running :: "app_env \<Rightarrow> string \<Rightarrow> string \<Rightarrow> (io, unit) eff" where
  "record_run_running env workspace_id run_id =
     (if \<not> sync_on env then ret ()
      else ebind (update_agent_run_status env workspace_id run_id [(''status'', PStr ''running'')])
             (\<lambda>response. of_sum (raise_if_run_terminal response run_id)))"

definition step_payload ::
  "app_env \<Rightarrow> PlannedAction \<Rightarrow> nat \<Rightarrow> string \<Rightarrow> string option \<Rightarrow> pydict" where
  "step_payload env action order event_name message =
     (let status = step_status_to_api (pa_status action)
      in [(''stepId'', PStr (action_api_id env action)),
          (''stepOrder'', PInt (int order)),
          (''stepType'', PStr ''execute''),
          (''status'', PStr status),
          (''title'', PStr (take AGENT_RUN_STEP_TITLE_MAX_LENGTH (action_step_title action))),
          (''inputSummary'', PStr (take 5000 (pa_instruction action))),
          (''outputSummary'', PStr (take 5000 (str_or message event_name)))]
         @ (if status = ''failed'' \<and> opt_truthy message
            then [(''errorMessage'', PStr (take 5000 (str_or message [])))] else []))"

definition synced_run_status :: "AgentPlan \<Rightarrow> string" where
  "synced_run_status plan = (if is_subplan plan then ''running'' else run_status_to_api plan)"

definition record_action_state ::
  "app_env \<Rightarrow> AgentPlan \<Rightarrow> PlannedAction \<Rightarrow> string \<Rightarrow> string option \<Rightarrow> (io, unit) eff" where
  "record_action_state env plan action event_name message =
     (if \<not> sync_on env then ret ()
      else
      ebind (of_sum (action_step_order plan action)) (\<lambda>order.
      eseq (upsert_agent_run_step env (ap_workspace_id plan) (api_run_id plan)
              (step_payload env action order event_name message))
      (eseq (upsert_action env plan action True message)
      (eseq (if opt_truthy message
             then create_agent_action_event env (ap_workspace_id plan) (action_api_id env action)
                    [(''eventType'', PStr event_name), (''message'', PStr (take 5000 (str_or message [])))]
             else ret PNone)
      (if synced_run_status plan \<noteq> ''running''
       then eseq (update_agent_run_status env (ap_workspace_id plan) (api_run_id plan)
                    [(''status'', PStr (synced_run_status plan))]) (ret ())
       else ret ())))))"

definition record_run_completed_by_id :: "app_env \<Rightarrow> string \<Rightarrow> string \<Rightarrow> (io, unit) eff" where
  "record_run_completed_by_id env workspace_id run_id =
     (if \<not> sync_on env then ret ()
      else eseq (update_agent_run_status env workspace_id run_id [(''status'', PStr ''completed'')]) (ret ()))"

definition record_run_completed :: "app_env \<Rightarrow> AgentPlan \<Rightarrow> (io, unit) eff" where
  "record_run_completed env plan =
     (if \<not> sync_on env then ret ()
      else record_run_completed_by_id env (ap_workspace_id plan) (api_run_id plan))"


section \<open>What the mirror sends\<close>

text \<open>Synchronisation only sends requests: it draws no identifier, reads no clock and leaves the
  version cache alone.\<close>

lemmas sync_defs =
  record_run_started_def record_plan_created_def record_run_failed_def record_run_running_def
  record_action_state_def record_run_completed_by_id_def record_run_completed_def upsert_action_def
  create_agent_run_def upsert_agent_run_step_def upsert_agent_action_def
  create_agent_action_event_def update_agent_run_status_def

lemma preserves_sync [pres]:
  "preserves (record_run_started env c r ob pv) io_versions"
  "preserves (record_plan_created env p) io_versions"
  "preserves (record_run_failed env w r m) io_versions"
  "preserves (record_run_running env w r) io_versions"
  "preserves (record_action_state env p a n m') io_versions"
  "preserves (record_run_completed_by_id env w r) io_versions"
  "preserves (record_run_completed env p) io_versions"
  unfolding sync_defs by (intro pres)+

text \<open>The requests an operation appends to the log.\<close>

definition sends :: "(io, 'a) eff \<Rightarrow> (api_request \<Rightarrow> bool) \<Rightarrow> bool" where
  "sends m P \<longleftrightarrow> (\<forall>i. \<exists>rs. io_requests (snd (m i)) = io_requests i @ rs \<and> list_all P rs)"

named_theorems snd_rules \<open>which requests an operation may send\<close>

lemma sends_ret [snd_rules]: "sends (ret x) P" "sends (raise e) P" "sends (of_sum s) P"
  by (auto simp: sends_def ret_def raise_def of_sum_def intro!: exI [of _ "[]"])

lemma sends_ebind [snd_rules]:
  assumes "sends m P" and "\<And>x. sends (k x) P"
  shows "sends (ebind m k) P"
  unfolding sends_def
proof
  fix i
  obtain r j where m: "m i = (r, j)" by fastforce
  obtain rs where rs: "io_requests j = io_requests i @ rs" "list_all P rs"
    using assms(1) m unfolding sends_def by (metis snd_conv)
  show "\<exists>rs. io_requests (snd (ebind m k i)) = io_requests i @ rs \<and> list_all P rs"
  proof (cases r)
    case (Inl e)
    with m rs show ?thesis by (auto simp: ebind_def)
  next
    case (Inr x)
    obtain rs' where "io_requests (snd (k x j)) = io_requests j @ rs'" "list_all P rs'"
      using assms(2) [of x] unfolding sends_def by blast
    with m rs Inr show ?thesis by (auto simp: ebind_def intro!: exI [of _ "rs @ rs'"])
  qed
qed

lemma sends_eseq [snd_rules]: "sends m P \<Longrightarrow> sends n P \<Longrightarrow> sends (eseq m n) P"
  by (simp add: eseq_def sends_ebind)

lemma sends_efor [snd_rules]: "(\<And>x. x \<in> set xs \<Longrightarrow> sends (f x) P) \<Longrightarrow> sends (efor xs f) P"
  by (induction xs) (auto intro: snd_rules)

lemma sends_if [snd_rules]: "sends m P \<Longrightarrow> sends n P \<Longrightarrow> sends (if b then m else n) P"
  by simp

lemma sends_request:
  "P (Api_Request m (str_or (client_base_url env) [] @ p) (map_option PDict pl) (request_headers env pl a)) \<Longrightarrow>
   sends (request_json env m p pl a) P"
  unfolding sends_def by (auto simp: request_json_log intro: exI [of _ "[]"])

lemma sends_send:
  "(\<And>hs. P (Api_Request m (str_or (client_base_url env) [] @ p) (Some (PDict pl)) hs)) \<Longrightarrow>
   sends (send_json env m p pl) P"
  unfolding send_json_def by (rule sends_request) simp

text \<open>A request that changes the status of a run is a \<open>PATCH\<close>; mirroring a sub-plan sends none.\<close>

definition is_run_status_update :: "api_request \<Rightarrow> bool" where
  "is_run_status_update rq \<longleftrightarrow> rq_method rq = ''PATCH''"

lemma subplan_never_updates_run:
  assumes "is_subplan plan"
  shows "sends (record_action_state env plan action event_name message) (\<lambda>rq. \<not> is_run_status_update rq)"
    and "sends (record_plan_created env plan) (\<lambda>rq. \<not> is_run_status_update rq)"
proof -
  have "synced_run_status plan = ''running''" using assms by (simp add: synced_run_status_def)
  then show "sends (record_action_state env plan action event_name message) (\<lambda>rq. \<not> is_run_status_update rq)"
    unfolding sync_defs
    by (auto intro!: snd_rules sends_send simp: is_run_status_update_def)
  show "sends (record_plan_created env plan) (\<lambda>rq. \<not> is_run_status_update rq)"
    unfolding sync_defs by (auto intro!: snd_rules sends_send simp: is_run_status_update_def)
qed

lemma sync_off_silent:
  assumes "\<not> sync_on env"
  shows "record_run_started env c r ob pv = ret ()" "record_plan_created env p = ret ()"
    "record_run_failed env w r m = ret ()" "record_run_running env w r = ret ()"
    "record_action_state env p a n m' = ret ()" "record_run_completed_by_id env w r = ret ()"
    "record_run_completed env p = ret ()"
  using assms by (simp_all add: sync_defs)

text \<open>Every error of the mirror is a \<open>RuntimeError\<close>, an action outside its plan, or a response that
  is not an object.\<close>

lemma action_step_order_Inr:
  "pa_action_id a \<in> set (action_ids p) \<Longrightarrow> \<exists>n. action_step_order p a = Inr n"
  using index_of_action_None [of 1 "ap_actions p" "pa_action_id a"]
  by (auto simp: action_step_order_def split: option.splits)

end
