(* ===== verification/Domain_Handler.thy ===== *)
theory Domain_Handler
  imports Planner Context_Hydration Run_Sync
begin

text \<open>
  \<open>application/event_router.py\<close> and \<open>application/domain_event_handler.py\<close>: routing a trigger to a
  workflow, then planning, resuming or replanning its run, or starting its task graph. A Python
  \<open>return\<close> in the middle of a handler is the result \<open>None\<close> of the part that contains it.
\<close>

record RouteResult =
  ro_decision :: TriggerPolicyDecision
  ro_workflow :: "WorkflowDefinition option"

definition route :: "app_env \<Rightarrow> EventEnvelope \<Rightarrow> RouteResult" where
  "route env envelope =
     (let decision = evaluate (en_event envelope)
      in \<lparr>ro_decision = decision,
          ro_workflow = (if td_allowed decision
                         then get_by_trigger (ae_workflows env) (td_trigger_key decision) else None)\<rparr>)"

definition plan_trace_data :: "AgentPlan \<Rightarrow> ContextSnapshot \<Rightarrow> WorkflowDefinition \<Rightarrow> pydict" where
  "plan_trace_data plan snapshot workflow =
     [(''plan_id'', PStr (ap_plan_id plan)),
      (''status'', PStr (plan_status_value (ap_status plan))),
      (''goal'', PStr (ap_goal plan)),
      (''prompt_id'', PStr (ap_prompt_id plan)),
      (''prompt_version'', PStr (ap_prompt_version plan)),
      (''workflow_id'', PStr (wf_id workflow)),
      (''workflow_trigger_types'', strs (wf_trigger_types workflow)),
      (''workflow_required_skills'', strs (wf_required_skills workflow)),
      (''workflow_execution_mode'', PStr (wf_default_execution_mode workflow)),
      (''selected_skill_ids'', strs (ap_skill_ids plan)),
      (''selected_tool_names'', strs (ap_tool_names plan)),
      (''action_count'', PInt (int (length (ap_actions plan)))),
      (''actions'', PList (map (\<lambda>a. PDict (action_trace_data a [])) (ap_actions plan))),
      (''context_snapshot_ref'', PStr (ap_context_snapshot_ref plan)),
      (''context'', PDict (context_trace_data (cs_context snapshot)))]"

definition replan_requested :: "EventEnvelope \<Rightarrow> bool" where
  "replan_requested envelope =
     (case pget (ev_payload (en_event envelope)) ''_agent_replan'' of PDict _ \<Rightarrow> True | _ \<Rightarrow> False)"

definition domain_trace ::
  "app_env \<Rightarrow> EventEnvelope \<Rightarrow> string \<Rightarrow> string \<Rightarrow> pydict \<Rightarrow> string option \<Rightarrow> string option
   \<Rightarrow> (world, unit) eff" where
  "domain_trace env envelope event_name message data plan_id action_id =
     trace env event_name (ev_workspace_id (en_event envelope)) (ev_project_id (en_event envelope))
       plan_id action_id message data"

definition trace_terminal_run_skip ::
  "app_env \<Rightarrow> EventEnvelope \<Rightarrow> WorkflowDefinition \<Rightarrow> string \<Rightarrow> string \<Rightarrow> (world, unit) eff" where
  "trace_terminal_run_skip env envelope workflow agent_run_id status =
     domain_trace env envelope ''run.terminal_skip''
       (''Skipped run '' @ agent_run_id @ '' because it is already '' @ status @ ''.'')
       (event_trace_data (en_event envelope)
        @ [(''workflow_id'', PStr (wf_id workflow)), (''run_status'', PStr status)])
       (Some agent_run_id) None"

text \<open>\<open>except AgentRunAlreadyTerminalError\<close>: trace the skip and return; the result says whether to go on.\<close>

definition unless_terminal ::
  "app_env \<Rightarrow> EventEnvelope \<Rightarrow> WorkflowDefinition \<Rightarrow> string \<Rightarrow> (world, unit) eff \<Rightarrow> (world, bool) eff" where
  "unless_terminal env envelope workflow agent_run_id m =
     catch (eseq m (ret True))
       (\<lambda>exc. case exc of
          AgentRunAlreadyTerminalError run_id status \<Rightarrow>
            eseq (trace_terminal_run_skip env envelope workflow agent_run_id status) (ret False)
        | _ \<Rightarrow> raise exc)"


section \<open>Orchestrated workflows\<close>

definition dispatch_task ::
  "app_env \<Rightarrow> EventEnvelope \<Rightarrow> string \<Rightarrow> string option \<Rightarrow> string \<Rightarrow> string \<Rightarrow> (world, RuntimeEvent) eff" where
  "dispatch_task env envelope workspace_id project_id run_id node_id =
     ebind (io_do (new_task_event env workspace_id project_id run_id node_id
              (ev_correlation_id (en_event envelope))
              (child (ev_causality (en_event envelope)) (en_event_id envelope)))) (\<lambda>task_event.
     ebind (io_do (wrap env task_event)) (\<lambda>en.
     eseq (enqueue env en) (ret task_event)))"

definition handle_orchestrated ::
  "app_env \<Rightarrow> EventEnvelope \<Rightarrow> WorkflowDefinition \<Rightarrow> ContextSnapshot \<Rightarrow> string \<Rightarrow> (world, unit) eff" where
  "handle_orchestrated env envelope workflow snapshot agent_run_id =
     (let workspace_id = cx_workspace_id (cs_context snapshot) in
     ebind (store_get (get_task_graph workspace_id agent_run_id)) (\<lambda>existing.
     if existing \<noteq> None then
       domain_trace env envelope ''orchestration.resumed''
         (''Run '' @ agent_run_id @ '' already orchestrated; ignoring duplicate trigger.'')
         (event_trace_data (en_event envelope)) (Some agent_run_id) None
     else
     ebind (unless_terminal env envelope workflow agent_run_id
              (io_do (record_run_started env (cs_context snapshot) agent_run_id (wf_goal workflow)
                 (wf_prompt_version workflow)))) (\<lambda>continue.
     if \<not> continue then ret () else
     ebind (io_do (build_orchestrated_graph env (cs_context snapshot) workflow)) (\<lambda>graph0.
     let graph = graph0\<lparr>tg_plan_id := agent_run_id,
                        tg_context_snapshot_ref := Some (snapshot_ref snapshot)\<rparr>;
         snapshot' = snapshot\<lparr>cs_plan_id := Some agent_run_id\<rparr>;
         node_ids = strs (map sn_node_id (tg_nodes graph)) in
     eseq (store_do (save_context_snapshot snapshot'))
     (eseq (store_do (save_task_graph graph))
     (eseq (domain_trace env envelope ''orchestration.started''
              (''Orchestrating '' @ nat_str (length (tg_nodes graph)) @ '' node(s) for workflow ''
               @ wf_id workflow @ ''.'')
              (event_trace_data (en_event envelope)
               @ [(''node_ids'', node_ids),
                  (''synthesizer'', pstr_opt (map_option sn_node_id (tg_synthesizer_node graph)))])
              (Some agent_run_id) None)
     (ebind (store_run (claim_ready_nodes workspace_id agent_run_id)) (\<lambda>ready.
     if ready = [] then
       (let message = ''Orchestration produced no runnable node.'' in
       eseq (io_do (record_run_failed env workspace_id agent_run_id message))
         (domain_trace env envelope ''orchestration.empty'' message [(''node_ids'', node_ids)]
            (Some agent_run_id) None))
     else
       efor ready (\<lambda>node.
         ebind (dispatch_task env envelope workspace_id (tg_project_id graph) agent_run_id
                  (sn_node_id node)) (\<lambda>task_event.
         domain_trace env envelope ''subagent.dispatched''
           (''Dispatched subagent node '' @ sn_node_id node @ ''.'')
           [(''node_id'', PStr (sn_node_id node)), (''dispatch_event_id'', PStr (ev_event_id task_event))]
           (Some agent_run_id) None))))))))))"


section \<open>Single-plan workflows\<close>

text \<open>Building the one-node graph and planning it; a failure is mirrored and re-raised.\<close>

definition plan_root ::
  "app_env \<Rightarrow> WorkflowDefinition \<Rightarrow> ContextSnapshot \<Rightarrow> string \<Rightarrow> (world, AgentPlan) eff" where
  "plan_root env workflow snapshot agent_run_id =
     catch
       (ebind (io_do (build_task_graph env (cs_context snapshot) workflow)) (\<lambda>graph0.
        let task_graph = graph0\<lparr>tg_plan_id := agent_run_id\<rparr> in
        eseq (store_do (save_task_graph task_graph))
        (io_do (plan_for_node env (hd (tg_nodes task_graph)) (cs_context snapshot)
           (snapshot_ref snapshot) workflow agent_run_id))))
       (\<lambda>exc. eseq (io_do (record_run_failed env (cx_workspace_id (cs_context snapshot)) agent_run_id
                             (exn_str exc))) (raise exc))"

definition announce_run ::
  "app_env \<Rightarrow> EventEnvelope \<Rightarrow> WorkflowDefinition \<Rightarrow> ContextSnapshot \<Rightarrow> string \<Rightarrow> AgentPlan option
   \<Rightarrow> bool \<Rightarrow> (world, unit) eff" where
  "announce_run env envelope workflow snapshot agent_run_id existing_plan should_replan =
     (if should_replan then
        eseq (io_do (record_run_running env (cx_workspace_id (cs_context snapshot)) agent_run_id))
          (domain_trace env envelope ''plan.replanning''
             (''Replanning run '' @ agent_run_id @ '' for workflow '' @ wf_id workflow)
             (event_trace_data (en_event envelope)
              @ [(''previous_plan_status'',
                  pstr_opt (map_option (\<lambda>p. plan_status_value (ap_status p)) existing_plan))])
             (Some agent_run_id) None)
      else io_do (record_run_started env (cs_context snapshot) agent_run_id (wf_goal workflow)
                    (wf_prompt_version workflow)))"

text \<open>The plan of the run and the snapshot saved with it, or \<open>None\<close> where the handler returns.\<close>

definition obtain_plan ::
  "app_env \<Rightarrow> EventEnvelope \<Rightarrow> WorkflowDefinition \<Rightarrow> ContextSnapshot \<Rightarrow> string
   \<Rightarrow> (world, (AgentPlan \<times> ContextSnapshot) option) eff" where
  "obtain_plan env envelope workflow snapshot agent_run_id =
     ebind (store_get (get_plan (cx_workspace_id (cs_context snapshot)) agent_run_id)) (\<lambda>existing_plan.
     let should_replan = (case existing_plan of
           None \<Rightarrow> False
         | Some p \<Rightarrow> ap_status p = PlanStatus.REPLAN_REQUIRED \<and> replan_requested envelope) in
     case (existing_plan, should_replan) of
       (Some plan, False) \<Rightarrow>
         (let snapshot' = snapshot\<lparr>cs_plan_id := Some (ap_plan_id plan)\<rparr> in
          eseq (store_do (save_context_snapshot snapshot'))
          (eseq (domain_trace env envelope ''plan.resumed''
                   (''Resumed plan '' @ ap_plan_id plan @ '' for workflow '' @ wf_id workflow)
                   (plan_trace_data plan snapshot' workflow) (Some (ap_plan_id plan)) None)
            (ret (Some (plan, snapshot')))))
     | _ \<Rightarrow>
         ebind (unless_terminal env envelope workflow agent_run_id
                  (announce_run env envelope workflow snapshot agent_run_id existing_plan should_replan))
           (\<lambda>continue.
         if \<not> continue then ret None else
         ebind (plan_root env workflow snapshot agent_run_id) (\<lambda>plan.
         let snapshot' = snapshot\<lparr>cs_plan_id := Some (ap_plan_id plan)\<rparr> in
         eseq (store_do (save_context_snapshot snapshot'))
         (eseq (store_do (save_plan plan))
         (eseq (io_do (record_plan_created env plan))
         (eseq (domain_trace env envelope (if should_replan then ''plan.replanned'' else ''plan.created'')
                  ((if should_replan then ''Replanned run '' else ''Created plan '') @ ap_plan_id plan
                   @ '' for workflow '' @ wf_id workflow)
                  (plan_trace_data plan snapshot' workflow) (Some (ap_plan_id plan)) None)
           (ret (Some (plan, snapshot')))))))))"

definition no_first_action ::
  "app_env \<Rightarrow> EventEnvelope \<Rightarrow> WorkflowDefinition \<Rightarrow> AgentPlan \<Rightarrow> ContextSnapshot \<Rightarrow> (world, unit) eff" where
  "no_first_action env envelope workflow plan snapshot =
     (if ap_status plan \<in> inactive_statuses then
        domain_trace env envelope ''plan.no_pending_actions''
          (''Plan '' @ ap_plan_id plan @ '' has no executable actions in status ''
           @ plan_status_value (ap_status plan) @ ''.'')
          (plan_trace_data plan snapshot workflow) (Some (ap_plan_id plan)) None
      else
      ebind (now env) (\<lambda>t.
      let failure_message = ''Planner produced no executable actions after retry attempts.'';
          failed_plan = plan\<lparr>ap_status := PlanStatus.FAILED, ap_updated_at := t\<rparr> in
      eseq (store_do (update_plan failed_plan))
      (eseq (io_do (record_run_failed env (ap_workspace_id failed_plan) (ap_plan_id failed_plan)
                      failure_message))
      (eseq (domain_trace env envelope ''plan.empty'' ''Planner produced no executable actions.''
               (plan_trace_data failed_plan snapshot workflow) (Some (ap_plan_id failed_plan)) None)
        (domain_trace env envelope ''plan.failed'' failure_message
           (plan_trace_data failed_plan snapshot workflow) (Some (ap_plan_id failed_plan)) None)))))"

definition start_plan ::
  "app_env \<Rightarrow> EventEnvelope \<Rightarrow> WorkflowDefinition \<Rightarrow> AgentPlan \<Rightarrow> ContextSnapshot \<Rightarrow> (world, unit) eff" where
  "start_plan env envelope workflow plan snapshot =
     (case next_pending_action plan of
        None \<Rightarrow> no_first_action env envelope workflow plan snapshot
      | Some first_action \<Rightarrow>
          ebind (io_do (new_action_event env (ap_workspace_id plan) (ap_project_id plan) (ap_plan_id plan)
                   (pa_action_id first_action) (ev_correlation_id (en_event envelope))
                   (child (ev_causality (en_event envelope)) (en_event_id envelope)))) (\<lambda>action_event.
          ebind (io_do (wrap env action_event)) (\<lambda>en.
          eseq (enqueue env en)
            (domain_trace env envelope ''action.enqueued''
               (''Enqueued first action '' @ pa_action_id first_action)
               (action_trace_data first_action
                  [(''queue_event_id'', PStr (ev_event_id action_event)),
                   (''queue_event_type'', PStr (ev_event_type action_event))])
               (Some (ap_plan_id plan)) (Some (pa_action_id first_action))))))"


section \<open>The handler\<close>

definition orchestrated :: "WorkflowDefinition \<Rightarrow> bool" where
  "orchestrated workflow =
     (case wf_orchestration workflow of None \<Rightarrow> False | Some o' \<Rightarrow> oo_default_graph o' \<noteq> [])"

definition handle_trigger :: "app_env \<Rightarrow> EventEnvelope \<Rightarrow> (world, unit) eff" where
  "handle_trigger env envelope =
     (let r = route env envelope in
      case ro_workflow r of
        None \<Rightarrow>
          domain_trace env envelope ''event.ignored''
            (''Ignored event: '' @ td_reason (ro_decision r))
            (event_trace_data (en_event envelope)
             @ [(''trigger_key'', PStr (td_trigger_key (ro_decision r))),
                (''reason'', PStr (td_reason (ro_decision r)))]) None None
      | Some workflow \<Rightarrow>
          ebind (io_do (hydrate env envelope workflow)) (\<lambda>snapshot.
          let agent_run_id = resolve_agent_run_id (cs_context snapshot) in
          if orchestrated workflow
          then handle_orchestrated env envelope workflow snapshot agent_run_id
          else
          ebind (obtain_plan env envelope workflow snapshot agent_run_id) (\<lambda>found.
          case found of
            None \<Rightarrow> ret ()
          | Some (plan, snapshot') \<Rightarrow> start_plan env envelope workflow plan snapshot')))"

end
