(* ===== verification/Coordinator.thy ===== *)
theory Coordinator
  imports Domain_Handler
begin

text \<open>
  \<open>application/subagent_coordinator.py\<close>: planning a node when its task event arrives, joining the
  completion reports of the nodes, dispatching what becomes ready and finishing the shared run.
\<close>

definition SUBAGENT_RESULTS_KEY :: string where
  "SUBAGENT_RESULTS_KEY = ''subagent_results''"

text \<open>\<open>hasattr(event, "plan_id")\<close> holds of the agent event classes.\<close>

definition event_plan_id :: "RuntimeEvent \<Rightarrow> string option" where
  "event_plan_id event =
     (case ev_class event of
        AgentActionEvent p _ \<Rightarrow> Some p
      | SubAgentTaskEvent p _ \<Rightarrow> Some p
      | SubAgentCompletedEvent p _ _ \<Rightarrow> Some p
      | _ \<Rightarrow> None)"

definition coord_trace ::
  "app_env \<Rightarrow> RuntimeEvent \<Rightarrow> string \<Rightarrow> string \<Rightarrow> pydict \<Rightarrow> (world, unit) eff" where
  "coord_trace env event event_name message data =
     trace env event_name (ev_workspace_id event) (ev_project_id event) (event_plan_id event) None
       message data"

definition enqueue_action ::
  "app_env \<Rightarrow> EventEnvelope \<Rightarrow> AgentPlan \<Rightarrow> PlannedAction \<Rightarrow> (world, RuntimeEvent) eff" where
  "enqueue_action env envelope sub_plan action =
     ebind (io_do (new_action_event env (ap_workspace_id sub_plan) (ap_project_id sub_plan)
              (ap_plan_id sub_plan) (pa_action_id action) (ev_correlation_id (en_event envelope))
              (child (ev_causality (en_event envelope)) (en_event_id envelope)))) (\<lambda>action_event.
     ebind (io_do (wrap env action_event)) (\<lambda>en.
     eseq (enqueue env en) (ret action_event)))"

definition enqueue_completed ::
  "app_env \<Rightarrow> EventEnvelope \<Rightarrow> TaskGraph \<Rightarrow> string \<Rightarrow> string \<Rightarrow> (world, unit) eff" where
  "enqueue_completed env envelope graph node_id status =
     ebind (io_do (new_completed_event env (tg_workspace_id graph) (tg_project_id graph) (tg_plan_id graph)
              node_id status (ev_correlation_id (en_event envelope))
              (child (ev_causality (en_event envelope)) (en_event_id envelope)) [])) (\<lambda>completed_event.
     ebind (io_do (wrap env completed_event)) (\<lambda>en.
     eseq (enqueue env en) (ret ())))"

definition dispatch_node ::
  "app_env \<Rightarrow> EventEnvelope \<Rightarrow> TaskGraph \<Rightarrow> SubTask \<Rightarrow> (world, unit) eff" where
  "dispatch_node env envelope graph node =
     ebind (dispatch_task env envelope (tg_workspace_id graph) (tg_project_id graph) (tg_plan_id graph)
              (sn_node_id node)) (\<lambda>task_event.
     coord_trace env (en_event envelope) ''subagent.dispatched''
       (''Dispatched subagent node '' @ sn_node_id node @ ''.'')
       [(''node_id'', PStr (sn_node_id node)), (''dispatch_event_id'', PStr (ev_event_id task_event))])"


section \<open>Results of the nodes\<close>

text \<open>The outputs of a sub-plan, keyed by tool name: a later action of the same tool wins.\<close>

definition sub_plan_outputs :: "(string \<Rightarrow> string \<Rightarrow> ToolResult option) \<Rightarrow> AgentPlan \<Rightarrow> pydict" where
  "sub_plan_outputs results sub_plan =
     fold (\<lambda>action outputs.
       case results (ap_plan_id sub_plan) (pa_action_id action) of
         Some r \<Rightarrow> dset (pa_tool_name action) (PDict (tr_output r)) outputs
       | None \<Rightarrow> outputs) (ap_actions sub_plan) []"

definition build_result ::
  "(string \<Rightarrow> string \<Rightarrow> ToolResult option) \<Rightarrow> string \<Rightarrow> AgentPlan option \<Rightarrow> SubAgentResult" where
  "build_result results node_id sub_plan =
     (case sub_plan of
        None \<Rightarrow> \<lparr>sr_node_id = node_id, sr_skill_ids = [], sr_summary = [], sr_structured_output = [],
                 sr_status = SubTaskStatus.COMPLETED\<rparr>
      | Some p \<Rightarrow>
          (let outputs = sub_plan_outputs results p
           in \<lparr>sr_node_id = node_id, sr_skill_ids = ap_skill_ids p,
               sr_summary = node_id @ '': completed '' @ nat_str (length outputs) @ '' action(s).'',
               sr_structured_output = [(''outputs'', PDict outputs)],
               sr_status = SubTaskStatus.COMPLETED\<rparr>))"

definition store_result :: "string \<Rightarrow> string \<Rightarrow> string \<Rightarrow> memory_store \<Rightarrow> memory_store" where
  "store_result workspace_id run_id node_id s =
     save_sub_agent_result workspace_id run_id
       (build_result (\<lambda>p a. get_action_result p a s) node_id
          (get_plan workspace_id (sub_plan_id run_id node_id) s)) s"

definition sub_agent_result_json :: "SubAgentResult \<Rightarrow> pyval" where
  "sub_agent_result_json r =
     PDict [(''node_id'', PStr (sr_node_id r)), (''skill_ids'', strs (sr_skill_ids r)),
            (''summary'', PStr (sr_summary r)), (''structured_output'', PDict (sr_structured_output r)),
            (''status'', PStr (subtask_status_value (sr_status r)))]"

definition inject_results :: "AgentContext \<Rightarrow> SubAgentResult list \<Rightarrow> AgentContext" where
  "inject_results context results =
     context\<lparr>cx_entities := dset SUBAGENT_RESULTS_KEY (PList (map sub_agent_result_json results))
                              (cx_entities context)\<rparr>"


section \<open>Task events\<close>

definition resumed_data :: "SubTask \<Rightarrow> AgentPlan \<Rightarrow> pydict" where
  "resumed_data node sub_plan =
     [(''node_id'', PStr (sn_node_id node)), (''sub_plan_id'', PStr (ap_plan_id sub_plan)),
      (''plan_status'', PStr (plan_status_value (ap_status sub_plan)))]"

definition resume_existing_subplan ::
  "app_env \<Rightarrow> EventEnvelope \<Rightarrow> TaskGraph \<Rightarrow> SubTask \<Rightarrow> AgentPlan \<Rightarrow> (world, unit) eff" where
  "resume_existing_subplan env envelope graph node sub_plan =
     (let event = en_event envelope;
          settle = (\<lambda>kind status.
            eseq (coord_trace env event ''subagent.resumed''
                    (''Resumed '' @ kind @ '' subagent node '' @ sn_node_id node @ '' from existing sub-plan.'')
                    (resumed_data node sub_plan))
              (enqueue_completed env envelope graph (sn_node_id node) status))
      in case next_pending_action sub_plan of
           Some next_action \<Rightarrow>
             ebind (enqueue_action env envelope sub_plan next_action) (\<lambda>action_event.
             coord_trace env event ''subagent.resumed''
               (''Resumed subagent node '' @ sn_node_id node @ '' from existing sub-plan.'')
               [(''node_id'', PStr (sn_node_id node)), (''sub_plan_id'', PStr (ap_plan_id sub_plan)),
                (''next_action_id'', PStr (pa_action_id next_action)),
                (''action_event_id'', PStr (ev_event_id action_event))])
         | None \<Rightarrow>
             if ap_status sub_plan \<in> {PlanStatus.COMPLETED, PlanStatus.PLANNED}
             then settle ''completed'' ''completed''
             else if ap_status sub_plan = PlanStatus.WAITING_FOR_APPROVAL
             then settle ''waiting'' ''waiting_for_approval''
             else if ap_status sub_plan \<in> {PlanStatus.FAILED, PlanStatus.CANCELLED, PlanStatus.REPLAN_REQUIRED}
             then settle ''failed'' ''failed''
             else coord_trace env event ''subagent.in_flight''
                    (''Subagent node '' @ sn_node_id node @ '' already has an in-flight sub-plan.'')
                    (resumed_data node sub_plan))"

definition plan_node ::
  "app_env \<Rightarrow> EventEnvelope \<Rightarrow> TaskGraph \<Rightarrow> SubTask \<Rightarrow> string \<Rightarrow> ContextSnapshot \<Rightarrow> (world, unit) eff" where
  "plan_node env envelope graph node run_id snapshot =
     (let event = en_event envelope in
     ebind (store_get (get_sub_agent_results (ev_workspace_id event) run_id)) (\<lambda>results.
     let context = (if is_synthesizer graph (sn_node_id node)
                    then inject_results (cs_context snapshot) results else cs_context snapshot) in
     ebind (io_do (of_sum (get_workflow (ae_workflows env) (cx_workflow_id context)))) (\<lambda>workflow.
     eseq (coord_trace env event ''subagent.planning'' (''Planning subagent node '' @ sn_node_id node @ ''.'')
             [(''node_id'', PStr (sn_node_id node)), (''skill_ids'', strs (sn_skill_ids node))])
     (ebind (io_do (plan_for_node env node context (snapshot_ref snapshot) workflow run_id)) (\<lambda>sub_plan.
     eseq (store_do (save_plan sub_plan))
     (eseq (io_do (record_plan_created env sub_plan))
     (case next_pending_action sub_plan of
        None \<Rightarrow>
          eseq (coord_trace env event ''subagent.empty''
                  (''Subagent node '' @ sn_node_id node @ '' produced no actions; settling completed.'')
                  [(''node_id'', PStr (sn_node_id node)), (''sub_plan_id'', PStr (ap_plan_id sub_plan))])
            (enqueue_completed env envelope graph (sn_node_id node) ''completed'')
      | Some first_action \<Rightarrow>
          ebind (enqueue_action env envelope sub_plan first_action) (\<lambda>action_event.
          coord_trace env event ''subagent.started''
            (''Started subagent node '' @ sn_node_id node @ '' (sub-plan '' @ ap_plan_id sub_plan @ '').'')
            [(''node_id'', PStr (sn_node_id node)), (''sub_plan_id'', PStr (ap_plan_id sub_plan)),
             (''first_action_id'', PStr (pa_action_id first_action)),
             (''action_event_id'', PStr (ev_event_id action_event))]))))))))"

definition handle_task :: "app_env \<Rightarrow> EventEnvelope \<Rightarrow> string \<Rightarrow> string \<Rightarrow> (world, unit) eff" where
  "handle_task env envelope run_id node_id =
     (let event = en_event envelope; workspace_id = ev_workspace_id event in
     ebind (store_get (get_task_graph workspace_id run_id)) (\<lambda>found_graph.
     case found_graph of
       None \<Rightarrow> coord_trace env event ''orchestration.graph_missing''
                 (''No task graph for run '' @ run_id @ ''.'') []
     | Some graph \<Rightarrow>
     (case get_node graph node_id of
       None \<Rightarrow> coord_trace env event ''orchestration.node_missing'' (''Unknown node '' @ node_id @ ''.'') []
     | Some node \<Rightarrow>
     if sn_status node \<in> {SubTaskStatus.COMPLETED, SubTaskStatus.FAILED} then
       coord_trace env event ''subagent.skipped''
         (''Node '' @ sn_node_id node @ '' already '' @ subtask_status_value (sn_status node)
          @ ''; skipping duplicate task.'')
         [(''node_id'', PStr (sn_node_id node)), (''status'', PStr (subtask_status_value (sn_status node)))]
     else
     ebind (store_get (get_plan workspace_id (sub_plan_id run_id (sn_node_id node)))) (\<lambda>existing.
     case existing of
       Some sub_plan \<Rightarrow> resume_existing_subplan env envelope graph node sub_plan
     | None \<Rightarrow>
     ebind (store_get (get_context_snapshot workspace_id (str_or (tg_context_snapshot_ref graph) [])))
       (\<lambda>found.
     case found of
       None \<Rightarrow> coord_trace env event ''orchestration.context_missing''
                 (''No context for run '' @ run_id @ ''.'') []
     | Some snapshot \<Rightarrow> plan_node env envelope graph node run_id snapshot)))))"


section \<open>Completion reports\<close>

definition join_advance ::
  "app_env \<Rightarrow> EventEnvelope \<Rightarrow> string \<Rightarrow> string \<Rightarrow> TaskGraphAdvance \<Rightarrow> (world, unit) eff" where
  "join_advance env envelope run_id node_id advance =
     (let event = en_event envelope; workspace_id = ev_workspace_id event in
     if adv_run_failed advance then
       (let message = por (pget (ev_payload event) ''message'') (PStr ''subagent_failed'') in
        eseq (io_do (record_run_failed env workspace_id run_id (py_str message)))
          (coord_trace env event ''orchestration.failed''
             (''Run '' @ run_id @ '' failed at node '' @ node_id @ '': '' @ py_str message)
             [(''node_id'', PStr node_id)]))
     else
     eseq (efor (adv_newly_ready advance) (dispatch_node env envelope (adv_graph advance)))
     (eseq (case adv_dispatch_synthesizer advance of
              None \<Rightarrow> ret ()
            | Some node \<Rightarrow> dispatch_node env envelope (adv_graph advance) node)
     (eseq (if adv_run_completed advance then
              eseq (io_do (record_run_completed_by_id env workspace_id run_id))
                (coord_trace env event ''orchestration.completed'' (''Run '' @ run_id @ '' completed.'')
                   [(''node_id'', PStr node_id)])
            else ret ())
       (if adv_blocked advance then
          eseq (io_do (record_run_failed env workspace_id run_id ''orchestration_blocked''))
            (coord_trace env event ''orchestration.blocked''
               (''Run '' @ run_id @ '' blocked: no runnable node and not all complete.'')
               [(''node_id'', PStr node_id)])
        else ret ()))))"

definition join_report ::
  "app_env \<Rightarrow> EventEnvelope \<Rightarrow> string \<Rightarrow> string \<Rightarrow> string \<Rightarrow> SubTaskStatus \<Rightarrow> (world, unit) eff" where
  "join_report env envelope run_id node_id reported status =
     (let event = en_event envelope; workspace_id = ev_workspace_id event in
     ebind (store_run (advance_task_graph workspace_id run_id node_id status)) (\<lambda>advanced.
     case advanced of
       None \<Rightarrow> coord_trace env event ''orchestration.graph_missing''
                 (''No task graph for run '' @ run_id @ ''.'') []
     | Some advance \<Rightarrow>
     if adv_already_processed advance then
       coord_trace env event ''orchestration.duplicate''
         (''Ignored duplicate completion for node '' @ node_id @ ''.'')
         [(''node_id'', PStr node_id), (''status'', PStr reported)]
     else
     eseq (if status = SubTaskStatus.COMPLETED \<and> \<not> adv_is_synthesizer advance
           then store_do (store_result workspace_id run_id node_id) else ret ())
       (join_advance env envelope run_id node_id advance)))"

definition handle_completed ::
  "app_env \<Rightarrow> EventEnvelope \<Rightarrow> string \<Rightarrow> string \<Rightarrow> string \<Rightarrow> (world, unit) eff" where
  "handle_completed env envelope run_id node_id reported =
     (if reported \<noteq> ''completed'' \<and> reported \<noteq> ''failed'' then
        coord_trace env (en_event envelope) ''orchestration.waiting''
          (''Run '' @ run_id @ '' paused at node '' @ node_id @ '' ('' @ reported @ '').'')
          [(''node_id'', PStr node_id), (''status'', PStr reported)]
      else join_report env envelope run_id node_id reported
             (if reported = ''completed'' then SubTaskStatus.COMPLETED else SubTaskStatus.FAILED))"

definition coordinate :: "app_env \<Rightarrow> EventEnvelope \<Rightarrow> (world, unit) eff" where
  "coordinate env envelope =
     (case ev_class (en_event envelope) of
        SubAgentTaskEvent run_id node_id \<Rightarrow> handle_task env envelope run_id node_id
      | SubAgentCompletedEvent run_id node_id status \<Rightarrow> handle_completed env envelope run_id node_id status
      | _ \<Rightarrow> raise (TypeError ''SubAgentCoordinator only handles subagent events.''))"

end
