(* ===== verification/Validator.thy ===== *)
theory Validator
  imports World
begin

text \<open>\<open>application/validator.py\<close>: the gate before and after the execution of an action.\<close>

definition approval_suggestion ::
  "app_env \<Rightarrow> PlannedAction \<Rightarrow> AgentContext \<Rightarrow> (io, AgentSuggestion) eff" where
  "approval_suggestion env action context =
     new_suggestion env (cx_workspace_id context) (cx_project_id context) (pa_plan_id action)
       (pa_action_id action) (''Approval required: '' @ pa_tool_name action) (pa_instruction action)
       (case pa_expected_entity_versions action of [] \<Rightarrow> None | (r, _) # _ \<Rightarrow> Some r)
       [(''tool_name'', PStr (pa_tool_name action)), (''action_type'', PStr (pa_action_type action)),
        (''input'', PDict (pa_input action))]"

definition suggestion_event ::
  "app_env \<Rightarrow> AgentSuggestion \<Rightarrow> AgentContext \<Rightarrow> (io, RuntimeEvent) eff" where
  "suggestion_event env suggestion context =
     new_event env DomainEvent ''agent_suggestion.created'' (cx_workspace_id context)
       (cx_project_id context) [(''suggestion_id'', PStr (su_suggestion_id suggestion))] None
       (child (ev_causality (en_event (cx_source_event context))) (en_event_id (cx_source_event context)))
       None"

definition permitted :: "AgentContext \<Rightarrow> string \<Rightarrow> bool" where
  "permitted context tool = (case dget (cx_permissions context) tool of Some b \<Rightarrow> b | None \<Rightarrow> True)"

definition validate_before_execution ::
  "app_env \<Rightarrow> PlannedAction \<Rightarrow> AgentContext \<Rightarrow> (io, ValidationResult) eff" where
  "validate_before_execution env action context =
     (if \<not> permitted context (pa_tool_name action)
      then ret (validation_result FAIL False (Some (''permission_denied:'' @ pa_tool_name action)))
      else
      ebind (get_current_entity_versions (map fst (pa_expected_entity_versions action)))
        (\<lambda>current_versions.
      let stale = diff (pa_expected_entity_versions action) current_versions in
      if stale \<noteq> []
      then ret ((validation_result REPLAN False (Some ''stale_context''))\<lparr>vr_stale_entities := stale\<rparr>)
      else if pa_requires_approval action then
        ebind (approval_suggestion env action context) (\<lambda>suggestion.
        ebind (suggestion_event env suggestion context) (\<lambda>event.
        ebind (wrap env event) (\<lambda>envelope.
        ret ((validation_result SUGGEST True (Some ''approval_required''))
               \<lparr>vr_emitted_events := [envelope], vr_suggestion := Some suggestion\<rparr>))))
      else ret (validation_result COMMIT True None)))"

definition validate_after_execution :: "ToolResult \<Rightarrow> ValidationResult" where
  "validate_after_execution result =
     (if \<not> tr_success result
      then validation_result RETRY False (Some (str_or (tr_error result) ''tool_execution_failed''))
      else (validation_result COMMIT True None)
             \<lparr>vr_emitted_events := tr_emitted_events result, vr_suggestion := tr_suggestion result\<rparr>)"

definition approval_result ::
  "app_env \<Rightarrow> PlannedAction \<Rightarrow> ValidationResult \<Rightarrow> (io, ToolResult) eff" where
  "approval_result env action validation =
     new_tool_result env (pa_plan_id action) (pa_action_id action) (pa_tool_name action) True
       [(''decision'', PStr (decision_value (vr_decision validation))),
        (''reason'', pstr_opt (vr_reason validation)),
        (''requires_approval'', PBool True),
        (''original_input'', PDict (pa_input action))]
       None (vr_emitted_events validation) (vr_suggestion validation)"


section \<open>The decisions\<close>

definition stale_now :: "io \<Rightarrow> PlannedAction \<Rightarrow> bool" where
  "stale_now i action \<longleftrightarrow>
     (\<exists>(r, e) \<in> set (pa_expected_entity_versions action).
        \<exists>c. dget (io_versions i) r = Some c \<and> c \<noteq> e)"

lemma stale_now_iff:
  assumes "distinct (map fst (pa_expected_entity_versions action))"
    and "get_current_entity_versions (map fst (pa_expected_entity_versions action)) i = (Inr cur, i)"
  shows "diff (pa_expected_entity_versions action) cur \<noteq> [] \<longleftrightarrow> stale_now i action"
proof -
  let ?ev = "pa_expected_entity_versions action"
  have "dget cur r = (if r \<in> set (map fst ?ev) then dget (io_versions i) r else None)" for r
    using assms(2) by (intro current_versions_get) simp
  moreover have "dget ?ev r = Some e \<longleftrightarrow> (r, e) \<in> set ?ev" for r e
    using assms(1) by (rule map_of_eq_Some_iff [THEN iffD1, THEN iffI]) (auto simp: assms(1))
  ultimately show ?thesis
    unfolding diff_empty_iff [OF assms(1)] stale_now_def by (force split: if_splits)
qed

text \<open>
  The decision before execution, on every branch: denied permission fails, then staleness asks for a
  new plan, then the approval flag makes a suggestion, and only then does the action commit.
\<close>

lemma validate_before_execution_decision:
  assumes "distinct (map fst (pa_expected_entity_versions action))"
  shows "\<exists>v i'. validate_before_execution env action context i = (Inr v, i') \<and>
     io_requests i' = io_requests i \<and> io_versions i' = io_versions i \<and>
     vr_decision v =
       (if \<not> permitted context (pa_tool_name action) then FAIL
        else if stale_now i action then REPLAN
        else if pa_requires_approval action then SUGGEST
        else COMMIT)"
proof -
  let ?refs = "map fst (pa_expected_entity_versions action)"
  obtain cur where cur: "get_current_entity_versions ?refs i = (Inr cur, i)"
    by (auto simp: get_current_entity_versions_def gets_def)
  note stale = stale_now_iff [OF assms cur]
  show ?thesis
    unfolding validate_before_execution_def
    by (auto simp: eff_defs cur stale Let_def approval_suggestion_def suggestion_event_def
        new_suggestion_def new_event_def wrap_def new_envelope_def uuid4_def utc_now_def)
qed

lemma validate_after_execution_decision:
  "vr_decision (validate_after_execution r) = (if tr_success r then COMMIT else RETRY)"
  by (simp add: validate_after_execution_def)

lemma preserves_validate [pres]:
  "preserves (validate_before_execution env a c) io_requests"
  "preserves (validate_before_execution env a c) io_versions"
  "preserves (approval_result env a v) io_requests"
  unfolding validate_before_execution_def approval_suggestion_def suggestion_event_def wrap_def
    get_current_entity_versions_def approval_result_def
  by (intro pres)+

end
