(* ===== verification/Action_Handler.thy ===== *)
theory Action_Handler
  imports Run_Sync Validator
begin

text \<open>
  \<open>application/action_event_handler.py\<close>: executing one planned action, with the approval gate, the
  staleness check, idempotency, retries, failure handling and the inline chaining of the next action.
  \<open>handle\<close> calls itself only in tail position, from \<open>_enqueue_next_action\<close>; a step therefore
  returns the envelope to continue with, and the chain ends because each continuation uses up a unit
  of the inline budget.
\<close>

definition ACTION_EXECUTION_ATTEMPTS :: int where "ACTION_EXECUTION_ATTEMPTS = 3"
definition INLINE_ACTION_CHAIN_BUDGET :: int where "INLINE_ACTION_CHAIN_BUDGET = 8"

definition action_trace ::
  "app_env \<Rightarrow> RuntimeEvent \<Rightarrow> string \<Rightarrow> string \<Rightarrow> string option \<Rightarrow> string option \<Rightarrow> pydict
   \<Rightarrow> (world, unit) eff" where
  "action_trace env event event_name message plan_id action_id data =
     trace env event_name (ev_workspace_id event) (ev_project_id event) plan_id action_id message data"

definition opt_str :: "string option \<Rightarrow> string" where
  "opt_str s = (case s of None \<Rightarrow> ''None'' | Some t \<Rightarrow> t)"

definition enqueue_events :: "app_env \<Rightarrow> EventEnvelope list \<Rightarrow> (world, unit) eff" where
  "enqueue_events env envelopes = efor envelopes (\<lambda>en. eseq (enqueue env en) (ret ()))"

abbreviation event_child :: "EventEnvelope \<Rightarrow> EventCausality" where
  "event_child envelope \<equiv> child (ev_causality (en_event envelope)) (en_event_id envelope)"

text \<open>A sub-plan without a node id is rejected by the event schema.\<close>

definition settle_subplan ::
  "app_env \<Rightarrow> EventEnvelope \<Rightarrow> AgentPlan \<Rightarrow> string \<Rightarrow> string option \<Rightarrow> (world, unit) eff" where
  "settle_subplan env envelope plan status message =
     (case (ap_parent_run_id plan, ap_node_id plan) of
        (Some parent_run_id, Some node_id) \<Rightarrow>
          ebind (io_do (new_completed_event env (ap_workspace_id plan) (ap_project_id plan) parent_run_id
                   node_id status (ev_correlation_id (en_event envelope)) (event_child envelope)
                   (if opt_truthy message then [(''message'', PStr (str_or message []))] else [])))
            (\<lambda>completed_event.
          ebind (io_do (wrap env completed_event)) (\<lambda>en.
          eseq (enqueue env en)
            (action_trace env (en_event envelope) ''subagent.settled''
               (''Subagent node '' @ node_id @ '' settled as '' @ status @ ''.'') (Some parent_run_id) None
               [(''node_id'', PStr node_id), (''sub_plan_id'', PStr (ap_plan_id plan)),
                (''status'', PStr status), (''settle_event_id'', PStr (ev_event_id completed_event))])))
      | _ \<Rightarrow> raise (ValidationError ''SubAgentCompletedEvent''))"

definition replan_event ::
  "app_env \<Rightarrow> AgentContext \<Rightarrow> AgentPlan \<Rightarrow> PlannedAction \<Rightarrow> EventEnvelope \<Rightarrow> stale_entities \<Rightarrow> string
   \<Rightarrow> (io, RuntimeEvent) eff" where
  "replan_event env context plan action envelope stale reason =
     (let source = en_event (cx_source_event context);
          payload = dset ''_agent_replan''
            (PDict [(''reason'', PStr reason), (''blockedActionId'', PStr (pa_action_id action)),
                    (''staleEntities'', stale_val stale)])
            (dset ''agentRunId'' (PStr (ap_plan_id plan)) (dpop ''entity_versions'' (ev_payload source)));
          cls = (case ev_class source of
                   ManualInvocationEvent a \<Rightarrow> ManualInvocationEvent a
                 | ScheduledEvent s \<Rightarrow> ScheduledEvent s
                 | _ \<Rightarrow> DomainEvent)
      in new_event env cls (ev_event_type source) (ev_workspace_id source) (ev_project_id source) payload
           (opt_or (ev_correlation_id source) (ev_correlation_id (en_event envelope)))
           (event_child envelope) (Some (pa_idempotency_key action @ '':replan'')))"

text \<open>\<open>_enqueue_next_action\<close>; a result is the envelope with which \<open>handle\<close> is called again.\<close>

definition no_next_action :: "app_env \<Rightarrow> EventEnvelope \<Rightarrow> AgentPlan \<Rightarrow> (world, unit) eff" where
  "no_next_action env envelope plan =
     (let status = plan_status_value (ap_status plan);
          finish = (\<lambda>event_name message.
            action_trace env (en_event envelope) event_name message (Some (ap_plan_id plan)) None
              [(''plan_id'', PStr (ap_plan_id plan)), (''plan_status'', PStr status),
               (''action_count'', PInt (int (length (ap_actions plan)))),
               (''completed_action_ids'', strs (sorted_list_of_set (completed_action_ids plan)))])
      in if ap_status plan = PlanStatus.COMPLETED then
           if is_subplan plan then
             eseq (action_trace env (en_event envelope) ''plan.completed''
                     (''Sub-plan '' @ ap_plan_id plan @ '' completed for node '' @ opt_str (ap_node_id plan) @ ''.'')
                     (Some (ap_plan_id plan)) None
                     [(''plan_status'', PStr status), (''node_id'', pstr_opt (ap_node_id plan))])
               (settle_subplan env envelope plan ''completed'' None)
           else
             eseq (io_do (record_run_completed env plan))
               (finish ''plan.completed'' (''Plan '' @ ap_plan_id plan @ '' has no remaining pending actions.''))
         else
           finish ''plan.no_pending_actions''
             (''Plan '' @ ap_plan_id plan @ '' has no executable actions in status '' @ status @ ''.''))"

definition enqueue_next_action ::
  "app_env \<Rightarrow> EventEnvelope \<Rightarrow> AgentPlan \<Rightarrow> (world, EventEnvelope option) eff" where
  "enqueue_next_action env envelope plan =
     (case next_pending_action plan of
        None \<Rightarrow> eseq (no_next_action env envelope plan) (ret None)
      | Some next_action \<Rightarrow>
          ebind (io_do (new_action_event env (ap_workspace_id plan) (ap_project_id plan) (ap_plan_id plan)
                   (pa_action_id next_action) (ev_correlation_id (en_event envelope)) (event_child envelope)))
            (\<lambda>event.
          ebind (gets w_inline) (\<lambda>used.
          if \<not> pa_requires_approval next_action \<and> used < INLINE_ACTION_CHAIN_BUDGET then
            eseq (modify (\<lambda>w. w\<lparr>w_inline := w_inline w + 1\<rparr>))
            (eseq (action_trace env event ''action.chained''
                     (''Continuing action '' @ pa_action_id next_action @ '' in the same invocation.'')
                     (Some (ap_plan_id plan)) (Some (pa_action_id next_action))
                     (action_trace_data next_action [(''inline_chain_position'', PInt (used + 1))]))
            (ebind (io_do (wrap env event)) (\<lambda>en. ret (Some en))))
          else
            ebind (io_do (wrap env event)) (\<lambda>en.
            eseq (enqueue env en)
            (eseq (action_trace env event ''action.enqueued''
                     (''Enqueued next action '' @ pa_action_id next_action)
                     (Some (ap_plan_id plan)) (Some (pa_action_id next_action))
                     (action_trace_data next_action
                        [(''queue_event_id'', PStr (ev_event_id event)),
                         (''queue_event_type'', PStr (ev_event_type event))]))
              (ret None))))))"


section \<open>The branches of handle\<close>

definition plan_status_field :: "AgentPlan \<Rightarrow> string \<times> pyval" where
  "plan_status_field plan = (''plan_status'', PStr (plan_status_value (ap_status plan)))"

definition validation_field :: "ValidationResult \<Rightarrow> string \<times> pyval" where
  "validation_field v = (''validation'', PDict (validation_trace_data v))"

definition result_field :: "ToolResult \<Rightarrow> string \<times> pyval" where
  "result_field r = (''result'', PDict (tool_result_trace_data r))"

definition on_suggest ::
  "app_env \<Rightarrow> EventEnvelope \<Rightarrow> AgentPlan \<Rightarrow> PlannedAction \<Rightarrow> ValidationResult \<Rightarrow> (world, unit) eff" where
  "on_suggest env envelope plan action pre_validation =
     ebind (io_do (approval_result env action pre_validation)) (\<lambda>result.
     eseq (store_do (save_action_result result))
     (ebind (restatus env ActionStatus.REQUIRES_APPROVAL action plan) (\<lambda>(updated_action, updated_plan).
     eseq (store_do (update_plan updated_plan))
     (eseq (io_do (record_action_state env updated_plan updated_action ''action.approval_required''
              (Some ''Action converted to user-facing suggestion.'')))
     (eseq (store_do (record_idempotency_key (pa_idempotency_key action)))
     (eseq (enqueue_events env (vr_emitted_events pre_validation))
     (eseq (action_trace env (en_event envelope) ''action.approval_required''
              ''Action converted to user-facing suggestion.'' (Some (ap_plan_id plan)) (Some (pa_action_id action))
              (action_trace_data updated_action
                 [plan_status_field updated_plan, validation_field pre_validation, result_field result]))
     (if is_subplan updated_plan
      then settle_subplan env envelope updated_plan ''waiting_for_approval'' None
      else ret ()))))))))"

definition on_replan ::
  "app_env \<Rightarrow> EventEnvelope \<Rightarrow> AgentPlan \<Rightarrow> PlannedAction \<Rightarrow> AgentContext \<Rightarrow> ValidationResult
   \<Rightarrow> (world, unit) eff" where
  "on_replan env envelope plan action context pre_validation =
     ebind (restatus env ActionStatus.STALE action plan) (\<lambda>(updated_action, updated_plan).
     eseq (store_do (update_plan updated_plan))
     (eseq (io_do (record_action_state env updated_plan updated_action ''action.stale_context''
              (Some ''Action blocked because expected entity versions are stale.'')))
     (eseq (action_trace env (en_event envelope) ''action.stale_context''
              ''Action blocked because expected entity versions are stale.''
              (Some (ap_plan_id plan)) (Some (pa_action_id action))
              (action_trace_data updated_action
                 [plan_status_field updated_plan, validation_field pre_validation]))
     (if is_subplan updated_plan
      then settle_subplan env envelope updated_plan ''failed''
             (Some (str_or (vr_reason pre_validation) ''stale_context''))
      else
      ebind (io_do (replan_event env context updated_plan updated_action envelope
               (vr_stale_entities pre_validation) (str_or (vr_reason pre_validation) ''stale_context'')))
        (\<lambda>event.
      ebind (io_do (wrap env event)) (\<lambda>en.
      eseq (enqueue env en)
        (action_trace env (en_event envelope) ''plan.replan_enqueued''
           (''Enqueued replan for stale action '' @ pa_action_id action @ ''.'')
           (Some (ap_plan_id updated_plan)) (Some (pa_action_id action))
           (action_trace_data updated_action
              [plan_status_field updated_plan, (''replan_event_type'', PStr (ev_event_type event))]))))))))"

definition on_validation_failed ::
  "app_env \<Rightarrow> EventEnvelope \<Rightarrow> AgentPlan \<Rightarrow> PlannedAction \<Rightarrow> ValidationResult \<Rightarrow> (world, unit) eff" where
  "on_validation_failed env envelope plan action pre_validation =
     (let message = str_or (vr_reason pre_validation) ''Action validation failed.'' in
     ebind (restatus env ActionStatus.FAILED action plan) (\<lambda>(updated_action, updated_plan).
     eseq (store_do (update_plan updated_plan))
     (eseq (io_do (record_action_state env updated_plan updated_action ''action.validation_failed''
              (Some message)))
     (eseq (action_trace env (en_event envelope) ''action.validation_failed'' message
              (Some (ap_plan_id plan)) (Some (pa_action_id action))
              (action_trace_data updated_action
                 [plan_status_field updated_plan, validation_field pre_validation]))
     (if is_subplan updated_plan
      then settle_subplan env envelope updated_plan ''failed''
             (Some (str_or (vr_reason pre_validation) ''validation_failed''))
      else ret ())))))"

definition on_execution_error ::
  "app_env \<Rightarrow> EventEnvelope \<Rightarrow> AgentPlan \<Rightarrow> PlannedAction \<Rightarrow> exn \<Rightarrow> (world, unit) eff" where
  "on_execution_error env envelope running_plan action exc =
     ebind (restatus env ActionStatus.FAILED action running_plan) (\<lambda>(failed_action, failed_plan).
     eseq (store_do (update_plan failed_plan))
     (let failure_message = ''Tool '' @ pa_tool_name action @ '' failed: '' @ exn_str exc in
     ebind (catch (eseq (io_do (record_action_state env failed_plan failed_action ''action.execution_error''
                     (Some failure_message))) (ret None)) (\<lambda>sync_exc. ret (Some sync_exc)))
       (\<lambda>state_sync_error.
     let error_data = [plan_status_field failed_plan, (''error_type'', PStr (exn_type_name exc)),
                       (''error'', PStr (exn_str exc))]
           @ (case state_sync_error of
                None \<Rightarrow> []
              | Some s \<Rightarrow> [(''state_sync_error_type'', PStr (exn_type_name s)),
                          (''state_sync_error'', PStr (exn_str s))]) in
     eseq (action_trace env (en_event envelope) ''action.execution_error''
             (''Tool '' @ pa_tool_name action @ '' raised before returning a result.'')
             (Some (ap_plan_id failed_plan)) (Some (pa_action_id action))
             (action_trace_data failed_action error_data))
     (eseq (action_trace env (en_event envelope) ''action.failed'' failure_message
              (Some (ap_plan_id failed_plan)) (Some (pa_action_id action))
              (action_trace_data failed_action error_data))
     (if is_subplan failed_plan
      then settle_subplan env envelope failed_plan ''failed'' (Some failure_message)
      else raise exc)))))"

definition on_commit ::
  "app_env \<Rightarrow> EventEnvelope \<Rightarrow> AgentPlan \<Rightarrow> PlannedAction \<Rightarrow> ToolResult \<Rightarrow> ValidationResult
   \<Rightarrow> (world, EventEnvelope option) eff" where
  "on_commit env envelope running_plan action result post_validation =
     ebind (restatus env ActionStatus.COMPLETED action running_plan) (\<lambda>(updated_action, updated_plan).
     eseq (store_do (update_plan updated_plan))
     (eseq (io_do (record_action_state env updated_plan updated_action ''action.completed''
              (Some (''Completed action '' @ pa_action_id action))))
     (eseq (store_do (record_idempotency_key (pa_idempotency_key action)))
     (eseq (enqueue_events env (vr_emitted_events post_validation))
     (eseq (action_trace env (en_event envelope) ''action.completed''
              (''Completed action '' @ pa_action_id action)
              (Some (ap_plan_id updated_plan)) (Some (pa_action_id action))
              (action_trace_data updated_action
                 [plan_status_field updated_plan, result_field result, validation_field post_validation]))
       (enqueue_next_action env envelope updated_plan))))))"

definition on_retry ::
  "app_env \<Rightarrow> EventEnvelope \<Rightarrow> AgentPlan \<Rightarrow> AgentPlan \<Rightarrow> PlannedAction \<Rightarrow> ToolResult \<Rightarrow> ValidationResult
   \<Rightarrow> (world, unit) eff" where
  "on_retry env envelope plan running_plan action result post_validation =
     ebind (restatus env ActionStatus.PENDING action running_plan) (\<lambda>(retry_action, retry_plan).
     eseq (store_do (update_plan retry_plan))
     (ebind (io_do (new_action_event env (ap_workspace_id plan) (ap_project_id plan) (ap_plan_id plan)
               (pa_action_id action) (ev_correlation_id (en_event envelope)) (event_child envelope)))
        (\<lambda>event.
     ebind (io_do (new_envelope env event (en_attempt envelope + 1))) (\<lambda>en.
     eseq (enqueue env en)
     (let retry_message = str_or (vr_reason post_validation) ''Action requested retry.'' in
      eseq (io_do (record_action_state env retry_plan retry_action ''action.retry_scheduled''
              (Some retry_message)))
        (action_trace env (en_event envelope) ''action.retry_scheduled'' retry_message
           (Some (ap_plan_id retry_plan)) (Some (pa_action_id action))
           (action_trace_data retry_action
              [plan_status_field retry_plan, (''attempt'', PInt (en_attempt envelope + 1)),
               (''max_attempts'', PInt ACTION_EXECUTION_ATTEMPTS), result_field result,
               validation_field post_validation, (''retry_event_id'', PStr (ev_event_id event))])))))))"

definition on_failed ::
  "app_env \<Rightarrow> EventEnvelope \<Rightarrow> AgentPlan \<Rightarrow> PlannedAction \<Rightarrow> ToolResult \<Rightarrow> ValidationResult
   \<Rightarrow> (world, unit) eff" where
  "on_failed env envelope running_plan action result post_validation =
     (let message = str_or (vr_reason post_validation) ''Action failed validation after execution.'' in
     ebind (restatus env ActionStatus.FAILED action running_plan) (\<lambda>(updated_action, updated_plan).
     eseq (store_do (update_plan updated_plan))
     (eseq (io_do (record_action_state env updated_plan updated_action ''action.failed'' (Some message)))
     (eseq (action_trace env (en_event envelope) ''action.failed'' message
              (Some (ap_plan_id updated_plan)) (Some (pa_action_id action))
              (action_trace_data updated_action
                 [plan_status_field updated_plan, result_field result, validation_field post_validation]))
     (if is_subplan updated_plan
      then settle_subplan env envelope updated_plan ''failed''
             (Some (str_or (vr_reason post_validation) ''post_validation_failed''))
      else ret ())))))"

definition after_execution ::
  "app_env \<Rightarrow> EventEnvelope \<Rightarrow> AgentPlan \<Rightarrow> AgentPlan \<Rightarrow> PlannedAction \<Rightarrow> PlannedAction \<Rightarrow> ToolResult
   \<Rightarrow> (world, EventEnvelope option) eff" where
  "after_execution env envelope plan running_plan running_action action result =
     eseq (store_do (save_action_result result))
     (let post_validation = validate_after_execution result in
     eseq (action_trace env (en_event envelope) ''action.post_validation''
             (''Post-execution validation decided '' @ decision_value (vr_decision post_validation) @ ''.'')
             (Some (ap_plan_id running_plan)) (Some (pa_action_id action))
             (action_trace_data running_action
                [plan_status_field running_plan, validation_field post_validation, result_field result]))
     (if vr_decision post_validation = COMMIT
      then on_commit env envelope running_plan action result post_validation
      else if vr_decision post_validation = RETRY \<and> en_attempt envelope + 1 < ACTION_EXECUTION_ATTEMPTS
      then eseq (on_retry env envelope plan running_plan action result post_validation) (ret None)
      else eseq (on_failed env envelope running_plan action result post_validation) (ret None)))"

definition execute_action ::
  "app_env \<Rightarrow> EventEnvelope \<Rightarrow> AgentPlan \<Rightarrow> PlannedAction \<Rightarrow> AgentContext
   \<Rightarrow> (world, EventEnvelope option) eff" where
  "execute_action env envelope plan action context =
     (let message = ''Executing tool '' @ pa_tool_name action @ '' for action '' @ pa_action_id action @ ''.'' in
     ebind (restatus env ActionStatus.RUNNING action plan) (\<lambda>(running_action, running_plan).
     eseq (io_do (record_action_state env running_plan running_action ''action.executing'' (Some message)))
     (eseq (store_do (update_plan running_plan))
     (eseq (action_trace env (en_event envelope) ''action.executing'' message
              (Some (ap_plan_id running_plan)) (Some (pa_action_id action))
              (action_trace_data running_action [plan_status_field running_plan]))
     (ebind (catch (ebind (io_do (execute_one (ae_tools env) action context)) (\<lambda>r. ret (Some r)))
               (\<lambda>exc. eseq (on_execution_error env envelope running_plan action exc) (ret None)))
       (\<lambda>outcome. case outcome of
           None \<Rightarrow> ret None
         | Some result \<Rightarrow>
             after_execution env envelope plan running_plan running_action action result))))))"

definition process_pending ::
  "app_env \<Rightarrow> EventEnvelope \<Rightarrow> AgentPlan \<Rightarrow> PlannedAction \<Rightarrow> ContextSnapshot
   \<Rightarrow> (world, EventEnvelope option) eff" where
  "process_pending env envelope plan action snapshot =
     (let context = cs_context snapshot in
     eseq (action_trace env (en_event envelope) ''action.selected''
             (''Selected action '' @ pa_action_id action @ '' for execution.'')
             (Some (ap_plan_id plan)) (Some (pa_action_id action))
             (action_trace_data action
                [plan_status_field plan, (''context_snapshot_ref'', PStr (snapshot_ref snapshot)),
                 (''context'', PDict (context_trace_data context))]))
     (ebind (io_do (validate_before_execution env action context)) (\<lambda>pre_validation.
     eseq (action_trace env (en_event envelope) ''action.pre_validation''
             (''Pre-execution validation decided '' @ decision_value (vr_decision pre_validation) @ ''.'')
             (Some (ap_plan_id plan)) (Some (pa_action_id action))
             (action_trace_data action [validation_field pre_validation]))
     (if vr_decision pre_validation = SUGGEST
      then eseq (on_suggest env envelope plan action pre_validation) (ret None)
      else if vr_decision pre_validation = REPLAN
      then eseq (on_replan env envelope plan action context pre_validation) (ret None)
      else if vr_decision pre_validation = FAIL
      then eseq (on_validation_failed env envelope plan action pre_validation) (ret None)
      else execute_action env envelope plan action context))))"

definition handle_step :: "app_env \<Rightarrow> EventEnvelope \<Rightarrow> (world, EventEnvelope option) eff" where
  "handle_step env envelope =
     (let event = en_event envelope in
     case ev_class event of
       AgentActionEvent plan_id action_id \<Rightarrow>
         ebind (store_get (get_plan (ev_workspace_id event) plan_id)) (\<lambda>found.
         case found of
           None \<Rightarrow> raise (PlanNotFoundError plan_id)
         | Some plan \<Rightarrow>
             (case get_action plan action_id of
                None \<Rightarrow> raise (ActionNotFoundError action_id)
              | Some action \<Rightarrow>
                  if pa_status action \<noteq> ActionStatus.PENDING then
                    eseq (action_trace env event ''action.not_pending''
                            ''Skipped action because hydrated state is not pending.''
                            (Some (ap_plan_id plan)) (Some (pa_action_id action))
                            (action_trace_data action [plan_status_field plan]))
                      (if pa_status action \<in> {ActionStatus.COMPLETED, ActionStatus.SKIPPED}
                       then enqueue_next_action env envelope plan
                       else ret None)
                  else
                  ebind (store_get (get_context_snapshot (ev_workspace_id event) (ap_context_snapshot_ref plan)))
                    (\<lambda>snap.
                  case snap of
                    None \<Rightarrow> raise (PlanNotFoundError (''context:'' @ ap_context_snapshot_ref plan))
                  | Some snapshot \<Rightarrow>
                      ebind (store_get (check_idempotency_key (pa_idempotency_key action))) (\<lambda>consumed.
                      if consumed then
                        eseq (action_trace env event ''action.duplicate'' ''Skipped duplicate action execution.''
                                (Some (ap_plan_id plan)) (Some (pa_action_id action))
                                (action_trace_data action
                                   [plan_status_field plan, (''duplicate_idempotency_key'', PBool True)]))
                          (ret None)
                      else process_pending env envelope plan action snapshot))))
     | _ \<Rightarrow> raise (TypeError ''ActionEventHandler can only process AgentActionEvent envelopes.''))"


section \<open>The inline budget\<close>

lemma preserves_action_trace [pres]:
  "preserves (action_trace env e n m p a d) w_queue" "preserves (action_trace env e n m p a d) w_inline"
  "preserves (action_trace env e n m p a d) w_seen"
  unfolding action_trace_def by (intro pres)+

lemma preserves_settle [pres]:
  "preserves (settle_subplan env en p s m) w_inline" "preserves (settle_subplan env en p s m) w_seen"
  "preserves (settle_subplan env en p s m) (\<lambda>w. ms_idempotency_keys (w_store w))"
  unfolding settle_subplan_def action_trace_def
  by (intro pres preserves_comp [where f = w_store]; (simp add: append_trace_event_def)?)+

lemma preserves_enqueue_events [pres]:
  "preserves (enqueue_events env es) w_inline" "preserves (enqueue_events env es) w_seen"
  "preserves (enqueue_events env es) w_store"
  unfolding enqueue_events_def by (intro pres)+

lemma preserves_branches [pres]:
  "preserves (no_next_action env en p) w_inline"
  "preserves (on_suggest env en p a v) w_inline" "preserves (on_replan env en p a c v) w_inline"
  "preserves (on_validation_failed env en p a v) w_inline"
  "preserves (on_execution_error env en p a x) w_inline"
  "preserves (on_retry env en p q a r v) w_inline" "preserves (on_failed env en p a r v) w_inline"
  unfolding no_next_action_def on_suggest_def on_replan_def on_validation_failed_def
    on_execution_error_def on_retry_def on_failed_def Let_def
  by (intro pres)+

text \<open>A step spends at most one unit of the budget, and only to continue inline.\<close>

definition spends :: "(world, EventEnvelope option) eff \<Rightarrow> bool" where
  "spends m \<longleftrightarrow> (\<forall>w. case m w of
     (Inr (Some _), w') \<Rightarrow> w_inline w < INLINE_ACTION_CHAIN_BUDGET \<and> w_inline w' = w_inline w + 1
   | (Inr None, w') \<Rightarrow> w_inline w' = w_inline w
   | (Inl _, w') \<Rightarrow> w_inline w' = w_inline w)"

lemma spends_preserves: "preserves m w_inline \<Longrightarrow> spends (eseq m (ret None))"
  unfolding spends_def
proof
  fix w
  assume "preserves m w_inline"
  obtain r w1 where m: "m w = (r, w1)" by fastforce
  have "w_inline w1 = w_inline w" using \<open>preserves m w_inline\<close> m by (rule preservesD)
  with m show "case eseq m (ret None) w of
      (Inr (Some _), w') \<Rightarrow> w_inline w < INLINE_ACTION_CHAIN_BUDGET \<and> w_inline w' = w_inline w + 1
    | (Inr None, w') \<Rightarrow> w_inline w' = w_inline w
    | (Inl _, w') \<Rightarrow> w_inline w' = w_inline w"
    by (cases r) (simp_all add: eff_defs)
qed

lemma spends_raise: "spends (raise e)"
  by (simp add: spends_def raise_def)

lemma spends_ret_None: "spends (ret None)"
  by (simp add: spends_def ret_def)

lemma spends_ebind:
  assumes "preserves m w_inline" and "\<And>x. spends (k x)"
  shows "spends (ebind m k)"
  unfolding spends_def
proof
  fix w
  obtain r w1 where m: "m w = (r, w1)" by fastforce
  have eq: "w_inline w1 = w_inline w" using assms(1) m by (rule preservesD)
  show "case ebind m k w of
      (Inr (Some _), w') \<Rightarrow> w_inline w < INLINE_ACTION_CHAIN_BUDGET \<and> w_inline w' = w_inline w + 1
    | (Inr None, w') \<Rightarrow> w_inline w' = w_inline w
    | (Inl _, w') \<Rightarrow> w_inline w' = w_inline w"
  proof (cases r)
    case (Inl e)
    with m eq show ?thesis by (simp add: ebind_def)
  next
    case (Inr x)
    with m have "ebind m k w = k x w1" by (simp add: ebind_def)
    then show ?thesis
      using spec [OF assms(2) [unfolded spends_def], of w1 x] eq by (auto split: prod.splits sum.splits option.splits)
  qed
qed

lemma spends_eseq: "preserves m w_inline \<Longrightarrow> spends n \<Longrightarrow> spends (eseq m n)"
  by (simp add: eseq_def spends_ebind)

lemma spends_gets_inline:
  assumes "\<And>w. case k (w_inline w) w of
     (Inr (Some _), w') \<Rightarrow> w_inline w < INLINE_ACTION_CHAIN_BUDGET \<and> w_inline w' = w_inline w + 1
   | (Inr None, w') \<Rightarrow> w_inline w' = w_inline w
   | (Inl _, w') \<Rightarrow> w_inline w' = w_inline w"
  shows "spends (ebind (gets w_inline) k)"
  unfolding spends_def using assms by (simp add: ebind_def gets_def)

lemma spends_if: "spends m \<Longrightarrow> spends n \<Longrightarrow> spends (if b then m else n)"
  by simp

lemma spends_enqueue_next: "spends (enqueue_next_action env en p)"
proof (cases "next_pending_action p")
  case None
  then show ?thesis
    unfolding enqueue_next_action_def by (simp only: option.case) (intro spends_preserves pres)
next
  case (Some a)
  show ?thesis
    unfolding enqueue_next_action_def Some option.case
    by (rule spends_ebind, intro pres, rule spends_gets_inline)
      (simp add: eff_defs action_trace_def trace_def new_trace_def io_do_def uuid4_def utc_now_def
        store_do_def wrap_def new_envelope_def enqueue_def Let_def)
qed

lemmas spends_rules =
  spends_preserves spends_raise spends_ret_None spends_ebind spends_eseq spends_if spends_enqueue_next

lemma spends_case_option:
  "spends m \<Longrightarrow> (\<And>x. spends (k x)) \<Longrightarrow> spends (case z of None \<Rightarrow> m | Some x \<Rightarrow> k x)"
  by (simp split: option.splits)

lemma spends_case_prod: "(\<And>x y. spends (k x y)) \<Longrightarrow> spends (case z of (x, y) \<Rightarrow> k x y)"
  by (simp split: prod.splits)

lemma spends_commit: "spends (on_commit env en p a r v)"
  unfolding on_commit_def
  by (intro spends_ebind spends_eseq spends_case_prod spends_enqueue_next pres)

lemma spends_after_execution: "spends (after_execution env en p q ra a r)"
  unfolding after_execution_def Let_def
  by (intro spends_eseq spends_if spends_preserves spends_commit pres)

lemma spends_execute: "spends (execute_action env en p a c)"
  unfolding execute_action_def Let_def
  by (intro spends_ebind spends_eseq spends_case_prod spends_case_option spends_ret_None
      spends_after_execution pres)

lemma spends_process_pending: "spends (process_pending env en p a sn)"
  unfolding process_pending_def Let_def
  by (intro spends_ebind spends_eseq spends_if spends_preserves spends_execute pres)

lemma spends_handle_step: "spends (handle_step env envelope)"
proof (cases "ev_class (en_event envelope)")
  case (AgentActionEvent pid aid)
  then show ?thesis
    unfolding handle_step_def Let_def AgentActionEvent event_class.case
    by (intro spends_ebind spends_eseq spends_if spends_case_option spends_preserves spends_raise
        spends_ret_None spends_process_pending spends_enqueue_next pres)
qed (simp_all add: handle_step_def spends_raise)

lemma handle_step_spends:
  assumes "handle_step env envelope w = (Inr (Some next), w')"
  shows "w_inline w < INLINE_ACTION_CHAIN_BUDGET" and "w_inline w' = w_inline w + 1"
  using spends_handle_step [of env envelope] assms unfolding spends_def
  by (auto dest!: spec [of _ w])


section \<open>The handler\<close>

definition handle_measure :: "((app_env \<times> EventEnvelope \<times> world) \<times> app_env \<times> EventEnvelope \<times> world) set" where
  "handle_measure = measure (\<lambda>(env, envelope, w). nat (INLINE_ACTION_CHAIN_BUDGET - w_inline w))"

lemma handle_step_measure:
  assumes "(x, w') = handle_step env envelope w" and "x = Inr y" and "y = Some next"
  shows "((env, next, w'), env, envelope, w) \<in> handle_measure"
  using handle_step_spends [of env envelope w "next" w'] assms by (simp add: handle_measure_def)

function handle :: "app_env \<Rightarrow> EventEnvelope \<Rightarrow> (world, unit) eff" where
  "handle env envelope w =
     (case handle_step env envelope w of
        (Inl e, w') \<Rightarrow> (Inl e, w')
      | (Inr None, w') \<Rightarrow> (Inr (), w')
      | (Inr (Some next), w') \<Rightarrow> handle env next w')"
  by pat_completeness auto
termination
  by (relation handle_measure) (simp add: handle_measure_def, rule handle_step_measure)

declare handle.simps [simp del]

end
