(* ===== verification/Action_Safety.thy ===== *)
theory Action_Safety
  imports Action_Handler
begin

text \<open>
  What the action handler guarantees: an action that is gated (not pending, consumed key, denied,
  stale or awaiting approval) never reaches a tool; what every outcome of an execution leaves in
  the store and the queue.
\<close>

section \<open>Independence of the tool registry\<close>

named_theorems no_tools \<open>operations that ignore the tool registry\<close>

abbreviation with_tools :: "tool_registry \<Rightarrow> app_env \<Rightarrow> app_env" where
  "with_tools T env \<equiv> env\<lparr>ae_tools := T\<rparr>"

lemma no_tools_io [no_tools]:
  "uuid4 (with_tools T env) = uuid4 env" "utc_now (with_tools T env) = utc_now env"
  "client_base_url (with_tools T env) = client_base_url env"
  "is_configured (with_tools T env) = is_configured env"
  "request_headers (with_tools T env) = request_headers env"
  "uuid5_of (with_tools T env) = uuid5_of env"
  "sync_on (with_tools T env) = sync_on env"
  by (simp_all add: uuid4_def utc_now_def client_base_url_def is_configured_def request_headers_def
      sync_on_def fun_eq_iff)

lemma no_tools_request [no_tools]: "request_json (with_tools T env) = request_json env"
  by (simp add: request_json_def no_tools fun_eq_iff)

lemma no_tools_values [no_tools]:
  "new_event (with_tools T env) = new_event env" "new_envelope (with_tools T env) = new_envelope env"
  "new_suggestion (with_tools T env) = new_suggestion env"
  "new_tool_result (with_tools T env) = new_tool_result env"
  "new_trace (with_tools T env) = new_trace env" "send_json (with_tools T env) = send_json env"
  "stable_agent_run_uuid (with_tools T env) = stable_agent_run_uuid env"
  by (intro ext; unfold new_event_def new_envelope_def new_suggestion_def new_tool_result_def
      new_trace_def send_json_def stable_agent_run_uuid_def no_tools; rule refl)+

lemma no_tools_action_id [no_tools]: "action_api_id (with_tools T env) = action_api_id env"
  by (intro ext; unfold action_api_id_def no_tools; rule refl)

lemma no_tools_events [no_tools]:
  "wrap (with_tools T env) = wrap env" "new_action_event (with_tools T env) = new_action_event env"
  "new_completed_event (with_tools T env) = new_completed_event env"
  "enqueue (with_tools T env) = enqueue env" "trace (with_tools T env) = trace env"
  "restatus (with_tools T env) = restatus env"
  "upsert_agent_run_step (with_tools T env) = upsert_agent_run_step env"
  "upsert_agent_action (with_tools T env) = upsert_agent_action env"
  "create_agent_action_event (with_tools T env) = create_agent_action_event env"
  "update_agent_run_status (with_tools T env) = update_agent_run_status env"
  "action_payload (with_tools T env) = action_payload env"
  "step_payload (with_tools T env) = step_payload env"
  by (intro ext; unfold wrap_def new_action_event_def new_completed_event_def enqueue_def trace_def
      restatus_def upsert_agent_run_step_def upsert_agent_action_def create_agent_action_event_def
      update_agent_run_status_def action_payload_def step_payload_def no_tools; rule refl)+

lemma no_tools_sync [no_tools]:
  "upsert_action (with_tools T env) = upsert_action env"
  by (intro ext; unfold upsert_action_def no_tools; rule refl)+

lemma no_tools_record [no_tools]:
  "record_action_state (with_tools T env) = record_action_state env"
  "record_run_completed_by_id (with_tools T env) = record_run_completed_by_id env"
  by (intro ext; unfold record_action_state_def record_run_completed_by_id_def no_tools; rule refl)+

lemma no_tools_handler [no_tools]:
  "record_run_completed (with_tools T env) = record_run_completed env"
  "action_trace (with_tools T env) = action_trace env"
  "enqueue_events (with_tools T env) = enqueue_events env"
  "replan_event (with_tools T env) = replan_event env"
  "approval_suggestion (with_tools T env) = approval_suggestion env"
  "suggestion_event (with_tools T env) = suggestion_event env"
  "approval_result (with_tools T env) = approval_result env"
  by (intro ext; unfold record_run_completed_def action_trace_def enqueue_events_def replan_event_def
      approval_suggestion_def suggestion_event_def approval_result_def no_tools; rule refl)+

lemma no_tools_steps [no_tools]:
  "settle_subplan (with_tools T env) = settle_subplan env"
  "validate_before_execution (with_tools T env) = validate_before_execution env"
  by (intro ext; unfold settle_subplan_def validate_before_execution_def no_tools; rule refl)+

lemma no_tools_next [no_tools]:
  "no_next_action (with_tools T env) = no_next_action env"
  by (intro ext; unfold no_next_action_def no_tools; rule refl)+

lemma no_tools_branches [no_tools]:
  "enqueue_next_action (with_tools T env) = enqueue_next_action env"
  "on_suggest (with_tools T env) = on_suggest env" "on_replan (with_tools T env) = on_replan env"
  "on_validation_failed (with_tools T env) = on_validation_failed env"
  by (intro ext; unfold enqueue_next_action_def on_suggest_def on_replan_def on_validation_failed_def
      no_tools; rule refl)+


section \<open>The gate\<close>

text \<open>Everything that must keep an action from running, read off the state before the step.\<close>

definition gated :: "world \<Rightarrow> PlannedAction \<Rightarrow> AgentContext \<Rightarrow> bool" where
  "gated w action context \<longleftrightarrow>
     pa_status action \<noteq> ActionStatus.PENDING \<or>
     check_idempotency_key (pa_idempotency_key action) (w_store w) \<or>
     \<not> permitted context (pa_tool_name action) \<or>
     stale_now (w_io w) action \<or>
     pa_requires_approval action"

lemma ebind_cong_state:
  "(\<And>x s'. m s = (Inr x, s') \<Longrightarrow> f x s' = g x s') \<Longrightarrow> ebind m f s = ebind m g s"
  by (auto simp: ebind_def split: prod.splits sum.splits)

lemma trace_io_versions:
  "action_trace env e n m p a d w = (r, w') \<Longrightarrow> io_versions (w_io w') = io_versions (w_io w)"
  by (auto simp: action_trace_def trace_def new_trace_def eff_defs io_do_def store_do_def uuid4_def utc_now_def)

lemma process_pending_gated:
  assumes "distinct (map fst (pa_expected_entity_versions action))"
    and "\<not> permitted (cs_context snapshot) (pa_tool_name action) \<or> stale_now (w_io w) action \<or>
         pa_requires_approval action"
  shows "process_pending (with_tools T env) envelope plan action snapshot w =
         process_pending env envelope plan action snapshot w"
proof -
  define K where "K env' v =
    (if vr_decision v = SUGGEST then eseq (on_suggest env envelope plan action v) (ret None)
     else if vr_decision v = REPLAN then eseq (on_replan env envelope plan action (cs_context snapshot) v) (ret None)
     else if vr_decision v = FAIL then eseq (on_validation_failed env envelope plan action v) (ret None)
     else execute_action env' envelope plan action (cs_context snapshot))" for env' v
  have branch: "K (with_tools T env) v = K env v"
    if io: "io_versions (w_io w1) = io_versions (w_io w)"
      and v: "io_do (validate_before_execution env action (cs_context snapshot)) w1 = (Inr v, w2)" for w1 w2 v
  proof -
    have "stale_now (w_io w1) action = stale_now (w_io w) action" by (simp add: stale_now_def io)
    then have "vr_decision v \<in> {SUGGEST, REPLAN, FAIL}"
      using validate_before_execution_decision [OF assms(1), of env "cs_context snapshot" "w_io w1"] v assms(2)
      by (auto simp: io_do_def on_part_def split: if_splits)
    then show ?thesis by (auto simp: K_def)
  qed
  show ?thesis
    unfolding process_pending_def Let_def no_tools K_def [symmetric]
    unfolding eseq_def
  proof (intro ebind_cong_state)
    fix x w1 v w2 y w3
    assume 1: "action_trace env (en_event envelope) ''action.selected''
        (''Selected action '' @ pa_action_id action @ '' for execution.'')
        (Some (ap_plan_id plan)) (Some (pa_action_id action))
        (action_trace_data action
          [plan_status_field plan, (''context_snapshot_ref'', PStr (snapshot_ref snapshot)),
           (''context'', PDict (context_trace_data (cs_context snapshot)))]) w = (Inr x, w1)"
      and 2: "io_do (validate_before_execution env action (cs_context snapshot)) w1 = (Inr v, w2)"
    show "K (with_tools T env) v w3 = K env v w3"
      using branch [OF trace_io_versions [OF 1] 2] by simp
  qed
qed

text \<open>A gated action never reaches a tool: the step is the same under every tool registry.\<close>

lemma handle_step_gated:
  assumes "ev_class (en_event envelope) = AgentActionEvent pid aid"
    and "get_plan (ev_workspace_id (en_event envelope)) pid (w_store w) = Some plan"
    and "get_action plan aid = Some action"
    and "get_context_snapshot (ev_workspace_id (en_event envelope)) (ap_context_snapshot_ref plan) (w_store w)
           = Some snapshot"
    and "distinct (map fst (pa_expected_entity_versions action))"
    and "gated w action (cs_context snapshot)"
  shows "handle_step (with_tools T env) envelope w = handle_step env envelope w"
proof -
  have eb: "ebind (store_get f) k w = k (f (w_store w)) w" for f and k :: "'x \<Rightarrow> (world, 'y) eff"
    by (simp add: ebind_def store_get_def gets_def)
  show ?thesis
  proof (cases "pa_status action = ActionStatus.PENDING \<and>
      \<not> check_idempotency_key (pa_idempotency_key action) (w_store w)")
    case True
    then have "process_pending (with_tools T env) envelope plan action snapshot w =
        process_pending env envelope plan action snapshot w"
      using assms(5,6) by (intro process_pending_gated) (auto simp: gated_def)
    with True show ?thesis
      by (simp add: handle_step_def Let_def assms(1-4) eb no_tools)
  next
    case False
    then show ?thesis
      by (auto simp add: handle_step_def Let_def assms(1-4) eb no_tools)
  qed
qed


section \<open>Verification conditions for the handlers\<close>

text \<open>
  Introduction rules that reduce a handler to what it writes to the store and the queue: fresh
  identifiers, timestamps and anything the API does become universally quantified.
\<close>

named_theorems vc \<open>verification conditions of handler steps\<close>

lemma vc_ret [vc]: "Q x w \<Longrightarrow> wp (ret x) Q E w"
  by (simp add: wp_ret)

lemma vc_raise [vc]: "E e w \<Longrightarrow> wp (raise e) Q E w"
  by (simp add: wp_raise)

lemma vc_ebind [vc]: "wp m (\<lambda>x. wp (f x) Q E) E w \<Longrightarrow> wp (ebind m f) Q E w"
  by (simp add: wp_ebind)

lemma vc_eseq [vc]: "wp m (\<lambda>_. wp n Q E) E w \<Longrightarrow> wp (eseq m n) Q E w"
  by (simp add: wp_eseq)

lemma vc_io:
  "(\<And>x i. Q x (w\<lparr>w_io := i\<rparr>)) \<Longrightarrow> (\<And>e i. E e (w\<lparr>w_io := i\<rparr>)) \<Longrightarrow> wp (io_do m) Q E w"
  by (auto simp: wp_def io_do_def on_part_def split: prod.splits sum.splits)

lemma vc_store [vc]:
  "Q () (w\<lparr>w_store := f (w_store w)\<rparr>) \<Longrightarrow> wp (store_do f) Q E w"
  by (simp add: wp_store_do)

lemma vc_store_get [vc]: "Q (f (w_store w)) w \<Longrightarrow> wp (store_get f) Q E w"
  by (simp add: wp_store_get)

lemma vc_gets [vc]: "Q (f w) w \<Longrightarrow> wp (gets f) Q E w"
  by (simp add: wp_gets)

lemma vc_modify [vc]: "Q () (f w) \<Longrightarrow> wp (modify f) Q E w"
  by (simp add: wp_modify)

lemma vc_catch [vc]: "wp m Q (\<lambda>e. wp (h e) Q E) w \<Longrightarrow> wp (catch m h) Q E w"
  by (simp add: wp_catch)

lemma vc_if [vc]: "(b \<Longrightarrow> wp m Q E w) \<Longrightarrow> (\<not> b \<Longrightarrow> wp n Q E w) \<Longrightarrow> wp (if b then m else n) Q E w"
  by simp

lemma vc_option [vc]:
  "(z = None \<Longrightarrow> wp m Q E w) \<Longrightarrow> (\<And>x. z = Some x \<Longrightarrow> wp (k x) Q E w) \<Longrightarrow>
   wp (case z of None \<Rightarrow> m | Some x \<Rightarrow> k x) Q E w"
  by (simp split: option.splits)

lemma vc_case_prod [vc]: "wp (k x y) Q E w \<Longrightarrow> wp (case (x, y) of (x, y) \<Rightarrow> k x y) Q E w"
  by simp

lemma vc_restatus [vc]:
  "(\<And>t1 t2 i. Q (with_status t1 s a, replace_action t2 (with_status t1 s a) p) (w\<lparr>w_io := i\<rparr>)) \<Longrightarrow>
   wp (restatus env s a p) Q E w"
  by (simp add: restatus_def wp_rules Let_def)

lemma vc_trace [vc]:
  "(\<And>t i. io_versions i = io_versions (w_io w) \<Longrightarrow>
      Q () (w\<lparr>w_io := i, w_store := append_trace_event t (w_store w)\<rparr>)) \<Longrightarrow>
   wp (action_trace env e n m p a d) Q E w"
  by (simp add: action_trace_def trace_def new_trace_def wp_rules)

lemma vc_enqueue [vc]:
  "(\<And>m i. qm_envelope m = en \<Longrightarrow> Q m (w\<lparr>w_io := i, w_queue := mq_enqueue m (w_queue w)\<rparr>)) \<Longrightarrow>
   wp (enqueue env en) Q E w"
  by (simp add: enqueue_def wp_rules Let_def)

lemma vc_new_event [vc]:
  "(\<And>ev i. ev_class ev = cls \<Longrightarrow> ev_event_type ev = t \<Longrightarrow> ev_workspace_id ev = ws \<Longrightarrow>
      ev_causality ev = ca \<Longrightarrow> ev_payload ev = pl \<Longrightarrow> ev_idempotency_key ev = k \<Longrightarrow>
      Q ev (w\<lparr>w_io := i\<rparr>)) \<Longrightarrow>
   wp (io_do (new_event env cls t ws p pl co ca k)) Q E w"
  by (simp add: new_event_def wp_rules)

lemma vc_new_action_event [vc]:
  "(\<And>ev i. ev_class ev = AgentActionEvent pid aid \<Longrightarrow> ev_workspace_id ev = ws \<Longrightarrow>
      ev_causality ev = ca \<Longrightarrow> Q ev (w\<lparr>w_io := i\<rparr>)) \<Longrightarrow>
   wp (io_do (new_action_event env ws p pid aid co ca)) Q E w"
  unfolding new_action_event_def by (rule vc_new_event) simp

lemma vc_new_completed_event [vc]:
  "(\<And>ev i. ev_class ev = SubAgentCompletedEvent pid nid s \<Longrightarrow> ev_workspace_id ev = ws \<Longrightarrow>
      ev_causality ev = ca \<Longrightarrow> Q ev (w\<lparr>w_io := i\<rparr>)) \<Longrightarrow>
   wp (io_do (new_completed_event env ws p pid nid s co ca pl)) Q E w"
  unfolding new_completed_event_def by (rule vc_new_event) simp

lemma vc_new_envelope [vc]:
  "(\<And>en i. en_event en = ev \<Longrightarrow> en_attempt en = n \<Longrightarrow> Q en (w\<lparr>w_io := i\<rparr>)) \<Longrightarrow>
   wp (io_do (new_envelope env ev n)) Q E w"
  by (simp add: new_envelope_def wp_rules)

lemma vc_wrap [vc]:
  "(\<And>en i. en_event en = ev \<Longrightarrow> en_attempt en = 0 \<Longrightarrow> Q en (w\<lparr>w_io := i\<rparr>)) \<Longrightarrow>
   wp (io_do (wrap env ev)) Q E w"
  unfolding wrap_def by (rule vc_new_envelope)

text \<open>The mirror can fail only when it is on.\<close>

lemma vc_sync_io:
  assumes "\<not> sync_on env \<Longrightarrow> m = ret ()"
    and "\<And>i. Q () (w\<lparr>w_io := i\<rparr>)" and "\<And>e i. sync_on env \<Longrightarrow> E e (w\<lparr>w_io := i\<rparr>)"
  shows "wp (io_do m) Q E w"
proof (cases "sync_on env")
  case True
  show ?thesis by (rule vc_io) (use assms(2,3) True in auto)
next
  case False
  show ?thesis unfolding assms(1) [OF False] wp_io_do wp_ret by (rule assms(2))
qed

lemmas vc_sync [vc] =
  vc_sync_io [OF sync_off_silent(5)] vc_sync_io [OF sync_off_silent(7)]
  vc_sync_io [OF sync_off_silent(3)] vc_sync_io [OF sync_off_silent(2)]
  vc_sync_io [OF sync_off_silent(6)]

lemma vc_approval_result [vc]:
  assumes "\<And>r i. tr_plan_id r = pa_plan_id a \<Longrightarrow> tr_action_id r = pa_action_id a \<Longrightarrow>
    Q r (w\<lparr>w_io := i\<rparr>)"
  shows "wp (io_do (approval_result env a v)) Q E w"
  unfolding approval_result_def new_tool_result_def wp_rules by (rule assms) simp_all

lemma vc_validate:
  assumes "distinct (map fst (pa_expected_entity_versions action))"
    and "\<And>v i. vr_decision v =
       (if \<not> permitted context (pa_tool_name action) then FAIL
        else if stale_now (w_io w) action then REPLAN
        else if pa_requires_approval action then SUGGEST else COMMIT) \<Longrightarrow> Q v (w\<lparr>w_io := i\<rparr>)"
  shows "wp (io_do (validate_before_execution env action context)) Q E w"
  using validate_before_execution_decision [OF assms(1), of env "context" "w_io w"] assms(2)
  by (auto simp: wp_def io_do_def on_part_def)

text \<open>Emitted events are appended to the queue in order.\<close>

lemma vc_enqueue_events [vc]:
  "(\<And>ms w'. map qm_envelope ms = es \<Longrightarrow>
      w_queue w' = w_queue w\<lparr>mq_messages := mq_messages (w_queue w) @ ms\<rparr> \<Longrightarrow>
      w_store w' = w_store w \<Longrightarrow> w_inline w' = w_inline w \<Longrightarrow> w_seen w' = w_seen w \<Longrightarrow> Q () w') \<Longrightarrow>
   wp (enqueue_events env es) Q E w"
proof (induction es arbitrary: w)
  case Nil
  from Nil [of "[]" w] show ?case by (simp add: enqueue_events_def wp_ret)
next
  case (Cons e es)
  have "wp (enqueue_events env es) Q E (w\<lparr>w_io := i, w_queue := mq_enqueue m (w_queue w)\<rparr>)"
    if m: "qm_envelope m = e" for m i
    by (rule Cons.IH, rule Cons.prems [of "m # _"]) (simp_all add: m mq_enqueue_def)
  then show ?case
    unfolding enqueue_events_def efor.simps by (intro vc) (simp add: enqueue_events_def)
qed

text \<open>A settlement enqueues one completion report for the node of the sub-plan.\<close>

definition settles :: "AgentPlan \<Rightarrow> string \<Rightarrow> QueueMessage \<Rightarrow> bool" where
  "settles plan status m \<longleftrightarrow>
     (\<exists>r n. ap_parent_run_id plan = Some r \<and> ap_node_id plan = Some n \<and>
        ev_class (en_event (qm_envelope m)) = SubAgentCompletedEvent r n status \<and>
        ev_workspace_id (en_event (qm_envelope m)) = ap_workspace_id plan)"

lemma vc_settle [vc]:
  assumes "\<And>m t w'. settles plan status m \<Longrightarrow>
      w_queue w' = mq_enqueue m (w_queue w) \<Longrightarrow> w_store w' = append_trace_event t (w_store w) \<Longrightarrow>
      w_inline w' = w_inline w \<Longrightarrow> w_seen w' = w_seen w \<Longrightarrow> Q () w'"
    and "\<And>e. ap_parent_run_id plan = None \<or> ap_node_id plan = None \<Longrightarrow> E e w"
  shows "wp (settle_subplan env envelope plan status message) Q E w"
proof (cases "ap_parent_run_id plan = None \<or> ap_node_id plan = None")
  case True
  then show ?thesis using assms(2) by (auto simp: settle_subplan_def wp_raise split: option.splits)
next
  case False
  then obtain r n where rn: "ap_parent_run_id plan = Some r" "ap_node_id plan = Some n" by auto
  show ?thesis
    unfolding settle_subplan_def rn prod.case option.case
    by (intro vc assms(1)) (use rn in \<open>auto simp: settles_def\<close>)
qed


section \<open>What continuing with the next action leaves alone\<close>

definition untraced :: "memory_store \<Rightarrow> memory_store" where
  "untraced s = s\<lparr>ms_traces := []\<rparr>"

lemma untraced_append [simp]: "untraced (append_trace_event t s) = untraced s"
  by (simp add: untraced_def append_trace_event_def)

lemma untraced_reads:
  assumes "untraced s' = untraced s"
  shows "get_plan w p s' = get_plan w p s" "check_idempotency_key k s' = check_idempotency_key k s"
    "get_action_result p a s' = get_action_result p a s" "get_task_graph w p s' = get_task_graph w p s"
proof -
  have "get_plan w p s = get_plan w p (untraced s)" "check_idempotency_key k s = check_idempotency_key k (untraced s)"
    "get_action_result p a s = get_action_result p a (untraced s)"
    "get_task_graph w p s = get_task_graph w p (untraced s)" for s
    by (simp_all add: untraced_def store_defs)
  then show "get_plan w p s' = get_plan w p s" "check_idempotency_key k s' = check_idempotency_key k s"
    "get_action_result p a s' = get_action_result p a s" "get_task_graph w p s' = get_task_graph w p s"
    using assms by metis+
qed

lemma preserves_untraced_trace:
  "preserves (action_trace env e n m p a d) (\<lambda>w. untraced (w_store w))"
  unfolding action_trace_def by (rule preserves_trace_store) simp

lemma preserves_untraced_parts:
  "preserves (io_do m) (\<lambda>w. untraced (w_store w))"
  "preserves (enqueue env e) (\<lambda>w. untraced (w_store w))"
  "preserves (modify (\<lambda>w. w\<lparr>w_inline := f w\<rparr>)) (\<lambda>w. untraced (w_store w))"
  using preserves_comp [OF preserves_io_do(2)] preserves_comp [OF preserves_enqueue(1)]
  by (simp_all add: preserves_def modify_def)

lemmas untraced_pres =
  preserves_untraced_parts preserves_untraced_trace preserves_ret preserves_raise preserves_gets
  preserves_ebind preserves_eseq preserves_if preserves_case_option

lemma preserves_untraced_settle: "preserves (settle_subplan env en p s m) (\<lambda>w. untraced (w_store w))"
  unfolding settle_subplan_def prod.case by (intro untraced_pres)

lemma preserves_untraced_next:
  "preserves (enqueue_next_action env en p) (\<lambda>w. untraced (w_store w))"
  unfolding enqueue_next_action_def no_next_action_def Let_def
  by (intro untraced_pres preserves_untraced_settle)

text \<open>The plans the runner builds: a sub-plan knows its node.\<close>

definition node_known :: "AgentPlan \<Rightarrow> bool" where
  "node_known p \<longleftrightarrow> (is_subplan p \<longrightarrow> ap_node_id p \<noteq> None)"

lemma node_known_replace [simp]: "node_known (replace_action t a p) = node_known p"
  by (simp add: node_known_def)

lemma vc_enqueue_next [vc]:
  assumes "\<And>out w'. untraced (w_store w') = untraced (w_store w) \<Longrightarrow> Q out w'"
    and "\<And>e w'. sync_on env \<or> \<not> node_known p \<Longrightarrow> E e w'"
  shows "wp (enqueue_next_action env en p) Q E w"
proof -
  have "wp (enqueue_next_action env en p) (\<lambda>_ _. True) (\<lambda>e w'. sync_on env \<or> \<not> node_known p) w"
    unfolding enqueue_next_action_def no_next_action_def Let_def
    by (intro vc) (auto simp: node_known_def is_subplan_def)
  from wp_preserves [OF preserves_untraced_next refl this] show ?thesis
    by (rule wp_mono) (auto intro: assms)
qed


section \<open>Outcomes of an execution\<close>

definition stored_status :: "memory_store \<Rightarrow> string \<Rightarrow> string \<Rightarrow> string \<Rightarrow> ActionStatus option" where
  "stored_status s ws pid aid =
     (case get_plan ws pid s of
        None \<Rightarrow> None | Some p \<Rightarrow> map_option pa_status (get_action p aid))"

abbreviation plan_action_status :: "world \<Rightarrow> AgentPlan \<Rightarrow> PlannedAction \<Rightarrow> ActionStatus option" where
  "plan_action_status w p a \<equiv>
     stored_status (w_store w) (ap_workspace_id p) (ap_plan_id p) (pa_action_id a)"

abbreviation key_consumed :: "world \<Rightarrow> PlannedAction \<Rightarrow> bool" where
  "key_consumed w a \<equiv> check_idempotency_key (pa_idempotency_key a) (w_store w)"

text \<open>How a tool ends on this action, whatever the API and the clock do.\<close>

definition tool_yields :: "app_env \<Rightarrow> PlannedAction \<Rightarrow> AgentContext \<Rightarrow> (exn + ToolResult \<Rightarrow> bool) \<Rightarrow> bool" where
  "tool_yields env action context P \<longleftrightarrow> (\<forall>i. P (fst (execute_one (ae_tools env) action context i)))"

abbreviation succeeds :: "exn + ToolResult \<Rightarrow> bool" where
  "succeeds r \<equiv> (case r of Inr t \<Rightarrow> tr_success t | Inl _ \<Rightarrow> False)"

abbreviation reports_failure :: "exn + ToolResult \<Rightarrow> bool" where
  "reports_failure r \<equiv> (case r of Inr t \<Rightarrow> \<not> tr_success t | Inl _ \<Rightarrow> False)"

lemma vc_tool:
  assumes "tool_yields env action context P"
    and "\<And>r i. P (Inr r) \<Longrightarrow> Q r (w\<lparr>w_io := i\<rparr>)" and "\<And>e i. P (Inl e) \<Longrightarrow> E e (w\<lparr>w_io := i\<rparr>)"
  shows "wp (io_do (execute_one (ae_tools env) action context)) Q E w"
proof -
  obtain r i where run: "execute_one (ae_tools env) action context (w_io w) = (r, i)" by fastforce
  have "P r" using assms(1) run unfolding tool_yields_def by (metis fst_conv)
  then show ?thesis using assms(2,3) by (cases r) (simp_all add: wp_def io_do_def on_part_def run)
qed

definition owns :: "AgentPlan \<Rightarrow> PlannedAction \<Rightarrow> bool" where
  "owns p a \<longleftrightarrow> pa_action_id a \<in> set (action_ids p)"

lemma owns_replace [simp]: "owns (replace_action t b p) a = owns p a"
  by (simp add: owns_def)

lemma get_action_replaced [simp]:
  "owns p a \<Longrightarrow>
   get_action (replace_action t (with_status t' s a) p) (pa_action_id a) = Some (with_status t' s a)"
  by (subst get_action_replace_action) (simp add: owns_def)

lemma stored_status_simps [simp]:
  "stored_status (update_plan p s) ws pid i =
     (if ws = ap_workspace_id p \<and> pid = ap_plan_id p then map_option pa_status (get_action p i)
      else stored_status s ws pid i)"
  "stored_status (append_trace_event t s) ws pid i = stored_status s ws pid i"
  "stored_status (save_action_result r s) ws pid i = stored_status s ws pid i"
  "stored_status (record_idempotency_key k s) ws pid i = stored_status s ws pid i"
  by (simp_all add: stored_status_def)

lemma untraced_facts:
  assumes "untraced s' = untraced s"
  shows "stored_status s' = stored_status s \<and>
    (\<forall>k. check_idempotency_key k s' = check_idempotency_key k s)"
  using untraced_reads [OF assms] by (simp add: stored_status_def fun_eq_iff)

lemma execute_success:
  assumes tool: "tool_yields env action context succeeds"
    and mem: "owns plan action" and node: "node_known plan"
  shows "wp (execute_action env envelope plan action context)
    (\<lambda>out w'. key_consumed w' action \<and> plan_action_status w' plan action = Some ActionStatus.COMPLETED)
    (\<lambda>_ _. sync_on env) w"
  unfolding execute_action_def after_execution_def on_commit_def Let_def
  by (intro vc vc_tool [OF tool])
    (use mem node in \<open>auto simp: validate_after_execution_def dest!: untraced_facts\<close>)

text \<open>A failing tool is retried while attempts are left, then the action fails for good.\<close>

lemma execute_retry:
  assumes tool: "tool_yields env action context reports_failure"
    and mem: "owns plan action"
    and attempts: "en_attempt envelope + 1 < ACTION_EXECUTION_ATTEMPTS"
  shows "wp (execute_action env envelope plan action context)
    (\<lambda>out w'. out = None \<and> plan_action_status w' plan action = Some ActionStatus.PENDING \<and>
        key_consumed w' action = key_consumed w action \<and>
        (\<exists>m. w_queue w' = mq_enqueue m (w_queue w) \<and>
           en_attempt (qm_envelope m) = en_attempt envelope + 1 \<and>
           ev_class (en_event (qm_envelope m)) = AgentActionEvent (ap_plan_id plan) (pa_action_id action)))
    (\<lambda>_ _. sync_on env) w"
  unfolding execute_action_def after_execution_def on_retry_def Let_def
  by (intro vc vc_tool [OF tool])
    (use mem attempts in \<open>auto simp: validate_after_execution_def\<close>)

definition failure_settled :: "world \<Rightarrow> AgentPlan \<Rightarrow> world \<Rightarrow> bool" where
  "failure_settled w p w' \<longleftrightarrow>
     (if is_subplan p
      then \<exists>m. settles p ''failed'' m \<and> w_queue w' = mq_enqueue m (w_queue w)
      else w_queue w' = w_queue w)"

lemma settles_replace [simp]: "settles (replace_action t a p) s m = settles p s m"
  by (simp add: settles_def)

lemma execute_exhausted:
  assumes tool: "tool_yields env action context reports_failure"
    and mem: "owns plan action" and node: "node_known plan"
    and attempts: "ACTION_EXECUTION_ATTEMPTS \<le> en_attempt envelope + 1"
  shows "wp (execute_action env envelope plan action context)
    (\<lambda>out w'. out = None \<and> plan_action_status w' plan action = Some ActionStatus.FAILED \<and>
        key_consumed w' action = key_consumed w action \<and> failure_settled w plan w')
    (\<lambda>_ _. sync_on env) w"
  unfolding execute_action_def after_execution_def on_failed_def Let_def
  by (intro vc vc_tool [OF tool])
    (use mem attempts node in \<open>auto simp: validate_after_execution_def failure_settled_def
      node_known_def is_subplan_def\<close>)

text \<open>
  A tool that raises fails the action. A plan of its own re-raises for the runner to record; a sub-plan
  settles as failed instead, so that its siblings go on.
\<close>

lemma execute_raises:
  assumes tool: "tool_yields env action context (\<lambda>r. r = Inl x)"
    and mem: "owns plan action" and node: "node_known plan"
  shows "wp (execute_action env envelope plan action context)
    (\<lambda>out w'. out = None \<and> is_subplan plan \<and> failure_settled w plan w' \<and>
        plan_action_status w' plan action = Some ActionStatus.FAILED)
    (\<lambda>e w'. sync_on env \<or>
        e = x \<and> \<not> is_subplan plan \<and> w_queue w' = w_queue w \<and>
        plan_action_status w' plan action = Some ActionStatus.FAILED) w"
  unfolding execute_action_def after_execution_def on_execution_error_def Let_def
  by (intro vc vc_tool [OF tool])
    (use mem node in \<open>auto simp: failure_settled_def node_known_def is_subplan_def\<close>)

text \<open>The gate: what becomes of an action that is not run.\<close>

definition gate_status :: "world \<Rightarrow> PlannedAction \<Rightarrow> AgentContext \<Rightarrow> ActionStatus" where
  "gate_status w action context =
     (if \<not> permitted context (pa_tool_name action) then ActionStatus.FAILED
      else if stale_now (w_io w) action then ActionStatus.STALE
      else ActionStatus.REQUIRES_APPROVAL)"

abbreviation branch_ends :: "app_env \<Rightarrow> AgentPlan \<Rightarrow> PlannedAction \<Rightarrow> ActionStatus
    \<Rightarrow> (world, unit) eff \<Rightarrow> bool" where
  "branch_ends env plan action status m \<equiv>
     (\<forall>w. wp m (\<lambda>_ w'. plan_action_status w' plan action = Some status) (\<lambda>_ _. sync_on env) w)"

lemma on_suggest_ends:
  assumes "owns plan action" and "node_known plan"
  shows "branch_ends env plan action ActionStatus.REQUIRES_APPROVAL (on_suggest env envelope plan action v)"
  unfolding on_suggest_def Let_def
  by (intro allI vc) (use assms in \<open>auto simp: node_known_def is_subplan_def\<close>)

lemma on_validation_failed_ends:
  assumes "owns plan action" and "node_known plan"
  shows "branch_ends env plan action ActionStatus.FAILED (on_validation_failed env envelope plan action v)"
  unfolding on_validation_failed_def Let_def
  by (intro allI vc) (use assms in \<open>auto simp: node_known_def is_subplan_def\<close>)

lemma on_replan_ends:
  assumes "owns plan action" and "node_known plan"
  shows "branch_ends env plan action ActionStatus.STALE (on_replan env envelope plan action c v)"
  unfolding on_replan_def replan_event_def Let_def
  by (intro allI vc) (use assms in \<open>auto simp: node_known_def is_subplan_def\<close>)

lemma branch_endsD:
  assumes "branch_ends env plan action status m"
  shows "wp (eseq m (ret None))
    (\<lambda>out w'. out = None \<and> plan_action_status w' plan action = Some status) (\<lambda>_ _. sync_on env) w"
  unfolding wp_rules by (rule wp_mono [OF spec [OF assms]]) auto

lemma process_pending_outcome:
  assumes versions: "distinct (map fst (pa_expected_entity_versions action))"
    and mem: "owns plan action" and node: "node_known plan"
    and gated: "\<not> permitted (cs_context snapshot) (pa_tool_name action) \<or> stale_now (w_io w) action \<or>
      pa_requires_approval action"
  shows "wp (process_pending env envelope plan action snapshot)
    (\<lambda>out w'. out = None \<and>
        plan_action_status w' plan action = Some (gate_status w action (cs_context snapshot)))
    (\<lambda>_ _. sync_on env) w"
proof -
  let ?c = "cs_context snapshot"
  let ?Q = "\<lambda>out w'. out = None \<and> plan_action_status w' plan action = Some (gate_status w action ?c)"
  have branch: "wp (if vr_decision v = SUGGEST then eseq (on_suggest env envelope plan action v) (ret None)
      else if vr_decision v = REPLAN then eseq (on_replan env envelope plan action ?c v) (ret None)
      else if vr_decision v = FAIL then eseq (on_validation_failed env envelope plan action v) (ret None)
      else execute_action env envelope plan action ?c) ?Q (\<lambda>_ _. sync_on env) w2"
    if d: "vr_decision v = (if \<not> permitted ?c (pa_tool_name action) then FAIL
         else if stale_now i action then REPLAN
         else if pa_requires_approval action then SUGGEST else COMMIT)"
      and i: "io_versions i = io_versions (w_io w)" for v i w2
  proof -
    have stale: "stale_now i action = stale_now (w_io w) action" by (simp add: stale_now_def i)
    note ends = branch_endsD [OF on_suggest_ends [OF mem node, of env envelope v]]
      branch_endsD [OF on_replan_ends [OF mem node, of env envelope ?c v]]
      branch_endsD [OF on_validation_failed_ends [OF mem node, of env envelope v]]
    show ?thesis
      using gated ends
      by (cases "permitted ?c (pa_tool_name action)"; cases "stale_now (w_io w) action")
        (simp_all only: d stale gate_status_def if_True if_False simp_thms ValidationDecision.distinct)
  qed
  show ?thesis
    unfolding process_pending_def Let_def
    by (rule vc_eseq, rule vc_trace, rule vc_ebind, rule vc_validate [OF versions], rule vc_eseq,
        rule vc_trace, rule branch, assumption) simp
qed

text \<open>What \<open>handle\<close> does first, as one equation.\<close>

lemma handle_step_pending:
  assumes "ev_class (en_event envelope) = AgentActionEvent pid aid"
    and "get_plan (ev_workspace_id (en_event envelope)) pid (w_store w) = Some plan"
    and "get_action plan aid = Some action" and "pa_status action = ActionStatus.PENDING"
    and "get_context_snapshot (ev_workspace_id (en_event envelope)) (ap_context_snapshot_ref plan) (w_store w)
         = Some snapshot"
    and "\<not> key_consumed w action"
  shows "handle_step env envelope w = process_pending env envelope plan action snapshot w"
  using assms by (simp add: handle_step_def Let_def ebind_def store_get_def gets_def)

text \<open>A consumed key: the action is traced as a duplicate and nothing else happens.\<close>

lemma handle_step_duplicate:
  assumes "ev_class (en_event envelope) = AgentActionEvent pid aid"
    and "get_plan (ev_workspace_id (en_event envelope)) pid (w_store w) = Some plan"
    and "get_action plan aid = Some action"
    and "get_context_snapshot (ev_workspace_id (en_event envelope)) (ap_context_snapshot_ref plan) (w_store w)
         = Some snapshot"
    and "pa_status action = ActionStatus.PENDING" and "key_consumed w action"
  shows "wp (handle_step env envelope)
    (\<lambda>out w'. out = None \<and> w_queue w' = w_queue w \<and> untraced (w_store w') = untraced (w_store w) \<and>
       io_requests (w_io w') = io_requests (w_io w)) (\<lambda>_ _. False) w"
  using assms
  by (simp add: handle_step_def Let_def wp_rules action_trace_def trace_def new_trace_def)

end
