(* ===== verification/Coordinator_Safety.thy ===== *)
theory Coordinator_Safety
  imports Coordinator Action_Safety
begin

text \<open>
  What the coordinator and the trigger handler do to the queue and the store: weakest-precondition
  rules for their parts, then the effect of each handler.
\<close>

text \<open>The node a task event is for.\<close>

definition task_target :: "QueueMessage \<Rightarrow> (string \<times> string) option" where
  "task_target m =
     (case ev_class (en_event (qm_envelope m)) of
        SubAgentTaskEvent r n \<Rightarrow> Some (r, n) | _ \<Rightarrow> None)"

definition action_target :: "QueueMessage \<Rightarrow> (string \<times> string) option" where
  "action_target m =
     (case ev_class (en_event (qm_envelope m)) of
        AgentActionEvent p a \<Rightarrow> Some (p, a) | _ \<Rightarrow> None)"

abbreviation queue_appends :: "world \<Rightarrow> QueueMessage list \<Rightarrow> world \<Rightarrow> bool" where
  "queue_appends w ms w' \<equiv> w_queue w' = (w_queue w)\<lparr>mq_messages := mq_messages (w_queue w) @ ms\<rparr>"

lemma vc_plain_trace:
  "(\<And>t i. io_requests i = io_requests (w_io w) \<Longrightarrow>
      Q () (w\<lparr>w_io := i, w_store := append_trace_event t (w_store w)\<rparr>)) \<Longrightarrow>
   wp (trace env n ws p pl a m d) Q E w"
  by (simp add: trace_def new_trace_def wp_rules)

lemma vc_coord_trace [vc]:
  "(\<And>t i. io_requests i = io_requests (w_io w) \<Longrightarrow>
      Q () (w\<lparr>w_io := i, w_store := append_trace_event t (w_store w)\<rparr>)) \<Longrightarrow>
   wp (coord_trace env ev n m d) Q E w"
  unfolding coord_trace_def by (rule vc_plain_trace)

lemma vc_domain_trace [vc]:
  "(\<And>t i. io_requests i = io_requests (w_io w) \<Longrightarrow>
      Q () (w\<lparr>w_io := i, w_store := append_trace_event t (w_store w)\<rparr>)) \<Longrightarrow>
   wp (domain_trace env en n m d p a) Q E w"
  unfolding domain_trace_def by (rule vc_plain_trace)

lemma vc_enqueued_event:
  assumes "\<And>ev m i. ev_class ev = cls \<Longrightarrow> ev_workspace_id ev = ws \<Longrightarrow> en_event (qm_envelope m) = ev \<Longrightarrow>
      io_requests i = io_requests (w_io w) \<Longrightarrow>
      Q (h ev) (w\<lparr>w_io := i, w_queue := mq_enqueue m (w_queue w)\<rparr>)"
  shows "wp (ebind (io_do (new_event env cls t ws p pl co ca k)) (\<lambda>ev.
            ebind (io_do (wrap env ev)) (\<lambda>en. eseq (enqueue env en) (ret (h ev))))) Q E w"
  by (simp add: wp_rules new_event_def wrap_def new_envelope_def enqueue_def Let_def assms)

lemma vc_dispatch_task [vc]:
  "(\<And>ev m i. task_target m = Some (r, n) \<Longrightarrow> io_requests i = io_requests (w_io w) \<Longrightarrow>
      Q ev (w\<lparr>w_io := i, w_queue := mq_enqueue m (w_queue w)\<rparr>)) \<Longrightarrow>
   wp (dispatch_task env en ws pr r n) Q E w"
  unfolding dispatch_task_def new_task_event_def
  by (rule vc_enqueued_event) (simp add: task_target_def)

lemma vc_enqueue_action [vc]:
  "(\<And>ev m i. action_target m = Some (ap_plan_id p, pa_action_id a) \<Longrightarrow> io_requests i = io_requests (w_io w) \<Longrightarrow>
      Q ev (w\<lparr>w_io := i, w_queue := mq_enqueue m (w_queue w)\<rparr>)) \<Longrightarrow>
   wp (enqueue_action env en p a) Q E w"
  unfolding enqueue_action_def new_action_event_def
  by (rule vc_enqueued_event) (simp add: action_target_def)

lemma vc_enqueue_completed [vc]:
  "(\<And>m i. ev_class (en_event (qm_envelope m)) = SubAgentCompletedEvent (tg_plan_id g) n s \<Longrightarrow>
      io_requests i = io_requests (w_io w) \<Longrightarrow>
      Q () (w\<lparr>w_io := i, w_queue := mq_enqueue m (w_queue w)\<rparr>)) \<Longrightarrow>
   wp (enqueue_completed env en g n s) Q E w"
  unfolding enqueue_completed_def new_completed_event_def
  by (rule vc_enqueued_event) simp

lemma vc_dispatch_node [vc]:
  "(\<And>m w'. task_target m = Some (tg_plan_id g, sn_node_id n) \<Longrightarrow> w_queue w' = mq_enqueue m (w_queue w) \<Longrightarrow>
      untraced (w_store w') = untraced (w_store w) \<Longrightarrow> io_requests (w_io w') = io_requests (w_io w) \<Longrightarrow> Q () w') \<Longrightarrow>
   wp (dispatch_node env en g n) Q E w"
  unfolding dispatch_node_def by (intro vc) simp

lemma vc_dispatch_nodes [vc]:
  "(\<And>ms w'. map task_target ms = map (\<lambda>n. Some (tg_plan_id g, sn_node_id n)) ns \<Longrightarrow>
      queue_appends w ms w' \<Longrightarrow> untraced (w_store w') = untraced (w_store w) \<Longrightarrow>
      io_requests (w_io w') = io_requests (w_io w) \<Longrightarrow> Q () w') \<Longrightarrow>
   wp (efor ns (dispatch_node env en g)) Q E w"
proof (induction ns arbitrary: w)
  case Nil
  from Nil [of "[]" w] show ?case by (simp add: wp_ret)
next
  case (Cons n ns)
  have "wp (efor ns (dispatch_node env en g)) Q E w1"
    if "task_target m = Some (tg_plan_id g, sn_node_id n)" and "w_queue w1 = mq_enqueue m (w_queue w)"
      and "untraced (w_store w1) = untraced (w_store w)" and "io_requests (w_io w1) = io_requests (w_io w)" for m w1
    by (rule Cons.IH, rule Cons.prems [of "m # _"]) (use that in \<open>simp_all add: mq_enqueue_def\<close>)
  then show ?case
    unfolding efor.simps by (intro vc_eseq vc_dispatch_node)
qed


section \<open>Completion reports\<close>

lemma advance_keeps_key:
  "tg_plan_id (adv_graph (plan_advance g i s)) = tg_plan_id g"
  "tg_workspace_id (adv_graph (plan_advance g i s)) = tg_workspace_id g"
  by (rule ms.plan_key_advance)+

lemma vc_store_run_advance:
  assumes "get_task_graph ws r (w_store w) = Some g"
    and "Q (Some (plan_advance g i s)) (w\<lparr>w_store := save_task_graph (adv_graph (plan_advance g i s)) (w_store w)\<rparr>)"
  shows "wp (store_run (advance_task_graph ws r i s)) Q E w"
  using assms by (simp add: wp_store_run advance_task_graph_def Let_def)

text \<open>Joining an advance that failed nothing enqueues exactly the dispatched nodes.\<close>

lemma vc_dispatch_synthesizer:
  assumes "\<And>ms w'. map task_target ms = map (\<lambda>n. Some (tg_plan_id g, n)) (case z of None \<Rightarrow> [] | Some t \<Rightarrow> [sn_node_id t]) \<Longrightarrow>
      queue_appends w ms w' \<Longrightarrow> untraced (w_store w') = untraced (w_store w) \<Longrightarrow> Q () w'"
  shows "wp (case z of None \<Rightarrow> ret () | Some node \<Rightarrow> dispatch_node env en g node) Q E w"
proof (cases z)
  case None
  then show ?thesis using assms [of "[]" w] by (simp add: wp_ret)
next
  case (Some t)
  show ?thesis
    unfolding Some option.case by (rule vc_dispatch_node, rule assms [of "[_]"]) (simp_all add: Some mq_enqueue_def)
qed

lemma join_dispatches:
  assumes "\<not> adv_run_failed adv"
  shows "wp (join_advance env envelope run_id node_id adv)
    (\<lambda>_ w'. \<exists>ms. queue_appends w ms w' \<and>
       map task_target ms = map (\<lambda>n. Some (tg_plan_id (adv_graph adv), n)) (dispatched adv) \<and>
       untraced (w_store w') = untraced (w_store w))
    (\<lambda>_ _. sync_on env) w"
proof -
  let ?id = "tg_plan_id (adv_graph adv)"
  have post: "\<exists>ms. (w_queue w)\<lparr>mq_messages := (mq_messages (w_queue w) @ xs) @ ys\<rparr> =
      (w_queue w)\<lparr>mq_messages := mq_messages (w_queue w) @ ms\<rparr> \<and>
      map task_target ms = map (\<lambda>n. Some (?id, n)) (dispatched adv)"
    if "map task_target xs = map (\<lambda>n. Some (?id, sn_node_id n)) (adv_newly_ready adv)"
      and "map task_target ys = map (\<lambda>n. Some (?id, n))
        (case adv_dispatch_synthesizer adv of None \<Rightarrow> [] | Some t \<Rightarrow> [sn_node_id t])" for xs ys
    by (rule exI [of _ "xs @ ys"]) (simp add: that dispatched_def comp_def)
  show ?thesis
    unfolding join_advance_def Let_def if_not_P [OF assms]
    by (rule vc_eseq, rule vc_dispatch_nodes, rule vc_eseq, rule vc_dispatch_synthesizer, intro vc)
      (use post in simp_all)
qed

lemma handle_completed_report:
  "handle_completed env envelope r n ''completed'' =
     join_report env envelope r n ''completed'' SubTaskStatus.COMPLETED"
  "handle_completed env envelope r n ''failed'' =
     join_report env envelope r n ''failed'' SubTaskStatus.FAILED"
  by (simp_all add: handle_completed_def)

text \<open>A completion report, on a stored graph that has not recorded it yet.\<close>

lemma get_task_graph_store_result [simp]: "get_task_graph w p (store_result ws r n s) = get_task_graph w p s"
  by (simp add: store_result_def)

lemma handle_completed_completes:
  assumes g: "get_task_graph (ev_workspace_id (en_event envelope)) run_id (w_store w) = Some g"
    and key: "tg_workspace_id g = ev_workspace_id (en_event envelope)" "tg_plan_id g = run_id"
    and new: "\<not> adv_already_processed (plan_advance g node_id SubTaskStatus.COMPLETED)"
  shows "wp (handle_completed env envelope run_id node_id ''completed'')
    (\<lambda>_ w'. get_task_graph (ev_workspace_id (en_event envelope)) run_id (w_store w') =
         Some (adv_graph (plan_advance g node_id SubTaskStatus.COMPLETED)) \<and>
       (\<exists>ms. queue_appends w ms w' \<and>
         map task_target ms =
           map (\<lambda>n. Some (run_id, n)) (dispatched (plan_advance g node_id SubTaskStatus.COMPLETED))))
    (\<lambda>_ _. sync_on env) w"
proof -
  let ?adv = "plan_advance g node_id SubTaskStatus.COMPLETED"
  have nf: "\<not> adv_run_failed ?adv"
    by (cases rule: plan_advance_cases [of g node_id SubTaskStatus.COMPLETED]) simp_all
  have join: "wp (join_advance env envelope run_id node_id ?adv)
    (\<lambda>_ w'. get_task_graph (ev_workspace_id (en_event envelope)) run_id (w_store w') = Some (adv_graph ?adv) \<and>
       (\<exists>ms. queue_appends w ms w' \<and> map task_target ms = map (\<lambda>n. Some (run_id, n)) (dispatched ?adv)))
    (\<lambda>_ _. sync_on env) w1"
    if "w_queue w1 = w_queue w"
      and "get_task_graph (ev_workspace_id (en_event envelope)) run_id (w_store w1) = Some (adv_graph ?adv)" for w1
  proof (rule wp_mono [OF join_dispatches [OF nf]], goal_cases)
    case (1 u w')
    then obtain ms where ms: "queue_appends w1 ms w'" "untraced (w_store w') = untraced (w_store w1)"
      "map task_target ms = map (\<lambda>n. Some (run_id, n)) (dispatched ?adv)"
      using key by (auto simp: advance_keeps_key)
    show ?case
      using ms that untraced_reads(4) [OF ms(2)] by (intro conjI exI [of _ ms]) simp_all
  qed
  show ?thesis
    unfolding handle_completed_report join_report_def Let_def
    apply (rule vc_ebind, rule vc_store_run_advance [OF g])
    apply (simp only: option.case new if_False)
    apply (rule vc_eseq, intro vc_if vc_store vc_ret join)
    apply (simp_all add: key advance_keeps_key)
    done
qed

text \<open>A failure report: the node is failed, nothing is dispatched.\<close>

lemma handle_completed_fails:
  assumes g: "get_task_graph (ev_workspace_id (en_event envelope)) run_id (w_store w) = Some g"
    and key: "tg_workspace_id g = ev_workspace_id (en_event envelope)" "tg_plan_id g = run_id"
    and node: "get_node g node_id = Some n" "sn_status n \<noteq> SubTaskStatus.FAILED"
  shows "wp (handle_completed env envelope run_id node_id ''failed'')
    (\<lambda>_ w'. get_task_graph (ev_workspace_id (en_event envelope)) run_id (w_store w') =
         Some (with_node_status g node_id SubTaskStatus.FAILED) \<and> w_queue w' = w_queue w)
    (\<lambda>_ _. sync_on env) w"
proof -
  have adv: "plan_advance g node_id SubTaskStatus.FAILED =
      (advance_with (with_node_status g node_id SubTaskStatus.FAILED))\<lparr>adv_run_failed := True\<rparr>"
    using node by (simp add: plan_advance_def)
  show ?thesis
    unfolding handle_completed_report join_report_def join_advance_def Let_def
    apply (rule vc_ebind, rule vc_store_run_advance [OF g])
    unfolding adv
    apply (simp only: option.case)
    apply (intro vc)
    apply (simp_all add: key)
    done
qed

text \<open>A pause report, a redelivered report and a report for an unknown run only leave a trace.\<close>

lemma handle_completed_pauses:
  assumes "s \<noteq> ''completed''" and "s \<noteq> ''failed''"
  shows "wp (handle_completed env envelope run_id node_id s)
    (\<lambda>_ w'. untraced (w_store w') = untraced (w_store w) \<and> w_queue w' = w_queue w \<and>
       io_requests (w_io w') = io_requests (w_io w)) (\<lambda>_ _. False) w"
  unfolding handle_completed_def using assms by (simp, intro vc) simp

end
