(* ===== verification/Recursion_Runner.thy ===== *)
theory Recursion_Runner
  imports Coordinator Action_Handler
begin

text \<open>
  \<open>application/recursion_runner.py\<close>: the loop that drains the queue, dispatches every event to its
  handler at most once, isolates handler failures and stops at the recursion limit.
\<close>

definition RUN_ID_KEYS :: "string list" where
  "RUN_ID_KEYS = [''agentRunId'', ''runId'', ''agent_run_id'']"

definition event_run_id :: "RuntimeEvent \<Rightarrow> string option" where
  "event_run_id event =
     (case ev_class event of
        AgentActionEvent plan_id _ \<Rightarrow> Some plan_id
      | _ \<Rightarrow>
          (case first_string (ev_payload event) RUN_ID_KEYS of
             Some run_id \<Rightarrow> Some run_id
           | None \<Rightarrow>
               (case (case pget (ev_payload event) ''queue_pointer'' of
                        PDict queue_pointer \<Rightarrow> first_string queue_pointer RUN_ID_KEYS
                      | _ \<Rightarrow> None) of
                  Some run_id \<Rightarrow> Some run_id
                | None \<Rightarrow> opt_or (ev_correlation_id event) (ev_idempotency_key event))))"

definition exceeds_max_depth :: "app_env \<Rightarrow> RuntimeEvent \<Rightarrow> int \<Rightarrow> bool" where
  "exceeds_max_depth env event processed \<longleftrightarrow>
     processed \<ge> ae_max_recursion_depth env \<or>
     ca_depth (ev_causality event) > ae_max_recursion_depth env"

definition queue_do :: "(memory_queue \<Rightarrow> memory_queue) \<Rightarrow> (world, unit) eff" where
  "queue_do f = modify (\<lambda>w. w\<lparr>w_queue := f (w_queue w)\<rparr>)"

definition record_max_depth_failure :: "app_env \<Rightarrow> RuntimeEvent \<Rightarrow> (world, unit) eff" where
  "record_max_depth_failure env event =
     (let message = ''Stopped recursive processing at max depth.'' in
     eseq (trace env ''recursion.max_depth'' (ev_workspace_id event) (ev_project_id event) None None message
             [(''event_id'', PStr (ev_event_id event)), (''event_type'', PStr (ev_event_type event)),
              (''depth'', PInt (ca_depth (ev_causality event)))])
       (case event_run_id event of
          None \<Rightarrow> ret ()
        | Some run_id \<Rightarrow> io_do (record_run_failed env (ev_workspace_id event) run_id message)))"

definition dispatch :: "app_env \<Rightarrow> EventEnvelope \<Rightarrow> (world, unit) eff" where
  "dispatch env envelope =
     (case ev_class (en_event envelope) of
        AgentActionEvent _ _ \<Rightarrow> handle env envelope
      | SubAgentTaskEvent _ _ \<Rightarrow> coordinate env envelope
      | SubAgentCompletedEvent _ _ _ \<Rightarrow> coordinate env envelope
      | _ \<Rightarrow> handle_trigger env envelope)"

definition over_limit :: "app_env \<Rightarrow> QueueMessage \<Rightarrow> (world, unit) eff" where
  "over_limit env message =
     eseq (queue_do (mq_fail message ''max_recursion_depth_exceeded''))
       (record_max_depth_failure env (en_event (qm_envelope message)))"

definition skip_duplicate :: "app_env \<Rightarrow> QueueMessage \<Rightarrow> (world, unit) eff" where
  "skip_duplicate env message =
     (let event = en_event (qm_envelope message) in
     eseq (queue_do (mq_ack message))
       (trace env ''event.duplicate'' (ev_workspace_id event) (ev_project_id event) None None
          ''Skipped duplicate event.'' [(''event_id'', PStr (ev_event_id event))]))"

definition process :: "app_env \<Rightarrow> QueueMessage \<Rightarrow> (world, unit) eff" where
  "process env message =
     (let event = en_event (qm_envelope message) in
     eseq (modify (\<lambda>w. w\<lparr>w_seen := insert (ev_event_id event) (w_seen w)\<rparr>))
     (catch (eseq (dispatch env (qm_envelope message)) (queue_do (mq_ack message)))
        (\<lambda>exc.
           eseq (queue_do (mq_fail message (exn_str exc)))
             (trace env ''event.failed'' (ev_workspace_id event) (ev_project_id event) None None
                (exn_str exc)
                [(''event_id'', PStr (ev_event_id event)), (''event_type'', PStr (ev_event_type event))]))))"


section \<open>Parts that leave the queue or the seen events alone\<close>

lemma preserves_queue_do [pres]:
  "preserves (queue_do f) w_seen" "preserves (queue_do f) w_store" "preserves (queue_do f) w_inline"
  "preserves (queue_do f) w_io"
  by (simp_all add: preserves_def queue_do_def modify_def)

lemma preserves_queue_part: "(\<And>q. h (f q) = h q) \<Longrightarrow> preserves (queue_do f) (\<lambda>w. h (w_queue w))"
  by (simp add: preserves_def queue_do_def modify_def)

lemma preserves_messages:
  "preserves (trace env n ws p pl a m d) (\<lambda>w. mq_messages (w_queue w))"
  "preserves (io_do x) (\<lambda>w. mq_messages (w_queue w))"
  "preserves (ret y) (\<lambda>w. mq_messages (w_queue w))"
  "preserves (queue_do (mq_fail msg r)) (\<lambda>w. mq_messages (w_queue w))"
  "preserves (queue_do (mq_ack msg)) (\<lambda>w. mq_messages (w_queue w))"
  using preserves_comp [OF preserves_trace(1)] preserves_comp [OF preserves_io_do(1)] preserves_ret
  by (auto intro: preserves_queue_part simp: mq_fail_def mq_ack_def)

lemma preserves_over_limit:
  "preserves (over_limit env m) (\<lambda>w. mq_messages (w_queue w))" "preserves (over_limit env m) w_seen"
  unfolding over_limit_def record_max_depth_failure_def Let_def
  by (rule preserves_eseq preserves_case_option preserves_messages | intro pres)+

lemma preserves_skip_duplicate:
  "preserves (skip_duplicate env m) (\<lambda>w. mq_messages (w_queue w))" "preserves (skip_duplicate env m) w_seen"
  unfolding skip_duplicate_def Let_def
  by (rule preserves_eseq preserves_messages | intro pres)+


section \<open>The loop\<close>

text \<open>The body of the loop for one message; the result is the new value of \<open>processed\<close>.\<close>

definition iteration :: "app_env \<Rightarrow> int \<Rightarrow> QueueMessage \<Rightarrow> (world, int) eff" where
  "iteration env processed message =
     (let event = en_event (qm_envelope message) in
      if exceeds_max_depth env event processed then eseq (over_limit env message) (ret processed)
      else
      ebind (gets w_seen) (\<lambda>seen.
      if ev_event_id event \<in> seen then eseq (skip_duplicate env message) (ret processed)
      else eseq (process env message) (ret (processed + 1))))"

function run_loop :: "app_env \<Rightarrow> int \<Rightarrow> (world, unit) eff" where
  "run_loop env processed w =
     (if mq_is_empty (w_queue w) then (Inr (), w)
      else case mq_dequeue (w_queue w) of
        (None, q) \<Rightarrow> (Inr (), w\<lparr>w_queue := q\<rparr>)
      | (Some message, q) \<Rightarrow>
          (case iteration env processed message (w\<lparr>w_queue := q\<rparr>) of
             (Inl e, w2) \<Rightarrow> (Inl e, w2)
           | (Inr processed', w2) \<Rightarrow> run_loop env processed' w2))"
  by pat_completeness auto

definition loop_measure :: "((app_env \<times> int \<times> world) \<times> app_env \<times> int \<times> world) set" where
  "loop_measure =
     measures [\<lambda>(env, processed, w). nat (ae_max_recursion_depth env - processed),
               \<lambda>(env, processed, w). length (mq_messages (w_queue w))]"

lemma mq_dequeue_Some:
  assumes "(Some m, q) = mq_dequeue q0"
  shows "mq_messages q0 = m # mq_messages q" and "mq_acked q = mq_acked q0" and "mq_failed q = mq_failed q0"
  using assms by (auto simp: mq_dequeue_def split: list.splits)

lemma iteration_cases:
  assumes "iteration env processed message w = (r, w2)"
  obtains (over) "exceeds_max_depth env (en_event (qm_envelope message)) processed"
      "map_sum id (\<lambda>_. ()) r = fst (over_limit env message w)" "w2 = snd (over_limit env message w)"
      "\<forall>p. r = Inr p \<longrightarrow> p = processed"
    | (duplicate) "\<not> exceeds_max_depth env (en_event (qm_envelope message)) processed"
      "en_event_id (qm_envelope message) \<in> w_seen w"
      "map_sum id (\<lambda>_. ()) r = fst (skip_duplicate env message w)" "w2 = snd (skip_duplicate env message w)"
      "\<forall>p. r = Inr p \<longrightarrow> p = processed"
    | (processed) "\<not> exceeds_max_depth env (en_event (qm_envelope message)) processed"
      "en_event_id (qm_envelope message) \<notin> w_seen w"
      "map_sum id (\<lambda>_. ()) r = fst (process env message w)" "w2 = snd (process env message w)"
      "\<forall>p. r = Inr p \<longrightarrow> p = processed + 1"
  using assms
  by (auto simp: iteration_def Let_def eseq_def ebind_def gets_def ret_def split: if_splits prod.splits sum.splits)

lemma iteration_measure:
  assumes it: "(Inr p, w2) = iteration env processed message (w\<lparr>w_queue := q\<rparr>)"
    and deq: "(Some message, q) = mq_dequeue (w_queue w)"
  shows "((env, p, w2), env, processed, w) \<in> loop_measure"
  using it [symmetric]
proof (cases rule: iteration_cases)
  case over
  then have "mq_messages (w_queue w2) = mq_messages q"
    using preserves_over_limit(1) [of env message] by (simp add: preserves_def)
  with over mq_dequeue_Some(1) [OF deq] show ?thesis by (simp add: loop_measure_def)
next
  case duplicate
  then have "mq_messages (w_queue w2) = mq_messages q"
    using preserves_skip_duplicate(1) [of env message] by (simp add: preserves_def)
  with duplicate mq_dequeue_Some(1) [OF deq] show ?thesis by (simp add: loop_measure_def)
next
  case processed
  then show ?thesis by (simp add: loop_measure_def exceeds_max_depth_def)
qed

termination run_loop
proof (relation loop_measure)
  show "wf loop_measure" by (simp add: loop_measure_def)
qed (auto intro: iteration_measure)

declare run_loop.simps [simp del]

definition run :: "app_env \<Rightarrow> EventEnvelope \<Rightarrow> (world, TraceEvent list) eff" where
  "run env seed =
     eseq (eseq (enqueue env seed) (ret ()))
     (eseq (run_loop env 0)
        (gets (\<lambda>w. ms_traces (w_store w))))"

definition run_event :: "app_env \<Rightarrow> RuntimeEvent \<Rightarrow> (world, TraceEvent list) eff" where
  "run_event env seed_event = ebind (io_do (wrap env seed_event)) (run env)"

end
