(* ===== verification/Runner_Safety.thy ===== *)
theory Runner_Safety
  imports Recursion_Runner
begin

text \<open>
  What the loop guarantees whatever the handlers do: handlers only add messages, so every message
  taken from the queue is acknowledged or failed by the loop itself, no event is handled twice, the
  number of handled events is bounded, and a failing handler does not stop the loop.
\<close>

section \<open>Handlers only enqueue\<close>

definition queue_extends :: "memory_queue \<Rightarrow> memory_queue \<Rightarrow> bool" where
  "queue_extends q q' \<longleftrightarrow>
     (\<exists>ms. mq_messages q' = mq_messages q @ ms) \<and> mq_acked q' = mq_acked q \<and> mq_failed q' = mq_failed q"

definition only_enqueues :: "(world, 'a) eff \<Rightarrow> bool" where
  "only_enqueues m \<longleftrightarrow>
     (\<forall>w. queue_extends (w_queue w) (w_queue (snd (m w))) \<and> w_seen (snd (m w)) = w_seen w)"

lemma queue_extends_refl [simp]: "queue_extends q q"
  by (simp add: queue_extends_def)

lemma queue_extends_trans: "queue_extends p q \<Longrightarrow> queue_extends q r \<Longrightarrow> queue_extends p r"
  by (auto simp: queue_extends_def)

named_theorems enq_rules

lemma only_enqueues_frame: "preserves m w_queue \<Longrightarrow> preserves m w_seen \<Longrightarrow> only_enqueues m"
  by (simp add: only_enqueues_def preserves_def)

lemma only_enqueues_ebind [enq_rules]:
  assumes "only_enqueues m" and "\<And>x. only_enqueues (k x)"
  shows "only_enqueues (ebind m k)"
  unfolding only_enqueues_def
proof
  fix w
  obtain r w1 where m: "m w = (r, w1)" by fastforce
  have 1: "queue_extends (w_queue w) (w_queue w1) \<and> w_seen w1 = w_seen w"
    using assms(1) m unfolding only_enqueues_def by (metis snd_conv)
  have 2: "queue_extends (w_queue w1) (w_queue (snd (k x w1))) \<and> w_seen (snd (k x w1)) = w_seen w1" for x
    using assms(2) unfolding only_enqueues_def by blast
  show "queue_extends (w_queue w) (w_queue (snd (ebind m k w))) \<and> w_seen (snd (ebind m k w)) = w_seen w"
    using 1 2 by (cases r) (auto simp: ebind_def m intro: queue_extends_trans)
qed

lemma only_enqueues_eseq [enq_rules]: "only_enqueues m \<Longrightarrow> only_enqueues n \<Longrightarrow> only_enqueues (eseq m n)"
  by (simp add: eseq_def only_enqueues_ebind)

lemma only_enqueues_catch [enq_rules]:
  assumes "only_enqueues m" and "\<And>e. only_enqueues (h e)"
  shows "only_enqueues (catch m h)"
  unfolding only_enqueues_def
proof
  fix w
  obtain r w1 where m: "m w = (r, w1)" by fastforce
  have 1: "queue_extends (w_queue w) (w_queue w1) \<and> w_seen w1 = w_seen w"
    using assms(1) m unfolding only_enqueues_def by (metis snd_conv)
  have 2: "queue_extends (w_queue w1) (w_queue (snd (h x w1))) \<and> w_seen (snd (h x w1)) = w_seen w1" for x
    using assms(2) unfolding only_enqueues_def by blast
  show "queue_extends (w_queue w) (w_queue (snd (catch m h w))) \<and> w_seen (snd (catch m h w)) = w_seen w"
    using 1 2 by (cases r) (auto simp: catch_def m intro: queue_extends_trans)
qed

lemma only_enqueues_efor [enq_rules]: "(\<And>x. only_enqueues (g x)) \<Longrightarrow> only_enqueues (efor xs g)"
  by (induction xs) (simp_all add: only_enqueues_eseq only_enqueues_frame preserves_ret)

lemma only_enqueues_if [enq_rules]:
  "only_enqueues m \<Longrightarrow> only_enqueues n \<Longrightarrow> only_enqueues (if b then m else n)"
  by simp

lemma only_enqueues_case [enq_rules]:
  "only_enqueues m \<Longrightarrow> (\<And>x. only_enqueues (k x)) \<Longrightarrow>
   only_enqueues (case z of None \<Rightarrow> m | Some x \<Rightarrow> k x)"
  "(\<And>x y. only_enqueues (f x y)) \<Longrightarrow> only_enqueues (case p of (x, y) \<Rightarrow> f x y)"
  by (simp_all split: option.splits prod.splits)

lemma only_enqueues_enqueue [enq_rules]: "only_enqueues (enqueue env e)"
  by (auto simp: only_enqueues_def queue_extends_def enqueue_def eff_defs io_do_def uuid4_def mq_enqueue_def Let_def)

lemma only_enqueues_parts [enq_rules]:
  "only_enqueues (ret x)" "only_enqueues (raise e)" "only_enqueues (gets h)" "only_enqueues (io_do m)"
  "only_enqueues (store_get g)" "only_enqueues (store_do f)" "only_enqueues (store_run r)"
  "only_enqueues (trace env' n ws p pl a t d)" "only_enqueues (restatus env' s act plan)"
  "only_enqueues (modify (\<lambda>w. w\<lparr>w_inline := c w\<rparr>))"
  by (intro only_enqueues_frame pres preserves_modify; simp)+

lemma only_enqueues_action_parts [enq_rules]:
  "only_enqueues (action_trace env ev n m p a d)" "only_enqueues (settle_subplan env en pl s msg)"
  "only_enqueues (enqueue_events env es)"
  unfolding action_trace_def settle_subplan_def enqueue_events_def by (intro enq_rules)+

lemma only_enqueues_branches [enq_rules]:
  "only_enqueues (enqueue_next_action env en p)"
  "only_enqueues (on_suggest env en p a v)" "only_enqueues (on_replan env en p a c v)"
  "only_enqueues (on_validation_failed env en p a v)" "only_enqueues (on_execution_error env en p a x)"
  "only_enqueues (on_retry env en p q a r v)" "only_enqueues (on_failed env en p a r v)"
  unfolding enqueue_next_action_def no_next_action_def on_suggest_def on_replan_def on_validation_failed_def
    on_execution_error_def on_retry_def on_failed_def Let_def
  by (intro enq_rules)+

lemma only_enqueues_process_pending [enq_rules]:
  "only_enqueues (on_commit env en p a r v)" "only_enqueues (process_pending env en p a sn)"
  unfolding process_pending_def execute_action_def after_execution_def on_commit_def Let_def
  by (intro enq_rules)+

lemma only_enqueues_handle_step [enq_rules]: "only_enqueues (handle_step env en)"
proof (cases "ev_class (en_event en)")
  case (AgentActionEvent pid aid)
  show ?thesis unfolding handle_step_def Let_def AgentActionEvent event_class.case by (intro enq_rules)
qed (simp_all add: handle_step_def only_enqueues_parts)

lemma only_enqueues_handle [enq_rules]: "only_enqueues (handle env en)"
  unfolding only_enqueues_def
proof
  fix w
  show "queue_extends (w_queue w) (w_queue (snd (handle env en w))) \<and> w_seen (snd (handle env en w)) = w_seen w"
  proof (induction env en w rule: handle.induct)
    case (1 env en w)
    obtain r w1 where s: "handle_step env en w = (r, w1)" by fastforce
    have step: "queue_extends (w_queue w) (w_queue w1) \<and> w_seen w1 = w_seen w"
      using only_enqueues_handle_step [of env en] s unfolding only_enqueues_def by (metis snd_conv)
    show ?case
    proof (cases r)
      case (Inl e)
      then show ?thesis using step by (simp add: handle.simps [of env en w] s)
    next
      case (Inr out)
      show ?thesis
      proof (cases out)
        case None
        then show ?thesis using step Inr by (simp add: handle.simps [of env en w] s)
      next
        case (Some nxt)
        have "queue_extends (w_queue w1) (w_queue (snd (handle env nxt w1))) \<and>
            w_seen (snd (handle env nxt w1)) = w_seen w1"
          by (rule "1.IH" [OF s [symmetric] Inr Some])
        then show ?thesis
          using step Inr Some by (auto simp: handle.simps [of env en w] s intro: queue_extends_trans)
      qed
    qed
  qed
qed

lemma only_enqueues_coordinator_parts [enq_rules]:
  "only_enqueues (coord_trace env ev n m d)" "only_enqueues (enqueue_action env en p a)"
  "only_enqueues (enqueue_completed env en g i s)" "only_enqueues (dispatch_task env en ws pr r i)"
  unfolding coord_trace_def enqueue_action_def enqueue_completed_def dispatch_task_def
  by (intro enq_rules)+

lemma only_enqueues_coordinator_branches [enq_rules]:
  "only_enqueues (dispatch_node env en g n)" "only_enqueues (resume_existing_subplan env en g n p)"
  "only_enqueues (join_advance env en r i adv)"
  unfolding dispatch_node_def resume_existing_subplan_def join_advance_def Let_def
  by (intro enq_rules)+

lemma only_enqueues_join_report [enq_rules]: "only_enqueues (join_report env en r i rep st)"
  unfolding join_report_def Let_def by (intro enq_rules)

lemma only_enqueues_plan_node [enq_rules]: "only_enqueues (plan_node env en g n r sn)"
  unfolding plan_node_def Let_def by (intro enq_rules)

lemma only_enqueues_coordinate [enq_rules]: "only_enqueues (coordinate env en)"
  unfolding coordinate_def handle_task_def handle_completed_def Let_def
  by (cases "ev_class (en_event en)") (simp only: event_class.case, intro enq_rules)+

lemma only_enqueues_domain_parts [enq_rules]:
  "only_enqueues (domain_trace env en n m d p a)" "only_enqueues (trace_terminal_run_skip env en flow r s)"
  unfolding domain_trace_def trace_terminal_run_skip_def by (intro enq_rules)+

lemma only_enqueues_unless_terminal [enq_rules]:
  assumes "only_enqueues m"
  shows "only_enqueues (unless_terminal env en flow r m)"
  unfolding unless_terminal_def
proof (intro only_enqueues_catch only_enqueues_eseq assms only_enqueues_parts(1))
  show "only_enqueues (case e of AgentRunAlreadyTerminalError run_id status \<Rightarrow>
      eseq (trace_terminal_run_skip env en flow r status) (ret False) | _ \<Rightarrow> raise e)" for e
    by (cases e) (simp_all add: enq_rules)
qed

lemma only_enqueues_domain_branches [enq_rules]:
  "only_enqueues (handle_orchestrated env en flow sn r)" "only_enqueues (plan_root env flow sn r)"
  "only_enqueues (announce_run env en flow sn r ex b)" "only_enqueues (no_first_action env en flow p sn)"
  "only_enqueues (start_plan env en flow p sn)"
  unfolding handle_orchestrated_def plan_root_def announce_run_def no_first_action_def start_plan_def Let_def
  by (intro enq_rules)+

lemma only_enqueues_case_bool [enq_rules]:
  "only_enqueues m \<Longrightarrow> only_enqueues n \<Longrightarrow> only_enqueues (case b of True \<Rightarrow> m | False \<Rightarrow> n)"
  by (cases b) simp_all

lemma only_enqueues_obtain_plan [enq_rules]: "only_enqueues (obtain_plan env en flow sn r)"
  unfolding obtain_plan_def Let_def by (intro enq_rules)

lemma only_enqueues_handle_trigger [enq_rules]: "only_enqueues (handle_trigger env en)"
  unfolding handle_trigger_def Let_def by (intro enq_rules)

lemma only_enqueues_dispatch [enq_rules]: "only_enqueues (dispatch env en)"
  unfolding dispatch_def
  by (cases "ev_class (en_event en)") (simp_all only: event_class.case only_enqueues_handle
      only_enqueues_coordinate only_enqueues_handle_trigger)



section \<open>The loop\<close>

definition settled_ids :: "memory_queue \<Rightarrow> string set" where
  "settled_ids q = set (mq_acked q) \<union> (\<lambda>(m, r). qm_message_id m) ` set (mq_failed q)"

definition waiting_ids :: "memory_queue \<Rightarrow> string set" where
  "waiting_ids q = qm_message_id ` set (mq_messages q)"

lemma extends_ids:
  "queue_extends q q' \<Longrightarrow> settled_ids q' = settled_ids q \<and> waiting_ids q \<subseteq> waiting_ids q'"
  by (auto simp: queue_extends_def settled_ids_def waiting_ids_def)

text \<open>One processed message: the loop itself never fails on it, and settles exactly it.\<close>

lemma process_result:
  assumes "process env m w = (r, w')"
  shows "r = Inr ()" and "w_seen w' = insert (en_event_id (qm_envelope m)) (w_seen w)"
    and "settled_ids (w_queue w') = insert (qm_message_id m) (settled_ids (w_queue w))"
    and "waiting_ids (w_queue w) \<subseteq> waiting_ids (w_queue w')"
proof -
  let ?w0 = "w\<lparr>w_seen := insert (en_event_id (qm_envelope m)) (w_seen w)\<rparr>"
  obtain r1 w1 where d: "dispatch env (qm_envelope m) ?w0 = (r1, w1)" by fastforce
  have ext: "queue_extends (w_queue w) (w_queue w1)" and seen: "w_seen w1 = w_seen ?w0"
    using only_enqueues_dispatch [of env "qm_envelope m", unfolded only_enqueues_def, THEN spec, of ?w0]
    by (simp_all add: d)
  have "r = Inr () \<and> w_seen w' = w_seen w1 \<and>
      settled_ids (w_queue w') = insert (qm_message_id m) (settled_ids (w_queue w1)) \<and>
      waiting_ids (w_queue w') = waiting_ids (w_queue w1)"
    using assms unfolding process_def Let_def
    by (cases r1) (auto simp: eff_defs d queue_do_def trace_def new_trace_def io_do_def uuid4_def utc_now_def
      store_do_def mq_ack_def mq_fail_def settled_ids_def waiting_ids_def)
  with extends_ids [OF ext] seen show "r = Inr ()" and "w_seen w' = insert (en_event_id (qm_envelope m)) (w_seen w)"
    and "settled_ids (w_queue w') = insert (qm_message_id m) (settled_ids (w_queue w))"
    and "waiting_ids (w_queue w) \<subseteq> waiting_ids (w_queue w')"
    by simp_all
qed

lemma skip_duplicate_result:
  assumes "skip_duplicate env m w = (r, w')"
  shows "r = Inr ()" and "w_seen w' = w_seen w"
    and "settled_ids (w_queue w') = insert (qm_message_id m) (settled_ids (w_queue w))"
    and "waiting_ids (w_queue w') = waiting_ids (w_queue w)"
  using assms
  by (auto simp: skip_duplicate_def Let_def eff_defs queue_do_def trace_def new_trace_def io_do_def uuid4_def
      utc_now_def store_do_def mq_ack_def settled_ids_def waiting_ids_def)

lemma over_limit_result:
  assumes "over_limit env m w = (r, w')"
  shows "\<not> sync_on env \<Longrightarrow> r = Inr ()" and "w_seen w' = w_seen w"
    and "settled_ids (w_queue w') = insert (qm_message_id m) (settled_ids (w_queue w))"
    and "waiting_ids (w_queue w') = waiting_ids (w_queue w)"
  using assms
  by (auto simp: over_limit_def record_max_depth_failure_def Let_def eff_defs queue_do_def trace_def
      new_trace_def io_do_def uuid4_def utc_now_def store_do_def mq_fail_def settled_ids_def waiting_ids_def
      sync_off_silent(3) split: option.splits sum.splits prod.splits)

text \<open>One iteration, whichever branch it takes.\<close>

lemma iteration_result:
  assumes "iteration env processed m w = (r, w')"
  shows "\<not> sync_on env \<Longrightarrow> \<exists>p. r = Inr p"
    and "settled_ids (w_queue w') = insert (qm_message_id m) (settled_ids (w_queue w))"
    and "waiting_ids (w_queue w) \<subseteq> waiting_ids (w_queue w')"
    and "(r = Inr processed \<or> (\<exists>e. r = Inl e)) \<and> w_seen w' = w_seen w \<or>
         r = Inr (processed + 1) \<and> processed < ae_max_recursion_depth env \<and>
         en_event_id (qm_envelope m) \<notin> w_seen w \<and>
         w_seen w' = insert (en_event_id (qm_envelope m)) (w_seen w)"
proof -
  have "(\<not> sync_on env \<longrightarrow> (\<exists>p. r = Inr p)) \<and>
    settled_ids (w_queue w') = insert (qm_message_id m) (settled_ids (w_queue w)) \<and>
    waiting_ids (w_queue w) \<subseteq> waiting_ids (w_queue w') \<and>
    ((r = Inr processed \<or> (\<exists>e. r = Inl e)) \<and> w_seen w' = w_seen w \<or>
         r = Inr (processed + 1) \<and> processed < ae_max_recursion_depth env \<and>
         en_event_id (qm_envelope m) \<notin> w_seen w \<and>
         w_seen w' = insert (en_event_id (qm_envelope m)) (w_seen w))"
    using assms
  proof (cases rule: iteration_cases)
    case over
    then have w': "over_limit env m w = (map_sum id (\<lambda>_. ()) r, w')" by simp
    note res = over_limit_result [OF w']
    have "r = Inr processed \<or> (\<exists>e. r = Inl e)" using over(4) by (cases r) simp_all
    moreover have "\<not> sync_on env \<longrightarrow> (\<exists>p. r = Inr p)" using res(1) by (cases r) auto
    ultimately show ?thesis using res(2-4) by simp
  next
    case duplicate
    then have w': "skip_duplicate env m w = (map_sum id (\<lambda>_. ()) r, w')" by simp
    note res = skip_duplicate_result [OF w']
    have "r = Inr processed" using res(1) duplicate(5) by (cases r) simp_all
    then show ?thesis using res(2-4) by simp
  next
    case processed
    then have w': "process env m w = (map_sum id (\<lambda>_. ()) r, w')" by simp
    note res = process_result [OF w']
    have "r = Inr (processed + 1)" using res(1) processed(5) by (cases r) simp_all
    then show ?thesis using res(2-4) processed(1,2) by (simp add: exceeds_max_depth_def)
  qed
  then show "\<not> sync_on env \<Longrightarrow> \<exists>p. r = Inr p"
    and "settled_ids (w_queue w') = insert (qm_message_id m) (settled_ids (w_queue w))"
    and "waiting_ids (w_queue w) \<subseteq> waiting_ids (w_queue w')"
    and "(r = Inr processed \<or> (\<exists>e. r = Inl e)) \<and> w_seen w' = w_seen w \<or>
         r = Inr (processed + 1) \<and> processed < ae_max_recursion_depth env \<and>
         en_event_id (qm_envelope m) \<notin> w_seen w \<and>
         w_seen w' = insert (en_event_id (qm_envelope m)) (w_seen w)"
    by blast+
qed

lemma run_loop_unfold:
  "run_loop env processed w =
     (case mq_messages (w_queue w) of
        [] \<Rightarrow> (Inr (), w)
      | m # ms \<Rightarrow>
          (case iteration env processed m (w\<lparr>w_queue := (w_queue w)\<lparr>mq_messages := ms\<rparr>\<rparr>) of
             (Inl e, w2) \<Rightarrow> (Inl e, w2) | (Inr p, w2) \<Rightarrow> run_loop env p w2))"
  by (subst run_loop.simps) (simp add: mq_is_empty_def mq_dequeue_def split: list.splits)

lemma run_loop_induct [case_names empty raises step]:
  assumes empty: "\<And>p w. mq_messages (w_queue w) = [] \<Longrightarrow> P p w (Inr ()) w"
    and raises: "\<And>p w m ms e w2. mq_messages (w_queue w) = m # ms \<Longrightarrow>
      iteration env p m (w\<lparr>w_queue := (w_queue w)\<lparr>mq_messages := ms\<rparr>\<rparr>) = (Inl e, w2) \<Longrightarrow> P p w (Inl e) w2"
    and step: "\<And>p w m ms p' w2 r w'. mq_messages (w_queue w) = m # ms \<Longrightarrow>
      iteration env p m (w\<lparr>w_queue := (w_queue w)\<lparr>mq_messages := ms\<rparr>\<rparr>) = (Inr p', w2) \<Longrightarrow>
      P p' w2 r w' \<Longrightarrow> P p w r w'"
  shows "P p w (fst (run_loop env p w)) (snd (run_loop env p w))"
proof -
  have "e = env \<Longrightarrow> P p w (fst (run_loop e p w)) (snd (run_loop e p w))" for e
  proof (induction e p w rule: run_loop.induct)
    case (1 e p w)
    show ?case
    proof (cases "mq_messages (w_queue w)")
      case Nil
      then show ?thesis using empty [of w p] by (simp add: run_loop_unfold [of e p w])
    next
      case (Cons m ms)
      let ?w1 = "w\<lparr>w_queue := (w_queue w)\<lparr>mq_messages := ms\<rparr>\<rparr>"
      have deq: "(Some m, (w_queue w)\<lparr>mq_messages := ms\<rparr>) = mq_dequeue (w_queue w)"
        by (simp add: mq_dequeue_def Cons)
      obtain r w2 where it: "iteration e p m ?w1 = (r, w2)" by fastforce
      show ?thesis
      proof (cases r)
        case (Inl x)
        then show ?thesis using raises [OF Cons] it 1(2) by (simp add: run_loop_unfold [of env p w] Cons)
      next
        case (Inr p')
        have "P p' w2 (fst (run_loop e p' w2)) (snd (run_loop e p' w2))"
          by (rule 1(1) [OF _ deq refl _ Inr 1(2)]) (simp_all add: it mq_is_empty_def Cons)
        from step [OF Cons _ this] show ?thesis
          using it 1(2) Inr by (simp add: run_loop_unfold [of env p w] Cons)
      qed
    qed
  qed
  then show ?thesis by blast
qed

text \<open>A normal return drains the queue; without the mirror the loop always returns normally.\<close>

lemma run_loop_drains:
  "fst (run_loop env p w) = Inr () \<longrightarrow> mq_messages (w_queue (snd (run_loop env p w))) = []"
  by (rule run_loop_induct [of "\<lambda>p w r w'. r = Inr () \<longrightarrow> mq_messages (w_queue w') = []"]) auto

lemma run_loop_returns: "\<not> sync_on env \<Longrightarrow> fst (run_loop env p w) = Inr ()"
  by (rule run_loop_induct [of "\<lambda>p w r w'. r = Inr ()"]) (auto dest: iteration_result(1))

lemma iteration_waiting:
  assumes "mq_messages (w_queue w) = m # ms"
    and "iteration env p m (w\<lparr>w_queue := (w_queue w)\<lparr>mq_messages := ms\<rparr>\<rparr>) = (r, w2)"
  shows "settled_ids (w_queue w) \<subseteq> settled_ids (w_queue w2)"
    and "waiting_ids (w_queue w) \<subseteq> waiting_ids (w_queue w2) \<union> settled_ids (w_queue w2)"
  using iteration_result(2,3) [OF assms(2)] assms(1) by (auto simp: waiting_ids_def settled_ids_def)

lemma run_loop_settles:
  "settled_ids (w_queue w) \<subseteq> settled_ids (w_queue (snd (run_loop env p w))) \<and>
   (fst (run_loop env p w) = Inr () \<longrightarrow>
      waiting_ids (w_queue w) \<subseteq> settled_ids (w_queue (snd (run_loop env p w))))"
proof (rule run_loop_induct [of "\<lambda>p w r w'. settled_ids (w_queue w) \<subseteq> settled_ids (w_queue w') \<and>
    (r = Inr () \<longrightarrow> waiting_ids (w_queue w) \<subseteq> settled_ids (w_queue w'))"], goal_cases)
  case 1
  then show ?case by (simp add: waiting_ids_def)
next
  case 2
  from iteration_waiting(1) [OF 2] show ?case by simp
next
  case 3
  from iteration_waiting [OF 3(1,2)] 3(3) show ?case by blast
qed

text \<open>The events seen grow by exactly the events handled, which the recursion limit bounds.\<close>

lemma run_loop_seen:
  "finite (w_seen w) \<longrightarrow> finite (w_seen (snd (run_loop env p w))) \<and>
    w_seen w \<subseteq> w_seen (snd (run_loop env p w)) \<and>
    card (w_seen (snd (run_loop env p w))) \<le> card (w_seen w) + nat (ae_max_recursion_depth env - p)"
proof (rule run_loop_induct [of "\<lambda>p w r w'. finite (w_seen w) \<longrightarrow>
    finite (w_seen w') \<and> w_seen w \<subseteq> w_seen w' \<and>
    card (w_seen w') \<le> card (w_seen w) + nat (ae_max_recursion_depth env - p)"], goal_cases)
  case 1
  then show ?case by simp
next
  case 2
  from iteration_result(4) [OF 2(2)] show ?case by auto
next
  case (3 p w m ms p' w2 r w')
  from iteration_result(4) [OF 3(2)] 3(3) show ?case by auto
qed

end
