(* ===== verification/Sample_World.thy ===== *)
theory Sample_World
  imports Samples Coordinator_Safety Runner_Safety
begin

text \<open>
  A concrete runtime for the witnesses: no API mirror, one tool that creates a work item, and a world
  whose store holds the sample plan, its context snapshot and the sample task graph.
\<close>

definition sample_tool_result :: "bool \<Rightarrow> PlannedAction \<Rightarrow> ToolResult" where
  "sample_tool_result ok action =
     \<lparr>tr_result_id = ''res'', tr_plan_id = pa_plan_id action, tr_action_id = pa_action_id action,
      tr_tool_name = pa_tool_name action, tr_success = ok, tr_output = [(''created'', PInt 1)],
      tr_error = (if ok then None else Some ''rejected''), tr_emitted_events = [], tr_suggestion = None,
      tr_created_at = sample_time\<rparr>"

definition sample_tool_definition :: ToolPromptDefinition where
  "sample_tool_definition =
     \<lparr>tp_id = ''create_workitem'', tp_version = ''1'', tp_name = ''Create'', tp_description = ''creates'',
      tp_usage = [], tp_do_not_use = [], tp_risk_level = ''low'', tp_approval_policy = ''auto_commit'',
      tp_input_contract = []\<rparr>"

text \<open>The three ways a tool can end: a success, a reported failure, an exception.\<close>

datatype tool_end = Tool_Succeeds | Tool_Rejects | Tool_Raises

fun sample_execute :: "tool_end \<Rightarrow> PlannedAction \<Rightarrow> AgentContext \<Rightarrow> (io, ToolResult) eff" where
  "sample_execute Tool_Succeeds action _ = ret (sample_tool_result True action)"
| "sample_execute Tool_Rejects action _ = ret (sample_tool_result False action)"
| "sample_execute Tool_Raises _ _ = raise (RuntimeError ''tool crashed'')"

definition sample_env :: "tool_end \<Rightarrow> app_env" where
  "sample_env e =
     \<lparr>uuid4_at = (\<lambda>n. ''id-'' @ nat_str n), clock_at = int, uuid5_of = (\<lambda>s. s),
      fromisoformat_of = (\<lambda>_. None), server = (\<lambda>_ _. Http_Empty), base_url = None, api_token = None,
      ae_sync_enabled = False, ae_workflow_prompts = [],
      ae_workflows = \<lparr>wr_by_id = [], wr_by_trigger = []\<rparr>, ae_skills = [],
      ae_tools = [(''create_workitem'',
        Agent_Tool ''create_workitem'' sample_tool_definition (sample_execute e))],
      ae_generate_plan = (\<lambda>_ _ _ _ _ _ _. raise (RuntimeError ''no model'')), ae_fetch_json = None,
      ae_max_recursion_depth = 5\<rparr>"

definition sample_context :: "bool \<Rightarrow> AgentContext" where
  "sample_context allowed =
     \<lparr>cx_workspace_id = ''ws'', cx_project_id = Some ''proj'',
      cx_source_event = sample_envelope DomainEvent, cx_workflow_id = ''flow'', cx_entities = [],
      cx_retrieved_documents = [], cx_permissions = [(''create_workitem'', allowed)],
      cx_entity_versions = [], cx_previous_agent_outputs = [], cx_runtime_metadata = []\<rparr>"

definition sample_snapshot :: "bool \<Rightarrow> ContextSnapshot" where
  "sample_snapshot allowed =
     \<lparr>cs_snapshot_id = ''snap'', cs_plan_id = Some ''run'', cs_workspace_id = ''ws'',
      cs_project_id = Some ''proj'', cs_workflow_id = ''flow'', cs_context = sample_context allowed,
      cs_created_at = sample_time\<rparr>"

definition sample_store :: memory_store where
  "sample_store =
     save_context_snapshot (sample_snapshot True)
       (save_task_graph (fst (claim_ready sample_graph)) (save_plan sample_plan empty_store))"

definition sample_world :: world where
  "sample_world =
     \<lparr>w_io = \<lparr>io_uuids = 0, io_clock = 0, io_requests = [], io_versions = []\<rparr>, w_queue = empty_queue,
      w_store = sample_store, w_inline = 0, w_seen = {}\<rparr>"

abbreviation sample_action_envelope :: EventEnvelope where
  "sample_action_envelope \<equiv> sample_envelope (AgentActionEvent ''run'' ''a1'')"

lemmas sample_world_defs =
  sample_tool_result_def sample_env_def sample_context_def sample_snapshot_def sample_store_def
  sample_world_def

lemma sample_fields [simp]:
  "ap_workspace_id sample_plan = ''ws''" "ap_plan_id sample_plan = ''run''" "\<not> is_subplan sample_plan"
  "ap_workspace_id sample_subplan = ''ws''" "ap_plan_id sample_subplan = ''run::a''" "is_subplan sample_subplan"
  "ap_parent_run_id sample_subplan = Some ''run''" "ap_node_id sample_subplan = Some ''a''"
  "pa_action_id (sample_action i d) = i" "pa_tool_name (sample_action i d) = ''create_workitem''"
  "pa_expected_entity_versions (sample_action i d) = []" "\<not> pa_requires_approval (sample_action i d)"
  "pa_idempotency_key (sample_action i d) = ''key:'' @ i" "pa_status (sample_action i d) = ActionStatus.PENDING"
  "cs_context (sample_snapshot b) = sample_context b" "permitted (sample_context b) ''create_workitem'' = b"
  "\<not> stale_now io (sample_action i d)" "en_attempt (sample_envelope c) = 0"
  "ev_class (en_event (sample_envelope c)) = c" "ev_workspace_id (en_event (sample_envelope c)) = ''ws''"
  "w_store sample_world = sample_store" "w_queue sample_world = empty_queue" "w_inline sample_world = 0"
  "cx_workspace_id (sample_context b) = ''ws''" "ap_status sample_plan = PlanStatus.PLANNED"
  "w_seen sample_world = {}" "io_requests (w_io sample_world) = []"
  by (simp_all add: sample_defs sample_world_defs is_subplan_def permitted_def stale_now_def)

lemma sample_action_step [simp]:
  "get_plan ''ws'' ''run'' sample_store = Some sample_plan"
  "get_action sample_plan ''a1'' = Some (sample_action ''a1'' [])"
  "get_context_snapshot ''ws'' (ap_context_snapshot_ref sample_plan) sample_store = Some (sample_snapshot True)"
  "owns sample_plan (sample_action ''a1'' [])" "node_known sample_plan"
  "owns sample_subplan (sample_action ''a1'' [])" "node_known sample_subplan"
  by (simp_all add: sample_defs sample_world_defs save_plan_def save_task_graph_def save_context_snapshot_def
      get_plan_def get_context_snapshot_def empty_store_def get_action_def owns_def node_known_def
      is_subplan_def)

lemma sample_sync_off: "\<not> sync_on (sample_env e)"
  by (simp add: sync_on_def sample_env_def)

end
