(* ===== verification/Key_Safety.thy ===== *)
theory Key_Safety
  imports Runner_Safety Action_Safety
begin

text \<open>
  Idempotency keys over a whole run: triggers and sub-agent events leave them alone, action events only
  add to them, so a key once consumed stays consumed whatever is handled afterwards, and no later step
  reaches a tool with it.
\<close>

section \<open>What leaves the keys alone\<close>

abbreviation stored_keys :: "world \<Rightarrow> string set" where
  "stored_keys w \<equiv> ms_idempotency_keys (w_store w)"

lemma keys_store_do:
  "preserves (store_do (save_context_snapshot c)) stored_keys"
  "preserves (store_do (save_task_graph g)) stored_keys"
  "preserves (store_do (save_plan p)) stored_keys"
  "preserves (store_do (update_plan p)) stored_keys"
  "preserves (store_run (claim_ready_nodes ws r)) stored_keys"
  by (auto simp: preserves_def store_do_def store_run_def modify_def store_defs claim_ready_nodes_def Let_def
      split: prod.splits option.splits)

lemma keys_io_do: "preserves (io_do m) stored_keys"
  by (rule preserves_comp [OF preserves_io_do(2)])

lemma keys_trace: "preserves (trace env n ws p pl a m d) stored_keys"
  by (rule preserves_trace_store) (simp add: append_trace_event_def)

lemma keys_enqueue: "preserves (enqueue env e) stored_keys"
  by (rule preserves_comp [OF preserves_enqueue(1)])

lemmas keys_pres = keys_store_do keys_io_do keys_trace keys_enqueue

section \<open>What lets the keys grow\<close>

definition keys_grow :: "(world, 'a) eff \<Rightarrow> bool" where
  "keys_grow m \<longleftrightarrow> (\<forall>w. stored_keys w \<subseteq> stored_keys (snd (m w)))"

named_theorems key_rules

lemma keys_growD: "keys_grow m \<Longrightarrow> m w = (r, w') \<Longrightarrow> stored_keys w \<subseteq> stored_keys w'"
  unfolding keys_grow_def by (metis snd_conv)

lemma keys_grow_frame: "preserves m stored_keys \<Longrightarrow> keys_grow m"
  by (simp add: keys_grow_def preserves_def)

lemma keys_grow_ebind [key_rules]:
  assumes "keys_grow m" and "\<And>x. keys_grow (k x)"
  shows "keys_grow (ebind m k)"
  unfolding keys_grow_def
proof
  fix w
  obtain r w1 where m: "m w = (r, w1)" by fastforce
  have "stored_keys w1 \<subseteq> stored_keys (snd (k x w1))" for x
    using assms(2) unfolding keys_grow_def by blast
  then show "stored_keys w \<subseteq> stored_keys (snd (ebind m k w))"
    using keys_growD [OF assms(1) m] by (cases r) (auto simp: ebind_def m)
qed

lemma keys_grow_eseq [key_rules]: "keys_grow m \<Longrightarrow> keys_grow n \<Longrightarrow> keys_grow (eseq m n)"
  by (simp add: eseq_def keys_grow_ebind)

lemma keys_grow_catch [key_rules]:
  assumes "keys_grow m" and "\<And>e. keys_grow (h e)"
  shows "keys_grow (catch m h)"
  unfolding keys_grow_def
proof
  fix w
  obtain r w1 where m: "m w = (r, w1)" by fastforce
  have "stored_keys w1 \<subseteq> stored_keys (snd (h e w1))" for e
    using assms(2) unfolding keys_grow_def by blast
  then show "stored_keys w \<subseteq> stored_keys (snd (catch m h w))"
    using keys_growD [OF assms(1) m] by (cases r) (auto simp: catch_def m)
qed

lemma keys_grow_cases [key_rules]:
  "keys_grow m \<Longrightarrow> keys_grow n \<Longrightarrow> keys_grow (if b then m else n)"
  "keys_grow m \<Longrightarrow> (\<And>x. keys_grow (k x)) \<Longrightarrow> keys_grow (case z of None \<Rightarrow> m | Some x \<Rightarrow> k x)"
  "(\<And>x y. keys_grow (f x y)) \<Longrightarrow> keys_grow (case p of (x, y) \<Rightarrow> f x y)"
  by (simp_all split: option.splits prod.splits)

lemma keys_grow_parts [key_rules]:
  "keys_grow (ret x)" "keys_grow (raise e)" "keys_grow (gets h)" "keys_grow (io_do m)"
  "keys_grow (store_get g)" "keys_grow (trace env n ws p pl a t d)" "keys_grow (enqueue env en)"
  "keys_grow (restatus env s act plan)" "keys_grow (modify (\<lambda>w. w\<lparr>w_inline := c w\<rparr>))"
  "keys_grow (settle_subplan env en q st msg)" "keys_grow (enqueue_events env es)"
  by (auto intro!: keys_grow_frame pres keys_pres preserves_modify
      intro: preserves_comp [where f = w_store])

lemma keys_grow_store [key_rules]:
  "keys_grow (store_do (record_idempotency_key k))" "keys_grow (store_do (save_plan p))"
  "keys_grow (store_do (update_plan p))" "keys_grow (store_do (save_action_result t))"
  "keys_grow (store_do (save_context_snapshot c))"
  by (auto simp: keys_grow_def store_do_def modify_def store_defs)


section \<open>The handlers\<close>

lemma keys_grow_action_trace [key_rules]: "keys_grow (action_trace env ev n m p a d)"
  unfolding action_trace_def by (intro key_rules)

lemma keys_grow_branches [key_rules]:
  "keys_grow (enqueue_next_action env en p)"
  "keys_grow (on_suggest env en p a v)" "keys_grow (on_replan env en p a c v)"
  "keys_grow (on_validation_failed env en p a v)" "keys_grow (on_execution_error env en p a x)"
  "keys_grow (on_retry env en p q a r v)" "keys_grow (on_failed env en p a r v)"
  unfolding enqueue_next_action_def no_next_action_def on_suggest_def on_replan_def on_validation_failed_def
    on_execution_error_def on_retry_def on_failed_def Let_def
  by (intro key_rules)+

lemma keys_grow_process_pending [key_rules]:
  "keys_grow (on_commit env en p a r v)" "keys_grow (process_pending env en p a sn)"
  unfolding process_pending_def execute_action_def after_execution_def on_commit_def Let_def
  by (intro key_rules)+

lemma keys_grow_handle_step [key_rules]: "keys_grow (handle_step env en)"
proof (cases "ev_class (en_event en)")
  case (AgentActionEvent pid aid)
  show ?thesis unfolding handle_step_def Let_def AgentActionEvent event_class.case by (intro key_rules)
qed (simp_all add: handle_step_def keys_grow_parts)

lemma keys_grow_handle [key_rules]: "keys_grow (handle env en)"
  unfolding keys_grow_def
proof
  fix w
  show "stored_keys w \<subseteq> stored_keys (snd (handle env en w))"
  proof (induction env en w rule: handle.induct)
    case (1 env en w)
    obtain r w1 where s: "handle_step env en w = (r, w1)" by fastforce
    have step: "stored_keys w \<subseteq> stored_keys w1" by (rule keys_growD [OF keys_grow_handle_step s])
    show ?case
    proof (cases "\<exists>nxt. r = Inr (Some nxt)")
      case True
      then obtain nxt where r: "r = Inr (Some nxt)" by blast
      from "1.IH" [OF s [symmetric] r refl] step show ?thesis
        by (auto simp: handle.simps [of env en w] s r)
    next
      case False
      with step show ?thesis
        by (auto simp: handle.simps [of env en w] s split: sum.splits option.splits)
    qed
  qed
qed

lemma keys_unless_terminal: "preserves m stored_keys \<Longrightarrow> preserves (unless_terminal env en flow r m) stored_keys"
  unfolding unless_terminal_def trace_terminal_run_skip_def domain_trace_def
  by (intro pres keys_pres) (auto intro!: pres keys_pres split: exn.split)

lemma keys_handle_trigger: "preserves (handle_trigger env en) stored_keys"
  unfolding handle_trigger_def handle_orchestrated_def obtain_plan_def start_plan_def no_first_action_def
    plan_root_def announce_run_def dispatch_task_def domain_trace_def Let_def
  by (auto intro!: pres keys_pres keys_unless_terminal split: option.split prod.split bool.split)

lemma keys_grow_coordinator_store [key_rules]:
  "keys_grow (store_do (store_result ws r i))" "keys_grow (store_do (save_task_graph g))"
  "keys_grow (store_run (advance_task_graph ws r i st))" "keys_grow (store_run (claim_ready_nodes ws r))"
  by (auto simp: keys_grow_def store_do_def store_run_def modify_def store_defs store_result_def advance_task_graph_def
      claim_ready_nodes_def Let_def split: prod.splits option.splits)

lemma keys_grow_efor [key_rules]: "(\<And>x. keys_grow (g x)) \<Longrightarrow> keys_grow (efor xs g)"
  by (induction xs) (simp_all add: keys_grow_eseq keys_grow_parts)

lemma keys_grow_coordinator_parts [key_rules]:
  "keys_grow (coord_trace env ev n m d)" "keys_grow (enqueue_action env en p a)"
  "keys_grow (enqueue_completed env en g i s)" "keys_grow (dispatch_task env en ws pr r i)"
  unfolding coord_trace_def enqueue_action_def enqueue_completed_def dispatch_task_def
  by (intro key_rules)+

lemma keys_grow_coordinator_branches [key_rules]:
  "keys_grow (dispatch_node env en g n)" "keys_grow (resume_existing_subplan env en g n p)"
  "keys_grow (join_advance env en r i adv)"
  unfolding dispatch_node_def resume_existing_subplan_def join_advance_def Let_def
  by (intro key_rules)+

lemma keys_grow_join_report [key_rules]: "keys_grow (join_report env en r i rep st)"
  unfolding join_report_def Let_def by (intro key_rules)

lemma keys_grow_plan_node [key_rules]: "keys_grow (plan_node env en g n r sn)"
  unfolding plan_node_def Let_def by (intro key_rules)

lemma keys_grow_coordinate [key_rules]: "keys_grow (coordinate env en)"
  unfolding coordinate_def handle_task_def handle_completed_def Let_def
  by (cases "ev_class (en_event en)") (simp only: event_class.case, intro key_rules)+

lemma keys_grow_dispatch [key_rules]: "keys_grow (dispatch env en)"
  unfolding dispatch_def
  by (cases "ev_class (en_event en)")
    (simp_all only: event_class.case keys_grow_handle keys_grow_coordinate
      keys_grow_frame [OF keys_handle_trigger])

lemma keys_grow_queue [key_rules]: "keys_grow (queue_do f)"
  by (simp add: keys_grow_def queue_do_def modify_def)

lemma keys_grow_seen [key_rules]: "keys_grow (modify (\<lambda>w. w\<lparr>w_seen := c w\<rparr>))"
  by (simp add: keys_grow_def modify_def)

lemma keys_grow_iteration: "keys_grow (iteration env n m)"
  unfolding iteration_def process_def over_limit_def skip_duplicate_def record_max_depth_failure_def Let_def
  by (intro key_rules)


section \<open>Whatever happens later\<close>

text \<open>
  Everything the runtime does to the world: one iteration of the loop on any message, one action
  step on any envelope, and messages arriving or vanishing in the queue.
\<close>

inductive moves :: "world \<Rightarrow> world \<Rightarrow> bool" where
  loop: "moves w (snd (iteration env n m w))"
| action: "moves w (snd (handle_step env en w))"
| queue: "moves w (w\<lparr>w_queue := q\<rparr>)"

lemma moves_keys: "moves w w' \<Longrightarrow> stored_keys w \<subseteq> stored_keys w'"
  by (erule moves.cases)
    (use keys_grow_iteration keys_grow_handle_step in \<open>simp_all add: keys_grow_def\<close>)

lemma later_keys: "moves\<^sup>*\<^sup>* w w' \<Longrightarrow> stored_keys w \<subseteq> stored_keys w'"
  by (induction rule: rtranclp_induct) (auto dest: moves_keys)

text \<open>The loop itself is a sequence of such moves.\<close>

lemma run_loop_moves: "moves\<^sup>*\<^sup>* w (snd (run_loop env processed w))"
proof (induction env processed w rule: run_loop.induct)
  case (1 env processed w)
  show ?case
  proof (cases "mq_is_empty (w_queue w)")
    case True
    then show ?thesis by (simp add: run_loop.simps [of env processed w])
  next
    case False
    obtain m q where d: "mq_dequeue (w_queue w) = (Some m, q)"
      using False by (cases "mq_messages (w_queue w)") (auto simp: mq_dequeue_def mq_is_empty_def)
    obtain r w2 where it: "iteration env processed m (w\<lparr>w_queue := q\<rparr>) = (r, w2)" by fastforce
    have two: "moves\<^sup>*\<^sup>* w w2"
      using moves.queue [of w q] moves.loop [of "w\<lparr>w_queue := q\<rparr>" env processed m] it
      by (metis converse_rtranclp_into_rtranclp r_into_rtranclp snd_conv)
    show ?thesis
    proof (cases r)
      case (Inl e)
      then show ?thesis using two by (simp add: run_loop.simps [of env processed w] False d it)
    next
      case (Inr p)
      have "moves\<^sup>*\<^sup>* w2 (snd (run_loop env p w2))"
        using "1.IH" [OF False d [symmetric] refl it [symmetric] Inr] by simp
      then show ?thesis using two Inr by (simp add: run_loop.simps [of env processed w] False d it)
    qed
  qed
qed

text \<open>The idempotency key under which an action is stored.\<close>

definition stored_key :: "memory_store \<Rightarrow> string \<Rightarrow> string \<Rightarrow> string \<Rightarrow> string option" where
  "stored_key s ws pid aid =
     (case get_plan ws pid s of
        None \<Rightarrow> None | Some p \<Rightarrow> map_option pa_idempotency_key (get_action p aid))"

lemma stored_key_simps [simp]:
  "stored_key (update_plan p s) ws pid i =
     (if ws = ap_workspace_id p \<and> pid = ap_plan_id p then map_option pa_idempotency_key (get_action p i)
      else stored_key s ws pid i)"
  "stored_key (append_trace_event t s) ws pid i = stored_key s ws pid i"
  "stored_key (save_action_result r s) ws pid i = stored_key s ws pid i"
  "stored_key (record_idempotency_key k s) ws pid i = stored_key s ws pid i"
  by (simp_all add: stored_key_def)

lemma untraced_keys:
  assumes "untraced s' = untraced s"
  shows "stored_key s' = stored_key s \<and> (\<forall>k. check_idempotency_key k s' = check_idempotency_key k s)"
  using untraced_reads [OF assms] by (simp add: stored_key_def fun_eq_iff)

text \<open>A successful execution leaves the action in its plan, under its own key.\<close>

lemma execute_success_key:
  assumes tool: "tool_yields env action context succeeds"
    and mem: "owns plan action" and node: "node_known plan"
  shows "wp (execute_action env envelope plan action context)
    (\<lambda>out w'. key_consumed w' action \<and>
       stored_key (w_store w') (ap_workspace_id plan) (ap_plan_id plan) (pa_action_id action) =
         Some (pa_idempotency_key action))
    (\<lambda>_ _. sync_on env) w"
  unfolding execute_action_def after_execution_def on_commit_def Let_def
  by (intro vc vc_tool [OF tool])
    (use mem node in \<open>auto simp: validate_after_execution_def dest!: untraced_keys\<close>)

text \<open>A step on an action whose key is consumed is the same under every tool registry.\<close>

lemma handle_step_consumed:
  assumes "ev_class (en_event envelope) = AgentActionEvent pid aid"
    and "stored_key (w_store w) (ev_workspace_id (en_event envelope)) pid aid = Some k"
    and "check_idempotency_key k (w_store w)"
  shows "handle_step (with_tools T env) envelope w = handle_step env envelope w"
proof -
  have eb: "ebind (store_get f) k w = k (f (w_store w)) w" for f and k :: "'x \<Rightarrow> (world, 'y) eff"
    by (simp add: ebind_def store_get_def gets_def)
  obtain plan action where "get_plan (ev_workspace_id (en_event envelope)) pid (w_store w) = Some plan"
    "get_action plan aid = Some action" "pa_idempotency_key action = k"
    using assms(2) by (auto simp: stored_key_def split: option.splits)
  then show ?thesis
    using assms(1,3) by (simp add: handle_step_def Let_def eb no_tools split: option.split)
qed

lemma consumed_for_ever:
  assumes "moves\<^sup>*\<^sup>* w w2" and "check_idempotency_key k (w_store w)"
    and "ev_class (en_event later) = AgentActionEvent pid aid"
    and "stored_key (w_store w2) (ev_workspace_id (en_event later)) pid aid = Some k"
  shows "handle_step (with_tools T env) later w2 = handle_step env later w2"
  by (rule handle_step_consumed [OF assms(3,4)])
    (use later_keys [OF assms(1)] assms(2) in \<open>auto simp: check_idempotency_key_def\<close>)

end
