(* ===== verification/Action_Properties.thy ===== *)
theory Action_Properties
  imports Sample_World Key_Safety
begin

text \<open>
  Properties of \<open>ActionEventHandler\<close>: which actions never reach a tool, and what each way an execution
  can end leaves in the store and on the queue, whatever the API, the clock and the tool do.
\<close>

lemma sample_tool_yields:
  "tool_yields (sample_env Tool_Succeeds) (sample_action i d) c succeeds"
  "tool_yields (sample_env Tool_Rejects) (sample_action i d) c reports_failure"
  "tool_yields (sample_env Tool_Raises) (sample_action i d) c (\<lambda>r. r = Inl (RuntimeError ''tool crashed''))"
  by (simp_all add: tool_yields_def execute_one_def get_tool_def sample_env_def sample_action_def
      eff_defs sample_tool_result_def)



text \<open>
  C6: A pending action that is denied, stale or awaiting approval is settled without running: handling
  it marks the stored action FAILED when the tool is not permitted, STALE when its entity versions moved
  on and REQUIRES_APPROVAL otherwise, in this order of precedence, and continues no action inline. Only a
  failure of the API mirror can interrupt it.
\<close>

theorem gated_action_settles:
  assumes "distinct (map fst (pa_expected_entity_versions action))"
    and "owns plan action" and "node_known plan"
    and "\<not> permitted (cs_context snapshot) (pa_tool_name action) \<or> stale_now (w_io w) action \<or>
      pa_requires_approval action"
  shows "wp (process_pending env envelope plan action snapshot)
    (\<lambda>out w'. out = None \<and>
        stored_status (w_store w') (ap_workspace_id plan) (ap_plan_id plan) (pa_action_id action) =
          Some (if \<not> permitted (cs_context snapshot) (pa_tool_name action) then ActionStatus.FAILED
                else if stale_now (w_io w) action then ActionStatus.STALE
                else ActionStatus.REQUIRES_APPROVAL))
    (\<lambda>_ _. sync_on env) w"
  using process_pending_outcome [OF assms] by (simp add: gate_status_def)

theorem gated_action_settles_witness:
  "wp (process_pending (sample_env Tool_Succeeds) sample_action_envelope sample_plan
      (sample_action ''a1'' []) (sample_snapshot False))
    (\<lambda>out w'. out = None \<and> stored_status (w_store w') ''ws'' ''run'' ''a1'' = Some ActionStatus.FAILED)
    (\<lambda>_ _. False) sample_world"
  using gated_action_settles [where plan = sample_plan and action = "sample_action ''a1'' []"
      and snapshot = "sample_snapshot False" and env = "sample_env Tool_Succeeds"
      and envelope = sample_action_envelope and w = sample_world]
  by (simp add: sample_sync_off)

text \<open>
  C7: When the tool of an action reports success, executing it records the action's idempotency key and
  stores the action as COMPLETED in its plan, in this execution and whatever follows it in the same step
  (emitted events, the next action, settling a sub-plan). Only a failure of the API mirror can raise.
\<close>

theorem successful_action_completes:
  assumes "\<forall>i. case fst (execute_one (ae_tools env) action cx i) of Inr t \<Rightarrow> tr_success t | Inl _ \<Rightarrow> False"
    and "owns plan action" and "node_known plan"
  shows "wp (execute_action env envelope plan action cx)
    (\<lambda>out w'. check_idempotency_key (pa_idempotency_key action) (w_store w') \<and>
       stored_status (w_store w') (ap_workspace_id plan) (ap_plan_id plan) (pa_action_id action) =
         Some ActionStatus.COMPLETED)
    (\<lambda>_ _. sync_on env) w"
  by (rule execute_success) (use assms in \<open>simp_all add: tool_yields_def\<close>)

theorem successful_action_completes_witness:
  "wp (execute_action (sample_env Tool_Succeeds) sample_action_envelope sample_plan (sample_action ''a1'' [])
      (sample_context True))
    (\<lambda>out w'. check_idempotency_key ''key:a1'' (w_store w') \<and>
       stored_status (w_store w') ''ws'' ''run'' ''a1'' = Some ActionStatus.COMPLETED)
    (\<lambda>_ _. False) sample_world"
  using successful_action_completes [where plan = sample_plan and action = "sample_action ''a1'' []"
      and env = "sample_env Tool_Succeeds" and envelope = sample_action_envelope and w = sample_world
      and cx = "sample_context True"] sample_tool_yields(1)
  by (simp add: sample_sync_off tool_yields_def)

text \<open>
  C8: An action is executed at most once. After an execution whose tool reported success, whatever the
  runtime handles next, in any order, with any redeliveries, retries and later plans, a step on any action
  stored under the same idempotency key takes the same course under every tool registry: no tool runs
  for it again.
\<close>

theorem executed_at_most_once:
  assumes "\<forall>i. case fst (execute_one (ae_tools env) action cx i) of Inr t \<Rightarrow> tr_success t | Inl _ \<Rightarrow> False"
    and "owns plan action" and "node_known plan"
  shows "wp (execute_action env envelope plan action cx)
    (\<lambda>out w'. \<forall>w2 env2 later pid aid T. moves\<^sup>*\<^sup>* w' w2 \<and>
       ev_class (en_event later) = AgentActionEvent pid aid \<and>
       stored_key (w_store w2) (ev_workspace_id (en_event later)) pid aid = Some (pa_idempotency_key action) \<longrightarrow>
         handle_step (env2\<lparr>ae_tools := T\<rparr>) later w2 = handle_step env2 later w2)
    (\<lambda>_ _. sync_on env) w"
  by (rule wp_mono [OF execute_success_key [OF _ assms(2,3)]])
    (use assms(1) consumed_for_ever in \<open>auto simp: tool_yields_def\<close>)

theorem executed_at_most_once_witness:
  "wp (execute_action (sample_env Tool_Succeeds) sample_action_envelope sample_plan (sample_action ''a1'' [])
      (sample_context True))
    (\<lambda>out w'. handle_step ((sample_env Tool_Raises)\<lparr>ae_tools := []\<rparr>) sample_action_envelope w' =
       handle_step (sample_env Tool_Raises) sample_action_envelope w')
    (\<lambda>_ _. False) sample_world"
proof -
  let ?run = "execute_action (sample_env Tool_Succeeds) sample_action_envelope sample_plan (sample_action ''a1'' [])
      (sample_context True)"
  have ok: "\<forall>i. case fst (execute_one (ae_tools (sample_env Tool_Succeeds)) (sample_action ''a1'' []) (sample_context True) i)
      of Inr t \<Rightarrow> tr_success t | Inl _ \<Rightarrow> False"
    using sample_tool_yields(1) by (simp add: tool_yields_def)
  have own: "owns sample_plan (sample_action ''a1'' [])" "node_known sample_plan" by simp_all
  have "wp ?run (\<lambda>_ w'. stored_key (w_store w') ''ws'' ''run'' ''a1'' = Some ''key:a1'') (\<lambda>_ _. False) sample_world"
    using execute_success_key [OF sample_tool_yields(1) own]
    by (rule wp_mono) (simp_all add: sample_sync_off)
  from wp_conj [OF this executed_at_most_once [OF ok own]]
  show ?thesis by (rule wp_mono) (auto simp: sample_sync_off)
qed

text \<open>
  C9: When the tool reports a failure and an attempt is left, the action goes back to PENDING in the
  store without consuming its idempotency key, and exactly one message is appended to the queue: the same
  action's event with the attempt counter increased by one. So a failing action is retried in order,
  behind the work already queued.
\<close>

theorem failing_action_retried:
  assumes "\<forall>i. case fst (execute_one (ae_tools env) action cx i) of Inr t \<Rightarrow> \<not> tr_success t | Inl _ \<Rightarrow> False"
    and "owns plan action"
    and "en_attempt envelope + 1 < ACTION_EXECUTION_ATTEMPTS"
  shows "wp (execute_action env envelope plan action cx)
    (\<lambda>out w'. out = None \<and>
       stored_status (w_store w') (ap_workspace_id plan) (ap_plan_id plan) (pa_action_id action) =
         Some ActionStatus.PENDING \<and>
       check_idempotency_key (pa_idempotency_key action) (w_store w') =
         check_idempotency_key (pa_idempotency_key action) (w_store w) \<and>
       (\<exists>m. w_queue w' = mq_enqueue m (w_queue w) \<and>
          en_attempt (qm_envelope m) = en_attempt envelope + 1 \<and>
          ev_class (en_event (qm_envelope m)) = AgentActionEvent (ap_plan_id plan) (pa_action_id action)))
    (\<lambda>_ _. sync_on env) w"
  by (rule execute_retry) (use assms in \<open>simp_all add: tool_yields_def\<close>)

theorem failing_action_retried_witness:
  "wp (execute_action (sample_env Tool_Rejects) sample_action_envelope sample_plan (sample_action ''a1'' [])
      (sample_context True))
    (\<lambda>out w'. out = None \<and> stored_status (w_store w') ''ws'' ''run'' ''a1'' = Some ActionStatus.PENDING \<and>
       check_idempotency_key ''key:a1'' (w_store w') = check_idempotency_key ''key:a1'' sample_store \<and>
       (\<exists>m. w_queue w' = mq_enqueue m empty_queue \<and> en_attempt (qm_envelope m) = 1 \<and>
          ev_class (en_event (qm_envelope m)) = AgentActionEvent ''run'' ''a1''))
    (\<lambda>_ _. False) sample_world"
  using failing_action_retried [where plan = sample_plan and action = "sample_action ''a1'' []"
      and env = "sample_env Tool_Rejects" and envelope = sample_action_envelope and w = sample_world
      and cx = "sample_context True"] sample_tool_yields(2)
  by (simp add: sample_sync_off tool_yields_def ACTION_EXECUTION_ATTEMPTS_def)

text \<open>
  C10: When the tool reports a failure and no attempt is left, the action is FAILED for good: its key is
  still not consumed, nothing is retried, and the queue changes only for a sub-plan, which reports
  ''failed'' for its node to the run it belongs to.
\<close>

theorem exhausted_action_fails:
  assumes "\<forall>i. case fst (execute_one (ae_tools env) action cx i) of Inr t \<Rightarrow> \<not> tr_success t | Inl _ \<Rightarrow> False"
    and "owns plan action" and "node_known plan"
    and "ACTION_EXECUTION_ATTEMPTS \<le> en_attempt envelope + 1"
  shows "wp (execute_action env envelope plan action cx)
    (\<lambda>out w'. out = None \<and>
       stored_status (w_store w') (ap_workspace_id plan) (ap_plan_id plan) (pa_action_id action) =
         Some ActionStatus.FAILED \<and>
       check_idempotency_key (pa_idempotency_key action) (w_store w') =
         check_idempotency_key (pa_idempotency_key action) (w_store w) \<and>
       (if is_subplan plan then \<exists>m. settles plan ''failed'' m \<and> w_queue w' = mq_enqueue m (w_queue w)
        else w_queue w' = w_queue w))
    (\<lambda>_ _. sync_on env) w"
  using execute_exhausted [of env action cx plan envelope w] assms
  by (simp add: tool_yields_def failure_settled_def)

theorem exhausted_action_fails_witness:
  "wp (execute_action (sample_env Tool_Rejects) (sample_action_envelope\<lparr>en_attempt := 2\<rparr>) sample_subplan
      (sample_action ''a1'' []) (sample_context True))
    (\<lambda>out w'. out = None \<and> stored_status (w_store w') ''ws'' ''run::a'' ''a1'' = Some ActionStatus.FAILED \<and>
       check_idempotency_key ''key:a1'' (w_store w') = check_idempotency_key ''key:a1'' sample_store \<and>
       (\<exists>m. settles sample_subplan ''failed'' m \<and> w_queue w' = mq_enqueue m empty_queue))
    (\<lambda>_ _. False) sample_world"
  using exhausted_action_fails [where plan = sample_subplan and action = "sample_action ''a1'' []"
      and env = "sample_env Tool_Rejects" and envelope = "sample_action_envelope\<lparr>en_attempt := 2\<rparr>"
      and w = sample_world and cx = "sample_context True"] sample_tool_yields(2)
  by (simp add: sample_sync_off tool_yields_def ACTION_EXECUTION_ATTEMPTS_def)



end
