(* ===== verification/Coordinator_Runs.thy ===== *)
theory Coordinator_Runs
  imports Coordinator_Safety
begin

text \<open>
  The coordinator over a whole run: whatever sub-agent events it is given, in any order, with any
  redeliveries and whether or not the API and the planner fail, the stored graph goes through exactly the
  pure advances of the reports, and the task events it enqueues are exactly the nodes those advances
  dispatch.
\<close>

section \<open>Task events among the messages\<close>

definition task_nodes :: "QueueMessage list \<Rightarrow> (string \<times> string) list" where
  "task_nodes ms = List.map_filter task_target ms"

lemma task_nodes_simps [simp]:
  "task_nodes [] = []" "task_nodes (xs @ ys) = task_nodes xs @ task_nodes ys"
  "task_target m = None \<Longrightarrow> task_nodes [m] = []"
  by (simp_all add: task_nodes_def map_filter_def)

lemma task_nodes_targets: "map task_target ms = map (\<lambda>n. Some (r, f n)) ns \<Longrightarrow> task_nodes ms = map (\<lambda>n. (r, f n)) ns"
proof (induction ns arbitrary: ms)
  case (Cons n ns)
  then obtain m ms' where "ms = m # ms'" by (cases ms) auto
  with Cons show ?case by (simp add: task_nodes_def map_filter_simps)
qed (simp add: task_nodes_def map_filter_simps)

lemma not_task_target:
  "action_target m = Some x \<Longrightarrow> task_target m = None"
  "ev_class (en_event (qm_envelope m)) = SubAgentCompletedEvent p n s \<Longrightarrow> task_target m = None"
  by (simp_all add: task_target_def action_target_def split: event_class.splits)


section \<open>One event\<close>

text \<open>
  What an event leaves behind: the graph of the run \<open>(ws, r)\<close> is \<open>g\<close>, and the task events appended to
  the queue are those of the nodes \<open>ns\<close>.
\<close>

definition advanced :: "string \<Rightarrow> string \<Rightarrow> TaskGraph \<Rightarrow> string list \<Rightarrow> world \<Rightarrow> world \<Rightarrow> bool" where
  "advanced ws r g ns w w' \<longleftrightarrow>
     get_task_graph ws r (w_store w') = Some g \<and>
     (\<exists>ms. queue_appends w ms w' \<and> task_nodes ms = map (Pair r) ns)"

lemma advancedI:
  assumes "queue_appends w ms w'" and "untraced (w_store w') = untraced (w_store w)"
    and "get_task_graph ws r (w_store w) = Some g" and "task_nodes ms = map (Pair r) ns"
  shows "advanced ws r g ns w w'"
  using assms untraced_reads(4) [OF assms(2)] by (auto simp: advanced_def)

lemma advanced_refl: "get_task_graph ws r (w_store w) = Some g \<Longrightarrow> advanced ws r g [] w w"
  by (rule advancedI [where ms = "[]"]) simp_all

lemma advanced_trans:
  assumes "advanced ws r g ns w w1" and "advanced ws r h ms w1 w2"
  shows "advanced ws r h (ns @ ms) w w2"
proof -
  obtain xs where xs: "queue_appends w xs w1" "task_nodes xs = map (Pair r) ns"
    using assms(1) by (auto simp: advanced_def)
  obtain ys where ys: "queue_appends w1 ys w2" "task_nodes ys = map (Pair r) ms"
    using assms(2) by (auto simp: advanced_def)
  have "queue_appends w (xs @ ys) w2 \<and> task_nodes (xs @ ys) = map (Pair r) (ns @ ms)"
    using xs ys by simp
  then show ?thesis using assms(2) unfolding advanced_def by blast
qed

lemma dispatched_unless_failed: "adv_run_failed (plan_advance g i s) \<Longrightarrow> dispatched (plan_advance g i s) = []"
  by (cases rule: plan_advance_cases [of g i s]) (simp_all add: dispatched_def)

text \<open>
  Joining an advance enqueues its nodes before it reports to the API, so an API error loses none of
  them.
\<close>

lemma join_advance_advances:
  assumes "get_task_graph ws r (w_store w) = Some (adv_graph adv)" and "tg_plan_id (adv_graph adv) = r"
    and "adv_run_failed adv \<Longrightarrow> dispatched adv = []"
  shows "wp (join_advance env envelope r node_id adv)
    (\<lambda>_. advanced ws r (adv_graph adv) (dispatched adv) w) (\<lambda>_. advanced ws r (adv_graph adv) (dispatched adv) w) w"
proof -
  have post: "advanced ws r (adv_graph adv) (dispatched adv) w w'"
    if "queue_appends w ms w'" "untraced (w_store w') = untraced (w_store w)"
      and "task_nodes ms = map (Pair r) (dispatched adv)" for ms w'
    by (rule advancedI [OF that(1,2) assms(1) that(3)])
  show ?thesis
  proof (cases "adv_run_failed adv")
    case True
    have idle: "advanced ws r (adv_graph adv) (dispatched adv) w w'"
      if "w_queue w' = w_queue w" "untraced (w_store w') = untraced (w_store w)" for w'
      by (rule post [where ms = "[]"]) (simp_all add: that assms(3) [OF True])
    show ?thesis
      unfolding join_advance_def Let_def if_P [OF True] by (intro vc idle) simp_all
  next
    case False
    have all: "advanced ws r (adv_graph adv) (dispatched adv) w w'"
      if "w_queue w' = (w_queue w)\<lparr>mq_messages := (mq_messages (w_queue w) @ xs) @ ys\<rparr>"
        and "untraced (w_store w') = untraced (w_store w)"
        and "map task_target xs = map (\<lambda>n. Some (r, sn_node_id n)) (adv_newly_ready adv)"
        and "map task_target ys = map (\<lambda>n. Some (r, n))
          (case adv_dispatch_synthesizer adv of None \<Rightarrow> [] | Some t \<Rightarrow> [sn_node_id t])" for xs ys w'
      by (rule post [where ms = "xs @ ys"])
        (use that task_nodes_targets [OF that(3)] task_nodes_targets [OF that(4)] in
          \<open>simp_all add: dispatched_def split: option.splits\<close>)
    show ?thesis
      unfolding join_advance_def Let_def if_not_P [OF False]
      by (rule vc_eseq, rule vc_dispatch_nodes, rule vc_eseq, rule vc_dispatch_synthesizer, intro vc)
        (simp_all add: assms(2) all)
  qed
qed


text \<open>The report an event carries for the run, as a node and its status.\<close>

definition reports_of :: "string \<Rightarrow> EventEnvelope \<Rightarrow> (string \<times> SubTaskStatus) list" where
  "reports_of r envelope =
     (case ev_class (en_event envelope) of
        SubAgentCompletedEvent run_id node_id status \<Rightarrow>
          if run_id \<noteq> r then []
          else if status = ''completed'' then [(node_id, SubTaskStatus.COMPLETED)]
          else if status = ''failed'' then [(node_id, SubTaskStatus.FAILED)]
          else []
      | _ \<Rightarrow> [])"

text \<open>A sub-agent event of the run \<open>r\<close> in the workspace \<open>ws\<close>.\<close>

definition concerns :: "string \<Rightarrow> string \<Rightarrow> EventEnvelope \<Rightarrow> bool" where
  "concerns ws r envelope \<longleftrightarrow>
     ev_workspace_id (en_event envelope) = ws \<and>
     (case ev_class (en_event envelope) of
        SubAgentTaskEvent run_id _ \<Rightarrow> run_id = r
      | SubAgentCompletedEvent run_id _ _ \<Rightarrow> run_id = r
      | _ \<Rightarrow> False)"

abbreviation advances :: "string \<Rightarrow> string \<Rightarrow> TaskGraph \<Rightarrow> (string \<times> SubTaskStatus) list \<Rightarrow> world \<Rightarrow> world \<Rightarrow> bool" where
  "advances ws r g reports w \<equiv>
     advanced ws r (fst (advance_all g reports)) (snd (advance_all g reports)) w"

lemma advance_all_single [simp]:
  "advance_all g [(i, s)] = (adv_graph (plan_advance g i s), dispatched (plan_advance g i s))"
  by (simp add: Let_def)

lemma already_processed_same:
  "adv_already_processed (plan_advance g i s) \<Longrightarrow>
     adv_graph (plan_advance g i s) = g \<and> dispatched (plan_advance g i s) = []"
  by (cases rule: plan_advance_cases [of g i s]) (simp_all add: dispatched_def)

lemma join_report_advances:
  assumes g: "get_task_graph ws r (w_store w) = Some g"
    and key: "tg_workspace_id g = ws" "tg_plan_id g = r" and ws: "ev_workspace_id (en_event envelope) = ws"
  shows "wp (join_report env envelope r i reported s)
    (\<lambda>_. advances ws r g [(i, s)] w) (\<lambda>_. advances ws r g [(i, s)] w) w"
proof -
  let ?adv = "plan_advance g i s"
  let ?w1 = "w\<lparr>w_store := save_task_graph (adv_graph ?adv) (w_store w)\<rparr>"
  have stored: "get_task_graph ws r (w_store ?w1) = Some (adv_graph ?adv)"
    by (simp add: key advance_keeps_key)
  have rest: "advances ws r g [(i, s)] w w'"
    if "advanced ws r (adv_graph ?adv) (dispatched ?adv) w1 w'" and "w_queue w1 = w_queue w" for w1 w'
    using that by (simp add: advanced_def Let_def)
  show ?thesis
  proof (cases "adv_already_processed ?adv")
    case True
    have "advances ws r g [(i, s)] w w'"
      if "w_queue w' = w_queue w" "untraced (w_store w') = untraced (w_store ?w1)" for w'
      using that True stored untraced_reads(4) [OF that(2)] already_processed_same [OF True]
      by (auto simp: advanced_def intro: exI [of _ "[]"])
    then show ?thesis
      unfolding join_report_def Let_def ws
      by (intro vc_ebind vc_store_run_advance [OF g]) (simp only: option.case True if_True, intro vc, simp)
  next
    case False
    have join: "wp (join_advance env envelope r i ?adv) (\<lambda>_. advances ws r g [(i, s)] w)
        (\<lambda>_. advances ws r g [(i, s)] w) w2"
      if "get_task_graph ws r (w_store w2) = Some (adv_graph ?adv)" and "w_queue w2 = w_queue w" for w2
      by (rule wp_mono [OF join_advance_advances [OF that(1)]])
        (use that(2) key rest dispatched_unless_failed in \<open>auto simp: advance_keeps_key\<close>)
    show ?thesis
      unfolding join_report_def Let_def ws
      apply (intro vc_ebind vc_store_run_advance [OF g])
      apply (simp only: option.case False if_False)
      apply (intro vc_eseq vc_if vc_store vc_ret join)
         apply (simp_all add: key advance_keeps_key)
      done
  qed
qed

lemma handle_completed_advances:
  assumes "get_task_graph ws r (w_store w) = Some g"
    and "tg_workspace_id g = ws" "tg_plan_id g = r" and "ev_workspace_id (en_event envelope) = ws"
    and "ev_class (en_event envelope) = SubAgentCompletedEvent r i status"
  shows "wp (handle_completed env envelope r i status)
    (\<lambda>_. advances ws r g (reports_of r envelope) w) (\<lambda>_. advances ws r g (reports_of r envelope) w) w"
proof (cases "status = ''completed'' \<or> status = ''failed''")
  case True
  then show ?thesis
    unfolding handle_completed_def using join_report_advances [OF assms(1-4)]
    by (auto simp: reports_of_def assms(5) simp del: advance_all.simps)
next
  case False
  then have "reports_of r envelope = []" by (simp add: reports_of_def assms(5))
  with False show ?thesis
    unfolding handle_completed_def
    by simp (intro vc, rule advancedI [where ms = "[]"], simp_all add: assms(1))
qed


lemma advanced_kept:
  assumes "get_task_graph ws r (w_store w') = Some g" and "w_queue w' = w_queue w"
  shows "advanced ws r g [] w w'"
  using assms by (auto simp: advanced_def intro: exI [of _ "[]"])

lemma advanced_other:
  assumes "get_task_graph ws r (w_store w') = Some g" and "w_queue w' = mq_enqueue m (w_queue w)"
    and "task_target m = None"
  shows "advanced ws r g [] w w'"
  using assms by (auto simp: advanced_def mq_enqueue_def intro: exI [of _ "[m]"])

lemmas advanced_idle = advanced_kept advanced_other

text \<open>Planning or resuming a node starts no other node and leaves the graph alone, however it ends.\<close>

lemma resume_advances:
  assumes "get_task_graph ws r (w_store w) = Some g"
  shows "wp (resume_existing_subplan env envelope h node sub_plan)
    (\<lambda>_. advanced ws r g [] w) (\<lambda>_. advanced ws r g [] w) w"
  unfolding resume_existing_subplan_def Let_def
  by (intro vc) (auto intro: advanced_idle simp: assms not_task_target)

lemma plan_node_advances:
  assumes "get_task_graph ws r (w_store w) = Some g"
  shows "wp (plan_node env envelope h node run_id snapshot)
    (\<lambda>_. advanced ws r g [] w) (\<lambda>_. advanced ws r g [] w) w"
  unfolding plan_node_def Let_def
  by (intro vc vc_io) (auto intro: advanced_idle simp: assms not_task_target)

lemma handle_task_advances:
  assumes "get_task_graph ws r (w_store w) = Some g"
  shows "wp (handle_task env envelope run_id node_id)
    (\<lambda>_. advanced ws r g [] w) (\<lambda>_. advanced ws r g [] w) w"
proof -
  have trace: "wp (coord_trace env ev n m d) (\<lambda>_. advanced ws r g [] w) (\<lambda>_. advanced ws r g [] w) w" for ev n m d
    by (intro vc) (auto intro: advanced_idle simp: assms)
  show ?thesis
    unfolding handle_task_def Let_def
    by (intro vc_ebind vc_store_get vc_option vc_if trace resume_advances [OF assms] plan_node_advances [OF assms])
qed

lemma coordinate_advances:
  assumes "get_task_graph ws r (w_store w) = Some g" and "tg_workspace_id g = ws" "tg_plan_id g = r"
    and "concerns ws r envelope"
  shows "wp (coordinate env envelope)
    (\<lambda>_. advances ws r g (reports_of r envelope) w) (\<lambda>_. advances ws r g (reports_of r envelope) w) w"
  using assms(4) handle_task_advances [OF assms(1)] handle_completed_advances [OF assms(1-3)]
  by (cases "ev_class (en_event envelope)") (auto simp: coordinate_def concerns_def reports_of_def)


section \<open>Any sequence of events\<close>

text \<open>The events one after the other; as in the loop, an event that fails does not stop the next.\<close>

definition coordinated :: "app_env \<Rightarrow> EventEnvelope list \<Rightarrow> (world, unit) eff" where
  "coordinated env envelopes = efor envelopes (\<lambda>en. catch (coordinate env en) (\<lambda>_. ret ()))"

lemma advance_all_append:
  "advance_all g (xs @ ys) =
     (let (h, ns) = advance_all g xs; (k, ms) = advance_all h ys in (k, ns @ ms))"
  by (induction g xs rule: advance_all.induct) (auto simp: Let_def split: prod.splits)

lemma advance_all_key:
  "tg_plan_id (fst (advance_all g rs)) = tg_plan_id g" "tg_workspace_id (fst (advance_all g rs)) = tg_workspace_id g"
  by (induction g rs rule: advance_all.induct) (auto simp: Let_def advance_keeps_key split: prod.splits)

lemma coordinated_advances:
  assumes "get_task_graph ws r (w_store w) = Some g" and "tg_workspace_id g = ws" "tg_plan_id g = r"
    and "\<forall>en \<in> set envelopes. concerns ws r en"
  shows "wp (coordinated env envelopes)
    (\<lambda>_. advances ws r g (concat (map (reports_of r) envelopes)) w) (\<lambda>_ _. False) w"
  using assms
proof (induction envelopes arbitrary: g w)
  case Nil
  then show ?case by (simp add: coordinated_def wp_ret advanced_refl)
next
  case (Cons en ens)
  let ?h = "fst (advance_all g (reports_of r en))"
  have step: "wp (catch (coordinate env en) (\<lambda>_. ret ())) (\<lambda>_. advances ws r g (reports_of r en) w) (\<lambda>_ _. False) w"
    unfolding wp_catch wp_ret by (rule coordinate_advances [OF Cons.prems(1-3)]) (use Cons.prems(4) in simp)
  have rest: "wp (coordinated env ens)
      (\<lambda>_. advances ws r g (concat (map (reports_of r) (en # ens))) w) (\<lambda>_ _. False) w1"
    if w1: "advances ws r g (reports_of r en) w w1" for w1
  proof -
    have "get_task_graph ws r (w_store w1) = Some ?h" using w1 by (simp add: advanced_def)
    from Cons.IH [OF this] Cons.prems(2-4)
    have "wp (coordinated env ens) (\<lambda>_. advances ws r ?h (concat (map (reports_of r) ens)) w1) (\<lambda>_ _. False) w1"
      by (simp add: advance_all_key)
    then show ?thesis
      by (rule wp_mono) (use advanced_trans [OF w1] in \<open>simp_all add: advance_all_append Let_def split_beta\<close>)
  qed
  have "wp (eseq (catch (coordinate env en) (\<lambda>_. ret ())) (coordinated env ens))
      (\<lambda>_. advances ws r g (concat (map (reports_of r) (en # ens))) w) (\<lambda>_ _. False) w"
    unfolding wp_eseq by (rule wp_mono [OF step rest])
  then show ?case by (simp add: coordinated_def)
qed



section \<open>From the trigger on\<close>

text \<open>The ids of the nodes a workflow declares, the synthesizer last.\<close>

definition declared_ids :: "WorkflowDefinition \<Rightarrow> string list" where
  "declared_ids workflow =
     (case wf_orchestration workflow of
        None \<Rightarrow> [ROOT_NODE_ID]
      | Some orchestration \<Rightarrow>
          if oo_default_graph orchestration = [] then [ROOT_NODE_ID]
          else map (\<lambda>(index, d). or_str (od_node d) (''node_'' @ nat_str index))
                 (enumerate 0 (oo_default_graph orchestration))
               @ (case oo_synthesizer orchestration of
                    None \<Rightarrow> [] | Some d \<Rightarrow> [or_str (od_node d) SYNTHESIZER_NODE_ID]))"

lemma build_node_id: "build_node sk flow i deps d = Inr n \<Longrightarrow> sn_node_id n = or_str (od_node d) i"
  by (auto simp: build_node_def Let_def split: if_splits)

lemma build_nodes_ids:
  "build_nodes sk flow defs = Inr ns \<Longrightarrow>
     map sn_node_id ns = map (\<lambda>(index, d). or_str (od_node d) (''node_'' @ nat_str index)) (enumerate 0 defs)"
  unfolding build_nodes_def smap_Inr_iff
  by (induction rule: list_all2_induct) (auto dest: build_node_id)

lemma wp_build_orchestrated:
  "wp (build_orchestrated_graph env cx workflow)
    (\<lambda>g _. task_ids g = declared_ids workflow \<and> tg_workspace_id g = cx_workspace_id cx) (\<lambda>_ _. True) i"
  by (auto simp: build_orchestrated_graph_def build_task_graph_def new_task_graph_def wp_rules declared_ids_def
      synth_list_def build_nodes_ids build_node_id split: option.splits sum.splits)

text \<open>
  A trigger of an orchestrated workflow either stops before it has stored a graph, or stores the graph
  with its ready nodes claimed and enqueues a task event for each of them.
\<close>

definition started :: "string \<Rightarrow> string \<Rightarrow> string list \<Rightarrow> world \<Rightarrow> world \<Rightarrow> bool" where
  "started ws r ids w w' \<longleftrightarrow>
     get_task_graph ws r (w_store w') = None \<and> w_queue w' = w_queue w \<or>
     (\<exists>g. task_ids g = ids \<and> tg_workspace_id g = ws \<and> tg_plan_id g = r \<and>
        advanced ws r (fst (claim_ready g)) (map sn_node_id (snd (claim_ready g))) w w')"

lemma claim_ready_key [simp]:
  "tg_workspace_id (fst (claim_ready g)) = tg_workspace_id g" "tg_plan_id (fst (claim_ready g)) = tg_plan_id g"
  by (simp_all add: claim_ready_def Let_def)

lemma vc_claim:
  assumes "get_task_graph ws r (w_store w) = Some g"
    and "Q (snd (claim_ready g)) (w\<lparr>w_store := save_task_graph (fst (claim_ready g)) (w_store w)\<rparr>)"
  shows "wp (store_run (claim_ready_nodes ws r)) Q E w"
  using assms by (simp add: wp_store_run claim_ready_nodes_def split_beta)

lemma dispatch_all_tasks:
  "(\<And>ms w'. task_nodes ms = map (\<lambda>n. (r, sn_node_id n)) ns \<Longrightarrow> queue_appends w ms w' \<Longrightarrow>
      untraced (w_store w') = untraced (w_store w) \<Longrightarrow> Q () w') \<Longrightarrow>
   wp (efor ns (\<lambda>node.
         ebind (dispatch_task env envelope ws pr r (sn_node_id node)) (\<lambda>task_event.
         domain_trace env envelope nm (msg node) (data node task_event) p a))) Q E w"
proof (induction ns arbitrary: w)
  case Nil
  from Nil [of "[]" w] show ?case by (simp add: wp_ret)
next
  case (Cons n ns)
  have "wp (efor ns (\<lambda>node.
         ebind (dispatch_task env envelope ws pr r (sn_node_id node)) (\<lambda>task_event.
         domain_trace env envelope nm (msg node) (data node task_event) p a))) Q E w1"
    if "task_target m = Some (r, sn_node_id n)" and "w_queue w1 = mq_enqueue m (w_queue w)"
      and "untraced (w_store w1) = untraced (w_store w)" for m w1
    by (rule Cons.IH, rule Cons.prems [of "m # _"])
      (use that in \<open>simp_all add: mq_enqueue_def task_nodes_def map_filter_simps\<close>)
  then show ?case
    unfolding efor.simps by (intro vc_eseq vc_ebind vc_dispatch_task vc_domain_trace) simp
qed


lemma vc_unless_terminal:
  assumes "\<And>b w'. w_queue w' = w_queue w \<Longrightarrow> untraced (w_store w') = untraced (w_store w) \<Longrightarrow> Q b w'"
    and "\<And>e w'. w_queue w' = w_queue w \<Longrightarrow> untraced (w_store w') = untraced (w_store w) \<Longrightarrow> E e w'"
  shows "wp (unless_terminal env envelope flow r (io_do m)) Q E w"
proof -
  have handler: "wp (case e of AgentRunAlreadyTerminalError run_id status \<Rightarrow>
      eseq (trace_terminal_run_skip env envelope flow r status) (ret False) | _ \<Rightarrow> raise e) Q E (w\<lparr>w_io := i\<rparr>)" for e i
    by (cases e) (auto simp: trace_terminal_run_skip_def assms intro!: vc)
  show ?thesis
    unfolding unless_terminal_def
    by (intro vc_catch vc_eseq vc_io vc_ret) (simp_all add: assms handler)
qed

lemma vc_build_orchestrated:
  assumes "\<And>g i. task_ids g = declared_ids flow \<Longrightarrow> tg_workspace_id g = cx_workspace_id cx \<Longrightarrow> Q g (w\<lparr>w_io := i\<rparr>)"
    and "\<And>e i. E e (w\<lparr>w_io := i\<rparr>)"
  shows "wp (io_do (build_orchestrated_graph env cx flow)) Q E w"
  unfolding wp_io_do by (rule wp_mono [OF wp_build_orchestrated]) (use assms in auto)

lemma started_none:
  "w_queue w' = w_queue w \<Longrightarrow> untraced (w_store w') = untraced (w_store w) \<Longrightarrow>
     get_task_graph ws r (w_store w) = None \<Longrightarrow> started ws r ids w w'"
  using untraced_reads(4) [of "w_store w'" "w_store w"] by (simp add: started_def)

lemma handle_orchestrated_starts:
  assumes none: "get_task_graph ws r (w_store w) = None" and ws: "cx_workspace_id (cs_context snapshot) = ws"
  shows "wp (handle_orchestrated env envelope flow snapshot r)
    (\<lambda>_. started ws r (declared_ids flow) w) (\<lambda>_. started ws r (declared_ids flow) w) w"
proof -
  let ?I = "started ws r (declared_ids flow) w"
  have claimed: "?I w'"
    if "task_ids g = declared_ids flow" "tg_workspace_id g = ws" "tg_plan_id g = r"
      and "get_task_graph ws r (w_store w') = Some (fst (claim_ready g))"
      and "queue_appends w ms w'" "task_nodes ms = map (Pair r) (map sn_node_id (snd (claim_ready g)))" for g ms w'
    unfolding started_def
    by (intro disjI2 exI [of _ g]) (use that in \<open>auto simp: advanced_def intro!: exI [of _ ms]\<close>)
  have rest: "wp (if ready = [] then
        (let message = ''Orchestration produced no runnable node.'' in
         eseq (io_do (record_run_failed env ws r message))
           (domain_trace env envelope ''orchestration.empty'' message data (Some r) None))
      else efor ready (\<lambda>node.
         ebind (dispatch_task env envelope ws pr r (sn_node_id node)) (\<lambda>task_event.
         domain_trace env envelope nm (msg node) (dt node task_event) p a)))
      (\<lambda>_. ?I) (\<lambda>_. ?I) w2"
    if g: "task_ids g = declared_ids flow" "tg_workspace_id g = ws" "tg_plan_id g = r"
      and ready: "ready = snd (claim_ready g)"
      and w2: "get_task_graph ws r (w_store w2) = Some (fst (claim_ready g))" "w_queue w2 = w_queue w"
    for g ready data pr nm msg dt p a w2
  proof (cases "ready = []")
    case True
    have "?I w'" if "w_queue w' = w_queue w2" "untraced (w_store w') = untraced (w_store w2)" for w'
      by (rule claimed [OF g, where ms = "[]"])
        (use that w2 ready True untraced_reads(4) [OF that(2)] in simp_all)
    then show ?thesis
      unfolding if_P [OF True] Let_def by (intro vc) simp_all
  next
    case False
    have "?I w'" if "task_nodes ms = map (\<lambda>n. (r, sn_node_id n)) ready" "queue_appends w2 ms w'"
      "untraced (w_store w') = untraced (w_store w2)" for ms w'
      by (rule claimed [OF g, where ms = ms])
        (use that w2 ready untraced_reads(4) [OF that(3)] in simp_all)
    then show ?thesis
      unfolding if_not_P [OF False] by (intro dispatch_all_tasks)
  qed
  have fresh: "wp (ebind (store_run (claim_ready_nodes ws r)) (\<lambda>ready. k ready)) (\<lambda>_. ?I) (\<lambda>_. ?I) w2"
    if "get_task_graph ws r (w_store w2) = Some g" and "tg_workspace_id g = ws" "tg_plan_id g = r"
      and "wp (k (snd (claim_ready g))) (\<lambda>_. ?I) (\<lambda>_. ?I)
        (w2\<lparr>w_store := save_task_graph (fst (claim_ready g)) (w_store w2)\<rparr>)" for g k w2
    unfolding wp_ebind by (rule vc_claim, rule that(1), rule that(4))
  have store: "wp (eseq (store_do (save_context_snapshot c)) (eseq (store_do (save_task_graph g))
      (eseq (domain_trace env envelope n1 m1 d1 p1 a1)
      (ebind (store_run (claim_ready_nodes ws r)) (\<lambda>ready.
        if ready = [] then
          eseq (io_do (record_run_failed env ws r ''Orchestration produced no runnable node.''))
            (domain_trace env envelope ''orchestration.empty'' ''Orchestration produced no runnable node.'' data
              (Some r) None)
        else efor ready (\<lambda>node.
           ebind (dispatch_task env envelope ws pr r (sn_node_id node)) (\<lambda>task_event.
           domain_trace env envelope nm (msg node) (dt node task_event) p a)))))))
      (\<lambda>_. ?I) (\<lambda>_. ?I) w2"
    if g: "task_ids g = declared_ids flow" "tg_workspace_id g = ws" "tg_plan_id g = r"
      and w2: "w_queue w2 = w_queue w" for c g n1 m1 d1 p1 a1 data pr nm msg dt p a w2
    by (intro vc_eseq vc_store vc_domain_trace fresh [of _ g] rest [unfolded Let_def, OF g refl])
      (simp_all add: g w2)
  show ?thesis
    unfolding handle_orchestrated_def Let_def ws
    apply (rule vc_ebind, rule vc_store_get)
    apply (simp only: none not_True_eq_False if_False simp_thms)
    apply (rule vc_ebind, rule vc_unless_terminal)
     apply (rule vc_if)
      apply (rule vc_ret, rule started_none, assumption, assumption, rule none)
     apply (rule vc_ebind, rule vc_build_orchestrated)
      apply (rule store)
         apply (simp_all add: ws synth_list_def started_none none)
    done
qed



section \<open>A run from its trigger\<close>

text \<open>
  The events of an orchestrated run: its trigger, possibly redelivered, and the sub-agent events. Each
  trigger is handled with the context hydrated for it.
\<close>

definition run_event ::
  "app_env \<Rightarrow> WorkflowDefinition \<Rightarrow> (EventEnvelope \<Rightarrow> ContextSnapshot) \<Rightarrow> string \<Rightarrow> EventEnvelope
   \<Rightarrow> (world, unit) eff" where
  "run_event env flow snapshot_of r envelope =
     (case ev_class (en_event envelope) of
        SubAgentTaskEvent _ _ \<Rightarrow> coordinate env envelope
      | SubAgentCompletedEvent _ _ _ \<Rightarrow> coordinate env envelope
      | _ \<Rightarrow> handle_orchestrated env envelope flow (snapshot_of envelope) r)"

definition run_events ::
  "app_env \<Rightarrow> WorkflowDefinition \<Rightarrow> (EventEnvelope \<Rightarrow> ContextSnapshot) \<Rightarrow> string \<Rightarrow> EventEnvelope list
   \<Rightarrow> (world, unit) eff" where
  "run_events env flow snapshot_of r envelopes =
     efor envelopes (\<lambda>en. catch (run_event env flow snapshot_of r en) (\<lambda>_. ret ()))"

text \<open>An event of the run \<open>(ws, r)\<close>: a sub-agent event that concerns it or a trigger in its workspace.\<close>

definition of_run :: "string \<Rightarrow> string \<Rightarrow> (EventEnvelope \<Rightarrow> ContextSnapshot) \<Rightarrow> EventEnvelope \<Rightarrow> bool" where
  "of_run ws r snapshot_of envelope \<longleftrightarrow>
     concerns ws r envelope \<or>
     \<not> is_SubAgentTaskEvent (ev_class (en_event envelope)) \<and>
     \<not> is_SubAgentCompletedEvent (ev_class (en_event envelope)) \<and>
     cx_workspace_id (cs_context (snapshot_of envelope)) = ws"

definition in_progress :: "string \<Rightarrow> string \<Rightarrow> string list \<Rightarrow> world \<Rightarrow> world \<Rightarrow> bool" where
  "in_progress ws r ids w w' \<longleftrightarrow>
     get_task_graph ws r (w_store w') = None \<and> w_queue w' = w_queue w \<or>
     (\<exists>g rs. task_ids g = ids \<and> tg_workspace_id g = ws \<and> tg_plan_id g = r \<and>
        (\<forall>(i, s) \<in> set rs. s \<noteq> SubTaskStatus.PENDING) \<and>
        advanced ws r (fst (advance_all (fst (claim_ready g)) rs))
          (map sn_node_id (snd (claim_ready g)) @ snd (advance_all (fst (claim_ready g)) rs)) w w')"

lemma reports_of_settled: "(i, s) \<in> set (reports_of r en) \<Longrightarrow> s \<noteq> SubTaskStatus.PENDING"
  by (auto simp: reports_of_def split: event_class.splits if_splits)

lemma coordinate_without_graph:
  assumes "get_task_graph ws r (w_store w) = None" and "concerns ws r envelope"
  shows "wp (coordinate env envelope)
    (\<lambda>_ w'. get_task_graph ws r (w_store w') = None \<and> w_queue w' = w_queue w)
    (\<lambda>_ w'. get_task_graph ws r (w_store w') = None \<and> w_queue w' = w_queue w) w"
proof -
  have adv: "wp (store_run (advance_task_graph ws r i s)) Q E w \<longleftrightarrow> Q None w" for i s Q E
    using assms(1) by (simp add: wp_store_run advance_task_graph_def)
  have trace: "wp (coord_trace env ev n m d)
      (\<lambda>_ w'. get_task_graph ws r (w_store w') = None \<and> w_queue w' = w_queue w)
      (\<lambda>_ w'. get_task_graph ws r (w_store w') = None \<and> w_queue w' = w_queue w) w" for ev n m d
    by (intro vc) (simp add: assms(1))
  show ?thesis
    using assms(2)
    by (cases "ev_class (en_event envelope)")
      (simp_all add: concerns_def coordinate_def handle_task_def handle_completed_def join_report_def Let_def
        wp_ebind wp_store_get assms(1) adv trace)
qed


lemma run_event_progresses:
  assumes now: "in_progress ws r (declared_ids flow) w w1" and ev: "of_run ws r snapshot_of envelope"
  shows "wp (catch (run_event env flow snapshot_of r envelope) (\<lambda>_. ret ()))
    (\<lambda>_. in_progress ws r (declared_ids flow) w) (\<lambda>_ _. False) w1"
proof -
  let ?J = "in_progress ws r (declared_ids flow) w"
  have "wp (run_event env flow snapshot_of r envelope) (\<lambda>_. ?J) (\<lambda>_. ?J) w1"
  proof (cases "concerns ws r envelope")
    case True
    then have run: "run_event env flow snapshot_of r envelope = coordinate env envelope"
      by (auto simp: run_event_def concerns_def split: event_class.splits)
    show ?thesis
    proof (cases "get_task_graph ws r (w_store w1)")
      case None
      then have "w_queue w1 = w_queue w" using now by (auto simp: in_progress_def advanced_def)
      then show ?thesis
        unfolding run by (intro wp_mono [OF coordinate_without_graph [OF None True]]) (simp_all add: in_progress_def)
    next
      case (Some h)
      with now obtain g rs where g: "task_ids g = declared_ids flow" "tg_workspace_id g = ws" "tg_plan_id g = r"
        and rs: "\<forall>(i, s) \<in> set rs. s \<noteq> SubTaskStatus.PENDING"
        and h: "h = fst (advance_all (fst (claim_ready g)) rs)"
        and adv: "advanced ws r h (map sn_node_id (snd (claim_ready g)) @ snd (advance_all (fst (claim_ready g)) rs)) w w1"
        by (auto simp: in_progress_def advanced_def)
      have "?J w2" if w2: "advances ws r h (reports_of r envelope) w1 w2" for w2
        unfolding in_progress_def
        by (intro disjI2 exI [of _ g] exI [of _ "rs @ reports_of r envelope"])
          (use g rs reports_of_settled advanced_trans [OF adv w2] in
            \<open>auto simp: advance_all_append split_beta Let_def h\<close>)
      then show ?thesis
        unfolding run
        by (intro wp_mono [OF coordinate_advances [OF Some]]) (simp_all add: h g advance_all_key True)
    qed
  next
    case False
    with ev have ws: "cx_workspace_id (cs_context (snapshot_of envelope)) = ws"
      and run: "run_event env flow snapshot_of r envelope = handle_orchestrated env envelope flow (snapshot_of envelope) r"
      by (auto simp: of_run_def run_event_def split: event_class.splits)
    show ?thesis
    proof (cases "get_task_graph ws r (w_store w1)")
      case None
      then have q: "w_queue w1 = w_queue w" using now by (auto simp: in_progress_def advanced_def)
      have "?J w2" if "started ws r (declared_ids flow) w1 w2" for w2
        using that q unfolding started_def in_progress_def advanced_def
        by (elim disjE exE) (fastforce intro: exI [of _ "[]"])+
      then show ?thesis
        unfolding run by (intro wp_mono [OF handle_orchestrated_starts [OF None ws]])
    next
      case (Some h)
      have "?J w2" if "w_queue w2 = w_queue w1" "untraced (w_store w2) = untraced (w_store w1)" for w2
        using now untraced_reads(4) [OF that(2)] unfolding in_progress_def advanced_def that(1) by simp
      then show ?thesis
        unfolding run handle_orchestrated_def Let_def ws
        by (intro vc_ebind vc_store_get) (simp add: Some, intro vc, simp)
    qed
  qed
  then show ?thesis unfolding wp_catch wp_ret by (rule wp_mono) simp_all
qed

lemma run_events_progress:
  assumes "in_progress ws r (declared_ids flow) w w1" and "\<forall>en \<in> set envelopes. of_run ws r snapshot_of en"
  shows "wp (run_events env flow snapshot_of r envelopes) (\<lambda>_. in_progress ws r (declared_ids flow) w) (\<lambda>_ _. False) w1"
  using assms
proof (induction envelopes arbitrary: w1)
  case Nil
  then show ?case by (simp add: run_events_def wp_ret)
next
  case (Cons en ens)
  have "wp (catch (run_event env flow snapshot_of r en) (\<lambda>_. ret ()))
      (\<lambda>_. in_progress ws r (declared_ids flow) w) (\<lambda>_ _. False) w1"
    by (rule run_event_progresses [OF Cons.prems(1)]) (use Cons.prems(2) in simp)
  then show ?case
    unfolding run_events_def efor.simps wp_eseq
    by (rule wp_mono) (use Cons.IH Cons.prems(2) in \<open>simp_all add: run_events_def\<close>)
qed

text \<open>So every node of the workflow is enqueued at most once, and nothing else is.\<close>

lemma in_progress_once:
  assumes "in_progress ws r ids w w'" and "distinct ids"
  shows "\<exists>ms. queue_appends w ms w' \<and> distinct (task_nodes ms) \<and> set (task_nodes ms) \<subseteq> Pair r ` set ids"
  using assms(1) unfolding in_progress_def
proof (elim disjE conjE exE)
  assume "w_queue w' = w_queue w"
  then show ?thesis by (intro exI [of _ "[]"]) simp
next
  fix g rs
  assume g: "task_ids g = ids" and rs: "\<forall>(i, s) \<in> set rs. s \<noteq> SubTaskStatus.PENDING"
    and adv: "advanced ws r (fst (advance_all (fst (claim_ready g)) rs))
      (map sn_node_id (snd (claim_ready g)) @ snd (advance_all (fst (claim_ready g)) rs)) w w'"
  let ?ns = "map sn_node_id (snd (claim_ready g)) @ snd (advance_all (fst (claim_ready g)) rs)"
  have d: "distinct (task_ids g)" unfolding g by (rule assms(2))
  obtain ms where ms: "queue_appends w ms w'" "task_nodes ms = map (Pair r) ?ns"
    using adv unfolding advanced_def by blast
  have "distinct (map (Pair r) ?ns)"
    unfolding distinct_map using claim_and_reports_once(1) [OF d rs] by (simp add: inj_on_def)
  moreover have "set (map (Pair r) ?ns) \<subseteq> Pair r ` set ids"
    using claim_and_reports_once(2) [OF d rs] unfolding g set_map by (rule image_mono)
  ultimately show ?thesis using ms(1) unfolding ms(2) [symmetric] by blast
qed

end
