(* ===== verification/Run_Properties.thy ===== *)
theory Run_Properties
  imports Sample_World Coordinator_Runs
begin

text \<open>
  Properties of orchestrated runs, \<open>SubAgentCoordinator\<close> and \<open>RecursionRunner\<close>: how often a node is started,
  what the reports of its nodes do to a run, and what a whole run of the loop guarantees.
\<close>

lemma sample_graph_names [simp]: "tg_workspace_id sample_graph = ''ws''" "tg_plan_id sample_graph = ''run''"
  by (simp_all add: sample_graph_def)

lemma sample_stored_graph [simp]:
  "get_task_graph ''ws'' ''run'' sample_store = Some (fst (claim_ready sample_graph))"
  by (simp add: sample_store_def save_task_graph_def save_context_snapshot_def get_task_graph_def)

text \<open>
  C2: Every node of an orchestrated run is started at most once. Take a run that has no task graph yet and
  any sequence of its events, its trigger and the task and completion events of its nodes, in any order,
  with any redeliveries, with the failures of the planner, the API and the handlers contained as the loop
  contains them. The messages these events append to the queue hold at most one task event per node the
  workflow declares, and none for any other node.
\<close>

theorem orchestrated_nodes_started_once:
  assumes "get_task_graph ws r (w_store w) = None" and "distinct (declared_ids flow)"
    and "\<forall>en \<in> set envelopes. of_run ws r snapshot_of en"
  shows "wp (run_events env flow snapshot_of r envelopes)
    (\<lambda>_ w'. \<exists>ms. w_queue w' = (w_queue w)\<lparr>mq_messages := mq_messages (w_queue w) @ ms\<rparr> \<and>
       distinct (task_nodes ms) \<and> set (task_nodes ms) \<subseteq> Pair r ` set (declared_ids flow))
    (\<lambda>_ _. False) w"
proof (rule wp_mono [OF run_events_progress [OF _ assms(3)]])
  show "in_progress ws r (declared_ids flow) w w" by (simp add: in_progress_def assms(1))
qed (use in_progress_once assms(2) in auto)

definition sample_node_def :: "string \<Rightarrow> OrchestrationNodeDef" where
  "sample_node_def i =
     \<lparr>od_node = i, od_skill = Some ''sprint_planning'', od_skills = [], od_objective = ''plan'', od_context_scope = [],
      od_depends_on = [], od_model_tier = None\<rparr>"

definition sample_orchestrated :: WorkflowDefinition where
  "sample_orchestrated =
     \<lparr>wf_id = ''flow'', wf_trigger_types = [''manual.review_sprint_plan''], wf_required_skills = [''sprint_planning''],
      wf_prompt_id = ''flow'', wf_prompt_version = ''1'', wf_goal = ''plan'', wf_default_execution_mode = ''suggest'',
      wf_approval_policy = [], wf_max_recursion_depth = 5,
      wf_orchestration = Some \<lparr>oo_mode = ''static'', oo_default_graph = [sample_node_def ''a'', sample_node_def []],
        oo_synthesizer = Some (sample_node_def [])\<rparr>\<rparr>"

lemma sample_declared: "declared_ids sample_orchestrated = [''a'', ''node_1'', ''synthesizer'']"
  by (simp add: declared_ids_def sample_orchestrated_def sample_node_def_def or_str_def SYNTHESIZER_NODE_ID_def
      enumerate_eq_zip upt_rec) code_simp

theorem orchestrated_nodes_started_once_witness:
  "wp (run_events (sample_env Tool_Raises) sample_orchestrated (\<lambda>_. sample_snapshot True) ''other''
      [sample_envelope DomainEvent, sample_envelope (SubAgentCompletedEvent ''other'' ''a'' ''completed''),
       sample_envelope DomainEvent, sample_envelope (SubAgentCompletedEvent ''other'' ''a'' ''completed'')])
    (\<lambda>_ w'. \<exists>ms. w_queue w' = empty_queue\<lparr>mq_messages := ms\<rparr> \<and> distinct (task_nodes ms) \<and>
       set (task_nodes ms) \<subseteq> {(''other'', ''a''), (''other'', ''node_1''), (''other'', ''synthesizer'')})
    (\<lambda>_ _. False) sample_world"
proof -
  have "get_task_graph ''ws'' ''other'' (w_store sample_world) = None"
    by (simp add: sample_store_def save_task_graph_def save_context_snapshot_def save_plan_def get_task_graph_def
        empty_store_def)
  from orchestrated_nodes_started_once [OF this, of sample_orchestrated
      "[sample_envelope DomainEvent, sample_envelope (SubAgentCompletedEvent ''other'' ''a'' ''completed''),
        sample_envelope DomainEvent, sample_envelope (SubAgentCompletedEvent ''other'' ''a'' ''completed'')]"
      "\<lambda>_. sample_snapshot True" "sample_env Tool_Raises"]
  show ?thesis
    by (simp add: sample_declared of_run_def concerns_def empty_queue_def)
qed

text \<open>
  C12: The coordinator implements the pure task graph. For any sequence of sub-agent events of a run with a
  stored graph, in any order and with any redeliveries, and whether or not planning or the API fail on the
  way, the graph stored in the end is the result of applying the completion reports in that order, and the
  task events appended to the queue are those of the nodes these advances dispatch, in order.
\<close>

theorem coordinator_refines_graph:
  assumes "get_task_graph ws r (w_store w) = Some g" and "tg_workspace_id g = ws" and "tg_plan_id g = r"
    and "\<forall>en \<in> set envelopes. concerns ws r en"
  shows "wp (coordinated env envelopes)
    (\<lambda>_ w'. get_task_graph ws r (w_store w') =
         Some (fst (advance_all g (concat (map (reports_of r) envelopes)))) \<and>
       (\<exists>ms. w_queue w' = (w_queue w)\<lparr>mq_messages := mq_messages (w_queue w) @ ms\<rparr> \<and>
         task_nodes ms = map (Pair r) (snd (advance_all g (concat (map (reports_of r) envelopes))))))
    (\<lambda>_ _. False) w"
  by (rule wp_mono [OF coordinated_advances [OF assms]]) (simp_all add: advanced_def)

theorem coordinator_refines_graph_witness:
  "wp (coordinated (sample_env Tool_Raises)
      [sample_envelope (SubAgentCompletedEvent ''run'' ''a'' ''completed''),
       sample_envelope (SubAgentTaskEvent ''run'' ''b''),
       sample_envelope (SubAgentCompletedEvent ''run'' ''a'' ''completed''),
       sample_envelope (SubAgentCompletedEvent ''run'' ''b'' ''completed'')])
    (\<lambda>_ w'. \<exists>g' ms. get_task_graph ''ws'' ''run'' (w_store w') = Some g' \<and>
       map sn_status (tg_nodes g') = [SubTaskStatus.COMPLETED, SubTaskStatus.COMPLETED, SubTaskStatus.RUNNING] \<and>
       w_queue w' = empty_queue\<lparr>mq_messages := ms\<rparr> \<and> task_nodes ms = [(''run'', ''c'')])
    (\<lambda>_ _. False) sample_world"
proof -
  let ?reports = "[(''a'', SubTaskStatus.COMPLETED), (''a'', SubTaskStatus.COMPLETED), (''b'', SubTaskStatus.COMPLETED)]"
  let ?ens = "[sample_envelope (SubAgentCompletedEvent ''run'' ''a'' ''completed''),
       sample_envelope (SubAgentTaskEvent ''run'' ''b''),
       sample_envelope (SubAgentCompletedEvent ''run'' ''a'' ''completed''),
       sample_envelope (SubAgentCompletedEvent ''run'' ''b'' ''completed'')]"
  have reports: "concat (map (reports_of ''run'') ?ens) = ?reports" by (simp add: reports_of_def)
  have run: "map sn_status (tg_nodes (fst (advance_all (fst (claim_ready sample_graph)) ?reports)))
      = [SubTaskStatus.COMPLETED, SubTaskStatus.COMPLETED, SubTaskStatus.RUNNING]"
    "snd (advance_all (fst (claim_ready sample_graph)) ?reports) = [''c'']" by (code_simp, code_simp)
  have "get_task_graph ''ws'' ''run'' (w_store sample_world) = Some (fst (claim_ready sample_graph))" by simp
  from coordinator_refines_graph [OF this, of ?ens "sample_env Tool_Raises", unfolded reports run(2)]
  show ?thesis
    by (rule wp_mono) (use run(1) in \<open>auto simp: concerns_def empty_queue_def simp del: advance_all.simps\<close>)
qed

text \<open>
  When a node of a stored graph is reported completed and the graph has not recorded that report
  yet, the coordinator stores exactly the advanced graph and appends to the queue exactly one task event
  for every node the advance makes ready, then the synthesizer's if it becomes due, in this order and
  nothing else. Only a failure of the API mirror can raise.
\<close>

theorem completion_dispatches:
  assumes "get_task_graph (ev_workspace_id (en_event envelope)) run_id (w_store w) = Some g"
    and "tg_workspace_id g = ev_workspace_id (en_event envelope)" and "tg_plan_id g = run_id"
    and "\<not> adv_already_processed (plan_advance g node_id SubTaskStatus.COMPLETED)"
  shows "wp (handle_completed env envelope run_id node_id ''completed'')
    (\<lambda>_ w'. get_task_graph (ev_workspace_id (en_event envelope)) run_id (w_store w') =
         Some (adv_graph (plan_advance g node_id SubTaskStatus.COMPLETED)) \<and>
       (\<exists>ms. w_queue w' = (w_queue w)\<lparr>mq_messages := mq_messages (w_queue w) @ ms\<rparr> \<and>
         map task_target ms =
           map (\<lambda>n. Some (run_id, n)) (dispatched (plan_advance g node_id SubTaskStatus.COMPLETED))))
    (\<lambda>_ _. sync_on env) w"
  by (rule handle_completed_completes [OF assms])

theorem completion_dispatches_witness:
  "wp (handle_completed (sample_env Tool_Succeeds) (sample_envelope (SubAgentCompletedEvent ''run'' ''a'' ''completed''))
      ''run'' ''a'' ''completed'')
    (\<lambda>_ w'. \<exists>g'. get_task_graph ''ws'' ''run'' (w_store w') = Some g' \<and>
       map sn_status (tg_nodes g') = [SubTaskStatus.COMPLETED, SubTaskStatus.RUNNING, SubTaskStatus.PENDING])
    (\<lambda>_ _. False) sample_world"
proof (rule wp_mono [OF completion_dispatches [where g = "fst (claim_ready sample_graph)"]], goal_cases)
  case 4
  show ?case by code_simp
next
  case (5 u w')
  have "map sn_status (tg_nodes (adv_graph (plan_advance (fst (claim_ready sample_graph)) ''a'' SubTaskStatus.COMPLETED)))
      = [SubTaskStatus.COMPLETED, SubTaskStatus.RUNNING, SubTaskStatus.PENDING]" by code_simp
  with 5 show ?case by simp
qed (simp_all add: sample_sync_off)



text \<open>
  C14: The event loop terminates on every queue and world, whatever handlers, tools and the API do, and
  with the API mirror off it always returns normally: then the queue is drained and every message that
  was waiting at the start has been settled, acknowledged or failed.
\<close>

theorem runner_settles_everything:
  assumes "\<not> sync_on env"
  shows "fst (run_loop env processed w) = Inr () \<and>
    mq_messages (w_queue (snd (run_loop env processed w))) = [] \<and>
    waiting_ids (w_queue w) \<subseteq> settled_ids (w_queue (snd (run_loop env processed w)))"
  using run_loop_returns [OF assms] run_loop_drains run_loop_settles by blast

theorem runner_settles_everything_witness:
  "fst (run_loop (sample_env Tool_Raises) 0
      (sample_world\<lparr>w_queue := mq_enqueue (sample_message ''m1'') empty_queue\<rparr>)) = Inr () \<and>
   ''m1'' \<in> settled_ids (w_queue (snd (run_loop (sample_env Tool_Raises) 0
      (sample_world\<lparr>w_queue := mq_enqueue (sample_message ''m1'') empty_queue\<rparr>))))"
  using runner_settles_everything [OF sample_sync_off, of Tool_Raises 0
      "sample_world\<lparr>w_queue := mq_enqueue (sample_message ''m1'') empty_queue\<rparr>"]
  by (auto simp: waiting_ids_def mq_enqueue_def empty_queue_def sample_message_def)



end
