(* ===== verification/Boundary_Properties.thy ===== *)
theory Boundary_Properties
  imports Sample_World
begin

text \<open>
  Properties at the runtime's boundaries: the plans the planner lets through, the trigger policy, the
  staleness check, and what is sent to the API.
\<close>

section \<open>A planning environment\<close>

definition sample_skill :: SkillPromptDefinition where
  "sample_skill =
     \<lparr>sk_id = ''sprint_planning'', sk_version = ''1'', sk_name = ''Planning'', sk_description = ''plans'',
      sk_instruction = ''plan'', sk_reasoning_instructions = [], sk_allowed_tools = [''create_workitem''],
      sk_guardrails = [], sk_quality_expectations = [], sk_model_tier = ''pro''\<rparr>"

definition sample_prompt :: WorkflowPromptDefinition where
  "sample_prompt =
     \<lparr>wp_id = ''flow'', wp_version = ''1'', wp_name = ''Flow'', wp_description = ''plans'', wp_model_name = ''gemini-3.1-pro-preview'',
      wp_output_schema = ''AgentPlan'', wp_goal = ''plan'',
      wp_system = ''system'', wp_constraints = [], wp_required_context = [],
      wp_trigger_types = [''manual.review_sprint_plan''], wp_required_skills = [''sprint_planning''],
      wp_default_execution_mode = ''suggest'', wp_approval_policy = [(''create_workitem'', ''suggest_only'')],
      wp_max_recursion_depth = 5, wp_orchestration = None\<rparr>"

definition planning_env :: app_env where
  "planning_env = (sample_env Tool_Succeeds)
     \<lparr>ae_workflow_prompts := [((''flow'', ''1''), sample_prompt)],
      ae_skills := [(''sprint_planning'', sample_skill)],
      ae_generate_plan := (\<lambda>_ _ _ _ _ _ _. ret sample_plan)\<rparr>"

abbreviation sample_flow :: WorkflowDefinition where
  "sample_flow \<equiv> workflow_from_prompt sample_prompt"

lemma sample_planned_plan:
  obtains p i' where
    "create_plan planning_env (sample_context True) ''snap'' sample_flow ''run'' None None None None
       (w_io sample_world) = (Inr p, i')"
    and "map pa_action_id (ap_actions p) = [''a1'', ''a2'']"
    and "map pa_tool_name (ap_actions p) = [''create_workitem'', ''create_workitem'']"
proof -
  have "\<exists>p i'. create_plan planning_env (sample_context True) ''snap'' sample_flow ''run'' None None None None
       (w_io sample_world) = (Inr p, i') \<and> map pa_action_id (ap_actions p) = [''a1'', ''a2''] \<and>
     map pa_tool_name (ap_actions p) = [''create_workitem'', ''create_workitem'']"
    by (simp add: create_plan_def planning_env_def sample_env_def eff_defs get_workflow_prompt_def
        workflow_from_prompt_def sample_prompt_def select_skills_def get_skill_def sample_skill_def
        allowed_tools_for_def select_tools_def get_tool_def tool_approval_policy_def definition_of_def
        sample_tool_definition_def merge_tools_def Let_def ensure_plan_uses_allowed_tools_def
        normalize_plan_for_runtime_def sample_plan_def sample_action_def)
  then show ?thesis by (elim exE conjE) (rule that)
qed


section \<open>Plans\<close>

abbreviation chosen_skills :: "WorkflowDefinition \<Rightarrow> string list option \<Rightarrow> string list" where
  "chosen_skills flow skill_ids \<equiv>
     (case skill_ids of Some ids \<Rightarrow> ids | None \<Rightarrow> wf_required_skills flow)"

text \<open>
  C16: Whatever plan the language model proposes, a plan \<open>create_plan\<close> returns uses only tools that some
  skill selected for it allows, its actions are pending, belong to it and have pairwise different
  idempotency keys; a plan that uses another tool is never returned.
\<close>

theorem planned_actions_authorized:
  assumes "create_plan env cx ref flow run_id plan_id skill_ids scope tier i = (Inr plan, i')"
  shows "(\<exists>skills. select_skills (ae_skills env) (chosen_skills flow skill_ids) = Inr skills \<and>
       (\<forall>a \<in> set (ap_actions plan). \<exists>s \<in> set skills. pa_tool_name a \<in> set (sk_allowed_tools s))) \<and>
     distinct (map pa_idempotency_key (ap_actions plan)) \<and>
     (\<forall>a \<in> set (ap_actions plan). pa_status a = ActionStatus.PENDING \<and> pa_plan_id a = ap_plan_id plan)"
  using assms
proof (cases rule: create_plan_result)
  case (1 raw prompt skills tools allowed tool_policy)
  obtain skills' where s: "select_skills (ae_skills env) (chosen_skills flow skill_ids) = Inr skills'"
    "set allowed = (\<Union>s \<in> set skills'. set (sk_allowed_tools s))"
    using allowed_tools_for_set [OF 1(3)] by metis
  have "\<forall>a \<in> set (ap_actions plan). \<exists>s \<in> set skills'. pa_tool_name a \<in> set (sk_allowed_tools s)"
    using 1(7) s(2) by (auto simp: ensure_Inr_iff)
  moreover have "distinct (map pa_idempotency_key (ap_actions plan))" and
    "\<forall>a \<in> set (ap_actions plan). pa_status a = ActionStatus.PENDING \<and> pa_plan_id a = ap_plan_id plan"
    unfolding 1(6) normalize_plan_for_runtime_def
    by (auto simp: distinct_keys dest: normalize_all)
  ultimately show ?thesis using s(1) by blast
qed

theorem planned_actions_authorized_witness:
  "\<exists>p i'. create_plan planning_env (sample_context True) ''snap'' sample_flow ''run'' None None None None
       (w_io sample_world) = (Inr p, i') \<and> length (ap_actions p) = 2 \<and>
     distinct (map pa_idempotency_key (ap_actions p))"
proof -
  obtain p i' where p: "create_plan planning_env (sample_context True) ''snap'' sample_flow ''run'' None None None None
       (w_io sample_world) = (Inr p, i')" "map pa_action_id (ap_actions p) = [''a1'', ''a2'']"
    by (rule sample_planned_plan)
  have "length (ap_actions p) = 2" using arg_cong [OF p(2), of length] by simp
  then show ?thesis using planned_actions_authorized [OF p(1)] p(1) by blast
qed

text \<open>
  C17: An action of a returned plan requires approval exactly when its tool's approval mode, the
  workflow's own entry for the tool if it has one and the tool definition's otherwise, is not
  ''auto_commit'': in particular every unknown mode requires approval, and no tool falls back to the
  permissive default.
\<close>

theorem approval_follows_policy:
  assumes "create_plan env cx ref flow run_id plan_id skill_ids scope tier i = (Inr plan, i')"
    and "distinct (map fst (wf_approval_policy flow))"
    and "a \<in> set (ap_actions plan)"
  shows "\<exists>d. definition_of (ae_tools env) (pa_tool_name a) = Inr d \<and>
    (pa_requires_approval a \<longleftrightarrow>
      (case dget (wf_approval_policy flow) (pa_tool_name a) of
         Some mode \<Rightarrow> mode | None \<Rightarrow> tp_approval_policy d) \<noteq> ''auto_commit'')"
  using assms(1)
proof (cases rule: create_plan_result)
  case (1 raw prompt skills tools allowed tool_policy)
  let ?t = "pa_tool_name a"
  have "?t \<in> set allowed" using 1(7) assms(3) by (auto simp: ensure_Inr_iff)
  then obtain d where d: "definition_of (ae_tools env) ?t = Inr d"
    and mode: "dget (dmerge tool_policy (wf_approval_policy flow)) ?t =
      Some (case dget (wf_approval_policy flow) ?t of Some mode \<Rightarrow> mode | None \<Rightarrow> tp_approval_policy d)"
    using tool_policy_mode [OF 1(5) _ assms(2)] by blast
  have "pa_requires_approval a = requires_approval (approval_policy (dmerge tool_policy (wf_approval_policy flow))) ?t"
    using assms(3) unfolding 1(6) normalize_plan_for_runtime_def by (auto dest: normalize_all)
  then show ?thesis using d approval_policy_requires [OF mode] by simp
qed

theorem approval_follows_policy_witness:
  "\<exists>p i'. create_plan planning_env (sample_context True) ''snap'' sample_flow ''run'' None None None None
       (w_io sample_world) = (Inr p, i') \<and> (\<forall>a \<in> set (ap_actions p). pa_requires_approval a)"
proof -
  obtain p i' where p: "create_plan planning_env (sample_context True) ''snap'' sample_flow ''run'' None None None None
       (w_io sample_world) = (Inr p, i')" "map pa_tool_name (ap_actions p) = [''create_workitem'', ''create_workitem'']"
    by (rule sample_planned_plan) 
  have "pa_requires_approval a" if a: "a \<in> set (ap_actions p)" for a
  proof -
    have "pa_tool_name a \<in> set (map pa_tool_name (ap_actions p))" using a by simp
    then have "pa_tool_name a = ''create_workitem''" unfolding p(2) by simp
    then show ?thesis using approval_follows_policy [OF p(1) _ a]
      by (auto simp: workflow_from_prompt_def sample_prompt_def)
  qed
  with p(1) show ?thesis by blast
qed




section \<open>Triggers\<close>

text \<open>
  C19: An event the runtime must not react to (a low-value event, one of the runtime's own terminal
  events, an event no workflow is registered for) only leaves a trace: handling it enqueues nothing, sends
  no request, changes no plan, graph, result or key, and never fails. So the agent cannot trigger itself
  through its own terminal events.
\<close>

theorem unroutable_trigger_ignored:
  assumes "ev_event_type (en_event envelope) \<in> set IGNORED_LOW_VALUE_TRIGGERS \<union> set TERMINAL_EVENT_TYPES \<or>
    get_by_trigger (ae_workflows env) (trigger_key_for (en_event envelope)) = None"
  shows "wp (handle_trigger env envelope)
    (\<lambda>_ w'. w_queue w' = w_queue w \<and> untraced (w_store w') = untraced (w_store w) \<and>
       io_requests (w_io w') = io_requests (w_io w) \<and> w_seen w' = w_seen w) (\<lambda>_ _. False) w"
proof -
  have "ro_workflow (route env envelope) = None"
    using assms by (auto simp: route_def evaluate_def Let_def trigger_lists)
  then show ?thesis
    unfolding handle_trigger_def Let_def by (simp only: option.case) (rule vc_domain_trace, simp)
qed

theorem unroutable_trigger_ignored_witness:
  "wp (handle_trigger planning_env (sample_envelope DomainEvent)) (\<lambda>_ w'. w_queue w' = empty_queue)
     (\<lambda>_ _. False) sample_world"
  by (rule wp_mono [OF unroutable_trigger_ignored])
    (simp_all add: planning_env_def sample_env_def get_by_trigger_def)

lemma wp_cong: "m w = n w \<Longrightarrow> wp m Q E w = wp n Q E w"
  by (simp add: wp_def)




section \<open>The API\<close>



text \<open>
  C22: Mirroring the creation of a sub-plan, or any state change of one of its actions, never sends a
  request that changes the status of a run: only the coordinator decides when the run a node belongs to is
  over, so a node that finishes or fails cannot end its run.
\<close>

theorem subplan_never_ends_its_run:
  assumes "is_subplan plan"
  shows "sends (record_action_state env plan action event_name message) (\<lambda>rq. rq_method rq \<noteq> ''PATCH'') \<and>
    sends (record_plan_created env plan) (\<lambda>rq. rq_method rq \<noteq> ''PATCH'')"
  using subplan_never_updates_run [OF assms] by (simp add: is_run_status_update_def)

theorem subplan_never_ends_its_run_witness:
  "sends (record_plan_created ((sample_env Tool_Succeeds)\<lparr>base_url := Some ''http://api'', ae_sync_enabled := True\<rparr>)
     sample_subplan) (\<lambda>rq. rq_method rq \<noteq> ''PATCH'')"
  using subplan_never_ends_its_run [of sample_subplan] by simp

end
