(* ===== verification/Py_Json.thy ===== *)
theory Py_Json
  imports Py_Text
begin

text \<open>
  \<open>json.dumps(value, separators=(",", ":"))\<close>, its \<open>sort_keys\<close> variant, and \<open>json.loads\<close> (no result
  where it raises \<open>JSONDecodeError\<close>), with the round trip between them. The fuel of the parser is
  the length of the text plus one, which bounds the number of nested calls. A float is kept as its
  literal; escapes beyond the 256 characters of the model are outside it.
\<close>

section \<open>Writing\<close>

fun json_dumps :: "pyval \<Rightarrow> string" where
  "json_dumps PNone = ''null''"
| "json_dumps (PBool b) = (if b then ''true'' else ''false'')"
| "json_dumps (PInt i) = int_str i"
| "json_dumps (PFloat r) = r"
| "json_dumps (PStr s) = json_str s"
| "json_dumps (PList xs) = ''['' @ join '','' (map json_dumps xs) @ '']''"
| "json_dumps (PDict d) =
     ''{'' @ join '','' (map (\<lambda>p. json_str (fst p) @ '':'' @ json_dumps (snd p)) d) @ ''}''"

fun sort_keys :: "pyval \<Rightarrow> pyval" where
  "sort_keys (PList xs) = PList (map sort_keys xs)"
| "sort_keys (PDict d) = PDict (sort_key fst (map (\<lambda>p. (fst p, sort_keys (snd p))) d))"
| "sort_keys v = v"


section \<open>Reading\<close>

definition is_json_ws :: "char \<Rightarrow> bool" where
  "is_json_ws c \<longleftrightarrow> (of_char c :: nat) \<in> {32, 9, 10, 13}"

abbreviation skip_ws :: "string \<Rightarrow> string" where
  "skip_ws \<equiv> dropWhile is_json_ws"

definition is_digit :: "char \<Rightarrow> bool" where
  "is_digit c \<longleftrightarrow> (of_char c :: nat) \<in> {48..57}"

definition hex_val :: "char \<Rightarrow> nat option" where
  "hex_val c =
     (let n = of_char c in
      if 48 \<le> n \<and> n \<le> 57 then Some (n - 48)
      else if 97 \<le> n \<and> n \<le> 102 then Some (n - 87)
      else if 65 \<le> n \<and> n \<le> 70 then Some (n - 55) else None)"

text \<open>The four digits after \<open>\u\<close>.\<close>

definition hex4 :: "string \<Rightarrow> (char \<times> string) option" where
  "hex4 s =
     (case s of
        a # b # c # d # rest \<Rightarrow>
          (case (hex_val a, hex_val b, hex_val c, hex_val d) of
             (Some w, Some x, Some y, Some z) \<Rightarrow>
               (let n = ((w * 16 + x) * 16 + y) * 16 + z in
                if n < 256 then Some (char_of n, rest) else None)
           | _ \<Rightarrow> None)
      | _ \<Rightarrow> None)"

definition ESCAPES :: "(char \<times> char) list" where
  "ESCAPES =
     [(CHR 0x22, CHR 0x22), (CHR 0x5C, CHR 0x5C), (CHR ''/'', CHR ''/''), (CHR ''b'', char_of (8::nat)),
      (CHR ''f'', char_of (12::nat)), (CHR ''n'', char_of (10::nat)), (CHR ''r'', char_of (13::nat)),
      (CHR ''t'', char_of (9::nat))]"

fun unescape :: "string \<Rightarrow> (char \<times> string) option" where
  "unescape [] = None"
| "unescape (c # cs) =
     (if c = CHR ''u'' then hex4 cs
      else case map_of ESCAPES c of Some e \<Rightarrow> Some (e, cs) | None \<Rightarrow> None)"

lemma unescape_shorter: "unescape s = Some (c, r) \<Longrightarrow> length r < length s"
  by (cases s) (auto simp: hex4_def Let_def split: if_splits option.splits list.splits)

text \<open>The characters up to the closing quote.\<close>

function parse_chars :: "string \<Rightarrow> (string \<times> string) option" where
  "parse_chars [] = None"
| "parse_chars (c # cs) =
     (if c = CHR 0x22 then Some ([], cs)
      else if c = CHR 0x5C then
        (case unescape cs of
           None \<Rightarrow> None
         | Some (e, rest) \<Rightarrow> map_option (\<lambda>(t, r). (e # t, r)) (parse_chars rest))
      else if (of_char c :: nat) < 32 then None
      else map_option (\<lambda>(t, r). (c # t, r)) (parse_chars cs))"
  by pat_completeness auto
termination parse_chars
  by (relation "measure length") (auto dest: unescape_shorter)

definition nat_of_digits :: "string \<Rightarrow> nat" where
  "nat_of_digits ds = foldl (\<lambda>a c. 10 * a + digit_val c) 0 ds"

text \<open>The integer part: one zero, or digits that do not start with a zero.\<close>

definition int_digits :: "string \<Rightarrow> string" where
  "int_digits s = (case s of c # _ \<Rightarrow> if c = CHR ''0'' then [c] else takeWhile is_digit s | [] \<Rightarrow> [])"

definition frac_part :: "string \<Rightarrow> string" where
  "frac_part s =
     (case s of
        c # cs \<Rightarrow> if c = CHR ''.'' \<and> takeWhile is_digit cs \<noteq> [] then c # takeWhile is_digit cs else []
      | [] \<Rightarrow> [])"

definition exp_part :: "string \<Rightarrow> string" where
  "exp_part s =
     (case s of
        c # cs \<Rightarrow>
          if c = CHR ''e'' \<or> c = CHR ''E'' then
            (let sign = (case cs of d # _ \<Rightarrow> if d = CHR ''+'' \<or> d = CHR ''-'' then [d] else [] | [] \<Rightarrow> []);
                 ds = takeWhile is_digit (drop (length sign) cs)
             in if ds \<noteq> [] then c # sign @ ds else [])
          else []
      | [] \<Rightarrow> [])"

definition parse_number :: "bool \<Rightarrow> string \<Rightarrow> (pyval \<times> string) option" where
  "parse_number neg s =
     (let ds = int_digits s; s1 = drop (length ds) s;
          fr = frac_part s1; s2 = drop (length fr) s1;
          ex = exp_part s2; s3 = drop (length ex) s2 in
      if ds = [] then None
      else if fr = [] \<and> ex = [] then
        Some (PInt (if neg then - int (nat_of_digits ds) else int (nat_of_digits ds)), s3)
      else Some (PFloat ((if neg then ''-'' else []) @ ds @ fr @ ex), s3))"

definition LITERALS :: "(string \<times> pyval) list" where
  "LITERALS =
     [(''null'', PNone), (''true'', PBool True), (''false'', PBool False), (''NaN'', PFloat ''nan''),
      (''Infinity'', PFloat ''inf''), (''-Infinity'', PFloat ''-inf'')]"

definition parse_literal :: "string \<Rightarrow> (pyval \<times> string) option" where
  "parse_literal s =
     (case find (\<lambda>(t, v). take (length t) s = t) LITERALS of
        Some (t, v) \<Rightarrow> Some (v, drop (length t) s)
      | None \<Rightarrow> None)"

definition starts :: "char \<Rightarrow> string \<Rightarrow> bool" where
  "starts c s = (case s of d # _ \<Rightarrow> d = c | [] \<Rightarrow> False)"

fun parse_value :: "nat \<Rightarrow> string \<Rightarrow> (pyval \<times> string) option"
  and parse_items :: "nat \<Rightarrow> string \<Rightarrow> (pyval list \<times> string) option"
  and parse_members :: "nat \<Rightarrow> string \<Rightarrow> ((string \<times> pyval) list \<times> string) option" where
  "parse_value 0 s0 = None"
| "parse_value (Suc n) s0 =
     (let s = skip_ws s0 in
      if starts CHR 0x22 s then map_option (\<lambda>(t, r). (PStr t, r)) (parse_chars (tl s))
      else if starts CHR ''['' s then
        (if starts CHR '']'' (skip_ws (tl s)) then Some (PList [], tl (skip_ws (tl s)))
         else map_option (\<lambda>(xs, r). (PList xs, r)) (parse_items n (tl s)))
      else if starts CHR ''{'' s then
        (if starts CHR ''}'' (skip_ws (tl s)) then Some (PDict [], tl (skip_ws (tl s)))
         else map_option (\<lambda>(kvs, r). (PDict (dict_of kvs), r)) (parse_members n (tl s)))
      else case parse_literal s of
        Some res \<Rightarrow> Some res
      | None \<Rightarrow> if starts CHR ''-'' s then parse_number True (tl s) else parse_number False s)"
| "parse_items 0 s0 = None"
| "parse_items (Suc n) s0 =
     (case parse_value n s0 of
        None \<Rightarrow> None
      | Some (x, s1) \<Rightarrow>
          (let s = skip_ws s1 in
           if starts CHR '']'' s then Some ([x], tl s)
           else if starts CHR '','' s then map_option (\<lambda>(xs, r). (x # xs, r)) (parse_items n (tl s))
           else None))"
| "parse_members 0 s0 = None"
| "parse_members (Suc n) s0 =
     (let s = skip_ws s0 in
      if \<not> starts CHR 0x22 s then None
      else case parse_chars (tl s) of
        None \<Rightarrow> None
      | Some (k, s1) \<Rightarrow>
          (if \<not> starts CHR '':'' (skip_ws s1) then None
           else case parse_value n (tl (skip_ws s1)) of
             None \<Rightarrow> None
           | Some (v, s2) \<Rightarrow>
               (let s3 = skip_ws s2 in
                if starts CHR ''}'' s3 then Some ([(k, v)], tl s3)
                else if starts CHR '','' s3
                then map_option (\<lambda>(kvs, r). ((k, v) # kvs, r)) (parse_members n (tl s3))
                else None)))"

definition json_loads :: "string \<Rightarrow> pyval option" where
  "json_loads s =
     (case parse_value (Suc (length s)) s of
        Some (v, r) \<Rightarrow> if skip_ws r = [] then Some v else None
      | None \<Rightarrow> None)"


section \<open>The round trip\<close>

text \<open>Values whose text determines them: no floats, and dictionaries with distinct keys.\<close>

fun json_ok :: "pyval \<Rightarrow> bool" where
  "json_ok (PFloat r) = False"
| "json_ok (PList xs) = (\<forall>x \<in> set xs. json_ok x)"
| "json_ok (PDict d) = (distinct (map fst d) \<and> (\<forall>p \<in> set d. json_ok (snd p)))"
| "json_ok v = True"

lemma hex_val_hex_char: "d < 16 \<Longrightarrow> hex_val (hex_char d) = Some d"
  by (auto simp: hex_val_def hex_char_def Let_def)

lemma hex4_hex2: "n < 256 \<Longrightarrow> hex4 (CHR ''0'' # CHR ''0'' # hex2 n @ r) = Some (char_of n, r)"
  by (simp add: hex4_def hex2_def hex_val_hex_char Let_def hex_val_def [of "CHR ''0''"] less_mult_imp_div_less)

lemma of_char_eq: "(of_char c :: nat) = n \<Longrightarrow> c = char_of n"
  by auto

lemma char_of_code [simp]: "char_of (34 :: nat) = CHR 0x22" "char_of (92 :: nat) = CHR 0x5C"
  "char_of (48 :: nat) = CHR ''0''"
  by code_simp+

lemma parse_json_char: "parse_chars (json_char c @ s) = map_option (\<lambda>(t, r). (c # t, r)) (parse_chars s)"
proof -
  have lt: "(of_char c :: nat) < 256" using nat_of_char_less_256 [of c] by simp
  have plain: "c \<noteq> CHR 0x22" "c \<noteq> CHR 0x5C" if "(of_char c :: nat) \<noteq> 34" "(of_char c :: nat) \<noteq> 92"
    using that by auto
  show ?thesis
    by (auto simp: json_char_def Let_def ESCAPES_def hex4_hex2 [OF lt] plain dest!: of_char_eq)
qed

lemma parse_json_str: "parse_chars (concat (map json_char s) @ CHR 0x22 # r) = Some (s, r)"
  by (induction s) (simp_all add: parse_json_char)

text \<open>What may follow a value inside a document.\<close>

definition boundary :: "string \<Rightarrow> bool" where
  "boundary r \<longleftrightarrow> r = [] \<or> hd r \<in> {CHR '','', CHR '']'', CHR ''}''}"

lemma boundary_simps [simp]:
  "boundary []" "boundary (CHR '','' # r)" "boundary (CHR '']'' # r)" "boundary (CHR ''}'' # r)"
  by (simp_all add: boundary_def)

lemma is_digit_char [simp]: "d < 10 \<Longrightarrow> is_digit (digit_char d)"
  by (simp add: is_digit_def digit_char_def)

lemma digits_nat_str: "list_all is_digit (nat_str n)"
  by (induction n rule: nat_str.induct) (simp add: nat_str.simps)

lemma hd_nat_str: "n \<noteq> 0 \<Longrightarrow> hd (nat_str n) \<noteq> CHR ''0''"
proof (induction n rule: nat_str.induct)
  case (1 n)
  have "digit_char n \<noteq> CHR ''0''" if "n < 10"
  proof
    assume "digit_char n = CHR ''0''"
    then have "digit_val (digit_char n) = digit_val (CHR ''0'')" by simp
    with that 1(2) show False by (simp add: digit_val_def [of "CHR ''0''"])
  qed
  with 1 show ?case by (cases "n < 10") (auto simp: nat_str.simps [of n] hd_append)
qed

lemma not_digit_boundary: "boundary r \<Longrightarrow> takeWhile is_digit r = [] \<and> frac_part r = [] \<and> exp_part r = []"
  by (cases r) (auto simp: boundary_def is_digit_def frac_part_def exp_part_def)

lemma int_digits_nat_str: "boundary r \<Longrightarrow> int_digits (nat_str n @ r) = nat_str n"
proof (cases "n = 0")
  case True
  then show ?thesis by (simp add: int_digits_def nat_str.simps [of 0] digit_char_def)
next
  case False
  assume "boundary r"
  obtain c cs where cs: "nat_str n = c # cs" by (cases "nat_str n") simp_all
  have "c \<noteq> CHR ''0''" using hd_nat_str [OF False] cs by simp
  moreover have "takeWhile is_digit (nat_str n @ r) = nat_str n"
    using digits_nat_str [of n] not_digit_boundary [OF \<open>boundary r\<close>]
    by (subst takeWhile_append2) (auto simp: list_all_iff)
  ultimately show ?thesis by (simp add: int_digits_def cs)
qed

lemma parse_number_nat_str:
  "boundary r \<Longrightarrow>
   parse_number neg (nat_str n @ r) = Some (PInt (if neg then - int n else int n), r)"
  by (simp add: parse_number_def int_digits_nat_str not_digit_boundary Let_def nat_of_digits_def foldl_nat_str)

text \<open>The first character of a value's text decides how it is read.\<close>

lemma starts_Cons [simp]: "starts c (d # s) \<longleftrightarrow> d = c"
  by (simp add: starts_def)

lemma digit_cases:
  assumes "is_digit c"
  shows "\<not> is_json_ws c" "c \<noteq> CHR 0x22" "c \<noteq> CHR ''[''" "c \<noteq> CHR ''{''" "c \<noteq> CHR ''-''" "c \<noteq> CHR ''n''"
    "c \<noteq> CHR ''t''" "c \<noteq> CHR ''f''" "c \<noteq> CHR ''N''" "c \<noteq> CHR ''I''"
  using assms by (auto simp: is_digit_def is_json_ws_def)

lemma parse_value_int:
  assumes "boundary r"
  shows "parse_value (Suc n) (int_str i @ r) = Some (PInt i, r)"
proof -
  obtain c cs where cs: "nat_str (nat \<bar>i\<bar>) = c # cs" by (cases "nat_str (nat \<bar>i\<bar>)") simp_all
  have c: "is_digit c" using digits_nat_str [of "nat \<bar>i\<bar>"] cs by simp
  note num = parse_number_nat_str [OF assms, of _ "nat \<bar>i\<bar>", unfolded cs append_Cons]
  show ?thesis
  proof (cases "i < 0")
    case True
    then have "int_str i = CHR ''-'' # c # cs" using cs by (simp add: int_str_def)
    then show ?thesis
      using True digit_cases [OF c] num [of True]
      by (simp add: parse_literal_def LITERALS_def is_json_ws_def)
  next
    case False
    then have "int_str i = c # cs" using cs by (simp add: int_str_def)
    then show ?thesis
      using False digit_cases [OF c] num [of False]
      by (simp add: parse_literal_def LITERALS_def)
  qed
qed

lemma int_str_start: "int_str i \<noteq> [] \<and> \<not> is_json_ws (hd (int_str i)) \<and> hd (int_str i) \<notin> {CHR '']'', CHR ''}''}"
proof -
  have "is_digit (hd (nat_str (nat i)))"
    using digits_nat_str [of "nat i"] by (cases "nat_str (nat i)") simp_all
  then show ?thesis by (auto simp: int_str_def is_digit_def is_json_ws_def)
qed

lemma json_dumps_start:
  assumes "json_ok v"
  obtains c cs where "json_dumps v = c # cs" and "\<not> is_json_ws c" and "c \<noteq> CHR '']''" and "c \<noteq> CHR ''}''"
proof -
  have "json_dumps v \<noteq> [] \<and> \<not> is_json_ws (hd (json_dumps v)) \<and> hd (json_dumps v) \<notin> {CHR '']'', CHR ''}''}"
    using assms int_str_start by (cases v) (auto simp: is_json_ws_def json_str_def)
  with that show ?thesis by (cases "json_dumps v") auto
qed

definition reads :: "pyval \<Rightarrow> bool" where
  "reads v \<longleftrightarrow> (\<forall>n r. length (json_dumps v) < n \<longrightarrow> boundary r \<longrightarrow>
     parse_value n (json_dumps v @ r) = Some (v, r))"

lemma parse_items_join:
  assumes "\<forall>x \<in> set xs. reads x" and "xs \<noteq> []" and "length (join '','' (map json_dumps xs)) + 1 < n"
  shows "parse_items n (join '','' (map json_dumps xs) @ CHR '']'' # r) = Some (xs, r)"
  using assms
proof (induction xs arbitrary: n)
  case Nil
  then show ?case by simp
next
  case (Cons x xs)
  obtain m where n: "n = Suc m" using Cons.prems(3) by (cases n) simp_all
  have x: "parse_value m (json_dumps x @ s) = Some (x, s)" if "boundary s" for s
    using Cons.prems(1,3) that unfolding reads_def n by (cases xs) auto
  show ?case
  proof (cases xs)
    case Nil
    then show ?thesis using x [of "CHR '']'' # r"] by (simp add: n is_json_ws_def)
  next
    case (Cons y ys)
    have "parse_items m (join '','' (map json_dumps xs) @ CHR '']'' # r) = Some (xs, r)"
      by (rule Cons.IH) (use Cons.prems Cons in \<open>auto simp: n\<close>)
    then show ?thesis
      using x [of "CHR '','' # join '','' (map json_dumps xs) @ CHR '']'' # r"] Cons
      by (simp add: n is_json_ws_def)
  qed
qed

lemma parse_members_join:
  assumes "\<forall>p \<in> set d. reads (snd p)" and "d \<noteq> []"
    and "length (join '','' (map (\<lambda>p. json_str (fst p) @ '':'' @ json_dumps (snd p)) d)) + 1 < n"
    and "\<forall>p \<in> set d. json_ok (snd p)"
  shows "parse_members n (join '','' (map (\<lambda>p. json_str (fst p) @ '':'' @ json_dumps (snd p)) d) @ CHR ''}'' # r)
    = Some (d, r)"
  using assms
proof (induction d arbitrary: n)
  case Nil
  then show ?case by simp
next
  case (Cons p d)
  let ?text = "\<lambda>p. json_str (fst p) @ '':'' @ json_dumps (snd p)"
  obtain m where n: "n = Suc m" using Cons.prems(3) by (cases n) simp_all
  have x: "parse_value m (json_dumps (snd p) @ s) = Some (snd p, s)" if "boundary s" for s
    using Cons.prems(1,3) that unfolding reads_def n by (cases d) auto
  have key: "parse_chars (concat (map json_char (fst p)) @ CHR 0x22 # s) = Some (fst p, s)" for s
    by (rule parse_json_str)
  show ?case
  proof (cases d)
    case Nil
    then show ?thesis
      using x [of "CHR ''}'' # r"] key by (simp add: n is_json_ws_def json_str_def)
  next
    case (Cons q ds)
    have "parse_members m (join '','' (map ?text d) @ CHR ''}'' # r) = Some (d, r)"
      by (rule Cons.IH) (use Cons.prems Cons in \<open>auto simp: n\<close>)
    then show ?thesis
      using x [of "CHR '','' # join '','' (map ?text d) @ CHR ''}'' # r"] key Cons
      by (simp add: n is_json_ws_def json_str_def)
  qed
qed

lemma dict_of_distinct: "distinct (map fst d) \<Longrightarrow> dict_of d = d"
proof -
  have "distinct (map fst (e @ d)) \<Longrightarrow> dmerge e d = e @ d" for e
  proof (induction d arbitrary: e)
    case Nil
    then show ?case by simp
  next
    case (Cons p d)
    obtain k v where p: "p = (k, v)" by fastforce
    have "k \<notin> fst ` set e" using Cons.prems by (auto simp: p)
    then have "dset k v e = e @ [(k, v)]" by (induction e) auto
    then show ?case using Cons.IH [of "e @ [(k, v)]"] Cons.prems by (simp add: p)
  qed
  from this [of "[]"] show "distinct (map fst d) \<Longrightarrow> dict_of d = d" by (simp add: dict_of_def)
qed

lemma reads_value: "json_ok v \<Longrightarrow> reads v"
proof (induction v rule: json_dumps.induct)
  case (5 s)
  show ?case
    by (auto simp: reads_def json_str_def parse_json_str is_json_ws_def gr0_conv_Suc dest!: less_imp_Suc_add)
next
  case (6 xs)
  show ?case
  proof (unfold reads_def, intro allI impI)
    fix n r assume n: "length (json_dumps (PList xs)) < n" and "boundary r"
    then obtain m where m: "n = Suc m" by (cases n) simp_all
    show "parse_value n (json_dumps (PList xs) @ r) = Some (PList xs, r)"
    proof (cases xs)
      case Nil
      then show ?thesis by (simp add: m is_json_ws_def)
    next
      case (Cons x ys)
      have "json_ok x" using 6(2) Cons by simp
      then obtain c cs where c: "json_dumps x = c # cs" "\<not> is_json_ws c" "c \<noteq> CHR '']''"
        by (rule json_dumps_start)
      have start: "\<exists>s'. join '','' (map json_dumps xs) @ s = c # s'" for s
        using c(1) Cons by (cases ys) simp_all
      have "parse_items m (join '','' (map json_dumps xs) @ CHR '']'' # r) = Some (xs, r)"
        by (rule parse_items_join) (use 6 n Cons in \<open>auto simp: m\<close>)
      with start [of "CHR '']'' # r"] c(2,3) show ?thesis
        by (auto simp: m is_json_ws_def)
    qed
  qed
next
  case (7 d)
  let ?text = "\<lambda>p. json_str (fst p) @ '':'' @ json_dumps (snd p)"
  show ?case
  proof (unfold reads_def, intro allI impI)
    fix n r assume n: "length (json_dumps (PDict d)) < n" and "boundary r"
    then obtain m where m: "n = Suc m" by (cases n) simp_all
    show "parse_value n (json_dumps (PDict d) @ r) = Some (PDict d, r)"
    proof (cases d)
      case Nil
      then show ?thesis by (simp add: m is_json_ws_def)
    next
      case (Cons p ds)
      have start: "\<exists>s'. join '','' (map ?text d) @ s = CHR 0x22 # s'" for s
        using Cons by (cases ds) (simp_all add: json_str_def)
      have "parse_members m (join '','' (map ?text d) @ CHR ''}'' # r) = Some (d, r)"
        by (rule parse_members_join) (use 7 n Cons in \<open>auto simp: m\<close>)
      with start [of "CHR ''}'' # r"] show ?thesis
        using 7(2) by (auto simp: m is_json_ws_def dict_of_distinct)
    qed
  qed
next
  case (3 i)
  show ?case
    by (auto simp: reads_def parse_value_int simp del: parse_value.simps dest!: less_imp_Suc_add)
qed (auto simp: reads_def is_json_ws_def parse_literal_def LITERALS_def dest!: less_imp_Suc_add)

lemma json_round_trip: "json_ok v \<Longrightarrow> json_loads (json_dumps v) = Some v"
  using reads_value [of v, unfolded reads_def, rule_format, of "Suc (length (json_dumps v))" "[]"]
  by (simp add: json_loads_def)

lemma json_ok_sort_keys: "json_ok v \<Longrightarrow> json_ok (sort_keys v)"
  by (induction v rule: sort_keys.induct) (auto simp: distinct_map distinct_sort inj_on_def)

text \<open>Sorting the keys changes no lookup.\<close>

lemma dget_sort_keys:
  assumes "distinct (map fst d)" and "sort_keys (PDict d) = PDict e"
  shows "dget e k = map_option sort_keys (dget d k)"
proof -
  let ?d = "map (\<lambda>p. (fst p, sort_keys (snd p))) d"
  have e: "e = sort_key fst ?d" using assms(2) by simp
  have fst: "map fst ?d = map fst d" by simp
  have d: "distinct (map fst ?d)" using assms(1) unfolding fst .
  then have parts: "distinct ?d \<and> inj_on fst (set ?d)" by (rule distinct_map [THEN iffD1])
  have "distinct (map fst e)"
    unfolding e by (rule distinct_map [THEN iffD2]) (use parts in \<open>simp only: distinct_sort set_sort\<close>)
  moreover have "set e = set ?d" by (simp add: e)
  ultimately have "dget e = dget ?d" using d map_of_inject_set by blast
  moreover have "dget ?d k = map_option sort_keys (dget d k)" by (induction d) auto
  ultimately show ?thesis by simp
qed

end
