(* ===== verification/Memory_Transport.thy ===== *)
theory Memory_Transport
  imports Prism_Client Agent_Run Py_Json
begin

text \<open>
  \<open>infrastructure/state/agent_memory_store.py\<close> and \<open>infrastructure/object_storage\<close>: the durable
  transports of agent-state memories. A transport acts on a \<open>backend\<close>, the API boundary together
  with the remote state of the object storage. The object-storage client is a parameter.
\<close>

record 'r backend =
  bk_io :: io
  bk_remote :: 'r

record 'r transport =
  tp_put_memory :: "string \<Rightarrow> string \<Rightarrow> pydict \<Rightarrow> ('r backend, unit) eff"
  tp_fetch_run_state :: "string \<Rightarrow> string \<Rightarrow> ('r backend, pydict) eff"


section \<open>The API transport\<close>

definition on_io :: "(io, 'a) eff \<Rightarrow> ('r backend, 'a) eff" where
  "on_io m = on_part bk_io bk_io_update m"

definition api_put_memory ::
  "'e io_env_scheme \<Rightarrow> string \<Rightarrow> string \<Rightarrow> pydict \<Rightarrow> ('r backend, unit) eff" where
  "api_put_memory env workspace_id run_id payload =
     eseq (on_io (upsert_agent_memory env workspace_id payload)) (ret ())"

definition api_fetch_run_state ::
  "'e io_env_scheme \<Rightarrow> string \<Rightarrow> string \<Rightarrow> ('r backend, pydict) eff" where
  "api_fetch_run_state env workspace_id run_id =
     on_io (catch (get_agent_run_state env workspace_id run_id)
       (\<lambda>exc. case exc of PrismApiNotFoundError _ \<Rightarrow> ret [] | _ \<Rightarrow> raise exc))"

definition prism_agent_memory_store :: "'e io_env_scheme \<Rightarrow> 'r transport" where
  "prism_agent_memory_store env =
     \<lparr>tp_put_memory = api_put_memory env, tp_fetch_run_state = api_fetch_run_state env\<rparr>"


section \<open>The object-storage transport\<close>

text \<open>The data of a response: bytes, text, an object with a \<open>content\<close>, a reader, or something else.\<close>

datatype response_data =
    Data_Bytes string
  | Data_Text string
  | Data_Content string
  | Data_Reader string
  | Data_Other

fun response_data_to_bytes :: "response_data \<Rightarrow> exn + string" where
  "response_data_to_bytes (Data_Bytes b) = Inr b"
| "response_data_to_bytes (Data_Text t) = Inr t"
| "response_data_to_bytes (Data_Content c) = Inr c"
| "response_data_to_bytes (Data_Reader v) = Inr v"
| "response_data_to_bytes Data_Other = Inl (TypeError ''Unsupported OCI object response data type.'')"

text \<open>
  The client of the bucket: \<open>put_object\<close>, \<open>list_objects\<close> by prefix (the names) and \<open>get_object\<close>.
\<close>

record 'r object_client =
  oc_put_object :: "string \<Rightarrow> string \<Rightarrow> ('r, unit) eff"
  oc_list_objects :: "string \<Rightarrow> ('r, string list) eff"
  oc_get_object :: "string \<Rightarrow> ('r, response_data) eff"

record 'r object_memory_store =
  om_client :: "'r object_client"
  om_prefix :: string

definition strip_slashes :: "string \<Rightarrow> string" where
  "strip_slashes s =
     rev (dropWhile (\<lambda>c. c = CHR ''/'') (rev (dropWhile (\<lambda>c. c = CHR ''/'') s)))"

definition object_storage_agent_memory_store ::
  "string option \<Rightarrow> string option \<Rightarrow> string \<Rightarrow> 'r object_client \<Rightarrow> exn + 'r object_memory_store" where
  "object_storage_agent_memory_store namespace bucket_name prefix client =
     (if \<not> opt_truthy namespace \<or> \<not> opt_truthy bucket_name
      then Inl (ValueError ''OCI namespace and bucket name are required for agent-state persistence.'')
      else Inr \<lparr>om_client = client, om_prefix = strip_slashes prefix\<rparr>)"

definition on_remote :: "('r, 'a) eff \<Rightarrow> ('r backend, 'a) eff" where
  "on_remote m = on_part bk_remote bk_remote_update m"

definition run_prefix :: "'r object_memory_store \<Rightarrow> string \<Rightarrow> string \<Rightarrow> string" where
  "run_prefix om workspace_id run_id =
     om_prefix om @ ''/'' @ workspace_id @ ''/'' @ run_id @ ''/''"

definition object_name :: "'r object_memory_store \<Rightarrow> string \<Rightarrow> string \<Rightarrow> string \<Rightarrow> string" where
  "object_name om workspace_id run_id memory_id = run_prefix om workspace_id run_id @ memory_id @ ''.json''"

definition om_put_memory ::
  "'r object_memory_store \<Rightarrow> string \<Rightarrow> string \<Rightarrow> pydict \<Rightarrow> ('r backend, unit) eff" where
  "om_put_memory om workspace_id run_id payload =
     (let memory_id = str_or_empty (pget payload ''memoryId'') in
      if memory_id = [] then raise (ValueError ''Agent memory payload requires a memoryId.'')
      else on_remote (oc_put_object (om_client om) (object_name om workspace_id run_id memory_id)
             (json_dumps (PDict payload))))"

text \<open>One listed object; an undecodable or non-object body is skipped.\<close>

definition read_memory :: "'r object_memory_store \<Rightarrow> string \<Rightarrow> ('r, pyval list) eff" where
  "read_memory om name =
     ebind (oc_get_object (om_client om) name) (\<lambda>data.
     ebind (of_sum (response_data_to_bytes data)) (\<lambda>raw.
     ret (case json_loads raw of Some (PDict d) \<Rightarrow> [PDict d] | _ \<Rightarrow> [])))"

definition list_memories ::
  "'r object_memory_store \<Rightarrow> string \<Rightarrow> string \<Rightarrow> ('r, pyval list) eff" where
  "list_memories om workspace_id run_id =
     ebind (oc_list_objects (om_client om) (run_prefix om workspace_id run_id)) (\<lambda>names.
     ebind (emap (read_memory om) names) (\<lambda>found. ret (concat found)))"

definition om_fetch_run_state ::
  "'r object_memory_store \<Rightarrow> string \<Rightarrow> string \<Rightarrow> ('r backend, pydict) eff" where
  "om_fetch_run_state om workspace_id run_id =
     on_remote (ebind (list_memories om workspace_id run_id)
       (\<lambda>memories. ret [(''memories'', PList memories)]))"

definition object_transport :: "'r object_memory_store \<Rightarrow> 'r transport" where
  "object_transport om =
     \<lparr>tp_put_memory = om_put_memory om, tp_fetch_run_state = om_fetch_run_state om\<rparr>"

end
