(* ===== verification/Persistent_Store.thy ===== *)
theory Persistent_Store
  imports Memory_Transport State_Store
begin

text \<open>
  \<open>infrastructure/state/prism_api_state_store.py\<close>: the durable state store. It keeps a memory store
  (\<open>fallback_store\<close>) as its cache, mirrors every write as a memory record to a transport, and replays the
  records of a run before it answers a read, so that another process sees the last state written.

  \<open>model_dump\<close> and \<open>model_validate\<close> of pydantic and \<open>sha256\<close> are parameters (\<open>model_codec\<close>; no
  result of a load stands for \<open>ValidationError\<close>, a \<open>ValueError\<close>).
\<close>

record model_codec =
  mc_dump_plan :: "AgentPlan \<Rightarrow> pyval"
  mc_load_plan :: "pyval \<Rightarrow> AgentPlan option"
  mc_dump_snapshot :: "ContextSnapshot \<Rightarrow> pyval"
  mc_load_snapshot :: "pyval \<Rightarrow> ContextSnapshot option"
  mc_dump_result :: "ToolResult \<Rightarrow> pyval"
  mc_load_result :: "pyval \<Rightarrow> ToolResult option"
  mc_dump_graph :: "TaskGraph \<Rightarrow> pyval"
  mc_load_graph :: "pyval \<Rightarrow> TaskGraph option"
  mc_dump_sub_result :: "SubAgentResult \<Rightarrow> pyval"
  mc_load_sub_result :: "pyval \<Rightarrow> SubAgentResult option"
  mc_sha256 :: "string \<Rightarrow> string"

record 'r persistence =
  pe_env :: io_env
  pe_codec :: model_codec
  pe_transport :: "'r transport"
  pe_persist_agent_memories :: bool

record 'r prism_store =
  ps_fallback :: memory_store
  ps_locations :: "(string, string \<times> string) dict"
  ps_backend :: "'r backend"

definition STATE_SCHEMA :: string where
  "STATE_SCHEMA = ''prism_agent_state.v1''"

definition FEATURE_PROVISIONING_IDEMPOTENCY_PREFIX :: string where
  "FEATURE_PROVISIONING_IDEMPOTENCY_PREFIX = ''feature_provisioning:''"

text \<open>The constructor: an unconfigured client is refused.\<close>

definition new_prism_store :: "'e io_env_scheme \<Rightarrow> 'r backend \<Rightarrow> exn + 'r prism_store" where
  "new_prism_store env backend =
     (if \<not> is_configured env
      then Inl (ValueError ''PRISM_API_BASE_URL is required when STATE_BACKEND=prism_api.'')
      else Inr \<lparr>ps_fallback = empty_store, ps_locations = [], ps_backend = backend\<rparr>)"

definition fallback_do :: "(memory_store \<Rightarrow> memory_store) \<Rightarrow> ('r prism_store, unit) eff" where
  "fallback_do f = modify (\<lambda>s. s\<lparr>ps_fallback := f (ps_fallback s)\<rparr>)"

definition fallback_get :: "(memory_store \<Rightarrow> 'a) \<Rightarrow> ('r prism_store, 'a) eff" where
  "fallback_get f = gets (\<lambda>s. f (ps_fallback s))"

definition on_backend :: "('r backend, 'a) eff \<Rightarrow> ('r prism_store, 'a) eff" where
  "on_backend m = on_part ps_backend ps_backend_update m"

definition locate :: "string \<Rightarrow> string \<times> string \<Rightarrow> ('r prism_store, unit) eff" where
  "locate key location = modify (\<lambda>s. s\<lparr>ps_locations := dset key location (ps_locations s)\<rparr>)"

definition ps_now :: "'r persistence \<Rightarrow> ('r prism_store, datetime) eff" where
  "ps_now P = on_backend (on_io (utc_now (pe_env P)))"


section \<open>Writing records\<close>

definition state_memory_id :: "'r persistence \<Rightarrow> string list \<Rightarrow> string" where
  "state_memory_id P parts = stable_agent_run_uuid (pe_env P) (''state'' # parts)"

definition state_content :: "pydict \<Rightarrow> string" where
  "state_content record =
     json_dumps (sort_keys (PDict ((''schema'', PStr STATE_SCHEMA) # record)))"

definition persist_state_memory ::
  "'r persistence \<Rightarrow> string \<Rightarrow> string \<Rightarrow> string \<Rightarrow> string \<Rightarrow> string \<Rightarrow> pydict \<Rightarrow> string option
   \<Rightarrow> ('r prism_store, unit) eff" where
  "persist_state_memory P workspace_id memory_id run_id memory_type title record step_id =
     (if \<not> pe_persist_agent_memories P then ret ()
      else
        let content = state_content record;
            payload = [(''memoryId'', PStr memory_id), (''runId'', PStr run_id),
              (''memoryType'', PStr memory_type), (''title'', PStr (take 100 title)),
              (''content'', PStr content), (''contentHash'', PStr (mc_sha256 (pe_codec P) content))]
              @ (case step_id of
                   Some step \<Rightarrow> if step \<noteq> [] then [(''stepId'', PStr (state_memory_id P [run_id, step, ''step'']))]
                                else []
                 | None \<Rightarrow> [])
        in on_backend (tp_put_memory (pe_transport P) workspace_id run_id payload))"

definition persist_plan :: "'r persistence \<Rightarrow> AgentPlan \<Rightarrow> ('r prism_store, unit) eff" where
  "persist_plan P plan =
     persist_state_memory P (ap_workspace_id plan) (state_memory_id P [ap_plan_id plan, ''plan''])
       (ap_plan_id plan) ''agent_plan'' ''Agent plan''
       [(''kind'', PStr ''plan''), (''plan'', mc_dump_plan (pe_codec P) plan)] None"

definition persist_task_graph :: "'r persistence \<Rightarrow> TaskGraph \<Rightarrow> ('r prism_store, unit) eff" where
  "persist_task_graph P graph =
     persist_state_memory P (tg_workspace_id graph) (state_memory_id P [tg_plan_id graph, ''task_graph''])
       (tg_plan_id graph) ''agent_decision'' ''Task graph''
       [(''kind'', PStr ''task_graph''), (''graph'', mc_dump_graph (pe_codec P) graph)] None"

definition persist_sub_agent_result ::
  "'r persistence \<Rightarrow> string \<Rightarrow> string \<Rightarrow> SubAgentResult \<Rightarrow> ('r prism_store, unit) eff" where
  "persist_sub_agent_result P workspace_id run_id result =
     persist_state_memory P workspace_id
       (state_memory_id P [run_id, sr_node_id result, ''sub_agent_result''])
       run_id ''agent_result'' ''Subagent result''
       [(''kind'', PStr ''sub_agent_result''), (''run_id'', PStr run_id),
        (''result'', mc_dump_sub_result (pe_codec P) result)] None"

definition persist_context_snapshot :: "'r persistence \<Rightarrow> ContextSnapshot \<Rightarrow> ('r prism_store, unit) eff" where
  "persist_context_snapshot P snapshot =
     (case cs_plan_id snapshot of
        None \<Rightarrow> ret ()
      | Some plan_id \<Rightarrow>
          persist_state_memory P (cs_workspace_id snapshot)
            (state_memory_id P [plan_id, cs_snapshot_id snapshot, ''context''])
            plan_id ''agent_decision'' ''Context snapshot''
            [(''kind'', PStr ''context_snapshot''), (''snapshot'', mc_dump_snapshot (pe_codec P) snapshot)]
            None)"

text \<open>The plan a result belongs to, through the first location that names its run.\<close>

definition plan_for_result :: "ToolResult \<Rightarrow> ('r prism_store, AgentPlan option) eff" where
  "plan_for_result result =
     gets (\<lambda>s. case find (\<lambda>(workspace_id, run_id). run_id = tr_plan_id result) (map snd (ps_locations s)) of
                 None \<Rightarrow> None
               | Some (workspace_id, run_id) \<Rightarrow> get_plan workspace_id run_id (ps_fallback s))"

definition persist_action_result :: "'r persistence \<Rightarrow> ToolResult \<Rightarrow> ('r prism_store, unit) eff" where
  "persist_action_result P result =
     ebind (plan_for_result result) (\<lambda>found.
     case found of
       None \<Rightarrow> ret ()
     | Some plan \<Rightarrow>
         persist_state_memory P (ap_workspace_id plan)
           (state_memory_id P [tr_plan_id result, tr_action_id result, ''result''])
           (tr_plan_id result) ''agent_result'' ''Action result''
           [(''kind'', PStr ''action_result''), (''result'', mc_dump_result (pe_codec P) result)]
           (Some (tr_action_id result)))"

definition persist_idempotency_key ::
  "'r persistence \<Rightarrow> string \<Rightarrow> string \<Rightarrow> string \<Rightarrow> ('r prism_store, unit) eff" where
  "persist_idempotency_key P workspace_id run_id key =
     persist_state_memory P workspace_id (state_memory_id P [''idempotency'', key])
       run_id ''agent_decision'' ''Idempotency key''
       [(''kind'', PStr ''idempotency_key''), (''key'', PStr key)] None"

definition remember_plan_idempotency :: "AgentPlan \<Rightarrow> ('r prism_store, unit) eff" where
  "remember_plan_idempotency plan =
     efor (ap_actions plan) (\<lambda>action.
       locate (pa_idempotency_key action) (ap_workspace_id plan, ap_plan_id plan))"


section \<open>Replaying records\<close>

definition decode_state_record :: "pyval \<Rightarrow> pydict option" where
  "decode_state_record content =
     (case content of
        PStr text \<Rightarrow>
          if strip text = [] then None
          else (case json_loads text of
                  Some (PDict decoded) \<Rightarrow>
                    if pget decoded ''schema'' = PStr STATE_SCHEMA then Some decoded else None
                | _ \<Rightarrow> None)
      | _ \<Rightarrow> None)"

text \<open>
  One record. A run id that cannot be a dictionary key raises \<open>TypeError\<close>; any other run id that is not
  a string is stored under a key no read uses.
\<close>

definition load_record ::
  "'r persistence \<Rightarrow> string \<Rightarrow> string \<Rightarrow> pydict \<Rightarrow> ('r prism_store, unit) eff" where
  "load_record P workspace_id run_id record =
     (let kind = pget record ''kind''; codec = pe_codec P in
      if kind = PStr ''plan'' then
        (case mc_load_plan codec (pget record ''plan'') of
           None \<Rightarrow> ret ()
         | Some plan \<Rightarrow> eseq (fallback_do (save_plan plan)) (remember_plan_idempotency plan))
      else if kind = PStr ''context_snapshot'' then
        (case mc_load_snapshot codec (pget record ''snapshot'') of
           None \<Rightarrow> ret ()
         | Some snapshot \<Rightarrow> fallback_do (save_context_snapshot snapshot))
      else if kind = PStr ''action_result'' then
        (case mc_load_result codec (pget record ''result'') of
           None \<Rightarrow> ret ()
         | Some result \<Rightarrow> fallback_do (save_action_result result))
      else if kind = PStr ''task_graph'' then
        (case mc_load_graph codec (pget record ''graph'') of
           None \<Rightarrow> ret ()
         | Some graph \<Rightarrow> fallback_do (save_task_graph graph))
      else if kind = PStr ''sub_agent_result'' then
        (case mc_load_sub_result codec (pget record ''result'') of
           None \<Rightarrow> ret ()
         | Some sub_result \<Rightarrow>
             (case por (pget record ''run_id'') (PStr run_id) of
                PStr result_run_id \<Rightarrow>
                  fallback_do (save_sub_agent_result workspace_id result_run_id sub_result)
              | PList _ \<Rightarrow> raise (TypeError ''unhashable type'')
              | PDict _ \<Rightarrow> raise (TypeError ''unhashable type'')
              | _ \<Rightarrow> ret ()))
      else if kind = PStr ''idempotency_key'' then
        (case pget record ''key'' of
           PStr key \<Rightarrow>
             if key \<noteq> [] then eseq (fallback_do (record_idempotency_key key)) (locate key (workspace_id, run_id))
             else ret ()
         | _ \<Rightarrow> ret ())
      else ret ())"

definition load_memory ::
  "'r persistence \<Rightarrow> string \<Rightarrow> string \<Rightarrow> pyval \<Rightarrow> ('r prism_store, unit) eff" where
  "load_memory P workspace_id run_id memory =
     (case memory of
        PDict m \<Rightarrow>
          (case decode_state_record (pget m ''content'') of
             None \<Rightarrow> ret ()
           | Some record \<Rightarrow> load_record P workspace_id run_id record)
      | _ \<Rightarrow> ret ())"

definition load_state_memories ::
  "'r persistence \<Rightarrow> string \<Rightarrow> string \<Rightarrow> pydict \<Rightarrow> ('r prism_store, unit) eff" where
  "load_state_memories P workspace_id run_id state =
     (case pget state ''memories'' of
        PList memories \<Rightarrow> efor memories (load_memory P workspace_id run_id)
      | _ \<Rightarrow> ret ())"

definition run_state :: "'r persistence \<Rightarrow> string \<Rightarrow> string \<Rightarrow> ('r prism_store, pydict) eff" where
  "run_state P workspace_id run_id =
     catch (on_backend (tp_fetch_run_state (pe_transport P) workspace_id run_id))
       (\<lambda>exc. if is_RuntimeError exc then ret [] else raise exc)"

definition restore_run_state :: "'r persistence \<Rightarrow> string \<Rightarrow> string \<Rightarrow> ('r prism_store, unit) eff" where
  "restore_run_state P workspace_id run_id =
     ebind (run_state P workspace_id run_id) (load_state_memories P workspace_id run_id)"


section \<open>Hydrating a plan from the run state\<close>

definition APPROVAL_STATUSES :: "string list" where
  "APPROVAL_STATUSES = [''pending'', ''queued'', ''waiting'', ''proposed'', ''approval_required'']"

definition ACTION_STATUS_BY_NAME :: "(string \<times> ActionStatus) list" where
  "ACTION_STATUS_BY_NAME =
     [(''pending'', ActionStatus.PENDING), (''queued'', ActionStatus.PENDING),
      (''proposed'', ActionStatus.PENDING), (''approved'', ActionStatus.PENDING),
      (''running'', ActionStatus.RUNNING), (''waiting'', ActionStatus.REQUIRES_APPROVAL),
      (''requires_approval'', ActionStatus.REQUIRES_APPROVAL),
      (''approval_required'', ActionStatus.REQUIRES_APPROVAL),
      (''completed'', ActionStatus.COMPLETED), (''executed'', ActionStatus.COMPLETED),
      (''succeeded'', ActionStatus.COMPLETED), (''success'', ActionStatus.COMPLETED),
      (''failed'', ActionStatus.FAILED), (''rejected'', ActionStatus.SKIPPED),
      (''error'', ActionStatus.FAILED), (''cancelled'', ActionStatus.SKIPPED),
      (''canceled'', ActionStatus.SKIPPED)]"

definition action_status_from_record :: "pydict \<Rightarrow> ActionStatus \<Rightarrow> ActionStatus" where
  "action_status_from_record record current_status =
     (let raw_status = lower (str_or_empty (pget record ''status'')) in
      if truthy (pget record ''requiresApproval'') \<and> raw_status \<in> set APPROVAL_STATUSES
      then ActionStatus.REQUIRES_APPROVAL
      else case dget ACTION_STATUS_BY_NAME raw_status of Some s \<Rightarrow> s | None \<Rightarrow> current_status)"

definition PLAN_STATUS_BY_NAME :: "(string \<times> PlanStatus) list" where
  "PLAN_STATUS_BY_NAME =
     [(''completed'', PlanStatus.COMPLETED), (''failed'', PlanStatus.FAILED),
      (''cancelled'', PlanStatus.CANCELLED), (''canceled'', PlanStatus.CANCELLED)]"

definition plan_status_from_state :: "pydict \<Rightarrow> PlanStatus \<Rightarrow> PlanStatus" where
  "plan_status_from_state state current_status =
     (case pget state ''run'' of
        PDict run \<Rightarrow>
          (case dget PLAN_STATUS_BY_NAME (lower (str_or_empty (pget run ''status''))) of
             Some s \<Rightarrow> s | None \<Rightarrow> current_status)
      | _ \<Rightarrow> current_status)"

text \<open>\<open>actions_by_id\<close>: the records that carry an action id, by its text; a later record wins.\<close>

definition records_by_action_id :: "pydict \<Rightarrow> (string, pydict) dict" where
  "records_by_action_id state =
     dict_of (List.map_filter
       (\<lambda>v. case v of
              PDict record \<Rightarrow>
                (case pget record ''actionId'' of PNone \<Rightarrow> None | i \<Rightarrow> Some (py_str i, record))
            | _ \<Rightarrow> None)
       (case pget state ''actions'' of PList records \<Rightarrow> records | _ \<Rightarrow> []))"

definition action_record ::
  "'r persistence \<Rightarrow> (string, pydict) dict \<Rightarrow> PlannedAction \<Rightarrow> pydict option" where
  "action_record P records action =
     (case dget records (pa_action_id action) of
        Some record \<Rightarrow> Some record
      | None \<Rightarrow> dget records (action_api_id (pe_env P) action))"

definition hydrate_action ::
  "'r persistence \<Rightarrow> (string, pydict) dict \<Rightarrow> PlannedAction \<Rightarrow> AgentPlan \<Rightarrow> ('r prism_store, AgentPlan) eff" where
  "hydrate_action P records action plan =
     (case action_record P records action of
        None \<Rightarrow> ret plan
      | Some record \<Rightarrow>
          (let status = action_status_from_record record (pa_status action) in
           if status = pa_status action then ret plan
           else
           ebind (ps_now P) (\<lambda>t1.
           ebind (ps_now P) (\<lambda>t2.
           ret (replace_action t2 (with_status t1 status action) plan)))))"

fun hydrate_actions ::
  "'r persistence \<Rightarrow> (string, pydict) dict \<Rightarrow> PlannedAction list \<Rightarrow> AgentPlan
   \<Rightarrow> ('r prism_store, AgentPlan) eff" where
  "hydrate_actions P records [] plan = ret plan"
| "hydrate_actions P records (action # actions) plan =
     ebind (hydrate_action P records action plan) (hydrate_actions P records actions)"

definition hydrate_plan_state ::
  "'r persistence \<Rightarrow> AgentPlan \<Rightarrow> pydict \<Rightarrow> ('r prism_store, AgentPlan) eff" where
  "hydrate_plan_state P plan state =
     ebind (hydrate_actions P (records_by_action_id state) (ap_actions plan) plan) (\<lambda>hydrated.
     let run_status = plan_status_from_state state (ap_status hydrated) in
     if run_status = ap_status hydrated then ret hydrated
     else ebind (ps_now P) (\<lambda>t. ret (hydrated\<lparr>ap_status := run_status, ap_updated_at := t\<rparr>)))"


section \<open>The operations of the store\<close>

definition ps_save_plan :: "'r persistence \<Rightarrow> AgentPlan \<Rightarrow> ('r prism_store, unit) eff" where
  "ps_save_plan P plan =
     eseq (fallback_do (save_plan plan)) (eseq (remember_plan_idempotency plan) (persist_plan P plan))"

definition ps_update_plan :: "'r persistence \<Rightarrow> AgentPlan \<Rightarrow> ('r prism_store, unit) eff" where
  "ps_update_plan P plan =
     eseq (fallback_do (update_plan plan)) (eseq (remember_plan_idempotency plan) (persist_plan P plan))"

definition ps_get_plan :: "'r persistence \<Rightarrow> string \<Rightarrow> string \<Rightarrow> ('r prism_store, AgentPlan option) eff" where
  "ps_get_plan P workspace_id plan_id =
     ebind (run_state P workspace_id plan_id) (\<lambda>state.
     eseq (load_state_memories P workspace_id plan_id state)
     (ebind (fallback_get (get_plan workspace_id plan_id)) (\<lambda>found.
      case found of
        None \<Rightarrow> ret None
      | Some plan \<Rightarrow>
          ebind (hydrate_plan_state P plan state) (\<lambda>hydrated.
          eseq (if hydrated \<noteq> plan then fallback_do (update_plan hydrated) else ret ())
            (ret (Some hydrated))))))"

definition ps_save_task_graph :: "'r persistence \<Rightarrow> TaskGraph \<Rightarrow> ('r prism_store, unit) eff" where
  "ps_save_task_graph P graph = eseq (fallback_do (save_task_graph graph)) (persist_task_graph P graph)"

definition ps_get_task_graph ::
  "'r persistence \<Rightarrow> string \<Rightarrow> string \<Rightarrow> ('r prism_store, TaskGraph option) eff" where
  "ps_get_task_graph P workspace_id plan_id =
     eseq (restore_run_state P workspace_id plan_id) (fallback_get (get_task_graph workspace_id plan_id))"

definition ps_save_sub_agent_result ::
  "'r persistence \<Rightarrow> string \<Rightarrow> string \<Rightarrow> SubAgentResult \<Rightarrow> ('r prism_store, unit) eff" where
  "ps_save_sub_agent_result P workspace_id run_id result =
     eseq (fallback_do (save_sub_agent_result workspace_id run_id result))
       (persist_sub_agent_result P workspace_id run_id result)"

definition ps_get_sub_agent_results ::
  "'r persistence \<Rightarrow> string \<Rightarrow> string \<Rightarrow> ('r prism_store, SubAgentResult list) eff" where
  "ps_get_sub_agent_results P workspace_id run_id =
     eseq (restore_run_state P workspace_id run_id) (fallback_get (get_sub_agent_results workspace_id run_id))"

definition ps_claim_ready_nodes ::
  "'r persistence \<Rightarrow> string \<Rightarrow> string \<Rightarrow> ('r prism_store, SubTask list) eff" where
  "ps_claim_ready_nodes P workspace_id run_id =
     ebind (ps_get_task_graph P workspace_id run_id) (\<lambda>found.
     case found of
       None \<Rightarrow> ret []
     | Some graph \<Rightarrow>
         (let (graph', claimed) = claim_ready graph in
          eseq (if claimed \<noteq> [] then ps_save_task_graph P (bumped graph') else ret ()) (ret claimed)))"

definition ps_advance_task_graph ::
  "'r persistence \<Rightarrow> string \<Rightarrow> string \<Rightarrow> string \<Rightarrow> SubTaskStatus
   \<Rightarrow> ('r prism_store, TaskGraphAdvance option) eff" where
  "ps_advance_task_graph P workspace_id run_id node_id status =
     ebind (ps_get_task_graph P workspace_id run_id) (\<lambda>found.
     case found of
       None \<Rightarrow> ret None
     | Some graph \<Rightarrow>
         (let advance = plan_advance graph node_id status in
          eseq (if \<not> adv_already_processed advance
                then ps_save_task_graph P (bumped (adv_graph advance)) else ret ())
            (ret (Some advance))))"

definition ps_save_context_snapshot :: "'r persistence \<Rightarrow> ContextSnapshot \<Rightarrow> ('r prism_store, unit) eff" where
  "ps_save_context_snapshot P snapshot =
     eseq (fallback_do (save_context_snapshot snapshot)) (persist_context_snapshot P snapshot)"

definition ps_get_context_snapshot ::
  "string \<Rightarrow> string \<Rightarrow> ('r prism_store, ContextSnapshot option) eff" where
  "ps_get_context_snapshot workspace_id ref = fallback_get (get_context_snapshot workspace_id ref)"

definition ps_save_action_result :: "'r persistence \<Rightarrow> ToolResult \<Rightarrow> ('r prism_store, unit) eff" where
  "ps_save_action_result P result =
     eseq (fallback_do (save_action_result result)) (persist_action_result P result)"

definition ps_get_action_result :: "string \<Rightarrow> string \<Rightarrow> ('r prism_store, ToolResult option) eff" where
  "ps_get_action_result plan_id action_id = fallback_get (get_action_result plan_id action_id)"

definition ps_append_trace_event :: "TraceEvent \<Rightarrow> ('r prism_store, unit) eff" where
  "ps_append_trace_event t = fallback_do (append_trace_event t)"

definition ps_traces :: "'r prism_store \<Rightarrow> TraceEvent list" where
  "ps_traces s = ms_traces (ps_fallback s)"

definition ps_mark_action_completed ::
  "'r persistence \<Rightarrow> string \<Rightarrow> string \<Rightarrow> string \<Rightarrow> ('r prism_store, unit) eff" where
  "ps_mark_action_completed P workspace_id plan_id action_id =
     ebind (fallback_get (\<lambda>m. Option.bind (get_plan workspace_id plan_id m) (\<lambda>p. get_action p action_id)))
       (\<lambda>action.
     if action = None then ret ()
     else
     ebind (ps_now P) (\<lambda>t1.
     ebind (ps_now P) (\<lambda>t2.
     fallback_do (mark_action_completed t1 t2 workspace_id plan_id action_id))))"

text \<open>\<open>key.removeprefix(...)\<close> of a feature-provisioning key.\<close>

definition run_id_from_idempotency_key :: "string \<Rightarrow> string option" where
  "run_id_from_idempotency_key key =
     (let prefix = FEATURE_PROVISIONING_IDEMPOTENCY_PREFIX in
      if take (length prefix) key = prefix then Some (drop (length prefix) key) else None)"

text \<open>\<open>run_id or self._run_id_from_idempotency_key(key)\<close>\<close>

definition candidate_run_id :: "string option \<Rightarrow> string \<Rightarrow> string option" where
  "candidate_run_id run_id key =
     (if opt_truthy run_id then run_id else run_id_from_idempotency_key key)"

definition check_workspace_idempotency_key ::
  "'r persistence \<Rightarrow> string \<Rightarrow> string \<Rightarrow> string option \<Rightarrow> ('r prism_store, bool) eff" where
  "check_workspace_idempotency_key P workspace_id key run_id =
     ebind (fallback_get (check_idempotency_key key)) (\<lambda>known.
     if known then ret True
     else case candidate_run_id run_id key of
       None \<Rightarrow> ret False
     | Some candidate \<Rightarrow>
         eseq (restore_run_state P workspace_id candidate) (fallback_get (check_idempotency_key key)))"

definition record_workspace_idempotency_key ::
  "'r persistence \<Rightarrow> string \<Rightarrow> string \<Rightarrow> string option \<Rightarrow> ('r prism_store, unit) eff" where
  "record_workspace_idempotency_key P workspace_id key run_id =
     eseq (fallback_do (record_idempotency_key key))
       (case candidate_run_id run_id key of
          None \<Rightarrow> ret ()
        | Some candidate \<Rightarrow> persist_idempotency_key P workspace_id candidate key)"

definition ps_check_idempotency_key :: "'r persistence \<Rightarrow> string \<Rightarrow> ('r prism_store, bool) eff" where
  "ps_check_idempotency_key P key =
     ebind (fallback_get (check_idempotency_key key)) (\<lambda>known.
     if known then ret True
     else
     ebind (gets (\<lambda>s. dget (ps_locations s) key)) (\<lambda>location.
     case location of
       None \<Rightarrow> ret False
     | Some (workspace_id, run_id) \<Rightarrow> check_workspace_idempotency_key P workspace_id key (Some run_id)))"

definition ps_record_idempotency_key :: "'r persistence \<Rightarrow> string \<Rightarrow> ('r prism_store, unit) eff" where
  "ps_record_idempotency_key P key =
     eseq (fallback_do (record_idempotency_key key))
     (ebind (gets (\<lambda>s. dget (ps_locations s) key)) (\<lambda>location.
      case location of
        None \<Rightarrow> ret ()
      | Some (workspace_id, run_id) \<Rightarrow> record_workspace_idempotency_key P workspace_id key (Some run_id)))"

end
