(* ===== verification/Store_Durability.thy ===== *)
theory Store_Durability
  imports Persistent_Store
begin

text \<open>
  The durable store keeps its contract across processes: a locale states what the transport must
  guarantee (a put is visible to every later fetch of the run, a fetch changes nothing), the store's
  guarantees are proved in it, and the object-storage transport implements it on a bucket.
\<close>

section \<open>Records and their text\<close>

lemma strip_nonempty: "\<not> is_space c \<Longrightarrow> strip (c # s) \<noteq> []"
  by (auto simp: strip_def dropWhile_eq_Nil_conv)

lemma decode_state_content:
  assumes "json_ok (PDict ((''schema'', PStr STATE_SCHEMA) # record))"
  obtains decoded where "decode_state_record (PStr (state_content record)) = Some decoded"
    and "\<And>k. k \<noteq> ''schema'' \<Longrightarrow> dget decoded k = map_option sort_keys (dget record k)"
proof -
  let ?full = "(''schema'', PStr STATE_SCHEMA) # record"
  obtain e where e: "sort_keys (PDict ?full) = PDict e" by simp
  have look: "dget e k = map_option sort_keys (dget ?full k)" for k
    by (rule dget_sort_keys [OF _ e]) (use assms in simp)
  have loads: "json_loads (state_content record) = Some (PDict e)"
    using json_round_trip [OF json_ok_sort_keys [OF assms]] by (simp only: state_content_def e)
  have starts: "\<exists>cs. state_content record = CHR ''{'' # cs"
    unfolding state_content_def e by simp
  have "strip (state_content record) \<noteq> []"
    using starts strip_nonempty [of "CHR ''{''"] by (auto simp: is_space_def)
  then have "decode_state_record (PStr (state_content record)) = Some e"
    by (simp add: decode_state_record_def loads pget_def look)
  then show ?thesis by (rule that) (simp add: look)
qed

text \<open>What the models of pydantic promise: loading what was dumped, in any key order.\<close>

definition codec_ok :: "model_codec \<Rightarrow> bool" where
  "codec_ok c \<longleftrightarrow>
     (\<forall>g. json_ok (mc_dump_graph c g) \<and> mc_load_graph c (sort_keys (mc_dump_graph c g)) = Some g)"

text \<open>The graph a stored memory holds, if it holds one.\<close>

definition graph_of_memory :: "model_codec \<Rightarrow> pydict \<Rightarrow> TaskGraph option" where
  "graph_of_memory c m =
     (case decode_state_record (pget m ''content'') of
        Some rec \<Rightarrow> if pget rec ''kind'' = PStr ''task_graph'' then mc_load_graph c (pget rec ''graph'') else None
      | None \<Rightarrow> None)"

definition key_of_memory :: "pydict \<Rightarrow> string option" where
  "key_of_memory m =
     (case decode_state_record (pget m ''content'') of
        Some rec \<Rightarrow>
          if pget rec ''kind'' = PStr ''idempotency_key''
          then (case pget rec ''key'' of PStr k \<Rightarrow> if k \<noteq> [] then Some k else None | _ \<Rightarrow> None) else None
      | None \<Rightarrow> None)"

text \<open>A memory whose replay cannot raise: its run id, if it has one, is a string.\<close>

definition replayable :: "pydict \<Rightarrow> bool" where
  "replayable m \<longleftrightarrow>
     (case decode_state_record (pget m ''content'') of
        Some rec \<Rightarrow> (case pget rec ''run_id'' of PList _ \<Rightarrow> False | PDict _ \<Rightarrow> False | _ \<Rightarrow> True)
      | None \<Rightarrow> True)"


section \<open>Replay\<close>

lemma remember_frame:
  "\<exists>ls. remember_plan_idempotency plan s = (Inr (), s\<lparr>ps_locations := ls\<rparr>)"
proof -
  have "\<exists>ls. efor as (\<lambda>a. locate (pa_idempotency_key a) l) s = (Inr (), s\<lparr>ps_locations := ls\<rparr>)" for as l
  proof (induction as arbitrary: s)
    case Nil
    then show ?case by (auto simp: ret_def intro: exI [of _ "ps_locations s"])
  next
    case (Cons a as)
    show ?case
      using Cons.IH [of "s\<lparr>ps_locations := dset (pa_idempotency_key a) l (ps_locations s)\<rparr>"]
      by (auto simp: locate_def eff_defs)
  qed
  then show ?thesis by (simp add: remember_plan_idempotency_def)
qed

text \<open>One replayed memory: the backend is untouched, keys only grow, and the graph cache takes its graph.\<close>

definition replays :: "model_codec \<Rightarrow> pydict \<Rightarrow> 'r prism_store \<Rightarrow> 'r prism_store \<Rightarrow> bool" where
  "replays c m s s' \<longleftrightarrow>
     ps_backend s' = ps_backend s \<and>
     (\<forall>k. check_idempotency_key k (ps_fallback s') \<longleftrightarrow>
        check_idempotency_key k (ps_fallback s) \<or> key_of_memory m = Some k) \<and>
     (\<forall>w p. get_task_graph w p (ps_fallback s') =
        (case graph_of_memory c m of
           Some g \<Rightarrow> if (w, p) = (tg_workspace_id g, tg_plan_id g) then Some g
                     else get_task_graph w p (ps_fallback s)
         | None \<Rightarrow> get_task_graph w p (ps_fallback s)))"

lemma replays_fallback:
  assumes "key_of_memory m = None" and "graph_of_memory c m = None"
    and "\<And>k. check_idempotency_key k (f (ps_fallback s)) = check_idempotency_key k (ps_fallback s)"
    and "\<And>w p. get_task_graph w p (f (ps_fallback s)) = get_task_graph w p (ps_fallback s)"
  shows "replays c m s (s\<lparr>ps_fallback := f (ps_fallback s)\<rparr>)"
    and "replays c m s (s\<lparr>ps_fallback := f (ps_fallback s), ps_locations := ls\<rparr>)"
  using assms by (simp_all add: replays_def)

lemma load_memory_effect:
  assumes ok: "replayable m"
  shows "\<exists>s'. load_memory P ws run (PDict m) s = (Inr (), s') \<and> replays (pe_codec P) m s s'"
proof (cases "decode_state_record (pget m ''content'')")
  case None
  then show ?thesis by (simp add: load_memory_def ret_def key_of_memory_def graph_of_memory_def replays_def)
next
  case (Some rec)
  let ?c = "pe_codec P" and ?kind = "pget rec ''kind''"
  have key: "key_of_memory m = None" if "?kind \<noteq> PStr ''idempotency_key''"
    using that by (simp add: key_of_memory_def Some)
  have graph: "graph_of_memory ?c m = None" if "?kind \<noteq> PStr ''task_graph''"
    using that by (simp add: graph_of_memory_def Some)
  have noop: "replays ?c m s s" if "key_of_memory m = None" "graph_of_memory ?c m = None"
    using that by (simp add: replays_def)
  have load: "load_memory P ws run (PDict m) s = load_record P ws run rec s"
    by (simp add: load_memory_def Some)
  note frame = replays_fallback [where c = ?c and m = m and s = s]
  consider (plan) "?kind = PStr ''plan''" | (snapshot) "?kind = PStr ''context_snapshot''"
    | (result) "?kind = PStr ''action_result''" | (graph) "?kind = PStr ''task_graph''"
    | (sub) "?kind = PStr ''sub_agent_result''" | (key) "?kind = PStr ''idempotency_key''"
    | (other) "?kind \<notin> PStr ` {''plan'', ''context_snapshot'', ''action_result'', ''task_graph'',
        ''sub_agent_result'', ''idempotency_key''}"
    by auto
  then show ?thesis
  proof cases
    case plan
    show ?thesis
    proof (cases "mc_load_plan ?c (pget rec ''plan'')")
      case None
      then show ?thesis using noop key graph plan by (simp add: load load_record_def Let_def ret_def)
    next
      case (Some p)
      obtain ls where "remember_plan_idempotency p (s\<lparr>ps_fallback := save_plan p (ps_fallback s)\<rparr>) =
          (Inr (), s\<lparr>ps_fallback := save_plan p (ps_fallback s), ps_locations := ls\<rparr>)"
        using remember_frame [of p "s\<lparr>ps_fallback := save_plan p (ps_fallback s)\<rparr>"] by auto
      then show ?thesis
        using plan Some frame(2) [of "save_plan p" ls] key graph
        by (simp add: load load_record_def Let_def fallback_do_def eff_defs)
    qed
  next
    case snapshot
    then show ?thesis
      using noop frame(1) key graph
      by (cases "mc_load_snapshot ?c (pget rec ''snapshot'')")
        (simp_all add: load load_record_def Let_def fallback_do_def eff_defs)
  next
    case result
    then show ?thesis
      using noop frame(1) key graph
      by (cases "mc_load_result ?c (pget rec ''result'')")
        (simp_all add: load load_record_def Let_def fallback_do_def eff_defs)
  next
    case graph
    then show ?thesis
      using key
      by (cases "mc_load_graph ?c (pget rec ''graph'')")
        (simp_all add: load load_record_def Let_def fallback_do_def eff_defs replays_def graph_of_memory_def Some)
  next
    case sub
    then show ?thesis
      using noop frame(1) key graph ok
      by (cases "mc_load_sub_result ?c (pget rec ''result'')"; cases "pget rec ''run_id''")
        (simp_all add: load load_record_def Let_def fallback_do_def eff_defs por_def replayable_def Some)
  next
    case key
    then show ?thesis
      using graph
      by (cases "pget rec ''key''")
        (auto simp: load load_record_def Let_def fallback_do_def locate_def eff_defs replays_def
          key_of_memory_def Some)
  next
    case other
    then show ?thesis using noop key graph by (auto simp: load load_record_def Let_def ret_def)
  qed
qed

definition graphs_at :: "model_codec \<Rightarrow> pydict set \<Rightarrow> string \<Rightarrow> string \<Rightarrow> TaskGraph set" where
  "graphs_at c M w p =
     {g. \<exists>m \<in> M. graph_of_memory c m = Some g \<and> tg_workspace_id g = w \<and> tg_plan_id g = p}"

lemma load_memories_effect:
  assumes "\<forall>m \<in> set ms. replayable m"
  shows "\<exists>s'. efor (map PDict ms) (load_memory P ws run) s = (Inr (), s') \<and> ps_backend s' = ps_backend s \<and>
    (\<forall>k. check_idempotency_key k (ps_fallback s') \<longleftrightarrow>
       check_idempotency_key k (ps_fallback s) \<or> (\<exists>m \<in> set ms. key_of_memory m = Some k)) \<and>
    (\<forall>w p. get_task_graph w p (ps_fallback s') \<in> Some ` graphs_at (pe_codec P) (set ms) w p \<or>
       graphs_at (pe_codec P) (set ms) w p = {} \<and>
       get_task_graph w p (ps_fallback s') = get_task_graph w p (ps_fallback s))"
  using assms
proof (induction ms arbitrary: s)
  case Nil
  then show ?case by (simp add: ret_def graphs_at_def)
next
  case (Cons m ms)
  obtain s1 where s1: "load_memory P ws run (PDict m) s = (Inr (), s1)" "replays (pe_codec P) m s s1"
    using load_memory_effect [of m P ws run s] Cons.prems by auto
  obtain s' where s': "efor (map PDict ms) (load_memory P ws run) s1 = (Inr (), s')"
    "ps_backend s' = ps_backend s1"
    "\<forall>k. check_idempotency_key k (ps_fallback s') \<longleftrightarrow>
       check_idempotency_key k (ps_fallback s1) \<or> (\<exists>m \<in> set ms. key_of_memory m = Some k)"
    "\<forall>w p. get_task_graph w p (ps_fallback s') \<in> Some ` graphs_at (pe_codec P) (set ms) w p \<or>
       graphs_at (pe_codec P) (set ms) w p = {} \<and>
       get_task_graph w p (ps_fallback s') = get_task_graph w p (ps_fallback s1)"
    using Cons.IH [of s1] Cons.prems by auto
  have split: "graphs_at (pe_codec P) (set (m # ms)) w p =
      graphs_at (pe_codec P) {m} w p \<union> graphs_at (pe_codec P) (set ms) w p" for w p
    by (auto simp: graphs_at_def)
  have one: "graphs_at (pe_codec P) {m} w p =
      (case graph_of_memory (pe_codec P) m of
         Some g \<Rightarrow> if (w, p) = (tg_workspace_id g, tg_plan_id g) then {g} else {} | None \<Rightarrow> {})" for w p
    by (auto simp: graphs_at_def split: option.splits)
  have graph: "get_task_graph w p (ps_fallback s') \<in> Some ` graphs_at (pe_codec P) (set (m # ms)) w p \<or>
      graphs_at (pe_codec P) (set (m # ms)) w p = {} \<and>
      get_task_graph w p (ps_fallback s') = get_task_graph w p (ps_fallback s)" for w p
    using s'(4) [rule_format, of w p] s1(2) unfolding split one replays_def
    by (auto split: option.splits if_splits)
  show ?case
    using s1 s' graph by (auto simp: eseq_def ebind_def replays_def)
qed


section \<open>The state of a transport\<close>

type_synonym 'r memories = "'r backend \<Rightarrow> string \<Rightarrow> pydict option"

type_synonym slots = "string \<Rightarrow> string \<Rightarrow> string \<Rightarrow> string"

definition graph_slot :: "'r persistence \<Rightarrow> slots \<Rightarrow> string \<Rightarrow> string \<Rightarrow> string" where
  "graph_slot P slot ws pid = slot ws pid (state_memory_id P [pid, ''task_graph''])"

text \<open>Every stored memory can be replayed, and a graph is stored only in its own slot.\<close>

definition memories_ok :: "'r persistence \<Rightarrow> 'r memories \<Rightarrow> slots \<Rightarrow> 'r backend \<Rightarrow> bool" where
  "memories_ok P memory_at slot b \<longleftrightarrow> (\<forall>n m. memory_at b n = Some m \<longrightarrow> replayable m \<and>
     (\<forall>g. graph_of_memory (pe_codec P) m = Some g \<longrightarrow>
        n = graph_slot P slot (tg_workspace_id g) (tg_plan_id g)))"

definition holds_graph :: "'r persistence \<Rightarrow> 'r memories \<Rightarrow> slots \<Rightarrow> 'r backend \<Rightarrow> TaskGraph \<Rightarrow> bool" where
  "holds_graph P memory_at slot b g \<longleftrightarrow>
     (\<exists>m. memory_at b (graph_slot P slot (tg_workspace_id g) (tg_plan_id g)) = Some m \<and>
        graph_of_memory (pe_codec P) m = Some g)"

definition holds_key ::
  "'r memories \<Rightarrow> (string \<Rightarrow> string \<Rightarrow> string \<Rightarrow> bool) \<Rightarrow> 'r backend \<Rightarrow> string \<Rightarrow> string \<Rightarrow> string \<Rightarrow> bool" where
  "holds_key memory_at visible b ws run k \<longleftrightarrow>
     (\<exists>n m. visible ws run n \<and> memory_at b n = Some m \<and> key_of_memory m = Some k)"


section \<open>The transport's contract\<close>

text \<open>
  What the store needs of a transport: a put replaces the memory at the slot its run and id name and
  nothing else; a fetch of a run returns exactly the memories visible to it, provided they fit in one
  listing, and changes nothing; a run sees its own slots.
\<close>

locale durable_transport =
  fixes P :: "'r persistence"
    and memory_at :: "'r backend \<Rightarrow> string \<Rightarrow> pydict option"
    and slot :: "string \<Rightarrow> string \<Rightarrow> string \<Rightarrow> string"
    and visible :: "string \<Rightarrow> string \<Rightarrow> string \<Rightarrow> bool"
    and fits :: "'r backend \<Rightarrow> string \<Rightarrow> string \<Rightarrow> bool"
  assumes put: "pget payload ''memoryId'' = PStr i \<Longrightarrow> i \<noteq> [] \<Longrightarrow> json_ok (PDict payload) \<Longrightarrow>
      \<exists>b'. tp_put_memory (pe_transport P) ws run payload b = (Inr (), b') \<and>
        memory_at b' = (memory_at b)(slot ws run i \<mapsto> payload)"
    and fetch: "fits b ws run \<Longrightarrow>
      \<exists>ms. tp_fetch_run_state (pe_transport P) ws run b = (Inr [(''memories'', PList (map PDict ms))], b) \<and>
        set ms = {m. \<exists>n. visible ws run n \<and> memory_at b n = Some m}"
    and slot_visible: "visible ws run (slot ws run i)"
    and persists: "pe_persist_agent_memories P"
    and codec: "codec_ok (pe_codec P)"
    and uuids: "uuid5_of (pe_env P) x \<noteq> []"
begin

abbreviation graph_at :: "string \<Rightarrow> string \<Rightarrow> string" where
  "graph_at \<equiv> graph_slot P slot"

abbreviation ok :: "'r backend \<Rightarrow> bool" where
  "ok \<equiv> memories_ok P memory_at slot"

abbreviation holds :: "'r backend \<Rightarrow> TaskGraph \<Rightarrow> bool" where
  "holds \<equiv> holds_graph P memory_at slot"

abbreviation has_key :: "'r backend \<Rightarrow> string \<Rightarrow> string \<Rightarrow> string \<Rightarrow> bool" where
  "has_key \<equiv> holds_key memory_at visible"

lemma state_memory_id_nonempty: "state_memory_id P parts \<noteq> []"
  using uuids uuid_str_length
  by (fastforce simp: state_memory_id_def stable_agent_run_uuid_def Let_def split: option.splits)

text \<open>One persisted record.\<close>

lemma persist_effect:
  assumes "json_ok (PDict ((''schema'', PStr STATE_SCHEMA) # rec))" and "i \<noteq> []"
  obtains b' m where
    "persist_state_memory P ws i run mtype title rec None s = (Inr (), s\<lparr>ps_backend := b'\<rparr>)"
    and "memory_at b' = (memory_at (ps_backend s))(slot ws run i \<mapsto> m)"
    and "pget m ''content'' = PStr (state_content rec)"
proof -
  let ?payload = "[(''memoryId'', PStr i), (''runId'', PStr run), (''memoryType'', PStr mtype),
      (''title'', PStr (take 100 title)), (''content'', PStr (state_content rec)),
      (''contentHash'', PStr (mc_sha256 (pe_codec P) (state_content rec)))]"
  obtain b' where b': "tp_put_memory (pe_transport P) ws run ?payload (ps_backend s) = (Inr (), b')"
    "memory_at b' = (memory_at (ps_backend s))(slot ws run i \<mapsto> ?payload)"
    using put [of ?payload i ws run "ps_backend s"] assms(2) by auto
  show ?thesis
    by (rule that [of b' ?payload])
      (use b' in \<open>simp_all add: persist_state_memory_def persists Let_def on_backend_def on_part_def\<close>)
qed

lemma restore_effect:
  assumes "ok (ps_backend s)" and "fits (ps_backend s) ws run"
  shows "\<exists>s'. restore_run_state P ws run s = (Inr (), s') \<and> ps_backend s' = ps_backend s \<and>
    (has_key (ps_backend s) ws run k \<longrightarrow> check_idempotency_key k (ps_fallback s')) \<and>
    (\<forall>g. holds (ps_backend s) g \<and> tg_workspace_id g = ws \<and> tg_plan_id g = run \<longrightarrow>
       get_task_graph ws run (ps_fallback s') = Some g)"
proof -
  obtain ms where f: "tp_fetch_run_state (pe_transport P) ws run (ps_backend s) =
      (Inr [(''memories'', PList (map PDict ms))], ps_backend s)"
    and ms: "set ms = {m. \<exists>n. visible ws run n \<and> memory_at (ps_backend s) n = Some m}"
    using fetch [OF assms(2)] by blast
  have rs: "run_state P ws run s = (Inr [(''memories'', PList (map PDict ms))], s)"
    by (simp add: run_state_def catch_def on_backend_def on_part_def f)
  have "\<forall>m \<in> set ms. replayable m" using assms(1) by (auto simp: ms memories_ok_def)
  then obtain s' where s': "efor (map PDict ms) (load_memory P ws run) s = (Inr (), s')"
    "ps_backend s' = ps_backend s"
    "\<forall>k. check_idempotency_key k (ps_fallback s') \<longleftrightarrow>
       check_idempotency_key k (ps_fallback s) \<or> (\<exists>m \<in> set ms. key_of_memory m = Some k)"
    "\<forall>w p. get_task_graph w p (ps_fallback s') \<in> Some ` graphs_at (pe_codec P) (set ms) w p \<or>
       graphs_at (pe_codec P) (set ms) w p = {} \<and>
       get_task_graph w p (ps_fallback s') = get_task_graph w p (ps_fallback s)"
    using load_memories_effect [of ms P ws run s] by blast
  have restore: "restore_run_state P ws run s = (Inr (), s')"
    by (simp add: restore_run_state_def ebind_def rs load_state_memories_def s'(1))
  have graph: "get_task_graph ws run (ps_fallback s') = Some g"
    if g: "holds (ps_backend s) g" "tg_workspace_id g = ws" "tg_plan_id g = run" for g
  proof -
    from g obtain m where m: "memory_at (ps_backend s) (graph_at ws run) = Some m"
      "graph_of_memory (pe_codec P) m = Some g" by (auto simp: holds_graph_def)
    have vis: "visible ws run (graph_at ws run)" by (simp add: graph_slot_def slot_visible)
    have "graphs_at (pe_codec P) (set ms) ws run = {g}"
    proof (intro equalityI subsetI)
      fix h assume "h \<in> graphs_at (pe_codec P) (set ms) ws run"
      then obtain n m' where "memory_at (ps_backend s) n = Some m'" "graph_of_memory (pe_codec P) m' = Some h"
        "tg_workspace_id h = ws" "tg_plan_id h = run" by (auto simp: graphs_at_def ms)
      with assms(1) m show "h \<in> {g}" by (fastforce simp: memories_ok_def)
    qed (use m vis g in \<open>auto simp: graphs_at_def ms\<close>)
    then show ?thesis using s'(4) [rule_format, of ws run] by auto
  qed
  show ?thesis
    using restore s'(2,3) graph by (auto simp: holds_key_def ms)
qed

lemma graph_record_ok:
  "json_ok (PDict ((''schema'', PStr STATE_SCHEMA) #
     [(''kind'', PStr ''task_graph''), (''graph'', mc_dump_graph (pe_codec P) g)]))"
  using codec by (simp add: codec_ok_def)

lemma graph_of_saved:
  assumes "pget m ''content'' = PStr (state_content [(''kind'', PStr ''task_graph''), (''graph'', mc_dump_graph (pe_codec P) g)])"
  shows "graph_of_memory (pe_codec P) m = Some g" and "replayable m"
proof -
  obtain d where d: "decode_state_record (pget m ''content'') = Some d"
    "\<And>k. k \<noteq> ''schema'' \<Longrightarrow> dget d k =
      map_option sort_keys (dget [(''kind'', PStr ''task_graph''), (''graph'', mc_dump_graph (pe_codec P) g)] k)"
    using decode_state_content [OF graph_record_ok] assms by metis
  have "pget d ''kind'' = PStr ''task_graph''" "pget d ''graph'' = sort_keys (mc_dump_graph (pe_codec P) g)"
    "pget d ''run_id'' = PNone" by (simp_all add: pget_def d(2))
  then show "graph_of_memory (pe_codec P) m = Some g" "replayable m"
    using codec by (simp_all add: graph_of_memory_def replayable_def d(1) codec_ok_def)
qed

lemma save_graph_effect:
  assumes "ok (ps_backend s)"
  shows "\<exists>s'. ps_save_task_graph P g s = (Inr (), s') \<and> ok (ps_backend s') \<and> holds (ps_backend s') g"
proof -
  let ?s = "s\<lparr>ps_fallback := save_task_graph g (ps_fallback s)\<rparr>"
  let ?id = "state_memory_id P [tg_plan_id g, ''task_graph'']"
  obtain b' m where "persist_state_memory P (tg_workspace_id g) ?id (tg_plan_id g) ''agent_decision'' ''Task graph''
      [(''kind'', PStr ''task_graph''), (''graph'', mc_dump_graph (pe_codec P) g)] None ?s =
      (Inr (), ?s\<lparr>ps_backend := b'\<rparr>)"
    and at: "memory_at b' = (memory_at (ps_backend ?s))(slot (tg_workspace_id g) (tg_plan_id g) ?id \<mapsto> m)"
    and content: "pget m ''content'' =
      PStr (state_content [(''kind'', PStr ''task_graph''), (''graph'', mc_dump_graph (pe_codec P) g)])"
    by (rule persist_effect [OF graph_record_ok state_memory_id_nonempty])
  then have b': "persist_task_graph P g ?s = (Inr (), ?s\<lparr>ps_backend := b'\<rparr>)"
    "memory_at b' = (memory_at (ps_backend s))(graph_at (tg_workspace_id g) (tg_plan_id g) \<mapsto> m)"
    by (simp_all add: persist_task_graph_def graph_slot_def)
  note m = graph_of_saved [OF content]
  have "ok b'"
    using assms m by (auto simp: memories_ok_def b'(2))
  moreover have "holds b' g" using m(1) by (simp add: holds_graph_def b'(2))
  ultimately show ?thesis
    using b'(1) by (simp add: ps_save_task_graph_def fallback_do_def eff_defs)
qed

lemma read_graph_effect:
  assumes "ok (ps_backend s)" and "holds (ps_backend s) g"
    and "fits (ps_backend s) (tg_workspace_id g) (tg_plan_id g)"
  shows "\<exists>s'. ps_get_task_graph P (tg_workspace_id g) (tg_plan_id g) s = (Inr (Some g), s') \<and>
    ps_backend s' = ps_backend s"
  using restore_effect [OF assms(1,3)] assms(2)
  by (force simp: ps_get_task_graph_def fallback_get_def eff_defs)

text \<open>
  Refinement: on the durable graph, claiming and advancing act as the pure operations do, whichever
  process runs them and whatever its cache holds.
\<close>

lemma claim_effect:
  assumes "ok (ps_backend s)" and "holds (ps_backend s) g"
    and "fits (ps_backend s) (tg_workspace_id g) (tg_plan_id g)"
  shows "\<exists>s'. ps_claim_ready_nodes P (tg_workspace_id g) (tg_plan_id g) s = (Inr (snd (claim_ready g)), s') \<and>
    ok (ps_backend s') \<and>
    holds (ps_backend s') (if snd (claim_ready g) = [] then g else bumped (fst (claim_ready g)))"
proof -
  obtain s1 where s1: "ps_get_task_graph P (tg_workspace_id g) (tg_plan_id g) s = (Inr (Some g), s1)"
    "ps_backend s1 = ps_backend s"
    using read_graph_effect [OF assms] by blast
  obtain g' claimed where c: "claim_ready g = (g', claimed)" by fastforce
  obtain s' where "ps_save_task_graph P (bumped g') s1 = (Inr (), s')" "ok (ps_backend s')"
    "holds (ps_backend s') (bumped g')"
    using save_graph_effect [of s1 "bumped g'"] assms(1) s1(2) by auto
  then show ?thesis
    using s1 assms(1,2) by (auto simp: ps_claim_ready_nodes_def c eff_defs)
qed

lemma advance_effect:
  assumes "ok (ps_backend s)" and "holds (ps_backend s) g"
    and "fits (ps_backend s) (tg_workspace_id g) (tg_plan_id g)"
  shows "\<exists>s'. ps_advance_task_graph P (tg_workspace_id g) (tg_plan_id g) node status s =
      (Inr (Some (plan_advance g node status)), s') \<and> ok (ps_backend s') \<and>
    holds (ps_backend s') (if adv_already_processed (plan_advance g node status) then g
                           else bumped (adv_graph (plan_advance g node status)))"
proof -
  obtain s1 where s1: "ps_get_task_graph P (tg_workspace_id g) (tg_plan_id g) s = (Inr (Some g), s1)"
    "ps_backend s1 = ps_backend s"
    using read_graph_effect [OF assms] by blast
  let ?g' = "bumped (adv_graph (plan_advance g node status))"
  obtain s' where "ps_save_task_graph P ?g' s1 = (Inr (), s')" "ok (ps_backend s')" "holds (ps_backend s') ?g'"
    using save_graph_effect [of s1 ?g'] assms(1) s1(2) by auto
  then show ?thesis
    using s1 assms(1,2) by (auto simp: ps_advance_task_graph_def eff_defs Let_def)
qed

text \<open>A recorded key is known to every process that asks for its run.\<close>

lemma key_record_ok: "json_ok (PDict ((''schema'', PStr STATE_SCHEMA) # [(''kind'', PStr ''idempotency_key''), (''key'', PStr k)]))"
  by simp

lemma key_of_saved:
  assumes "pget m ''content'' = PStr (state_content [(''kind'', PStr ''idempotency_key''), (''key'', PStr k)])"
    and "k \<noteq> []"
  shows "key_of_memory m = Some k" and "replayable m" and "graph_of_memory c m = None"
proof -
  obtain d where d: "decode_state_record (pget m ''content'') = Some d"
    "\<And>x. x \<noteq> ''schema'' \<Longrightarrow> dget d x =
      map_option sort_keys (dget [(''kind'', PStr ''idempotency_key''), (''key'', PStr k)] x)"
    using decode_state_content [OF key_record_ok] assms by metis
  have "pget d ''kind'' = PStr ''idempotency_key''" "pget d ''key'' = PStr k" "pget d ''run_id'' = PNone"
    by (simp_all add: pget_def d(2))
  then show "key_of_memory m = Some k" "replayable m" "graph_of_memory c m = None"
    using assms(2) by (simp_all add: key_of_memory_def graph_of_memory_def replayable_def d(1))
qed

lemma record_key_effect:
  assumes "ok (ps_backend s)" and "run \<noteq> []" and "k \<noteq> []"
  shows "\<exists>s'. record_workspace_idempotency_key P ws k (Some run) s = (Inr (), s') \<and>
    ok (ps_backend s') \<and> has_key (ps_backend s') ws run k"
proof -
  let ?s = "s\<lparr>ps_fallback := record_idempotency_key k (ps_fallback s)\<rparr>"
  let ?id = "state_memory_id P [''idempotency'', k]"
  obtain b' m where "persist_state_memory P ws ?id run ''agent_decision'' ''Idempotency key''
      [(''kind'', PStr ''idempotency_key''), (''key'', PStr k)] None ?s = (Inr (), ?s\<lparr>ps_backend := b'\<rparr>)"
    and at: "memory_at b' = (memory_at (ps_backend ?s))(slot ws run ?id \<mapsto> m)"
    and content: "pget m ''content'' =
      PStr (state_content [(''kind'', PStr ''idempotency_key''), (''key'', PStr k)])"
    by (rule persist_effect [OF key_record_ok state_memory_id_nonempty])
  then have b': "persist_idempotency_key P ws run k ?s = (Inr (), ?s\<lparr>ps_backend := b'\<rparr>)"
    by (simp add: persist_idempotency_key_def)
  note m = key_of_saved [OF content assms(3)]
  have "ok b'" using assms(1) m by (auto simp: memories_ok_def at)
  moreover have "has_key b' ws run k"
    using m(1) slot_visible by (auto simp: holds_key_def at)
  ultimately show ?thesis
    using b' assms(2)
    by (simp add: record_workspace_idempotency_key_def candidate_run_id_def opt_truthy_def fallback_do_def eff_defs)
qed

lemma check_key_effect:
  assumes "ok (ps_backend s)" and "has_key (ps_backend s) ws run k" and "fits (ps_backend s) ws run"
    and "run \<noteq> []"
  shows "\<exists>s'. check_workspace_idempotency_key P ws k (Some run) s = (Inr True, s') \<and>
    ps_backend s' = ps_backend s"
  using restore_effect [OF assms(1,3), of k] assms(2,4)
  by (force simp: check_workspace_idempotency_key_def candidate_run_id_def opt_truthy_def fallback_get_def eff_defs)

end


section \<open>Object storage\<close>

text \<open>
  The documented behaviour of a bucket: an object put replaces the object of that name; a listing by
  prefix returns the names with that prefix, when one page holds them all (a page has at most 1000); an
  object read returns the body put.
\<close>

definition LIST_PAGE :: nat where
  "LIST_PAGE = 1000"

definition has_prefix :: "string \<Rightarrow> string \<Rightarrow> bool" where
  "has_prefix p n \<longleftrightarrow> take (length p) n = p"

definition named :: "(string \<Rightarrow> string option) \<Rightarrow> string \<Rightarrow> string set" where
  "named objs p = {n. objs n \<noteq> None \<and> has_prefix p n}"

locale bucket =
  fixes client :: "'r object_client"
    and objects :: "'r \<Rightarrow> string \<Rightarrow> string option"
  assumes put_object:
      "\<exists>r'. oc_put_object client n body r = (Inr (), r') \<and> objects r' = (objects r)(n \<mapsto> body)"
    and list_objects: "finite (named (objects r) p) \<Longrightarrow> card (named (objects r) p) \<le> LIST_PAGE \<Longrightarrow>
      \<exists>ns. oc_list_objects client p r = (Inr ns, r) \<and> set ns = named (objects r) p"
    and get_object: "objects r n = Some body \<Longrightarrow>
      \<exists>d. oc_get_object client n r = (Inr d, r) \<and> response_data_to_bytes d = Inr body"
begin

lemma read_memories:
  assumes "om_client om = client" and "set ns \<subseteq> {n. objects r n \<noteq> None}"
  shows "\<exists>found. emap (read_memory om) ns r = (Inr found, r) \<and>
    set (concat found) =
      {PDict m |m n. n \<in> set ns \<and> Option.bind (objects r n) json_loads = Some (PDict m)}"
  using assms(2)
proof (induction ns)
  case Nil
  then show ?case by (simp add: ret_def)
next
  case (Cons n ns)
  obtain body where body: "objects r n = Some body" using Cons.prems by auto
  obtain d where d: "oc_get_object client n r = (Inr d, r)" "response_data_to_bytes d = Inr body"
    using get_object [OF body] by blast
  obtain found where found: "emap (read_memory om) ns r = (Inr found, r)"
    "set (concat found) = {PDict m |m n. n \<in> set ns \<and> Option.bind (objects r n) json_loads = Some (PDict m)}"
    using Cons by auto
  let ?ms = "case json_loads body of Some (PDict m) \<Rightarrow> [PDict m] | _ \<Rightarrow> []"
  have read: "read_memory om n r = (Inr ?ms, r)"
    by (simp add: read_memory_def assms(1) d eff_defs)
  have "set ?ms = {PDict m |m. json_loads body = Some (PDict m)}"
    by (auto split: option.splits pyval.splits)
  moreover have "{PDict m |m k. k \<in> set (n # ns) \<and> F k = Some (PDict m)} =
      {PDict m |m. F n = Some (PDict m)} \<union> {PDict m |m k. k \<in> set ns \<and> F k = Some (PDict m)}" for F
    by auto
  ultimately show ?case
    using read found by (simp add: ebind_def ret_def body)
qed

end

definition bucket_memory :: "('r \<Rightarrow> string \<Rightarrow> string option) \<Rightarrow> 'r memories" where
  "bucket_memory objects b n =
     (case Option.bind (objects (bk_remote b) n) json_loads of Some (PDict m) \<Rightarrow> Some m | _ \<Rightarrow> None)"

lemma bucket_memory_iff:
  "bucket_memory objects b n = Some m \<longleftrightarrow> Option.bind (objects (bk_remote b) n) json_loads = Some (PDict m)"
  by (auto simp: bucket_memory_def split: option.splits pyval.splits)

definition one_page :: "('r \<Rightarrow> string \<Rightarrow> string option) \<Rightarrow> 'r object_memory_store \<Rightarrow> 'r backend \<Rightarrow> string \<Rightarrow> string \<Rightarrow> bool" where
  "one_page objects om b ws run \<longleftrightarrow>
     finite (named (objects (bk_remote b)) (run_prefix om ws run)) \<and>
     card (named (objects (bk_remote b)) (run_prefix om ws run)) \<le> LIST_PAGE"

definition in_run :: "'r object_memory_store \<Rightarrow> string \<Rightarrow> string \<Rightarrow> string \<Rightarrow> bool" where
  "in_run om ws run n \<longleftrightarrow> has_prefix (run_prefix om ws run) n"

locale bucket_store = bucket client objects
  for client :: "'r object_client" and objects :: "'r \<Rightarrow> string \<Rightarrow> string option" +
  fixes om :: "'r object_memory_store" and P :: "'r persistence"
  assumes transport: "pe_transport P = object_transport om" "om_client om = client"
    and persists: "pe_persist_agent_memories P"
    and codec: "codec_ok (pe_codec P)"
    and uuids: "uuid5_of (pe_env P) x \<noteq> []"

definition dicts_of :: "pyval list \<Rightarrow> pydict list" where
  "dicts_of vs = List.map_filter (\<lambda>v. case v of PDict m \<Rightarrow> Some m | _ \<Rightarrow> None) vs"

lemma dicts_of_dicts:
  assumes "\<forall>v \<in> set vs. \<exists>m. v = PDict m"
  shows "map PDict (dicts_of vs) = vs" and "set (dicts_of vs) = {m. PDict m \<in> set vs}"
  using assms by (induction vs) (auto simp: dicts_of_def map_filter_simps)

sublocale bucket_store \<subseteq> durable: durable_transport P "bucket_memory objects" "object_name om" "in_run om"
  "one_page objects om"
proof
  fix payload i ws run and b :: "'r backend"
  assume i: "pget payload ''memoryId'' = PStr i" "i \<noteq> []" and "json_ok (PDict payload)"
  obtain r' where r': "oc_put_object client (object_name om ws run i) (json_dumps (PDict payload)) (bk_remote b)
      = (Inr (), r')" "objects r' = (objects (bk_remote b))(object_name om ws run i \<mapsto> json_dumps (PDict payload))"
    using put_object by blast
  have "tp_put_memory (pe_transport P) ws run payload b = (Inr (), b\<lparr>bk_remote := r'\<rparr>)"
    by (simp add: transport object_transport_def om_put_memory_def i str_or_empty_def por_def on_remote_def
        on_part_def r'(1) del: json_dumps.simps)
  moreover have "bucket_memory objects (b\<lparr>bk_remote := r'\<rparr>) =
      (bucket_memory objects b)(object_name om ws run i \<mapsto> payload)"
    using json_round_trip [OF \<open>json_ok (PDict payload)\<close>]
    by (auto simp: bucket_memory_def r'(2) fun_eq_iff simp del: json_dumps.simps)
  ultimately show "\<exists>b'. tp_put_memory (pe_transport P) ws run payload b = (Inr (), b') \<and>
      bucket_memory objects b' = (bucket_memory objects b)(object_name om ws run i \<mapsto> payload)"
    by blast
next
  fix b :: "'r backend" and ws run
  assume one: "one_page objects om b ws run"
  let ?r = "bk_remote b"
  obtain ns where ns: "oc_list_objects client (run_prefix om ws run) ?r = (Inr ns, ?r)"
    "set ns = named (objects ?r) (run_prefix om ws run)"
    using list_objects one unfolding one_page_def by blast
  have "set ns \<subseteq> {n. objects ?r n \<noteq> None}" by (auto simp: ns(2) named_def)
  from read_memories [OF transport(2) this] obtain found where
    found: "emap (read_memory om) ns ?r = (Inr found, ?r)"
    "set (concat found) = {PDict m |m n. n \<in> set ns \<and> Option.bind (objects ?r n) json_loads = Some (PDict m)}"
    by blast
  let ?ms = "dicts_of (concat found)"
  have "\<forall>v \<in> set (concat found). \<exists>m. v = PDict m" unfolding found(2) by blast
  then have "map PDict ?ms = concat found" and "set ?ms = {m. PDict m \<in> set (concat found)}"
    by (rule dicts_of_dicts)+
  moreover from this(2) have "set ?ms = {m. \<exists>n. in_run om ws run n \<and> bucket_memory objects b n = Some m}"
    unfolding found(2) ns(2) named_def in_run_def bucket_memory_iff
    by (auto simp: Option.bind_eq_Some_conv)
  ultimately show "\<exists>ms. tp_fetch_run_state (pe_transport P) ws run b =
      (Inr [(''memories'', PList (map PDict ms))], b) \<and>
      set ms = {m. \<exists>n. in_run om ws run n \<and> bucket_memory objects b n = Some m}"
    using ns(1) found(1) transport
    by (intro exI [of _ ?ms])
      (simp add: object_transport_def om_fetch_run_state_def list_memories_def on_remote_def eff_defs)
next
  show "in_run om ws run (object_name om ws run i)" for ws run i
    by (simp add: in_run_def has_prefix_def object_name_def)
qed (simp_all add: persists codec uuids)

context bucket_store
begin

lemmas save_graph = durable.save_graph_effect
lemmas read_graph = durable.read_graph_effect
lemmas claim_nodes = durable.claim_effect
lemmas advance_graph = durable.advance_effect
lemmas record_key = durable.record_key_effect
lemmas check_key = durable.check_key_effect

end

text \<open>The memories and the graph of the store's backend, on a bucket.\<close>

abbreviation bucket_ok ::
  "('r \<Rightarrow> string \<Rightarrow> string option) \<Rightarrow> 'r object_memory_store \<Rightarrow> 'r persistence \<Rightarrow> 'r backend \<Rightarrow> bool" where
  "bucket_ok objects om P \<equiv> memories_ok P (bucket_memory objects) (object_name om)"

abbreviation bucket_holds ::
  "('r \<Rightarrow> string \<Rightarrow> string option) \<Rightarrow> 'r object_memory_store \<Rightarrow> 'r persistence \<Rightarrow> 'r backend \<Rightarrow> TaskGraph \<Rightarrow> bool" where
  "bucket_holds objects om P \<equiv> holds_graph P (bucket_memory objects) (object_name om)"

end
