(* ===== verification/Sample_Bucket.thy ===== *)
theory Sample_Bucket
  imports Store_Durability Samples
begin

text \<open>
  A bucket kept in a dictionary and a codec for task graphs, at which the store's guarantees are
  instantiated: both satisfy the behaviour the locales ask for.
\<close>

section \<open>A bucket\<close>

definition dict_client :: "(string, string) dict object_client" where
  "dict_client =
     \<lparr>oc_put_object = (\<lambda>n body d. (Inr (), dset n body d)),
      oc_list_objects = (\<lambda>p d. (Inr (map fst (filter (\<lambda>(n, _). has_prefix p n) d)), d)),
      oc_get_object = (\<lambda>n d. case dget d n of
          Some body \<Rightarrow> (Inr (Data_Bytes body), d) | None \<Rightarrow> (Inl (OtherError ''ServiceError'' ''404''), d))\<rparr>"

interpretation dict_bucket: bucket dict_client dget
proof
  show "\<exists>r'. oc_put_object dict_client n body r = (Inr (), r') \<and> dget r' = (dget r)(n \<mapsto> body)" for n body r
    by (simp add: dict_client_def fun_eq_iff)
  show "\<exists>ns. oc_list_objects dict_client p r = (Inr ns, r) \<and> set ns = named (dget r) p" for p r
    by (force simp: dict_client_def named_def map_of_eq_None_iff)
  show "dget r n = Some body \<Longrightarrow>
      \<exists>d. oc_get_object dict_client n r = (Inr d, r) \<and> response_data_to_bytes d = Inr body" for r n body
    by (simp add: dict_client_def)
qed


section \<open>A codec\<close>

definition strs_val :: "string list \<Rightarrow> pyval" where
  "strs_val ss = PList (map PStr ss)"

definition status_of_value :: "string \<Rightarrow> SubTaskStatus" where
  "status_of_value v =
     (if v = ''pending'' then SubTaskStatus.PENDING else if v = ''running'' then SubTaskStatus.RUNNING
      else if v = ''completed'' then SubTaskStatus.COMPLETED else SubTaskStatus.FAILED)"

definition dump_node :: "SubTask \<Rightarrow> pyval" where
  "dump_node n =
     PDict [(''node_id'', PStr (sn_node_id n)), (''skill_ids'', strs_val (sn_skill_ids n)),
       (''objective'', PStr (sn_objective n)), (''depends_on'', strs_val (sn_depends_on n)),
       (''context_scope'', strs_val (sn_context_scope n)), (''model_tier'', PStr (sn_model_tier n)),
       (''status'', PStr (subtask_status_value (sn_status n)))]"

definition dump_graph :: "TaskGraph \<Rightarrow> pyval" where
  "dump_graph g =
     PDict [(''plan_id'', PStr (tg_plan_id g)), (''workspace_id'', PStr (tg_workspace_id g)),
       (''project_id'', pstr_opt (tg_project_id g)),
       (''context_snapshot_ref'', pstr_opt (tg_context_snapshot_ref g)), (''version'', PInt (tg_version g)),
       (''nodes'', PList (map dump_node (tg_nodes g))),
       (''synthesizer_node'', (case tg_synthesizer_node g of None \<Rightarrow> PNone | Some n \<Rightarrow> dump_node n))]"

definition text_of :: "pyval \<Rightarrow> string" where
  "text_of v = (case v of PStr s \<Rightarrow> s | _ \<Rightarrow> [])"

definition opt_text :: "pyval \<Rightarrow> string option" where
  "opt_text v = (case v of PStr s \<Rightarrow> Some s | _ \<Rightarrow> None)"

definition texts_of :: "pyval \<Rightarrow> string list" where
  "texts_of v = (case v of PList vs \<Rightarrow> map text_of vs | _ \<Rightarrow> [])"

definition load_node :: "pyval \<Rightarrow> SubTask" where
  "load_node v =
     (let d = (case v of PDict d \<Rightarrow> d | _ \<Rightarrow> []) in
      \<lparr>sn_node_id = text_of (pget d ''node_id''), sn_skill_ids = texts_of (pget d ''skill_ids''),
       sn_objective = text_of (pget d ''objective''), sn_depends_on = texts_of (pget d ''depends_on''),
       sn_context_scope = texts_of (pget d ''context_scope''), sn_model_tier = text_of (pget d ''model_tier''),
       sn_status = status_of_value (text_of (pget d ''status''))\<rparr>)"

definition load_graph :: "pyval \<Rightarrow> TaskGraph option" where
  "load_graph v =
     (case v of
        PDict d \<Rightarrow> Some
          \<lparr>tg_plan_id = text_of (pget d ''plan_id''), tg_workspace_id = text_of (pget d ''workspace_id''),
           tg_project_id = opt_text (pget d ''project_id''),
           tg_context_snapshot_ref = opt_text (pget d ''context_snapshot_ref''),
           tg_version = (case pget d ''version'' of PInt i \<Rightarrow> i | _ \<Rightarrow> 0),
           tg_nodes = (case pget d ''nodes'' of PList vs \<Rightarrow> map load_node vs | _ \<Rightarrow> []),
           tg_synthesizer_node =
             (case pget d ''synthesizer_node'' of PDict e \<Rightarrow> Some (load_node (PDict e)) | _ \<Rightarrow> None)\<rparr>
      | _ \<Rightarrow> None)"

lemma sorted_strs [simp]: "sort_keys (strs_val ss) = strs_val ss" "texts_of (strs_val ss) = ss"
  by (simp_all add: strs_val_def texts_of_def text_of_def comp_def)

lemma sorted_opt [simp]: "sort_keys (pstr_opt x) = pstr_opt x" "opt_text (pstr_opt x) = x" "json_ok (pstr_opt x)"
  by (simp_all add: pstr_opt_def opt_text_def split: option.splits)

lemma status_of_subtask_status_value [simp]: "status_of_value (subtask_status_value s) = s"
  by (cases s) (simp_all add: status_of_value_def)

lemma pget_sort_keys:
  assumes "distinct (map fst d)" and "sort_keys (PDict d) = PDict e"
  shows "pget e k = sort_keys (pget d k)"
  by (simp add: pget_def dget_sort_keys [OF assms] split: option.splits)

lemma load_dump_node: "json_ok (dump_node n) \<and> load_node (sort_keys (dump_node n)) = n"
proof -
  obtain e where e: "sort_keys (dump_node n) = PDict e" by (simp add: dump_node_def)
  note look = pget_sort_keys [OF _ e [unfolded dump_node_def]]
  show ?thesis
    by (simp add: load_node_def e look text_of_def) (simp add: dump_node_def strs_val_def)
qed

lemma load_dump_graph: "json_ok (dump_graph g) \<and> load_graph (sort_keys (dump_graph g)) = Some g"
proof -
  obtain e where e: "sort_keys (dump_graph g) = PDict e" by (simp add: dump_graph_def)
  note look = pget_sort_keys [OF _ e [unfolded dump_graph_def]]
  have nodes: "map (\<lambda>n. load_node (sort_keys (dump_node n))) ns = ns" for ns
    by (induction ns) (simp_all add: load_dump_node)
  have synth: "(case sort_keys (case x of None \<Rightarrow> PNone | Some n \<Rightarrow> dump_node n) of
      PDict e \<Rightarrow> Some (load_node (PDict e)) | _ \<Rightarrow> None) = x" for x
  proof (cases x)
    case (Some n)
    obtain d where d: "sort_keys (dump_node n) = PDict d" by (simp add: dump_node_def)
    then show ?thesis using load_dump_node [of n] by (simp add: Some)
  qed simp
  have "load_graph (PDict e) = Some g"
    by (simp add: load_graph_def look text_of_def comp_def nodes synth)
  moreover have "json_ok (dump_graph g)"
    using load_dump_node by (simp add: dump_graph_def split: option.splits)
  ultimately show ?thesis by (simp add: e)
qed

definition graph_codec :: model_codec where
  "graph_codec =
     \<lparr>mc_dump_plan = (\<lambda>_. PNone), mc_load_plan = (\<lambda>_. None), mc_dump_snapshot = (\<lambda>_. PNone),
      mc_load_snapshot = (\<lambda>_. None), mc_dump_result = (\<lambda>_. PNone), mc_load_result = (\<lambda>_. None),
      mc_dump_graph = dump_graph, mc_load_graph = load_graph, mc_dump_sub_result = (\<lambda>_. PNone),
      mc_load_sub_result = (\<lambda>_. None), mc_sha256 = (\<lambda>s. s)\<rparr>"

definition dict_store :: "(string, string) dict object_memory_store" where
  "dict_store = \<lparr>om_client = dict_client, om_prefix = ''agent-state''\<rparr>"

definition sample_persistence :: "(string, string) dict persistence" where
  "sample_persistence =
     \<lparr>pe_env = \<lparr>uuid4_at = (\<lambda>_. ''id''), clock_at = int, uuid5_of = (\<lambda>s. CHR ''u'' # s),
        fromisoformat_of = (\<lambda>_. None), server = (\<lambda>_ _. Http_Empty), base_url = None, api_token = None\<rparr>,
      pe_codec = graph_codec, pe_transport = object_transport dict_store,
      pe_persist_agent_memories = True\<rparr>"

interpretation dict_durable: bucket_store dict_client dget dict_store sample_persistence
  by unfold_locales
    (simp_all add: sample_persistence_def dict_store_def codec_ok_def graph_codec_def load_dump_graph)

end
