(* ===== verification/Store_Properties.thy ===== *)
theory Store_Properties
  imports Sample_Bucket
begin

text \<open>
  Properties of \<open>PrismApiStateStore\<close> over object storage, for every bucket that behaves as documented
  and every codec that inverts itself: what one process writes, another one reads, and the graph
  operations refine the pure ones across processes and restarts.
\<close>

text \<open>A version bump changes nothing a claim reads, and claiming again claims nothing.\<close>

lemma bumped_reads [simp]:
  "with_node_status (bumped g) i st = bumped (with_node_status g i st)"
  "get_node (bumped g) i = get_node g i" "ready_nodes (bumped g) c = ready_nodes g c"
  "completed_node_ids (bumped g) = completed_node_ids g"
  by (simp_all add: bumped_def with_node_status_def get_node_def ready_nodes_def completed_node_ids_def
      split: option.split)

lemma mark_running_bumped [simp]: "mark_running r (bumped g) = bumped (mark_running r g)"
  unfolding mark_running_def by (induction r arbitrary: g) simp_all

lemma claim_again:
  "snd (claim_ready (fst (claim_ready g))) = []" "snd (claim_ready (bumped h)) = snd (claim_ready h)"
  by (simp_all add: claim_ready_def Let_def no_ready_after_mark_running map_filter_def)

lemma one_page_dict:
  assumes "length (bk_remote b) \<le> LIST_PAGE"
  shows "one_page dget om b ws run"
proof -
  let ?N = "named (dget (bk_remote b)) (run_prefix om ws run)"
  have "?N \<subseteq> fst ` set (bk_remote b)" by (auto simp: named_def map_of_eq_None_iff)
  moreover have "card (fst ` set (bk_remote b)) \<le> length (bk_remote b)"
    by (metis card_length length_map set_map)
  ultimately show ?thesis
    using assms by (auto simp: one_page_def intro: finite_subset order.trans [OF card_mono])
qed

lemma sample_backend_ok: "memories_ok P (bucket_memory dget) slot \<lparr>bk_io = i, bk_remote = []\<rparr>"
  by (simp add: memories_ok_def bucket_memory_def)

lemma sample_graph_key: "tg_workspace_id sample_graph = ''ws''" "tg_plan_id sample_graph = ''run''"
  by (simp_all add: sample_graph_def)

definition sample_process :: "(string, string) dict prism_store" where
  "sample_process =
     \<lparr>ps_fallback = empty_store, ps_locations = [],
      ps_backend = \<lparr>bk_io = \<lparr>io_uuids = 0, io_clock = 0, io_requests = [], io_versions = []\<rparr>, bk_remote = []\<rparr>\<rparr>"

lemma sample_process_ok:
  "memories_ok sample_persistence (bucket_memory dget) (object_name dict_store) (ps_backend sample_process)"
  by (simp add: sample_process_def sample_backend_ok)

text \<open>A record adds at most one object to the dictionary; a restarted process has only the bucket.\<close>

lemma length_dset: "length (dset k v d) \<le> Suc (length d)"
  by (induction d) auto

lemma sample_persist_length:
  assumes "persist_state_memory sample_persistence ws i run ty ti rec None s = (r, s')"
  shows "length (bk_remote (ps_backend s')) \<le> Suc (length (bk_remote (ps_backend s)))"
  using assms length_dset
  by (auto simp: persist_state_memory_def sample_persistence_def Let_def eff_defs on_backend_def
      object_transport_def om_put_memory_def on_remote_def dict_store_def dict_client_def
      simp del: json_dumps.simps split: if_splits)

lemma sample_save_length:
  assumes "ps_save_task_graph sample_persistence g s = (r, s')"
  shows "length (bk_remote (ps_backend s')) \<le> Suc (length (bk_remote (ps_backend s)))"
  using assms sample_persist_length
  by (force simp: ps_save_task_graph_def persist_task_graph_def fallback_do_def eff_defs)

definition restarted :: "(string, string) dict prism_store \<Rightarrow> (string, string) dict prism_store" where
  "restarted s = \<lparr>ps_fallback = empty_store, ps_locations = [], ps_backend = ps_backend s\<rparr>"

lemma sample_save:
  obtains s' where "ps_save_task_graph sample_persistence g sample_process = (Inr (), s')"
    and "length (bk_remote (ps_backend s')) \<le> 1"
    and "bucket_ok dget dict_store sample_persistence (ps_backend s')"
    and "bucket_holds dget dict_store sample_persistence (ps_backend s') g"
proof -
  obtain s' where s': "ps_save_task_graph sample_persistence g sample_process = (Inr (), s')"
    "bucket_ok dget dict_store sample_persistence (ps_backend s')"
    "bucket_holds dget dict_store sample_persistence (ps_backend s') g"
    using dict_durable.save_graph [OF sample_process_ok] by blast
  show ?thesis
    by (rule that [OF s'(1) _ s'(2,3)]) (use sample_save_length [OF s'(1)] in \<open>simp add: sample_process_def\<close>)
qed

lemma one_page_sample: "length (bk_remote b) \<le> 2 \<Longrightarrow> one_page dget om b ws run"
  by (rule one_page_dict) (simp add: LIST_PAGE_def)

text \<open>
  C23: Saving a task graph writes it to the bucket, and every process attached to that bucket, whatever
  its own cache holds, then reads exactly that graph back, as long as the run's records fit in one listing
  page. So a graph survives the end of the process that saved it.
\<close>

theorem saved_graph_survives:
  assumes "bucket_store client objects om P" and "bucket_ok objects om P (ps_backend s)"
  shows "\<exists>s'. ps_save_task_graph P g s = (Inr (), s') \<and>
    (\<forall>s2. ps_backend s2 = ps_backend s' \<longrightarrow>
       one_page objects om (ps_backend s') (tg_workspace_id g) (tg_plan_id g) \<longrightarrow>
       fst (ps_get_task_graph P (tg_workspace_id g) (tg_plan_id g) s2) = Inr (Some g))"
proof -
  obtain s' where s': "ps_save_task_graph P g s = (Inr (), s')" "bucket_ok objects om P (ps_backend s')"
    "bucket_holds objects om P (ps_backend s') g"
    using bucket_store.save_graph [OF assms] by blast
  have "fst (ps_get_task_graph P (tg_workspace_id g) (tg_plan_id g) s2) = Inr (Some g)"
    if "ps_backend s2 = ps_backend s'" "one_page objects om (ps_backend s') (tg_workspace_id g) (tg_plan_id g)" for s2
    using bucket_store.read_graph [OF assms(1), of s2 g] s'(2,3) that by auto
  with s'(1) show ?thesis by blast
qed

theorem saved_graph_survives_witness:
  "\<exists>s'. ps_save_task_graph sample_persistence sample_graph sample_process = (Inr (), s') \<and>
    fst (ps_get_task_graph sample_persistence ''ws'' ''run''
      (restarted s')) = Inr (Some sample_graph)"
proof -
  obtain s' where s': "ps_save_task_graph sample_persistence sample_graph sample_process = (Inr (), s')"
    "length (bk_remote (ps_backend s')) \<le> 1"
    by (rule sample_save [of sample_graph])
  have "one_page dget dict_store (ps_backend s') ''ws'' ''run''"
    by (rule one_page_sample) (use s'(2) in simp)
  then show ?thesis
    using saved_graph_survives [OF dict_durable.bucket_store_axioms sample_process_ok, of sample_graph] s'(1)
    by (simp add: sample_graph_key restarted_def)
qed

text \<open>
  C24: The durable store refines the pure task-graph operations: when the bucket holds a graph, claiming
  its ready nodes returns exactly the nodes \<open>claim_ready\<close> selects and reporting a node returns exactly
  \<open>plan_advance\<close>; afterwards the bucket holds the resulting graph with its version bumped, or the graph
  it held when nothing was claimed or the report was already processed. This does not depend on the
  process, nor on what its cache holds.
\<close>

theorem durable_graph_refines:
  assumes "bucket_store client objects om P" and "bucket_ok objects om P (ps_backend s)"
    and "bucket_holds objects om P (ps_backend s) g"
    and "one_page objects om (ps_backend s) (tg_workspace_id g) (tg_plan_id g)"
  shows "(\<exists>s'. ps_claim_ready_nodes P (tg_workspace_id g) (tg_plan_id g) s = (Inr (snd (claim_ready g)), s') \<and>
      bucket_ok objects om P (ps_backend s') \<and>
      bucket_holds objects om P (ps_backend s')
        (if snd (claim_ready g) = [] then g else bumped (fst (claim_ready g)))) \<and>
    (\<exists>s'. ps_advance_task_graph P (tg_workspace_id g) (tg_plan_id g) node status s =
        (Inr (Some (plan_advance g node status)), s') \<and>
      bucket_ok objects om P (ps_backend s') \<and>
      bucket_holds objects om P (ps_backend s')
        (if adv_already_processed (plan_advance g node status) then g
         else bumped (adv_graph (plan_advance g node status))))"
  using bucket_store.claim_nodes [OF assms] bucket_store.advance_graph [OF assms] by blast

theorem durable_graph_refines_witness:
  "\<exists>s s'. ps_save_task_graph sample_persistence sample_graph sample_process = (Inr (), s) \<and>
    ps_claim_ready_nodes sample_persistence ''ws'' ''run'' s = (Inr (snd (claim_ready sample_graph)), s')"
proof -
  obtain s where s: "ps_save_task_graph sample_persistence sample_graph sample_process = (Inr (), s)"
    "length (bk_remote (ps_backend s)) \<le> 1" "bucket_ok dget dict_store sample_persistence (ps_backend s)"
    "bucket_holds dget dict_store sample_persistence (ps_backend s) sample_graph"
    by (rule sample_save [of sample_graph])
  have "one_page dget dict_store (ps_backend s) ''ws'' ''run''"
    by (rule one_page_sample) (use s(2) in simp)
  then show ?thesis
    using durable_graph_refines [OF dict_durable.bucket_store_axioms s(3,4)] s(1)
    by (auto simp: sample_graph_key)
qed





end
