(* ===== verification/Tool_Inputs.thy ===== *)
theory Tool_Inputs
  imports Registries Py_Json
begin

text \<open>
  The pure half of \<open>capabilities/tools/workitem_tools.py\<close>: how a planned action's untyped input is
  turned into work item trees and update lists, when a tree or an update list is rejected, how member
  names are resolved and rolled up, and which values a payload may carry to the API.
  Functions that change a dictionary in place return it here.
\<close>

section \<open>Constants\<close>

definition CREATE_WORK_ITEM_FIELDS :: "string list" where
  "CREATE_WORK_ITEM_FIELDS = [''parentId'', ''title'', ''description'', ''startDate'', ''dueDate'',
     ''priority'', ''status'', ''assigneeUsernames'', ''labelNames'']"

definition WORK_ITEM_TREE_NODE_FIELDS :: "string list" where
  "WORK_ITEM_TREE_NODE_FIELDS = removeAll ''parentId'' CREATE_WORK_ITEM_FIELDS"

definition MAX_WORK_ITEM_TREE_DEPTH :: nat where "MAX_WORK_ITEM_TREE_DEPTH = 3"
definition MAX_WORK_ITEM_TREE_ITEMS :: nat where "MAX_WORK_ITEM_TREE_ITEMS = 100"
definition MAX_BULK_UPDATES :: nat where "MAX_BULK_UPDATES = 50"

definition WORK_ITEM_PRIORITIES :: "string list" where
  "WORK_ITEM_PRIORITIES = [''low'', ''medium'', ''high'', ''urgent'']"

definition WORK_ITEM_STATUSES :: "string list" where
  "WORK_ITEM_STATUSES = [''todo'', ''in_progress'', ''in_review'', ''done'', ''archived'']"

definition MEMBER_ENTITY_KEYS :: "string list" where
  "MEMBER_ENTITY_KEYS = [''project_members'', ''workspace_members'', ''member_workloads'']"

definition BULK_UPDATE_FIELDS :: "string list" where
  "BULK_UPDATE_FIELDS = [''title'', ''description'', ''priority'', ''status'', ''dueDate'',
     ''assigneeUsernames'', ''labelNames'']"

definition MUTABLE_UPDATE_STATUSES :: "string list" where "MUTABLE_UPDATE_STATUSES = [''todo'']"

definition PROTECTED_UPDATE_FIELDS :: "string list" where
  "PROTECTED_UPDATE_FIELDS = [''title'', ''status'']"

definition CONTEXT_ITEM_KEYS :: "string list" where
  "CONTEXT_ITEM_KEYS = [''backlog_work_items'', ''project_work_items'', ''sibling_work_items'',
     ''child_work_items'']"

definition TREE_ITEMS_KEYS :: "string list" where
  "TREE_ITEMS_KEYS = [''items'', ''workItems'', ''work_items'', ''tasks'', ''children'']"

definition UPDATE_LIST_KEYS :: "string list" where
  "UPDATE_LIST_KEYS = [''updates'', ''workItemUpdates'', ''work_item_updates'', ''items'', ''changes'']"

definition TREE_ROOT_ONLY_FIELDS :: "string list" where
  "TREE_ROOT_ONLY_FIELDS = [''projectId'', ''parentId'', ''requestedByUserId'']"

lemmas tool_limits [simp] =
  MAX_WORK_ITEM_TREE_DEPTH_def MAX_WORK_ITEM_TREE_ITEMS_def MAX_BULK_UPDATES_def


section \<open>Reading values\<close>

text \<open>The elements of a list, none of any other value (\<open>if not isinstance(value, list): continue\<close>).\<close>

definition list_of :: "pyval \<Rightarrow> pyval list" where
  "list_of v = (case v of PList xs \<Rightarrow> xs | _ \<Rightarrow> [])"

text \<open>\<open>str(d.get(k) or "").strip()\<close>\<close>

definition text_field :: "pydict \<Rightarrow> string \<Rightarrow> string" where
  "text_field d k = strip (str_or_empty (pget d k))"

definition strs_val :: "string list \<Rightarrow> pyval" where
  "strs_val names = PList (map PStr names)"

lemma size_pget: "pget d k = v \<Longrightarrow> v \<noteq> PNone \<Longrightarrow> size v < size (PDict d)"
  by (induction d) (auto split: if_splits)

lemma size_list_of: "x \<in> set (list_of v) \<Longrightarrow> size x < size v"
  by (cases v) (auto simp: list_of_def dest: size_list_estimation' [where f = size, OF _ order_refl] intro: le_imp_less_Suc)

lemma size_child: "x \<in> set (list_of (pget d k)) \<Longrightarrow> size x < size (PDict d)"
  using size_pget [OF refl, of d k] size_list_of [of x "pget d k"]
  by (cases "pget d k = PNone") (auto simp: list_of_def [of PNone])

lemma size_child' [termination_simp]:
  "x \<in> set (list_of (pget d k)) \<Longrightarrow> size x < Suc (size_list (\<lambda>p. Suc (size (snd p))) d)"
  using size_child [of x d k] by (simp add: size_prod_simp)

definition filter_payload :: "pyval \<Rightarrow> string list \<Rightarrow> pydict" where
  "filter_payload input_data allowed_fields =
     (case input_data of
        PDict d \<Rightarrow> filter (\<lambda>(field, value). field \<in> set allowed_fields \<and> value \<noteq> PNone) d
      | _ \<Rightarrow> [])"

definition requested_by_user_id :: "pydict \<Rightarrow> AgentContext \<Rightarrow> string option" where
  "requested_by_user_id input_data context =
     (if truthy (pget input_data ''requestedByUserId'')
      then Some (py_str (pget input_data ''requestedByUserId''))
      else case pget (ev_payload (en_event (cx_source_event context))) ''queue_pointer'' of
             PDict queue_pointer \<Rightarrow>
               if truthy (pget queue_pointer ''requestedByUserId'')
               then Some (py_str (pget queue_pointer ''requestedByUserId'')) else None
           | _ \<Rightarrow> None)"

definition valid_uuid_or_none :: "pyval \<Rightarrow> string option" where
  "valid_uuid_or_none value = (if value = PNone then None else uuid_str (py_str value))"


section \<open>Coercion of untyped inputs\<close>

text \<open>
  What a loop round makes of one key: a JSON string is decoded (no result when it cannot be), a single
  object becomes a list, and only a non-empty list ends the search.
\<close>

definition decoded_list :: "pyval \<Rightarrow> pyval list option" where
  "decoded_list value =
     (case (case value of PStr s \<Rightarrow> json_loads s | _ \<Rightarrow> Some value) of
        Some (PDict e) \<Rightarrow> Some [PDict e]
      | Some (PList xs) \<Rightarrow> if xs = [] then None else Some xs
      | _ \<Rightarrow> None)"

definition without_root_fields :: "pydict \<Rightarrow> pydict" where
  "without_root_fields d = filter (\<lambda>(field, value). field \<notin> set TREE_ROOT_ONLY_FIELDS) d"

fun tree_items_under :: "string list \<Rightarrow> pydict \<Rightarrow> pyval list option" where
  "tree_items_under [] d = None"
| "tree_items_under (key # keys) d =
     (if key = ''children'' \<and> text_field d ''title'' \<noteq> [] then None
      else case decoded_list (pget d key) of Some xs \<Rightarrow> Some xs | None \<Rightarrow> tree_items_under keys d)"

definition coerce_work_item_tree_items :: "pydict \<Rightarrow> pyval list option" where
  "coerce_work_item_tree_items input_data =
     (case tree_items_under TREE_ITEMS_KEYS input_data of
        Some xs \<Rightarrow> Some xs
      | None \<Rightarrow>
          if text_field input_data ''title'' \<noteq> [] then Some [PDict (without_root_fields input_data)]
          else None)"

fun updates_under :: "string list \<Rightarrow> pydict \<Rightarrow> pyval list option" where
  "updates_under [] d = None"
| "updates_under (key # keys) d =
     (case decoded_list (pget d key) of Some xs \<Rightarrow> Some xs | None \<Rightarrow> updates_under keys d)"

definition coerce_work_item_updates :: "pydict \<Rightarrow> pydict list option" where
  "coerce_work_item_updates input_data =
     (case updates_under UPDATE_LIST_KEYS input_data of
        Some xs \<Rightarrow>
          (let ds = List.map_filter (\<lambda>x. case x of PDict d \<Rightarrow> Some d | _ \<Rightarrow> None) xs
           in if ds = [] then None else Some ds)
      | None \<Rightarrow>
          if text_field input_data ''itemId'' \<noteq> [] then Some [without_root_fields input_data] else None)"


section \<open>Validation\<close>

text \<open>
  The nested function \<open>_walk\<close> of \<open>validate_work_item_tree\<close>: an error, or the count of nodes so far.
  \<open>walk_nodes\<close> is its \<open>for\<close> statement; the depth test stands before it.
\<close>

function walk :: "pyval list \<Rightarrow> nat \<Rightarrow> nat \<Rightarrow> string + nat"
  and walk_nodes :: "pyval list \<Rightarrow> nat \<Rightarrow> nat \<Rightarrow> string + nat" where
  "walk nodes depth count =
     (if depth > MAX_WORK_ITEM_TREE_DEPTH
      then Inl (''Work item tree exceeds max depth of '' @ nat_str MAX_WORK_ITEM_TREE_DEPTH @ ''.'')
      else walk_nodes nodes depth count)"
| "walk_nodes [] depth count = Inr count"
| "walk_nodes (node # nodes) depth count =
     (case node of
        PDict d \<Rightarrow>
          if text_field d ''title'' = [] then Inl ''Every work item tree node requires a non-empty title.''
          else if count + 1 > MAX_WORK_ITEM_TREE_ITEMS
          then Inl (''Work item tree exceeds max size of '' @ nat_str MAX_WORK_ITEM_TREE_ITEMS @ '' items.'')
          else (case pget d ''children'' of
                  PNone \<Rightarrow> walk_nodes nodes depth (count + 1)
                | PList children \<Rightarrow>
                    if children = [] then walk_nodes nodes depth (count + 1)
                    else (case walk children (depth + 1) (count + 1) of
                            Inl e \<Rightarrow> Inl e
                          | Inr n \<Rightarrow> walk_nodes nodes depth n)
                | _ \<Rightarrow> Inl ''Work item tree 'children' must be a list.'')
      | _ \<Rightarrow> Inl ''Every work item tree node must be an object.'')"
  by pat_completeness auto
termination
  by (relation "measures [\<lambda>x. case x of Inl (ns, _) \<Rightarrow> size_list size ns | Inr (ns, _) \<Rightarrow> size_list size ns,
      \<lambda>x. case x of Inl _ \<Rightarrow> 1 | Inr _ \<Rightarrow> 0]")
    (auto dest: size_pget)

declare walk.simps [simp del] walk_nodes.simps(2) [simp del]

definition validate_work_item_tree :: "pyval list option \<Rightarrow> string option" where
  "validate_work_item_tree items =
     (case items of
        None \<Rightarrow> Some ''create_workitem_tree requires a non-empty 'items' list.''
      | Some [] \<Rightarrow> Some ''create_workitem_tree requires a non-empty 'items' list.''
      | Some xs \<Rightarrow> (case walk xs 1 0 of Inl e \<Rightarrow> Some e | Inr n \<Rightarrow> None))"

text \<open>The entries are dictionaries here: both callers pass what the coercion returned.\<close>

definition update_entry_error :: "pydict \<Rightarrow> string option" where
  "update_entry_error update =
     (if text_field update ''itemId'' = [] then Some ''Every update entry requires an itemId.''
      else if \<not> list_ex (dhas update) BULK_UPDATE_FIELDS
      then Some (''Every update entry needs at least one field to change ''
             @ ''(title, description, priority, status, dueDate, assigneeUsernames, labelNames).'')
      else None)"

fun first_error :: "('a \<Rightarrow> string option) \<Rightarrow> 'a list \<Rightarrow> string option" where
  "first_error f [] = None"
| "first_error f (x # xs) = (case f x of Some e \<Rightarrow> Some e | None \<Rightarrow> first_error f xs)"

definition validate_work_item_updates :: "pydict list option \<Rightarrow> string option" where
  "validate_work_item_updates updates =
     (case updates of
        None \<Rightarrow> Some ''update_workitems_bulk requires a non-empty 'updates' list.''
      | Some us \<Rightarrow>
          if us = [] then Some ''update_workitems_bulk requires a non-empty 'updates' list.''
          else if length us > MAX_BULK_UPDATES
          then Some (''Bulk update exceeds max size of '' @ nat_str MAX_BULK_UPDATES @ '' items.'')
          else first_error update_entry_error us)"


section \<open>Members\<close>

definition known_member_usernames :: "AgentContext \<Rightarrow> (string, string) dict" where
  "known_member_usernames context =
     fold (\<lambda>member resolver.
         case member of
           PDict m \<Rightarrow>
             (let username = text_field m ''username'';
                  full_name = text_field m ''fullName'';
                  user_id = text_field m ''userId'';
                  put = (\<lambda>alias r. if alias = [] then r else dsetdefault (lower alias) username r)
              in if username = [] then resolver
                 else put user_id (put full_name (dsetdefault (lower username) username resolver)))
         | _ \<Rightarrow> resolver)
       (concat (map (\<lambda>key. list_of (pget (cx_entities context) key)) MEMBER_ENTITY_KEYS)) []"

text \<open>One name as the API knows it; none for a blank name and for a name of no known member.\<close>

definition resolve_username :: "(string, string) dict \<Rightarrow> pyval \<Rightarrow> string option" where
  "resolve_username known_usernames username =
     (let name = strip (str_or_empty username);
          resolved = (if known_usernames \<noteq> [] then dget known_usernames (lower name) else Some name)
      in if name = [] then None
         else case resolved of Some r \<Rightarrow> if r = [] then None else Some r | None \<Rightarrow> None)"

definition clean_usernames :: "pyval \<Rightarrow> (string, string) dict \<Rightarrow> string list" where
  "clean_usernames raw known_usernames =
     (let usernames = (case raw of PList xs \<Rightarrow> xs | _ \<Rightarrow> [raw])
      in merge_tools [] (List.map_filter (resolve_username known_usernames) usernames))"

definition missing_usernames :: "(string, string) dict \<Rightarrow> pyval \<Rightarrow> string list" where
  "missing_usernames known_usernames raw =
     map (\<lambda>name. strip (py_str name))
       (filter (\<lambda>name. strip (str_or_empty name) \<noteq> [] \<and>
          \<not> dhas known_usernames (lower (strip (py_str name)))) (list_of raw))"

fun unresolved_in :: "(string, string) dict \<Rightarrow> pyval \<Rightarrow> pyval list" where
  "unresolved_in known_usernames (PDict d) =
     (let missing = missing_usernames known_usernames (pget d ''assigneeUsernames'')
      in (if missing \<noteq> []
          then [PDict [(''title'', PStr (str_or_empty (pget d ''title''))), (''unresolved'', strs_val missing)]]
          else [])
         @ concat (map (unresolved_in known_usernames) (list_of (pget d ''children''))))"
| "unresolved_in known_usernames _ = []"

definition collect_unresolved_assignees :: "pyval list \<Rightarrow> (string, string) dict \<Rightarrow> pyval list" where
  "collect_unresolved_assignees items known_usernames =
     (if known_usernames = [] then [] else concat (map (unresolved_in known_usernames) items))"

text \<open>The names a node ends up with, and the node with its children as the recursion leaves them.\<close>

fun rollup_assignee_usernames :: "(string, string) dict \<Rightarrow> pyval \<Rightarrow> string list \<times> pyval" where
  "rollup_assignee_usernames known_usernames (PDict d) =
     (let children = map (rollup_assignee_usernames known_usernames) (list_of (pget d ''children''));
          merged = fold (\<lambda>c m. merge_tools m (fst c)) children
                     (clean_usernames (pget d ''assigneeUsernames'') known_usernames);
          d' = (if children = [] then d else dset ''children'' (PList (map snd children)) d)
      in (merged, PDict (if merged \<noteq> [] then dset ''assigneeUsernames'' (strs_val merged) d' else d')))"
| "rollup_assignee_usernames known_usernames v = ([], v)"


section \<open>Payloads\<close>

definition normalize_enum :: "string \<Rightarrow> string list \<Rightarrow> pydict \<Rightarrow> pydict" where
  "normalize_enum field allowed payload =
     (case dget payload field of
        None \<Rightarrow> payload
      | Some v \<Rightarrow> (let value = lower (strip (py_str v))
                  in if value \<in> set allowed then dset field (PStr value) payload else dpop field payload))"

text \<open>\<open>re.compile(r"^\d{4}-\d{2}-\d{2}").match(s)\<close>\<close>

definition iso_date_prefix :: "string \<Rightarrow> bool" where
  "iso_date_prefix s \<longleftrightarrow>
     10 \<le> length s \<and> list_all is_digit (take 4 s) \<and> s ! 4 = CHR ''-''
     \<and> list_all is_digit (take 2 (drop 5 s)) \<and> s ! 7 = CHR ''-'' \<and> list_all is_digit (take 2 (drop 8 s))"

definition normalize_date :: "string \<Rightarrow> pydict \<Rightarrow> pydict" where
  "normalize_date field payload =
     (case dget payload field of
        None \<Rightarrow> payload
      | Some v \<Rightarrow> if iso_date_prefix (strip (py_str v)) then payload else dpop field payload)"

definition normalize_assignees :: "(string, string) dict \<Rightarrow> pydict \<Rightarrow> pydict" where
  "normalize_assignees known_usernames payload =
     (case dget payload ''assigneeUsernames'' of
        None \<Rightarrow> payload
      | Some v \<Rightarrow> (let cleaned = clean_usernames v known_usernames
                  in if cleaned \<noteq> [] then dset ''assigneeUsernames'' (strs_val cleaned) payload
                     else dpop ''assigneeUsernames'' payload))"

definition clean_labels :: "pyval \<Rightarrow> string list" where
  "clean_labels raw =
     merge_tools [] (filter (\<lambda>name. name \<noteq> [])
       (map (\<lambda>label. take 30 (strip (str_or_empty label))) (case raw of PList xs \<Rightarrow> xs | _ \<Rightarrow> [raw])))"

definition normalize_labels :: "pydict \<Rightarrow> pydict" where
  "normalize_labels payload =
     (case dget payload ''labelNames'' of
        None \<Rightarrow> payload
      | Some v \<Rightarrow> (let cleaned_labels = clean_labels v
                  in if cleaned_labels \<noteq> [] then dset ''labelNames'' (strs_val cleaned_labels) payload
                     else dpop ''labelNames'' payload))"

definition normalize_node_payload :: "(string, string) dict \<Rightarrow> pydict \<Rightarrow> pydict" where
  "normalize_node_payload known_usernames payload =
     normalize_labels (normalize_assignees known_usernames
       (normalize_date ''dueDate'' (normalize_date ''startDate''
         (normalize_enum ''status'' WORK_ITEM_STATUSES
           (normalize_enum ''priority'' WORK_ITEM_PRIORITIES payload)))))"

definition context_item_index :: "AgentContext \<Rightarrow> (string, pydict) dict" where
  "context_item_index context =
     fold (\<lambda>item index.
         case item of
           PDict d \<Rightarrow> if truthy (pget d ''itemId'') then dsetdefault (py_str (pget d ''itemId'')) d index else index
         | _ \<Rightarrow> index)
       (concat (map (\<lambda>key. list_of (pget (cx_entities context) key)) CONTEXT_ITEM_KEYS)) []"

text \<open>
  The names of the dropped fields and the payload without them. The source pops the fields of a set,
  in an order Python does not fix; the model takes \<open>title\<close> first.
\<close>

definition drop_protected_fields :: "pydict \<Rightarrow> pydict \<Rightarrow> string list \<times> pydict" where
  "drop_protected_fields payload current =
     (let protected = filter (\<lambda>field. pget payload field \<noteq> PNone) PROTECTED_UPDATE_FIELDS;
          p1 = fold dpop PROTECTED_UPDATE_FIELDS payload;
          filled = dhas p1 ''description'' \<and> 30 \<le> length (text_field current ''description'');
          p2 = (if filled then dpop ''description'' p1 else p1);
          owned = dhas p2 ''assigneeUsernames'' \<and> truthy (pget current ''assigneeUsernames'');
          p3 = (if owned then dpop ''assigneeUsernames'' p2 else p2)
      in (protected @ (if filled then [''description''] else []) @ (if owned then [''assigneeUsernames''] else []), p3))"


section \<open>Typed drafts\<close>

definition opt_text_field :: "string \<Rightarrow> string option \<Rightarrow> pydict" where
  "opt_text_field key value = (case value of Some v \<Rightarrow> if v = [] then [] else [(key, PStr v)] | None \<Rightarrow> [])"

definition names_field :: "string \<Rightarrow> string list \<Rightarrow> pydict" where
  "names_field key names = (if names = [] then [] else [(key, strs_val names)])"

definition children_field :: "pydict list \<Rightarrow> pydict" where
  "children_field nodes = (if nodes = [] then [] else [(''children'', PList (map PDict nodes))])"

text \<open>\<open>_draft_to_node\<close> on the three draft classes, a leaf, a child with leaves, a root with children.\<close>

definition leaf_node :: "'a WorkItemLeafDraft_scheme \<Rightarrow> pydict" where
  "leaf_node draft =
     [(''title'', PStr (wd_title draft)), (''description'', PStr (wd_description draft))]
     @ opt_text_field ''startDate'' (wd_start_date draft) @ opt_text_field ''dueDate'' (wd_due_date draft)
     @ opt_text_field ''priority'' (wd_priority draft) @ opt_text_field ''status'' (wd_status draft)
     @ names_field ''assigneeUsernames'' (wd_assignee_usernames draft)
     @ names_field ''labelNames'' (wd_label_names draft)"

definition child_node :: "WorkItemChildDraft \<Rightarrow> pydict" where
  "child_node draft = leaf_node draft @ children_field (map leaf_node (wcd_children draft))"

definition draft_to_node :: "WorkItemDraft \<Rightarrow> pydict" where
  "draft_to_node draft = leaf_node draft @ children_field (map child_node (wid_children draft))"

definition work_item_drafts_to_items :: "WorkItemDraft list \<Rightarrow> pyval list" where
  "work_item_drafts_to_items drafts = map (\<lambda>d. PDict (draft_to_node d)) drafts"

definition given :: "string \<Rightarrow> string option \<Rightarrow> pydict" where
  "given key value = (case value of Some v \<Rightarrow> [(key, PStr v)] | None \<Rightarrow> [])"

definition work_item_update_drafts_to_updates :: "WorkItemUpdateDraft list \<Rightarrow> pyval list" where
  "work_item_update_drafts_to_updates drafts =
     map (\<lambda>d. PDict ([(''itemId'', PStr (wu_item_id d))] @ given ''title'' (wu_title d)
        @ given ''description'' (wu_description d) @ given ''priority'' (wu_priority d)
        @ given ''status'' (wu_status d) @ given ''dueDate'' (wu_due_date d)
        @ names_field ''assigneeUsernames'' (wu_assignee_usernames d)
        @ names_field ''labelNames'' (wu_label_names d))) drafts"

definition no_items :: "'a list option \<Rightarrow> bool" where
  "no_items xs \<longleftrightarrow> xs = None \<or> xs = Some []"

text \<open>The new input of an action, if its typed fields have to be turned into one.\<close>

definition materialized_input :: "PlannedAction \<Rightarrow> pydict option" where
  "materialized_input action =
     (if pa_tool_name action = ''create_workitem_tree'' \<and> pa_work_items action \<noteq> []
         \<and> no_items (coerce_work_item_tree_items (pa_input action))
      then Some (dset ''items'' (PList (work_item_drafts_to_items (pa_work_items action))) (pa_input action))
      else if pa_tool_name action = ''update_workitems_bulk'' \<and> pa_work_item_updates action \<noteq> []
         \<and> no_items (coerce_work_item_updates (pa_input action))
      then Some (dset ''updates'' (PList (work_item_update_drafts_to_updates (pa_work_item_updates action)))
             (pa_input action))
      else if pa_tool_name action = ''add_sprint_work_items'' \<and> pa_target_item_ids action \<noteq> []
         \<and> \<not> truthy (pget (pa_input action) ''itemIds'')
      then Some (dset ''itemIds'' (strs_val (pa_target_item_ids action)) (pa_input action))
      else None)"

definition materialize_typed_action_inputs :: "'e io_env_scheme \<Rightarrow> AgentPlan \<Rightarrow> (io, AgentPlan) eff" where
  "materialize_typed_action_inputs env plan =
     fold (\<lambda>action m. ebind m (\<lambda>updated_plan.
         case materialized_input action of
           None \<Rightarrow> ret updated_plan
         | Some input \<Rightarrow> ebind (utc_now env) (\<lambda>t. ret (replace_action t (action\<lparr>pa_input := input\<rparr>) updated_plan))))
       (ap_actions plan) (ret plan)"

end
