(* ===== verification/Plan_Quality.thy ===== *)
theory Plan_Quality
  imports Tool_Inputs
begin

text \<open>
  \<open>capabilities/plan_quality.py\<close>: the deterministic review of a plan's work item breakdown, whose
  findings the planner feeds back to the model once. The em dash of one finding is written \<open>-\<close>, the
  model's strings being Latin-1.
\<close>

section \<open>Constants\<close>

definition MIN_DESCRIPTION_LENGTH :: nat where "MIN_DESCRIPTION_LENGTH = 30"
definition MAX_EXAMPLES_PER_ISSUE :: nat where "MAX_EXAMPLES_PER_ISSUE = 5"
definition MIN_ASSIGNED_LEAVES_FOR_BALANCE_CHECK :: nat where "MIN_ASSIGNED_LEAVES_FOR_BALANCE_CHECK = 6"
definition MIN_LEAVES_FOR_ASSIGNMENT_RATIO_CHECK :: nat where "MIN_LEAVES_FOR_ASSIGNMENT_RATIO_CHECK = 5"
definition OVERLOADED_ACTIVE_ITEM_COUNT :: int where "OVERLOADED_ACTIVE_ITEM_COUNT = 8"

lemmas quality_limits [simp] =
  MIN_DESCRIPTION_LENGTH_def MAX_EXAMPLES_PER_ISSUE_def MIN_ASSIGNED_LEAVES_FOR_BALANCE_CHECK_def
  MIN_LEAVES_FOR_ASSIGNMENT_RATIO_CHECK_def OVERLOADED_ACTIVE_ITEM_COUNT_def

definition BOILERPLATE_HEADINGS :: "string list" where
  "BOILERPLATE_HEADINGS = [''acceptance criteria'', ''context:'']"

definition EXISTING_WORK_ENTITY_KEYS :: "string list" where
  "EXISTING_WORK_ENTITY_KEYS = [''project_work_items'', ''backlog_work_items'', ''sibling_work_items'',
     ''child_work_items'']"

definition CLOSED_STATUSES :: "string list" where "CLOSED_STATUSES = [''done'', ''archived'']"

text \<open>The dictionaries among the elements of the lists found under some keys.\<close>

definition dicts_of :: "pyval list \<Rightarrow> pydict list" where
  "dicts_of xs = List.map_filter (\<lambda>x. case x of PDict d \<Rightarrow> Some d | _ \<Rightarrow> None) xs"

definition entity_dicts :: "string list \<Rightarrow> pydict \<Rightarrow> pydict list" where
  "entity_dicts keys entities = concat (map (\<lambda>key. dicts_of (list_of (pget entities key))) keys)"


section \<open>Text\<close>

text \<open>\<open>re.sub(r"\s+", " ", s)\<close>: every run of white space becomes one space.\<close>

fun squeeze :: "bool \<Rightarrow> string \<Rightarrow> string" where
  "squeeze in_space [] = []"
| "squeeze in_space (c # cs) =
     (if is_space c then (if in_space then squeeze True cs else CHR '' '' # squeeze True cs)
      else c # squeeze False cs)"

definition normalize_title :: "pyval \<Rightarrow> string" where
  "normalize_title title = lower (strip (squeeze False (str_or_empty title)))"

definition quote_titles :: "string list \<Rightarrow> string" where
  "quote_titles titles =
     join '', '' (map (\<lambda>t. [CHR 0x22] @ t @ [CHR 0x22]) (take MAX_EXAMPLES_PER_ISSUE titles))
     @ (if length titles > MAX_EXAMPLES_PER_ISSUE
        then '' and '' @ nat_str (length titles - MAX_EXAMPLES_PER_ISSUE) @ '' more'' else [])"

fun flatten_node :: "pyval \<Rightarrow> pydict list" where
  "flatten_node (PDict d) = d # concat (map flatten_node (list_of (pget d ''children'')))"
| "flatten_node _ = []"

definition flatten :: "pyval list \<Rightarrow> pydict list" where
  "flatten items = concat (map flatten_node items)"


section \<open>Referenced items\<close>

definition known_item_index :: "pydict \<Rightarrow> (string, pydict) dict" where
  "known_item_index entities =
     fold (\<lambda>item index. if truthy (pget item ''itemId'')
             then dsetdefault (py_str (pget item ''itemId'')) item index else index)
       (entity_dicts EXISTING_WORK_ENTITY_KEYS entities) []"

definition blocked_statuses :: "bool \<Rightarrow> string list" where
  "blocked_statuses require_unstarted =
     (if require_unstarted then [''in_progress'', ''in_review''] @ CLOSED_STATUSES else CLOSED_STATUSES)"

definition unknown_ids :: "(string, pydict) dict \<Rightarrow> string list \<Rightarrow> string list" where
  "unknown_ids known item_ids = filter (\<lambda>i. i \<noteq> [] \<and> \<not> dhas known i) item_ids"

definition blocked_titles :: "(string, pydict) dict \<Rightarrow> bool \<Rightarrow> string list \<Rightarrow> string list" where
  "blocked_titles known require_unstarted item_ids =
     List.map_filter (\<lambda>i. case dget known i of
         Some item \<Rightarrow>
           if str_or_empty (pget item ''status'') \<in> set (blocked_statuses require_unstarted)
           then Some (py_str (por (pget item ''title'') (PStr i))) else None
       | None \<Rightarrow> None) item_ids"

definition target_item_issues :: "string list \<Rightarrow> pydict \<Rightarrow> string \<Rightarrow> bool \<Rightarrow> string list" where
  "target_item_issues item_ids entities tool require_unstarted =
     (let known = known_item_index entities;
          unknown = unknown_ids known item_ids;
          blocked = blocked_titles known require_unstarted item_ids;
          scope = (if require_unstarted
             then ''already started or closed; only unstarted (todo) items can be edited ''
                  @ ''- propose the rest in a suggestion''
             else ''already done or archived; leave closed items alone'')
      in if known = [] then []
         else (if unknown \<noteq> []
               then [''The '' @ tool @ '' action references item ids that do not exist in the hydrated backlog: ''
                     @ quote_titles unknown @ ''. Use itemId values exactly as they appear in context.'']
               else [])
              @ (if blocked \<noteq> []
                 then [''The '' @ tool @ '' action touches items that are '' @ scope @ '': ''
                       @ quote_titles blocked @ ''.'']
                 else []))"


section \<open>Titles and descriptions\<close>

text \<open>The loop of \<open>_duplicate_title_issues\<close>: the titles seen, and the first title of each repeated one.\<close>

definition duplicate_step ::
  "pydict \<Rightarrow> (string, string) dict \<times> string list \<Rightarrow> (string, string) dict \<times> string list" where
  "duplicate_step node st =
     (case st of (seen, duplicates) \<Rightarrow>
        let normalized = normalize_title (pget node ''title'') in
        if normalized = [] then (seen, duplicates)
        else case dget seen normalized of
               Some first \<Rightarrow> (seen, if first \<in> set duplicates then duplicates else duplicates @ [first])
             | None \<Rightarrow> (dset normalized (py_str (pget node ''title'')) seen, duplicates))"

definition duplicate_titles :: "pydict list \<Rightarrow> string list" where
  "duplicate_titles nodes = snd (fold duplicate_step nodes ([], []))"

definition duplicate_title_issues :: "pydict list \<Rightarrow> string list" where
  "duplicate_title_issues nodes =
     (if duplicate_titles nodes = [] then []
      else [''The plan repeats the same task more than once: '' @ quote_titles (duplicate_titles nodes)
            @ ''. Merge duplicates or differentiate their scope.''])"

definition existing_titles :: "pydict \<Rightarrow> (string, string) dict" where
  "existing_titles entities =
     fold (\<lambda>item titles.
         let normalized = normalize_title (pget item ''title'')
         in if normalized = [] then titles
            else dsetdefault normalized (py_str (pget item ''title'')) titles)
       (entity_dicts EXISTING_WORK_ENTITY_KEYS entities) []"

definition existing_duplicate_issues :: "pydict list \<Rightarrow> pydict \<Rightarrow> string list" where
  "existing_duplicate_issues nodes entities =
     (let existing = existing_titles entities;
          duplicated = map (\<lambda>n. py_str (pget n ''title''))
            (filter (\<lambda>n. dhas existing (normalize_title (pget n ''title''))) nodes)
      in if existing = [] \<or> duplicated = [] then []
         else [''These planned tasks already exist as work items: '' @ quote_titles duplicated
               @ ''. Drop them, or replace them with tasks for only the missing work that extends the existing item.''])"

definition weak_description :: "pydict \<Rightarrow> bool" where
  "weak_description node =
     (let title = str_or_empty (pget node ''title''); description = text_field node ''description'' in
      length description < MIN_DESCRIPTION_LENGTH
      \<or> normalize_title (PStr description) = normalize_title (PStr title)
      \<or> list_ex (\<lambda>heading. contains heading (lower description)) BOILERPLATE_HEADINGS)"

definition description_issues :: "pydict list \<Rightarrow> string list" where
  "description_issues nodes =
     (let weak = map (\<lambda>n. str_or_empty (pget n ''title'')) (filter weak_description nodes)
      in if weak = [] then []
         else [''These task descriptions are missing, too thin, boilerplate, or restate the title: ''
               @ quote_titles weak @ ''. Each description must be 2-5 sentences of plain prose with the ''
               @ ''concrete behavior, validation, and edge cases the implementer needs to start coding.''])"


section \<open>Assignments\<close>

definition members_with_capacity :: "pydict \<Rightarrow> string list" where
  "members_with_capacity entities =
     take MAX_EXAMPLES_PER_ISSUE
       (List.map_filter (\<lambda>w.
          let username = text_field w ''username'' in
          if username \<noteq> [] \<and>
             (case pget w ''activeItemCount'' of
                PInt n \<Rightarrow> n < OVERLOADED_ACTIVE_ITEM_COUNT | _ \<Rightarrow> True)
          then Some username else None)
        (dicts_of (list_of (pget entities ''member_workloads''))))"

definition known_member_count :: "pydict \<Rightarrow> nat" where
  "known_member_count entities =
     card (set (filter (\<lambda>u. u \<noteq> []) (map (\<lambda>m. text_field m ''username'')
       (entity_dicts MEMBER_ENTITY_KEYS entities))))"

definition is_leaf :: "pydict \<Rightarrow> bool" where
  "is_leaf node \<longleftrightarrow> \<not> truthy (pget node ''children'')"

definition assigned_names :: "pydict \<Rightarrow> pyval list" where
  "assigned_names node = list_of (pget node ''assigneeUsernames'')"

definition count_name :: "pyval \<Rightarrow> (string, nat) dict \<Rightarrow> (string, nat) dict" where
  "count_name username counts =
     (let name = strip (str_or_empty username) in
      if name = [] then counts
      else dset name ((case dget counts name of Some n \<Rightarrow> n | None \<Rightarrow> 0) + 1) counts)"

text \<open>\<open>max(counts.items(), key=...)\<close> takes the first entry with the greatest count.\<close>

fun top_entry :: "(string, nat) dict \<Rightarrow> string \<times> nat" where
  "top_entry [] = ([], 0)"
| "top_entry (e # es) = (let t = top_entry es in if snd t > snd e then t else e)"

text \<open>
  The float comparisons: \<open>a / l < 0.5\<close> is \<open>2 a < l\<close> and \<open>t / a > 0.6\<close> is \<open>5 t > 3 a\<close> for the counts that
  occur (quotients of integers that differ from the constant by at least the spacing of doubles).
\<close>

definition assignment_issues :: "pydict list \<Rightarrow> pydict \<Rightarrow> string list" where
  "assignment_issues nodes entities =
     (let known = known_member_count entities;
          leaf_nodes = filter is_leaf nodes;
          assigned = filter (\<lambda>n. assigned_names n \<noteq> []) leaf_nodes;
          counts = fold count_name (concat (map assigned_names assigned)) [];
          available = members_with_capacity entities;
          hint = (if available \<noteq> [] then '' Members with capacity: '' @ join '', '' available @ ''.'' else []);
          (top_username, top_count) = top_entry counts
      in if known < 2 then []
         else (if MIN_LEAVES_FOR_ASSIGNMENT_RATIO_CHECK \<le> length leaf_nodes \<and> 2 * length assigned < length leaf_nodes
               then [''Only '' @ nat_str (length assigned) @ '' of '' @ nat_str (length leaf_nodes)
                     @ '' tasks have an assignee. Assigning work is the project manager's job: give every task ''
                     @ ''whose required skills match a member's jobNames an owner, using exact username values.'' @ hint]
               else [])
              @ (if 3 \<le> known \<and> MIN_ASSIGNED_LEAVES_FOR_BALANCE_CHECK \<le> length assigned \<and> counts \<noteq> []
                    \<and> 5 * top_count > 3 * length assigned
                 then [''Assignment is too concentrated: '' @ top_username @ '' holds '' @ nat_str top_count
                       @ '' of '' @ nat_str (length assigned) @ '' assigned tasks while '' @ nat_str known
                       @ '' members are available. Rebalance across capable teammates or leave uncertain tasks unassigned.'']
                 else []))"


section \<open>The review\<close>

definition action_issues :: "PlannedAction \<Rightarrow> pydict \<Rightarrow> string list" where
  "action_issues action entities =
     (if pa_tool_name action = ''create_workitem_tree'' then
        (case coerce_work_item_tree_items (pa_input action) of
           Some items \<Rightarrow>
             if items = [] then []
             else (let nodes = flatten items in
                   duplicate_title_issues nodes @ existing_duplicate_issues nodes entities
                   @ description_issues nodes @ assignment_issues nodes entities)
         | None \<Rightarrow> [])
      else if pa_tool_name action = ''update_workitems_bulk'' then
        target_item_issues
          (map (\<lambda>u. str_or_empty (pget u ''itemId''))
            (case coerce_work_item_updates (pa_input action) of Some us \<Rightarrow> us | None \<Rightarrow> []))
          entities (pa_tool_name action) True
      else if pa_tool_name action = ''add_sprint_work_items'' then
        (case pget (pa_input action) ''itemIds'' of
           PList raw_ids \<Rightarrow> target_item_issues (map py_str raw_ids) entities (pa_tool_name action) False
         | _ \<Rightarrow> [])
      else [])"

definition plan_quality_issues :: "AgentPlan \<Rightarrow> pydict \<Rightarrow> string list" where
  "plan_quality_issues plan entities =
     concat (map (\<lambda>action. action_issues action entities) (ap_actions plan))"

end
