(* ===== verification/Py_Float.thy ===== *)
theory Py_Float
  imports Py_Json
begin

text \<open>
  \<open>float(value)\<close> on decoded JSON values, as far as the runtime looks at the result: the exact decimal
  value that is rounded to a double, and the comparison of that double with \<open>0.75\<close>. Rounding is to
  nearest with ties to even: \<open>0.75\<close> has an even significand and its predecessor is \<open>0.75 - 2^-53\<close>, so
  a decimal value becomes a double of at least \<open>0.75\<close> exactly when it is at least \<open>0.75 - 2^-54\<close>.
\<close>

text \<open>\<open>Dec m e\<close> stands for \<open>m * 10^e\<close>.\<close>

datatype float_val = Nan | Inf bool | Dec int int

text \<open>Decimal digits with single underscores between them; the digits read and the rest.\<close>

fun digit_run :: "string \<Rightarrow> string \<times> string" where
  "digit_run [] = ([], [])"
| "digit_run (c # cs) =
     (if is_digit c then
        (case cs of
           u # d # rest \<Rightarrow>
             if u = CHR ''_'' \<and> is_digit d then map_prod (Cons c) id (digit_run (d # rest))
             else map_prod (Cons c) id (digit_run cs)
         | _ \<Rightarrow> map_prod (Cons c) id (digit_run cs))
      else ([], c # cs))"

definition parse_exponent :: "string \<Rightarrow> int option" where
  "parse_exponent s =
     (case s of
        [] \<Rightarrow> Some 0
      | c # cs \<Rightarrow>
          (if c \<noteq> CHR ''e'' then None
           else let neg = (take 1 cs = ''-'');
                    t = (if take 1 cs = ''-'' \<or> take 1 cs = ''+'' then drop 1 cs else cs);
                    (ds, rest) = digit_run t
                in if ds = [] \<or> rest \<noteq> [] then None
                   else Some (if neg then - int (nat_of_digits ds) else int (nat_of_digits ds))))"

definition parse_unsigned :: "bool \<Rightarrow> string \<Rightarrow> float_val option" where
  "parse_unsigned neg s =
     (if s = ''inf'' \<or> s = ''infinity'' then Some (Inf neg)
      else if s = ''nan'' then Some Nan
      else let (whole, r1) = digit_run s;
               (frac, r2) = (if take 1 r1 = ''.'' then digit_run (drop 1 r1) else ([], r1))
           in if whole = [] \<and> frac = [] then None
              else map_option (\<lambda>e. let m = int (nat_of_digits (whole @ frac))
                     in Dec (if neg then - m else m) (e - int (length frac))) (parse_exponent r2))"

definition parse_float :: "string \<Rightarrow> float_val option" where
  "parse_float text =
     (let s = lower (strip text);
          t = (if take 1 s = ''-'' \<or> take 1 s = ''+'' then drop 1 s else s)
      in parse_unsigned (take 1 s = ''-'') t)"

text \<open>Integers at or above the midpoint between the largest double and \<open>2^1024\<close> overflow.\<close>

definition FLOAT_OVERFLOW :: int where
  "FLOAT_OVERFLOW = 2 ^ 1024 - 2 ^ 970"

definition py_float :: "pyval \<Rightarrow> exn + float_val" where
  "py_float v =
     (case v of
        PBool b \<Rightarrow> Inr (Dec (if b then 1 else 0) 0)
      | PInt i \<Rightarrow> if \<bar>i\<bar> \<ge> FLOAT_OVERFLOW
                  then Inl (OtherError ''OverflowError'' ''int too large to convert to float'')
                  else Inr (Dec i 0)
      | PFloat r \<Rightarrow> Inr (case parse_float r of Some x \<Rightarrow> x | None \<Rightarrow> Nan)
      | PStr s \<Rightarrow> (case parse_float s of
            Some x \<Rightarrow> Inr x
          | None \<Rightarrow> Inl (ValueError (''could not convert string to float: '' @ repr_str s)))
      | _ \<Rightarrow> Inl (TypeError (''float() argument must be a string or a real number, not ''
                  @ repr_str (py_type_name v))))"

definition ge_three_quarters :: "float_val \<Rightarrow> bool" where
  "ge_three_quarters x =
     (case x of
        Nan \<Rightarrow> False
      | Inf neg \<Rightarrow> \<not> neg
      | Dec m e \<Rightarrow>
          if 0 \<le> e then m * 10 ^ nat e * 2 ^ 54 \<ge> 3 * 2 ^ 52 - 1
          else m * 2 ^ 54 \<ge> (3 * 2 ^ 52 - 1) * 10 ^ nat (- e))"

lemma ge_three_quarters_mono: "m \<le> n \<Longrightarrow> ge_three_quarters (Dec m e) \<Longrightarrow> ge_three_quarters (Dec n e)"
  by (auto simp: ge_three_quarters_def intro: order_trans mult_right_mono split: if_splits)

end
