(* ===== verification/Workitem_Tools.thy ===== *)
theory Workitem_Tools
  imports Tool_Inputs Prism_Client Py_Float
begin

text \<open>
  The tools of \<open>capabilities/tools/workitem_tools.py\<close> and the embedder they search with
  (\<open>infrastructure/llm/gemini_embeddings.py\<close>). The siblings of a tree level are created by a thread
  pool: the order in which their requests reach the server, and which of them are still started after
  one has failed, is the parameter \<open>te_schedule\<close>.
\<close>

text \<open>\<open>em_post\<close> is the embedding service: no result where the request or the decoding fails.\<close>

record embedder =
  em_api_key :: "string option"
  em_model :: string
  em_dimensions :: int
  em_post :: "string \<Rightarrow> pydict \<Rightarrow> pyval option"

record tool_env = io_env +
  te_embedder :: "embedder option"
  te_schedule :: "api_request list \<Rightarrow> nat \<Rightarrow> nat list"

definition tool_result ::
  "'e io_env_scheme \<Rightarrow> string \<Rightarrow> PlannedAction \<Rightarrow> bool \<Rightarrow> pydict \<Rightarrow> string option \<Rightarrow> (io, ToolResult) eff" where
  "tool_result env name action success output error =
     new_tool_result env (pa_plan_id action) (pa_action_id action) name success output error [] None"

text \<open>The client returns any JSON value; a tool's output must be an object.\<close>

definition tool_output :: "'e io_env_scheme \<Rightarrow> string \<Rightarrow> PlannedAction \<Rightarrow> pyval \<Rightarrow> (io, ToolResult) eff" where
  "tool_output env name action output =
     (case output of
        PDict d \<Rightarrow> tool_result env name action True d None
      | _ \<Rightarrow> raise (ValidationError ''ToolResult.output: Input should be a valid dictionary''))"

definition project_of :: "PlannedAction \<Rightarrow> AgentContext \<Rightarrow> string" where
  "project_of action context =
     py_str (por (pget (pa_input action) ''projectId'') (por (pstr_opt (cx_project_id context)) (PStr [])))"

text \<open>\<open>payload.setdefault("requestedByUserId", ...)\<close> when a requester is known.\<close>

definition requester_default :: "string option \<Rightarrow> pydict \<Rightarrow> pydict" where
  "requester_default requested_by payload =
     (if opt_truthy requested_by then dsetdefault ''requestedByUserId'' (pstr_opt requested_by) payload else payload)"


section \<open>Query embeddings\<close>

definition embedder_configured :: "embedder \<Rightarrow> bool" where
  "embedder_configured e \<longleftrightarrow> opt_truthy (em_api_key e)"

text \<open>\<open>float(value)\<close>, kept as the numeral that denotes it.\<close>

definition float_numeral :: "pyval \<Rightarrow> exn + pyval" where
  "float_numeral v =
     sbind (py_float v) (\<lambda>_. Inr (case v of
         PInt i \<Rightarrow> PFloat (int_str i @ ''.0'')
       | PBool b \<Rightarrow> PFloat (if b then ''1.0'' else ''0.0'')
       | PStr s \<Rightarrow> PFloat (strip s)
       | _ \<Rightarrow> v))"

definition embedding_request :: "embedder \<Rightarrow> string \<Rightarrow> string \<times> pydict" where
  "embedding_request e txt =
     (''https://generativelanguage.googleapis.com/v1beta/models/'' @ em_model e @ '':embedContent?key=''
        @ str_or (em_api_key e) [],
      [(''model'', PStr (''models/'' @ em_model e)),
       (''content'', PDict [(''parts'', PList [PDict [(''text'', PStr txt)]])]),
       (''taskType'', PStr ''RETRIEVAL_QUERY''),
       (''outputDimensionality'', PInt (em_dimensions e))])"

definition embed_query :: "embedder \<Rightarrow> string \<Rightarrow> exn + pyval list option" where
  "embed_query e txt =
     (if \<not> embedder_configured e \<or> strip txt = [] then Inr None
      else let (url, body) = embedding_request e txt
           in case em_post e url body of
                None \<Rightarrow> Inr None
              | Some (PDict decoded) \<Rightarrow>
                  (case get_default decoded ''embedding'' (PDict []) of
                     PDict embedding \<Rightarrow>
                       (case pget embedding ''values'' of
                          PList vs \<Rightarrow> if int (length vs) \<noteq> em_dimensions e then Inr None
                                     else sbind (smap float_numeral vs) (\<lambda>xs. Inr (Some xs))
                        | _ \<Rightarrow> Inr None)
                   | v \<Rightarrow> Inl (no_get v))
              | Some v \<Rightarrow> Inl (no_get v))"


section \<open>Duplicates\<close>

fun keep_similar :: "pydict list \<Rightarrow> exn + pydict list" where
  "keep_similar [] = Inr []"
| "keep_similar (item # items) =
     sbind (py_float (por (pget item ''similarity'') (PFloat ''0.0''))) (\<lambda>x.
     sbind (keep_similar items) (\<lambda>kept. Inr (if ge_three_quarters x then item # kept else kept)))"

definition SEMANTIC_DUPLICATE_SEARCH_LIMIT :: int where "SEMANTIC_DUPLICATE_SEARCH_LIMIT = 8"

definition semantic_duplicates ::
  "tool_env \<Rightarrow> string \<Rightarrow> string \<Rightarrow> AgentContext \<Rightarrow> (io, pydict list option) eff" where
  "semantic_duplicates env title proposed_text context =
     (if \<not> is_configured env then ret None
      else case te_embedder env of
        None \<Rightarrow> ret None
      | Some e \<Rightarrow>
          if \<not> embedder_configured e then ret None
          else ebind (of_sum (embed_query e (strip (title @ nl @ proposed_text)))) (\<lambda>embedding.
            case embedding of
              None \<Rightarrow> ret None
            | Some v \<Rightarrow>
                ebind (on_runtime_error
                         (ebind (find_similar_work_items env (str_or (cx_project_id context) []) v
                                   SEMANTIC_DUPLICATE_SEARCH_LIMIT) (\<lambda>xs. ret (Some xs)))
                         (\<lambda>_. ret None)) (\<lambda>similar.
                case similar of
                  None \<Rightarrow> ret None
                | Some items \<Rightarrow> ebind (of_sum (keep_similar items)) (\<lambda>kept. ret (Some kept)))))"

text \<open>\<open>.get\<close> on the entity, which must be a dictionary.\<close>

definition dict_entity :: "pyval \<Rightarrow> exn + pydict" where
  "dict_entity v = (case v of PDict d \<Rightarrow> Inr d | _ \<Rightarrow> Inl (no_get v))"

definition lexical_duplicates :: "pydict \<Rightarrow> string \<Rightarrow> pyval list" where
  "lexical_duplicates entities title =
     filter (\<lambda>item. case item of
         PDict d \<Rightarrow> title \<noteq> [] \<and>
           contains (lower title) (lower (py_str (get_default d ''title'' (PStr []))))
       | _ \<Rightarrow> False)
       (list_of (por (pget entities ''sibling_work_items'')
                     (get_default entities ''related_workitems'' (PList []))))"

definition find_duplicate_workitems :: "tool_env \<Rightarrow> PlannedAction \<Rightarrow> AgentContext \<Rightarrow> (io, ToolResult) eff" where
  "find_duplicate_workitems env action context =
     (let entities = cx_entities context; inp = pa_input action;
          work_item = dict_entity (por (pget entities ''work_item'')
                        (get_default entities ''story'' (PDict []))) in
      ebind (of_sum (if truthy (pget inp ''title'') then Inr (py_str (pget inp ''title''))
                     else sbind work_item (\<lambda>w. Inr (py_str (get_default w ''title'' (PStr [])))))) (\<lambda>title.
      ebind (semantic_duplicates env title (str_or_empty (pget inp ''description'')) context) (\<lambda>semantic.
      case semantic of
        Some items \<Rightarrow>
          ebind (of_sum work_item) (\<lambda>w.
          let source_item_id = py_str (por (pget w ''itemId'') (por (pget w ''id'') (PStr [])));
              duplicates = filter (\<lambda>item. py_str (pget item ''itemId'') \<noteq> source_item_id) items
          in tool_result env ''find_duplicate_workitems'' action True
               [(''duplicates'', PList (map PDict duplicates)), (''method'', PStr ''semantic'')] None)
      | None \<Rightarrow>
          tool_result env ''find_duplicate_workitems'' action True
            [(''duplicates'', PList (lexical_duplicates entities title)), (''method'', PStr ''lexical'')] None)))"


section \<open>Single items\<close>

definition create_payload :: "PlannedAction \<Rightarrow> pydict" where
  "create_payload action =
     (let inp = pa_input action in
      dsetdefault ''description''
        (PStr (py_str (por (pget inp ''description'') (PStr (pa_instruction action)))))
        (dsetdefault ''title'' (PStr (take 100 (py_str (por (pget inp ''title'') (PStr ''Generated task'')))))
          (filter_payload (PDict inp) CREATE_WORK_ITEM_FIELDS)))"

definition create_workitem :: "tool_env \<Rightarrow> PlannedAction \<Rightarrow> AgentContext \<Rightarrow> (io, ToolResult) eff" where
  "create_workitem env action context =
     (let project_id = project_of action context; inp = pa_input action; payload = create_payload action in
      ebind (if is_configured env
             then create_work_item env project_id
                    (requester_default (requested_by_user_id inp context) payload)
             else ret (PDict (dmerge
                    [(''itemId'', PStr (py_str (por (pget inp ''itemId'') (PStr (''local-'' @ pa_action_id action))))),
                     (''projectId'', PStr project_id), (''workspaceId'', PStr (cx_workspace_id context))] payload)))
        (tool_output env ''create_workitem'' action))"

definition update_workitem :: "tool_env \<Rightarrow> PlannedAction \<Rightarrow> AgentContext \<Rightarrow> (io, ToolResult) eff" where
  "update_workitem env action context =
     (let inp = pa_input action;
          item_id = py_str (por (pget inp ''itemId'') (por (pget inp ''id'') (PStr ''unknown'')));
          payload = filter_payload (get_default inp ''changes'' (PDict inp)) CREATE_WORK_ITEM_FIELDS in
      ebind (if is_configured env
             then update_work_item env (project_of action context) item_id
                    (requester_default (requested_by_user_id inp context) payload)
             else ret (PDict (dmerge [(''itemId'', PStr item_id), (''updated'', PBool True)] payload)))
        (tool_output env ''update_workitem'' action))"

text \<open>\<open>payload["requestedByUserId"] = ...\<close> when a requester is known.\<close>

definition with_requester :: "string option \<Rightarrow> pydict \<Rightarrow> pydict" where
  "with_requester requested_by payload =
     (if opt_truthy requested_by then dset ''requestedByUserId'' (pstr_opt requested_by) payload else payload)"

definition assign_workitem :: "tool_env \<Rightarrow> PlannedAction \<Rightarrow> AgentContext \<Rightarrow> (io, ToolResult) eff" where
  "assign_workitem env action context =
     (let inp = pa_input action;
          item_id = py_str (por (pget inp ''itemId'') (PStr ''unknown''));
          names = get_default inp ''assigneeUsernames'' (PList []) in
      ebind (if is_configured env
             then update_work_item env (project_of action context) item_id
                    (with_requester (requested_by_user_id inp context) [(''assigneeUsernames'', names)])
             else ret (PDict [(''itemId'', PStr item_id), (''assigneeUsernames'', names)]))
        (tool_output env ''assign_workitem'' action))"

definition update_workitem_status :: "tool_env \<Rightarrow> PlannedAction \<Rightarrow> AgentContext \<Rightarrow> (io, ToolResult) eff" where
  "update_workitem_status env action context =
     (let inp = pa_input action; entities = cx_entities context;
          entity = por (pget entities ''work_item'') (get_default entities ''workitem'' (PDict [])) in
      ebind (of_sum (if truthy (pget inp ''itemId'') then Inr (pget inp ''itemId'')
                     else sbind (dict_entity entity) (\<lambda>w. Inr (por (pget w ''itemId'')
                            (get_default w ''id'' (PStr ''unknown'')))))) (\<lambda>item.
      let item_id = py_str item; status = py_str (por (pget inp ''status'') (PStr ''done'')) in
      ebind (if is_configured env
             then update_work_item env (project_of action context) item_id
                    (with_requester (requested_by_user_id inp context) [(''status'', PStr status)])
             else ret (PDict [(''itemId'', PStr item_id), (''status'', PStr status)]))
        (tool_output env ''update_workitem_status'' action)))"

definition add_workitem_comment :: "tool_env \<Rightarrow> PlannedAction \<Rightarrow> AgentContext \<Rightarrow> (io, ToolResult) eff" where
  "add_workitem_comment env action context =
     (let inp = pa_input action in
      tool_result env ''add_workitem_comment'' action True
        [(''itemId'', pget inp ''itemId''), (''body'', por (pget inp ''body'') (pget inp ''comment''))] None)"


section \<open>A pool of requests\<close>

text \<open>
  \<open>pool.map(f, xs)\<close> on a \<open>ThreadPoolExecutor\<close> whose results are all read: the calls take effect in the
  order \<open>schedule\<close>; calls it does not list run afterwards, unless a call of a smaller index has failed, in
  which case they may have been cancelled. The results, and the exception raised, follow the order of \<open>xs\<close>.
\<close>

type_synonym 'a futures = "(nat, exn + 'a) dict"

definition cancellable :: "'a futures \<Rightarrow> nat \<Rightarrow> bool" where
  "cancellable finished k \<longleftrightarrow> list_ex (\<lambda>(j, r). j < k \<and> isl r) finished"

fun pool_run ::
  "(nat \<Rightarrow> 'b futures \<Rightarrow> bool) \<Rightarrow> ('a \<Rightarrow> ('s, 'b) eff) \<Rightarrow> 'a list \<Rightarrow> nat list \<Rightarrow> 'b futures \<Rightarrow> ('s, 'b futures) eff" where
  "pool_run skip f xs [] finished = ret finished"
| "pool_run skip f xs (k # ks) finished =
     (if length xs \<le> k \<or> dhas finished k \<or> skip k finished then pool_run skip f xs ks finished
      else ebind (attempted (f (xs ! k))) (\<lambda>r. pool_run skip f xs ks (finished @ [(k, r)])))"

definition future_result :: "'a futures \<Rightarrow> nat \<Rightarrow> exn + 'a" where
  "future_result finished k =
     (case dget finished k of Some r \<Rightarrow> r | None \<Rightarrow> Inl (OtherError ''CancelledError'' []))"

definition pool_map :: "nat list \<Rightarrow> ('a \<Rightarrow> ('s, 'b) eff) \<Rightarrow> 'a list \<Rightarrow> ('s, 'b list) eff" where
  "pool_map schedule f xs =
     ebind (pool_run (\<lambda>_ _. False) f xs schedule []) (\<lambda>started.
     ebind (pool_run (\<lambda>k finished. cancellable finished k) f xs [0..<length xs] started) (\<lambda>finished.
     of_sum (smap (future_result finished) [0..<length xs])))"


section \<open>Work item trees\<close>

text \<open>A node to create, the parent it goes under, and its depth.\<close>

type_synonym pending_node = "pyval \<times> string option \<times> nat"

definition node_title :: "pydict \<Rightarrow> string" where
  "node_title d = take 100 (py_str (por (pget d ''title'') (PStr ''Generated task'')))"

definition level_payload ::
  "PlannedAction \<Rightarrow> (string, string) dict \<Rightarrow> pending_node \<Rightarrow> exn + pydict" where
  "level_payload action known_usernames p =
     (case p of (node, parent_id, depth) \<Rightarrow>
        sbind (dict_entity node) (\<lambda>d.
          let payload = normalize_node_payload known_usernames
                (dsetdefault ''description''
                  (PStr (py_str (por (pget d ''description'') (PStr (pa_instruction action)))))
                  (dset ''title'' (PStr (node_title d)) (filter_payload node WORK_ITEM_TREE_NODE_FIELDS)))
          in Inr (if opt_truthy parent_id then dset ''parentId'' (pstr_opt parent_id) payload else payload)))"

definition created_item_id :: "PlannedAction \<Rightarrow> pyval \<Rightarrow> exn + string" where
  "created_item_id action output =
     sbind (dict_entity output) (\<lambda>d. Inr (py_str (por (pget d ''itemId'')
       (por (pget d ''id'') (PStr (''local-'' @ pa_action_id action))))))"

definition local_outputs :: "PlannedAction \<Rightarrow> AgentContext \<Rightarrow> string \<Rightarrow> nat \<Rightarrow> pydict list \<Rightarrow> pyval list" where
  "local_outputs action context project_id start_index payloads =
     map (\<lambda>(offset, payload). PDict (dmerge
            [(''itemId'', PStr (''local-'' @ pa_action_id action @ ''-'' @ nat_str (start_index + offset + 1))),
             (''projectId'', PStr project_id), (''workspaceId'', PStr (cx_workspace_id context))] payload))
       (enumerate 0 payloads)"

definition create_level ::
  "tool_env \<Rightarrow> PlannedAction \<Rightarrow> AgentContext \<Rightarrow> (string, string) dict \<Rightarrow> nat \<Rightarrow> pending_node list
   \<Rightarrow> (io, string list) eff" where
  "create_level env action context known_usernames start_index level =
     (let project_id = project_of action context;
          requested_by = requested_by_user_id (pa_input action) context in
      ebind (of_sum (smap (level_payload action known_usernames) level)) (\<lambda>payloads.
      ebind (if is_configured env
             then ebind (gets (\<lambda>i. te_schedule env (io_requests i) (length payloads))) (\<lambda>schedule.
                  pool_map schedule (create_work_item env project_id)
                    (map (requester_default requested_by) payloads))
             else ret (local_outputs action context project_id start_index payloads)) (\<lambda>outputs.
      of_sum (smap (created_item_id action) outputs))))"

definition node_children :: "pyval \<Rightarrow> pyval list" where
  "node_children node = (case node of PDict d \<Rightarrow> list_of (pget d ''children'') | _ \<Rightarrow> [])"

definition next_level :: "pending_node list \<Rightarrow> string list \<Rightarrow> pending_node list" where
  "next_level pending item_ids =
     concat (map (\<lambda>((node, parent_id, depth), item_id).
         map (\<lambda>c. (c, Some item_id, depth + 1)) (node_children node)) (zip pending item_ids))"

definition created_entries :: "pending_node list \<Rightarrow> string list \<Rightarrow> pydict list" where
  "created_entries pending item_ids =
     map (\<lambda>((node, parent_id, depth), item_id).
         [(''itemId'', PStr item_id), (''parentId'', pstr_opt parent_id), (''depth'', PInt (int depth)),
          (''title'', PStr (case node of PDict d \<Rightarrow> node_title d | _ \<Rightarrow> []))]) (zip pending item_ids)"

abbreviation pending_size :: "pending_node list \<Rightarrow> nat" where
  "pending_size pending \<equiv> sum_list (map (\<lambda>p. Suc (size (fst p))) pending)"

lemma children_size: "sum_list (map (\<lambda>c. Suc (size c)) (node_children node)) < Suc (size node)"
proof -
  have l: "sum_list (map (\<lambda>c. Suc (size c)) xs) \<le> size_list size xs" for xs :: "pyval list"
    by (induction xs) auto
  have v: "sum_list (map (\<lambda>c. Suc (size c)) (list_of v)) \<le> size v" for v
    by (cases v) (auto simp: list_of_def intro: le_SucI l)
  have "sum_list (map (\<lambda>c. Suc (size c)) (list_of (pget d k))) \<le> size (PDict d)" for d k
    using v [of "pget d k"] size_pget [OF refl, of d k]
    by (cases "pget d k = PNone") (auto simp: list_of_def [of PNone])
  then show ?thesis by (cases node) (auto simp: node_children_def less_Suc_eq_le)
qed

lemma next_level_size: "pending \<noteq> [] \<Longrightarrow> pending_size (next_level pending ids) < pending_size pending"
proof -
  have le: "pending_size (next_level pending ids) \<le> pending_size pending" for pending :: "pending_node list" and ids
  proof (induction pending arbitrary: ids)
    case Nil
    then show ?case by (simp add: next_level_def)
  next
    case (Cons p ps)
    show ?case
    proof (cases ids)
      case Nil
      then show ?thesis by (simp add: next_level_def)
    next
      case (Cons i js)
      then show ?thesis
        using Cons.IH [of js] children_size [of "fst p"]
        by (cases p) (auto simp: next_level_def o_def)
    qed
  qed
  assume "pending \<noteq> []"
  then obtain p ps where p: "pending = p # ps" by (cases pending) auto
  show ?thesis
  proof (cases ids)
    case Nil
    then show ?thesis using children_size [of "fst p"] by (simp add: next_level_def p)
  next
    case (Cons i js)
    then show ?thesis
      using le [of ps js] children_size [of "fst p"]
      by (cases p) (auto simp: next_level_def o_def p)
  qed
qed

text \<open>The \<open>while pending\<close> loop, over the operation that creates a level.\<close>

function create_levels ::
  "(nat \<Rightarrow> pending_node list \<Rightarrow> (io, string list) eff) \<Rightarrow> pending_node list \<Rightarrow> pydict list
   \<Rightarrow> (io, pydict list) eff" where
  "create_levels create pending created =
     (if pending = [] then ret created
      else ebind (create (length created) pending) (\<lambda>item_ids.
        create_levels create (next_level pending item_ids) (created @ created_entries pending item_ids)))"
  by pat_completeness auto
termination create_levels
  by (relation "measure (\<lambda>(create, pending, created). pending_size pending)") (auto simp: next_level_size)

declare create_levels.simps [simp del]

definition create_workitem_tree :: "tool_env \<Rightarrow> PlannedAction \<Rightarrow> AgentContext \<Rightarrow> (io, ToolResult) eff" where
  "create_workitem_tree env action context =
     (let items = coerce_work_item_tree_items (pa_input action) in
      case validate_work_item_tree items of
        Some error \<Rightarrow> tool_result env ''create_workitem_tree'' action False [] (Some error)
      | None \<Rightarrow>
          (let root_parent_id = valid_uuid_or_none (pget (pa_input action) ''parentId'');
               known_usernames = known_member_usernames context;
               nodes = (case items of Some xs \<Rightarrow> xs | None \<Rightarrow> []);
               unresolved = collect_unresolved_assignees nodes known_usernames;
               rolled = map (\<lambda>n. snd (rollup_assignee_usernames known_usernames n)) nodes in
           ebind (create_levels (create_level env action context known_usernames)
                    (map (\<lambda>n. (n, root_parent_id, 1)) rolled) []) (\<lambda>created.
           tool_result env ''create_workitem_tree'' action True
             ([(''projectId'', PStr (project_of action context)),
               (''createdCount'', PInt (int (length created))),
               (''items'', PList (map PDict created))]
              @ (if unresolved \<noteq> [] then [(''unresolvedAssignees'', PList unresolved)] else [])) None)))"


section \<open>Bulk updates\<close>

text \<open>What becomes of one update: skipped with a reason, or a payload for an item of the context.\<close>

datatype update_decision =
    Skip_Update pydict
  | Apply_Update string pydict "string list"

definition skip_reason :: "pyval \<Rightarrow> string \<Rightarrow> pydict" where
  "skip_reason item_id reason = [(''itemId'', item_id), (''reason'', PStr reason)]"

definition decide_update ::
  "(string, string) dict \<Rightarrow> (string, pydict) dict \<Rightarrow> pydict \<Rightarrow> update_decision" where
  "decide_update known_usernames item_index update =
     (case valid_uuid_or_none (pget update ''itemId'') of
        None \<Rightarrow> Skip_Update (skip_reason (pget update ''itemId'') ''invalid_item_id'')
      | Some item_id \<Rightarrow>
          (case dget item_index item_id of
             None \<Rightarrow> Skip_Update (skip_reason (PStr item_id) ''not_in_hydrated_context'')
           | Some current \<Rightarrow>
               if str_or_empty (pget current ''status'') \<notin> set MUTABLE_UPDATE_STATUSES
               then Skip_Update (skip_reason (PStr item_id) ''item_started_or_closed'')
               else let (dropped, kept) = drop_protected_fields
                            (filter_payload (PDict update) BULK_UPDATE_FIELDS) current;
                        payload = normalize_node_payload known_usernames kept
                    in if payload = []
                       then Skip_Update (skip_reason (PStr item_id) ''no_safe_fields''
                              @ [(''droppedFields'', strs_val dropped)])
                       else Apply_Update item_id payload dropped))"

definition apply_update ::
  "tool_env \<Rightarrow> PlannedAction \<Rightarrow> AgentContext \<Rightarrow> update_decision
   \<Rightarrow> (io, pydict list \<times> pydict list) eff" where
  "apply_update env action context decision =
     (case decision of
        Skip_Update entry \<Rightarrow> ret ([], [entry])
      | Apply_Update item_id payload dropped \<Rightarrow>
          (let sent = (if is_configured env
                       then requester_default (requested_by_user_id (pa_input action) context) payload
                       else payload);
               entry = dmerge [(''itemId'', PStr item_id)] sent
           in eseq (if is_configured env
                    then ebind (update_work_item env (project_of action context) item_id sent) (\<lambda>_. ret ())
                    else ret ())
                (ret ([if dropped \<noteq> [] then dset ''droppedFields'' (strs_val dropped) entry else entry], []))))"

definition update_workitems_bulk :: "tool_env \<Rightarrow> PlannedAction \<Rightarrow> AgentContext \<Rightarrow> (io, ToolResult) eff" where
  "update_workitems_bulk env action context =
     (let updates = coerce_work_item_updates (pa_input action) in
      case validate_work_item_updates updates of
        Some error \<Rightarrow> tool_result env ''update_workitems_bulk'' action False [] (Some error)
      | None \<Rightarrow>
          ebind (emap (\<lambda>u. apply_update env action context
                     (decide_update (known_member_usernames context) (context_item_index context) u))
                   (case updates of Some us \<Rightarrow> us | None \<Rightarrow> [])) (\<lambda>outcomes.
          let applied = concat (map fst outcomes); skipped = concat (map snd outcomes) in
          tool_result env ''update_workitems_bulk'' action True
            [(''projectId'', PStr (project_of action context)),
             (''updatedCount'', PInt (int (length applied))),
             (''updates'', PList (map PDict applied)), (''skipped'', PList (map PDict skipped))] None))"

end
