(* ===== verification/Agent_Tools.thy ===== *)
theory Agent_Tools
  imports Workitem_Tools
begin

text \<open>
  The remaining tools, \<open>capabilities/tools/{sprint,github,suggestion,dashboard}_tools.py\<close>, and the table
  from which \<open>ToolRegistry.from_prompt_registry\<close> takes the implementations.
\<close>

section \<open>Sprints\<close>

text \<open>\<open>t.replace(microsecond=0).isoformat().replace("+00:00", "Z")\<close>\<close>

definition zulu :: "datetime \<Rightarrow> string" where
  "zulu t =
     (let s = isoformat (DateTime (dt_utc t - dt_utc t mod 1000000) (dt_offset t)); n = length s - 6
      in if drop n s = ''+00:00'' then take n s @ ''Z'' else s)"

definition create_sprint_payload :: "datetime \<Rightarrow> pydict \<Rightarrow> pydict" where
  "create_sprint_payload now input_data =
     (let later = DateTime (dt_utc now + 14 * 86400 * 1000000) (dt_offset now) in
      [(''name'', PStr (take 50 (py_str (por (pget input_data ''name'') (PStr ''Feature provisioning''))))),
       (''startsAt'', por (pget input_data ''startsAt'') (PStr (zulu now))),
       (''endsAt'', por (pget input_data ''endsAt'') (PStr (zulu later)))]
      @ (if pget input_data ''goal'' \<noteq> PNone then [(''goal'', pget input_data ''goal'')] else []))"

definition workspace_of :: "PlannedAction \<Rightarrow> AgentContext \<Rightarrow> string" where
  "workspace_of action context =
     py_str (por (pget (pa_input action) ''workspaceId'') (PStr (cx_workspace_id context)))"

definition create_sprint_tool :: "tool_env \<Rightarrow> PlannedAction \<Rightarrow> AgentContext \<Rightarrow> (io, ToolResult) eff" where
  "create_sprint_tool env action context =
     (let inp = pa_input action; workspace_id = workspace_of action context in
      ebind (utc_now env) (\<lambda>now.
      let payload = create_sprint_payload now inp in
      ebind (if is_configured env
             then create_sprint env workspace_id (requester_default (requested_by_user_id inp context) payload)
             else ret (PDict (dmerge
               [(''sprintId'', PStr (py_str (por (pget inp ''sprintId'') (PStr (''local-'' @ pa_action_id action))))),
                (''workspaceId'', PStr workspace_id)] payload)))
        (tool_output env ''create_sprint'' action)))"

definition latest_planned_sprint_id :: "tool_env \<Rightarrow> string \<Rightarrow> (io, string option) eff" where
  "latest_planned_sprint_id env workspace_id =
     ebind (on_runtime_error (ebind (get_workspace_sprints env workspace_id) (\<lambda>xs. ret (Some xs)))
              (\<lambda>_. ret None)) (\<lambda>sprints.
     ret (case sprints of
            None \<Rightarrow> None
          | Some xs \<Rightarrow>
              (let planned = filter (\<lambda>s. str_or_empty (pget s ''status'') = ''planned'') xs;
                   newest_first = rev (sort_key (\<lambda>s. str_or_empty (pget s ''createdAt'')) (rev planned))
               in case newest_first of
                    [] \<Rightarrow> None
                  | s # _ \<Rightarrow> if truthy (pget s ''sprintId'') then Some (py_str (pget s ''sprintId'')) else None)))"

definition valid_item_ids :: "pyval \<Rightarrow> string list" where
  "valid_item_ids raw = merge_tools [] (List.map_filter (\<lambda>v. uuid_str (py_str v)) (list_of raw))"

definition add_sprint_result ::
  "tool_env \<Rightarrow> PlannedAction \<Rightarrow> string \<Rightarrow> string list \<Rightarrow> (io, ToolResult) eff" where
  "add_sprint_result env action sprint_id item_ids =
     tool_result env ''add_sprint_work_items'' action True
       [(''sprintId'', PStr sprint_id), (''itemIds'', strs_val item_ids),
        (''addedCount'', PInt (int (length item_ids)))] None"

definition add_sprint_work_items_tool :: "tool_env \<Rightarrow> PlannedAction \<Rightarrow> AgentContext \<Rightarrow> (io, ToolResult) eff" where
  "add_sprint_work_items_tool env action context =
     (let inp = pa_input action; workspace_id = workspace_of action context;
          given_sprint = str_or_empty (pget inp ''sprintId'');
          item_ids = valid_item_ids (pget inp ''itemIds'');
          failed = (\<lambda>error. tool_result env ''add_sprint_work_items'' action False [] (Some error)) in
      if item_ids = []
      then failed ''add_sprint_work_items requires a non-empty itemIds list of existing work item ids.''
      else if is_configured env
      then ebind (if given_sprint \<noteq> [] then ret given_sprint
                  else ebind (latest_planned_sprint_id env workspace_id) (\<lambda>s. ret (str_or s []))) (\<lambda>sprint_id.
           if sprint_id = []
           then failed ''No sprintId given and no planned sprint exists to map items into.''
           else ebind (add_sprint_work_items env workspace_id sprint_id
                  (with_requester (requested_by_user_id inp context) [(''itemIds'', strs_val item_ids)])) (\<lambda>_.
                add_sprint_result env action sprint_id item_ids))
      else add_sprint_result env action
             (if given_sprint = [] then ''local-sprint-'' @ pa_action_id action else given_sprint) item_ids)"

definition generate_sprint_report :: "tool_env \<Rightarrow> PlannedAction \<Rightarrow> AgentContext \<Rightarrow> (io, ToolResult) eff" where
  "generate_sprint_report env action context =
     ebind (of_sum (dict_entity (get_default (cx_entities context) ''sprint'' (PDict [])))) (\<lambda>sprint.
     tool_result env ''generate_sprint_report'' action True
       [(''sprint_id'', por (pget sprint ''id'') (pget (pa_input action) ''sprint_id'')),
        (''report'', por (pget (pa_input action) ''report'') (PStr ''Sprint report draft''))] None)"


section \<open>Pull requests\<close>

definition REVIEW_EVENTS :: "string list" where
  "REVIEW_EVENTS = [''COMMENT'', ''APPROVE'', ''REQUEST_CHANGES'']"

definition link_pull_request :: "tool_env \<Rightarrow> PlannedAction \<Rightarrow> AgentContext \<Rightarrow> (io, ToolResult) eff" where
  "link_pull_request env action context =
     tool_result env ''link_pull_request'' action True
       [(''pr'', get_default (cx_entities context) ''pull_request'' (PDict [])),
        (''itemId'', pget (pa_input action) ''itemId''),
        (''pull_request_id'', pget (pa_input action) ''pull_request_id'')] None"

text \<open>\<open>isinstance(line, int) and line >= 1\<close>; a boolean is an integer.\<close>

definition positive_line :: "pyval \<Rightarrow> bool" where
  "positive_line v = (case v of PInt n \<Rightarrow> n \<ge> 1 | PBool b \<Rightarrow> b | _ \<Rightarrow> False)"

text \<open>\<open>side in {"LEFT", "RIGHT"}\<close> hashes its operand.\<close>

definition side_field :: "pyval \<Rightarrow> exn + pydict" where
  "side_field v =
     (case v of
        PList _ \<Rightarrow> Inl (TypeError (''unhashable type: '' @ repr_str (py_type_name v)))
      | PDict _ \<Rightarrow> Inl (TypeError (''unhashable type: '' @ repr_str (py_type_name v)))
      | _ \<Rightarrow> Inr (if v \<in> {PStr ''LEFT'', PStr ''RIGHT''} then [(''side'', v)] else []))"

fun normalize_comment_items :: "pyval list \<Rightarrow> exn + pydict list" where
  "normalize_comment_items [] = Inr []"
| "normalize_comment_items (item # items) =
     (case item of
        PDict d \<Rightarrow>
          if truthy (pget d ''path'') \<and> truthy (pget d ''body'') \<and> positive_line (pget d ''line'')
          then sbind (side_field (pget d ''side'')) (\<lambda>side.
               sbind (normalize_comment_items items) (\<lambda>rest.
                 Inr (([(''path'', PStr (py_str (pget d ''path''))), (''line'', pget d ''line''),
                        (''body'', PStr (py_str (pget d ''body'')))] @ side) # rest)))
          else normalize_comment_items items
      | _ \<Rightarrow> normalize_comment_items items)"

definition normalize_comments :: "pyval \<Rightarrow> exn + pydict list" where
  "normalize_comments raw = normalize_comment_items (list_of raw)"

definition repository_full_name :: "pydict \<Rightarrow> AgentContext \<Rightarrow> pydict \<Rightarrow> string" where
  "repository_full_name input_data context diff_data =
     (let payload = ev_payload (en_event (cx_source_event context)) in
      str_or_empty (por (pget input_data ''repositoryFullName'') (por (pget diff_data ''repositoryFullName'')
        (por (pget payload ''repositoryFullName'') (pget payload ''repository_full_name'')))))"

definition review_event :: "pydict \<Rightarrow> string" where
  "review_event inp =
     (let event = map upper_char (py_str (por (pget inp ''event'') (PStr ''COMMENT'')))
      in if event \<in> set REVIEW_EVENTS then event else ''COMMENT'')"

definition review_failed ::
  "tool_env \<Rightarrow> PlannedAction \<Rightarrow> pydict \<Rightarrow> exn \<Rightarrow> (io, ToolResult) eff" where
  "review_failed env action output e =
     tool_result env ''submit_pull_request_review'' action False output (Some (exn_str e))"

definition submit_pull_request_review :: "tool_env \<Rightarrow> PlannedAction \<Rightarrow> AgentContext \<Rightarrow> (io, ToolResult) eff" where
  "submit_pull_request_review env action context =
     (let inp = pa_input action;
          diff_data = (case pget (cx_entities context) ''pull_request_diff'' of PDict d \<Rightarrow> d | _ \<Rightarrow> []);
          pull_number = por (pget inp ''pullNumber'') (pget diff_data ''pullNumber'');
          head_sha = str_or_empty (por (pget inp ''headSha'') (pget diff_data ''headSha''));
          repository = repository_full_name inp context diff_data;
          event = review_event inp;
          summary = py_str (por (pget inp ''summary'') (PStr (pa_instruction action))) in
      ebind (of_sum (normalize_comments (pget inp ''comments''))) (\<lambda>comments.
      let payload = with_requester (requested_by_user_id inp context)
            ([(''headSha'', PStr head_sha), (''event'', PStr event), (''summary'', PStr summary)]
             @ (if repository \<noteq> [] then [(''repositoryFullName'', PStr repository)] else [])
             @ (if comments \<noteq> [] then [(''comments'', PList (map PDict comments))] else [])) in
      if is_configured env \<and> pull_number \<noteq> PNone
      then ebind (attempted (create_pull_request_review env (project_of action context) pull_number payload)) (\<lambda>r.
           case r of
             Inr out \<Rightarrow> tool_output env ''submit_pull_request_review'' action out
           | Inl e \<Rightarrow>
               (case e of
                  PrismApiConflictError _ \<Rightarrow>
                    review_failed env action
                      [(''reason'', PStr ''stale_pull_request_head''), (''headSha'', PStr head_sha)] e
                | PrismApiBadRequestError _ \<Rightarrow>
                    review_failed env action [(''reason'', PStr ''invalid_review_request'')] e
                | PrismApiUnprocessableError _ \<Rightarrow>
                    review_failed env action [(''reason'', PStr ''invalid_review_comment_anchor'')] e
                | _ \<Rightarrow> raise e))
      else tool_result env ''submit_pull_request_review'' action True
             [(''reviewId'', PStr (''local-'' @ pa_action_id action)), (''pullNumber'', pull_number),
              (''event'', PStr event), (''comments'', PList (map PDict comments))] None))"


section \<open>Suggestions and insights\<close>

definition coerce_proposed_changes :: "pyval \<Rightarrow> pydict" where
  "coerce_proposed_changes raw =
     (let of_value = (\<lambda>v. case v of
            PDict d \<Rightarrow> d | PList xs \<Rightarrow> [(''changes'', PList xs)] | PNone \<Rightarrow> []
          | _ \<Rightarrow> [(''summary'', PStr (py_str v))])
      in case raw of
           PStr s \<Rightarrow> (case json_loads s of None \<Rightarrow> [(''summary'', PStr s)] | Some decoded \<Rightarrow> of_value decoded)
         | _ \<Rightarrow> of_value raw)"

definition create_agent_suggestion :: "tool_env \<Rightarrow> PlannedAction \<Rightarrow> AgentContext \<Rightarrow> (io, ToolResult) eff" where
  "create_agent_suggestion env action context =
     (let inp = pa_input action; target = pget inp ''target_entity_ref'' in
      ebind (new_suggestion env (cx_workspace_id context) (cx_project_id context) (pa_plan_id action)
               (pa_action_id action) (py_str (por (pget inp ''title'') (PStr ''Agent suggestion'')))
               (py_str (por (pget inp ''body'') (PStr (pa_instruction action))))
               (if truthy target then Some (py_str target) else None)
               (coerce_proposed_changes (pget inp ''proposed_changes''))) (\<lambda>suggestion.
      new_tool_result env (pa_plan_id action) (pa_action_id action) ''create_agent_suggestion'' True
        [(''suggestion_id'', PStr (su_suggestion_id suggestion))] None [] (Some suggestion)))"

definition create_dashboard_insight :: "tool_env \<Rightarrow> PlannedAction \<Rightarrow> AgentContext \<Rightarrow> (io, ToolResult) eff" where
  "create_dashboard_insight env action context =
     (let insight_id = ''insight-'' @ pa_action_id action; source = en_event (cx_source_event context) in
      ebind (new_event env DomainEvent ''insight.created'' (cx_workspace_id context) (cx_project_id context)
               (dmerge [(''insight_id'', PStr insight_id)] (pa_input action)) None
               (child (ev_causality source) (ev_event_id source)) None) (\<lambda>event.
      ebind (wrap env event) (\<lambda>envelope.
      new_tool_result env (pa_plan_id action) (pa_action_id action) ''create_dashboard_insight'' True
        [(''insight_id'', PStr insight_id)] None [envelope] None)))"


section \<open>The table\<close>

definition TOOL_IMPLEMENTATIONS ::
  "tool_env \<Rightarrow> (string, PlannedAction \<Rightarrow> AgentContext \<Rightarrow> (io, ToolResult) eff) dict" where
  "TOOL_IMPLEMENTATIONS env =
     [(''create_agent_suggestion'', create_agent_suggestion env),
      (''find_duplicate_workitems'', find_duplicate_workitems env),
      (''create_sprint'', create_sprint_tool env),
      (''add_sprint_work_items'', add_sprint_work_items_tool env),
      (''create_workitem'', create_workitem env),
      (''create_workitem_tree'', create_workitem_tree env),
      (''update_workitem'', update_workitem env),
      (''update_workitems_bulk'', update_workitems_bulk env),
      (''assign_workitem'', assign_workitem env),
      (''update_workitem_status'', update_workitem_status env),
      (''add_workitem_comment'', add_workitem_comment env),
      (''generate_sprint_report'', generate_sprint_report env),
      (''link_pull_request'', link_pull_request env),
      (''submit_pull_request_review'', submit_pull_request_review env),
      (''create_dashboard_insight'', create_dashboard_insight env)]"

definition runtime_tools :: "tool_env \<Rightarrow> ToolPromptDefinition list \<Rightarrow> exn + tool_registry" where
  "runtime_tools env definitions = tools_from_prompt_registry (TOOL_IMPLEMENTATIONS env) definitions []"

end
