(* ===== verification/Tool_Facts.thy ===== *)
theory Tool_Facts
  imports Plan_Quality Agent_Tools Run_Sync "HOL-Library.Multiset"
begin

text \<open>
  Facts the tool properties rest on: what the tree walk accepts, what normalised payloads contain, how
  names are rolled up, which requests a pool and the levels of a tree may send, and in which order the
  items of a tree are reported.
\<close>

section \<open>Work item trees\<close>

text \<open>A tree of titled objects within a number of levels.\<close>

fun tree_ok :: "nat \<Rightarrow> pyval \<Rightarrow> bool" where
  "tree_ok 0 v = False"
| "tree_ok (Suc n) v =
     (case v of
        PDict d \<Rightarrow> text_field d ''title'' \<noteq> [] \<and>
          (case pget d ''children'' of
             PNone \<Rightarrow> True | PList xs \<Rightarrow> list_all (tree_ok n) xs | _ \<Rightarrow> False)
      | _ \<Rightarrow> False)"

lemma flatten_simps [simp]:
  "flatten [] = []" "flatten (v # vs) = flatten_node v @ flatten vs"
  "flatten (xs @ ys) = flatten xs @ flatten ys"
  by (simp_all add: flatten_def)

lemma flatten_node_children:
  "flatten_node (PDict d) = d # flatten (list_of (pget d ''children''))"
  by (simp add: flatten_def)

declare flatten_node.simps(1) [simp del] flatten_node_children [simp]

lemma list_of_simps [simp]:
  "list_of PNone = []" "list_of (PList xs) = xs" "list_of (PDict d) = []" "list_of (PStr s) = []"
  by (simp_all add: list_of_def)

lemma tree_ok_dict: "tree_ok n v \<Longrightarrow> \<exists>d. v = PDict d"
  by (cases n; cases v) auto

lemma tree_ok_children:
  "tree_ok (Suc n) (PDict d) \<Longrightarrow> x \<in> set (list_of (pget d ''children'')) \<Longrightarrow> tree_ok n x"
  by (auto simp: list_all_iff list_of_def split: pyval.splits)

lemma flatten_node_ne: "tree_ok n v \<Longrightarrow> flatten_node v \<noteq> []"
  by (auto dest: tree_ok_dict)

lemma walk_iff:
  "depth \<le> 4 \<Longrightarrow> k \<le> 100 \<Longrightarrow> nodes \<noteq> [] \<Longrightarrow> (walk nodes depth k = Inr n) =
     (list_all (tree_ok (4 - depth)) nodes \<and> n = k + length (flatten nodes) \<and> n \<le> 100)"
  "depth \<le> 3 \<Longrightarrow> k \<le> 100 \<Longrightarrow> (walk_nodes nodes depth k = Inr n) =
     (list_all (tree_ok (4 - depth)) nodes \<and> n = k + length (flatten nodes) \<and> n \<le> 100)"
proof (induction nodes depth k and nodes depth k arbitrary: n and n rule: walk_walk_nodes.induct)
  case (1 nodes depth k)
  show ?case
  proof (cases "depth > 3")
    case True
    with 1 show ?thesis by (cases nodes) (auto simp: walk.simps)
  next
    case False
    with 1 show ?thesis by (simp add: walk.simps)
  qed
next
  case (2 depth k)
  then show ?case by auto
next
  case (3 node nodes depth k)
  define l where "l = 3 - depth"
  have l: "4 - depth = Suc l" "4 - (depth + 1) = l" "4 - Suc depth = l" using 3(5) by (auto simp: l_def)
  show ?case
  proof (cases "\<exists>d. node = PDict d \<and> text_field d ''title'' \<noteq> [] \<and> k + 1 \<le> 100")
    case False
    then show ?thesis
      by (cases node) (auto simp: walk_nodes.simps(2) l(1))
  next
    case True
    then obtain d where d: "node = PDict d" "text_field d ''title'' \<noteq> []" "k + 1 \<le> 100" by blast
    then have big: "\<not> MAX_WORK_ITEM_TREE_ITEMS < k + 1" by simp
    show ?thesis
    proof (cases "pget d ''children''")
      case PNone
      then show ?thesis
        using 3(1) [OF d(1,2) big PNone, of n] 3(5) d by (auto simp: walk_nodes.simps(2) l)
    next
      case (PList xs)
      show ?thesis
      proof (cases "xs = []")
        case True
        then show ?thesis
          using 3(2) [OF d(1,2) big PList True, of n] PList 3(5) d by (auto simp: walk_nodes.simps(2) l)
      next
        case False
        have w: "walk xs (depth + 1) (k + 1) = Inr m \<longleftrightarrow>
            list_all (tree_ok l) xs \<and> m = k + 1 + length (flatten xs) \<and> m \<le> 100" for m
          using 3(3) [OF d(1,2) big PList False, of m] 3(5) d False by (simp add: l_def)
        show ?thesis
        proof (cases "walk xs (depth + 1) (k + 1)")
          case (Inl e)
          then show ?thesis using w [of "k + 1 + length (flatten xs)"] PList d False
            by (auto simp: walk_nodes.simps(2) l)
        next
          case (Inr m)
          then show ?thesis using w [of m] 3(4) [OF d(1,2) big PList False Inr, of n] PList 3(5) d False
            by (auto simp: walk_nodes.simps(2) l)
        qed
      qed
    qed (use d in \<open>auto simp: walk_nodes.simps(2) l\<close>)
  qed
qed

lemma validate_tree_iff:
  "validate_work_item_tree items = None \<longleftrightarrow>
     (\<exists>xs. items = Some xs \<and> xs \<noteq> [] \<and> list_all (tree_ok 3) xs \<and> length (flatten xs) \<le> 100)"
proof (cases "\<exists>x xs. items = Some (x # xs)")
  case True
  then obtain x xs where i: "items = Some (x # xs)" by blast
  have "(\<exists>n. walk (x # xs) 1 0 = Inr n) \<longleftrightarrow> list_all (tree_ok 3) (x # xs) \<and> length (flatten (x # xs)) \<le> 100"
    using walk_iff(1) [of 1 0 "x # xs"] by auto
  then show ?thesis by (auto simp: validate_work_item_tree_def i split: sum.splits)
next
  case False
  then show ?thesis by (cases items; cases "the items") (auto simp: validate_work_item_tree_def)
qed


section \<open>Normalised payloads\<close>

lemma normalize_enum_get:
  "dget (normalize_enum f allowed p) k =
     (if k = f then
        (case dget p f of
           None \<Rightarrow> None
         | Some v \<Rightarrow> if lower (strip (py_str v)) \<in> set allowed then Some (PStr (lower (strip (py_str v)))) else None)
      else dget p k)"
  by (auto simp: normalize_enum_def Let_def split: option.splits)

lemma normalize_date_get:
  "dget (normalize_date f p) k =
     (if k = f then
        (case dget p f of
           None \<Rightarrow> None | Some v \<Rightarrow> if iso_date_prefix (strip (py_str v)) then Some v else None)
      else dget p k)"
  by (auto simp: normalize_date_def split: option.splits)

lemma normalize_assignees_get:
  "dget (normalize_assignees known p) k =
     (if k = ''assigneeUsernames'' then
        (case dget p k of
           None \<Rightarrow> None
         | Some v \<Rightarrow> if clean_usernames v known \<noteq> [] then Some (strs_val (clean_usernames v known)) else None)
      else dget p k)"
  by (auto simp: normalize_assignees_def Let_def split: option.splits)

lemma normalize_labels_get:
  "dget (normalize_labels p) k =
     (if k = ''labelNames'' then
        (case dget p k of
           None \<Rightarrow> None
         | Some v \<Rightarrow> if clean_labels v \<noteq> [] then Some (strs_val (clean_labels v)) else None)
      else dget p k)"
  by (auto simp: normalize_labels_def Let_def split: option.splits)

lemmas normalize_get =
  normalize_enum_get normalize_date_get normalize_assignees_get normalize_labels_get

lemma normalize_other:
  "k \<notin> {''priority'', ''status'', ''startDate'', ''dueDate'', ''assigneeUsernames'', ''labelNames''} \<Longrightarrow>
     dget (normalize_node_payload known p) k = dget p k"
  by (simp add: normalize_node_payload_def normalize_get)

lemma normalize_adds_nothing:
  "dget p k = None \<Longrightarrow> dget (normalize_enum f allowed p) k = None"
  "dget p k = None \<Longrightarrow> dget (normalize_date f p) k = None"
  "dget p k = None \<Longrightarrow> dget (normalize_assignees known p) k = None"
  "dget p k = None \<Longrightarrow> dget (normalize_labels p) k = None"
  by (auto simp add: normalize_get split: option.split)

lemma normalize_keys: "dget p k = None \<Longrightarrow> dget (normalize_node_payload known p) k = None"
  unfolding normalize_node_payload_def by (intro normalize_adds_nothing)

lemma dget_filter_payload:
  "dget (filter_payload (PDict d) fs) k = Some v \<Longrightarrow> k \<in> set fs \<and> v \<noteq> PNone"
  by (auto simp: filter_payload_def dest: map_of_SomeD)

text \<open>The values the work item API takes for the fields that the normalisation is about.\<close>

definition enum_field_ok :: "pydict \<Rightarrow> string \<Rightarrow> string list \<Rightarrow> bool" where
  "enum_field_ok p field allowed \<longleftrightarrow>
     (case dget p field of None \<Rightarrow> True | Some (PStr v) \<Rightarrow> v \<in> set allowed | _ \<Rightarrow> False)"

definition date_field_ok :: "pydict \<Rightarrow> string \<Rightarrow> bool" where
  "date_field_ok p field \<longleftrightarrow>
     (case dget p field of None \<Rightarrow> True | Some v \<Rightarrow> iso_date_prefix (strip (py_str v)))"

definition names_field_ok :: "pydict \<Rightarrow> string \<Rightarrow> (string \<Rightarrow> bool) \<Rightarrow> bool" where
  "names_field_ok p field good \<longleftrightarrow>
     (case dget p field of
        None \<Rightarrow> True
      | Some v \<Rightarrow> \<exists>names. v = strs_val names \<and> names \<noteq> [] \<and> distinct names \<and> list_all good names)"

definition payload_ok :: "(string, string) dict \<Rightarrow> pydict \<Rightarrow> bool" where
  "payload_ok known p \<longleftrightarrow>
     enum_field_ok p ''priority'' WORK_ITEM_PRIORITIES \<and> enum_field_ok p ''status'' WORK_ITEM_STATUSES \<and>
     date_field_ok p ''startDate'' \<and> date_field_ok p ''dueDate'' \<and>
     names_field_ok p ''assigneeUsernames'' (\<lambda>n. n \<noteq> [] \<and> (known \<noteq> [] \<longrightarrow> n \<in> snd ` set known)) \<and>
     names_field_ok p ''labelNames'' (\<lambda>n. n \<noteq> [] \<and> length n \<le> 30)"

lemma resolve_username_Some:
  "resolve_username known v = Some n \<Longrightarrow> n \<noteq> [] \<and> (known \<noteq> [] \<longrightarrow> n \<in> snd ` set known)"
  by (auto simp: resolve_username_def Let_def split: if_splits option.splits dest!: map_of_SomeD intro: rev_image_eqI)

lemma set_map_filter: "set (List.map_filter f xs) = {y. \<exists>x \<in> set xs. f x = Some y}"
  by (induction xs) (auto simp: map_filter_simps split: option.splits)

lemma set_clean_usernames:
  "set (clean_usernames raw known) =
     {n. \<exists>v \<in> set (case raw of PList xs \<Rightarrow> xs | _ \<Rightarrow> [raw]). resolve_username known v = Some n}"
  by (simp add: clean_usernames_def set_merge_tools set_map_filter)

lemma clean_usernames_ok:
  "distinct (clean_usernames raw known)"
  "list_all (\<lambda>n. n \<noteq> [] \<and> (known \<noteq> [] \<longrightarrow> n \<in> snd ` set known)) (clean_usernames raw known)"
  using resolve_username_Some
  by (auto simp: clean_usernames_def distinct_merge_tools list_all_iff set_merge_tools set_map_filter)

lemma clean_labels_ok:
  "distinct (clean_labels raw)" "list_all (\<lambda>n. n \<noteq> [] \<and> length n \<le> 30) (clean_labels raw)"
  by (auto simp: clean_labels_def distinct_merge_tools list_all_iff set_merge_tools)

lemma payload_ok_normalized: "payload_ok known (normalize_node_payload known p)"
proof -
  let ?n = "normalize_node_payload known p"
  have "names_field_ok ?n ''assigneeUsernames'' (\<lambda>n. n \<noteq> [] \<and> (known \<noteq> [] \<longrightarrow> n \<in> snd ` set known))"
    using clean_usernames_ok
    by (auto simp: names_field_ok_def normalize_node_payload_def normalize_get split: option.split)
  moreover have "names_field_ok ?n ''labelNames'' (\<lambda>n. n \<noteq> [] \<and> length n \<le> 30)"
    using clean_labels_ok
    by (auto simp: names_field_ok_def normalize_node_payload_def normalize_get split: option.split)
  moreover have "enum_field_ok ?n ''priority'' WORK_ITEM_PRIORITIES" "enum_field_ok ?n ''status'' WORK_ITEM_STATUSES"
    "date_field_ok ?n ''startDate''" "date_field_ok ?n ''dueDate''"
    by (auto simp: enum_field_ok_def date_field_ok_def normalize_node_payload_def normalize_get split: option.split)
  ultimately show ?thesis by (simp add: payload_ok_def)
qed

text \<open>Only the six fields matter to \<open>payload_ok\<close>.\<close>

lemma payload_ok_cong:
  assumes "\<And>k. k \<in> {''priority'', ''status'', ''startDate'', ''dueDate'', ''assigneeUsernames'', ''labelNames''} \<Longrightarrow>
      dget q k = dget p k"
  shows "payload_ok known q = payload_ok known p"
  by (simp add: payload_ok_def enum_field_ok_def date_field_ok_def names_field_ok_def assms)

lemma requester_default_get:
  "k \<noteq> ''requestedByUserId'' \<Longrightarrow> dget (requester_default rb p) k = dget p k"
  by (simp add: requester_default_def dget_dsetdefault)

lemma payload_ok_requester [simp]: "payload_ok known (requester_default rb p) = payload_ok known p"
  by (rule payload_ok_cong) (auto simp: requester_default_get)


section \<open>Rolled-up names\<close>

lemma set_fold_merge:
  "set (fold (\<lambda>c m. merge_tools m (f c)) cs acc) = set acc \<union> (\<Union>c \<in> set cs. set (f c))"
  by (induction cs arbitrary: acc) (auto simp: set_merge_tools)

lemma distinct_fold_merge:
  "distinct acc \<Longrightarrow> distinct (fold (\<lambda>c m. merge_tools m (f c)) cs acc)"
  by (induction cs arbitrary: acc) (auto simp: distinct_merge_tools)

lemma rollup_names:
  "set (fst (rollup_assignee_usernames known v)) =
     (\<Union>d \<in> set (flatten_node v). set (clean_usernames (pget d ''assigneeUsernames'') known))"
  "distinct (fst (rollup_assignee_usernames known v))"
proof (induction known v rule: rollup_assignee_usernames.induct)
  case (1 known d)
  {
    case 1
    show ?case using "1.IH"(1) by (auto simp: Let_def set_fold_merge flatten_def)
  next
    case 2
    show ?case by (auto simp: Let_def intro!: distinct_fold_merge clean_usernames_ok)
  }
qed auto

lemma rollup_title:
  "pget d k = v \<Longrightarrow> k \<noteq> ''assigneeUsernames'' \<Longrightarrow> k \<noteq> ''children'' \<Longrightarrow>
     snd (rollup_assignee_usernames known (PDict d)) = PDict d' \<Longrightarrow> pget d' k = v"
  by (auto simp: Let_def split: if_splits)

text \<open>The roll-up changes no title and keeps the shape of the tree.\<close>

lemma rollup_flatten:
  "map node_title (flatten_node (snd (rollup_assignee_usernames known v))) = map node_title (flatten_node v)"
proof (induction known v rule: rollup_assignee_usernames.induct)
  case (1 known d)
  obtain d' where d': "snd (rollup_assignee_usernames known (PDict d)) = PDict d'" 
    by (simp add: Let_def)
  have t: "node_title d' = node_title d"
    using rollup_title [OF refl _ _ d', of "''title''"] by (simp add: node_title_def)
  have c: "list_of (pget d' ''children'') =
      map (\<lambda>c. snd (rollup_assignee_usernames known c)) (list_of (pget d ''children''))"
    using d' by (auto simp: Let_def split: if_splits)
  have "map node_title (flatten (map (\<lambda>c. snd (rollup_assignee_usernames known c)) xs)) =
      map node_title (flatten xs)" if "set xs \<subseteq> set (list_of (pget d ''children''))" for xs
    using that by (induction xs) (auto simp: 1)
  then show ?case by (simp add: d' t c del: rollup_assignee_usernames.simps)
qed auto


section \<open>Counting requests\<close>

definition sends_upto :: "nat \<Rightarrow> (io, 'a) eff \<Rightarrow> (api_request \<Rightarrow> bool) \<Rightarrow> bool" where
  "sends_upto n m P \<longleftrightarrow>
     (\<forall>i. \<exists>rs. io_requests (snd (m i)) = io_requests i @ rs \<and> list_all P rs \<and> length rs \<le> n)"

lemma sends_uptoE:
  assumes "sends_upto n m P" and "m i = (r, j)"
  obtains rs where "io_requests j = io_requests i @ rs" "list_all P rs" "length rs \<le> n"
  using assms unfolding sends_upto_def by (metis snd_conv)

lemma sends_upto_quiet: "preserves m io_requests \<Longrightarrow> sends_upto n m P"
  by (auto simp: sends_upto_def preserves_def)

lemma sends_upto_mono: "sends_upto a m P \<Longrightarrow> a \<le> b \<Longrightarrow> sends_upto b m P"
  unfolding sends_upto_def by (meson order_trans)

lemma sends_upto_ebind:
  assumes "sends_upto a m P" and "\<And>x i j. m i = (Inr x, j) \<Longrightarrow> sends_upto b (k x) P"
  shows "sends_upto (a + b) (ebind m k) P"
  unfolding sends_upto_def
proof
  fix i
  obtain r j where m: "m i = (r, j)" by fastforce
  obtain rs where rs: "io_requests j = io_requests i @ rs" "list_all P rs" "length rs \<le> a"
    using assms(1) m by (rule sends_uptoE)
  show "\<exists>rs. io_requests (snd (ebind m k i)) = io_requests i @ rs \<and> list_all P rs \<and> length rs \<le> a + b"
  proof (cases r)
    case (Inl e)
    with m rs show ?thesis by (auto simp: ebind_def)
  next
    case (Inr x)
    obtain q h where k: "k x j = (q, h)" by fastforce
    have "sends_upto b (k x) P" using assms(2) m Inr by blast
    then obtain rs' where "io_requests h = io_requests j @ rs'" "list_all P rs'" "length rs' \<le> b"
      using k by (rule sends_uptoE)
    with m rs Inr k show ?thesis by (auto simp: ebind_def intro!: exI [of _ "rs @ rs'"])
  qed
qed

lemma sends_upto_then:
  assumes "preserves m io_requests" and "\<And>x i j. m i = (Inr x, j) \<Longrightarrow> sends_upto b (k x) P"
  shows "sends_upto b (ebind m k) P"
  using sends_upto_ebind [OF sends_upto_quiet [OF assms(1), of 0] assms(2)] by simp

lemma sends_upto_finally:
  assumes "sends_upto a m P" and "\<And>x. preserves (k x) io_requests"
  shows "sends_upto a (ebind m k) P"
  using sends_upto_ebind [OF assms(1) sends_upto_quiet [OF assms(2), of 0]] by simp

lemma sends_upto_if:
  "(b \<Longrightarrow> sends_upto a m P) \<Longrightarrow> (\<not> b \<Longrightarrow> sends_upto a n P) \<Longrightarrow> sends_upto a (if b then m else n) P"
  by simp

lemma sends_upto_request:
  "(\<And>hs. P (Api_Request m (str_or (client_base_url env) [] @ p) (Some (PDict pl)) hs)) \<Longrightarrow>
   sends_upto 1 (send_json env m p pl) P"
  unfolding sends_upto_def send_json_def by (auto simp: request_json_log intro: exI [of _ "[]"])

lemma sends_upto_emap:
  "(\<And>x. x \<in> set xs \<Longrightarrow> sends_upto 1 (f x) P) \<Longrightarrow> sends_upto (length xs) (emap f xs) P"
proof (induction xs)
  case Nil
  show ?case by (auto intro!: sends_upto_quiet pres)
next
  case (Cons x xs)
  have "sends_upto (1 + length xs) (ebind (f x) (\<lambda>y. ebind (emap f xs) (\<lambda>ys. ret (y # ys)))) P"
    by (rule sends_upto_ebind [OF _ sends_upto_finally])
      (use Cons in \<open>auto intro: pres simp del: One_nat_def\<close>)
  then show ?case by simp
qed

lemma sends_if_upto: "sends_upto n m P \<Longrightarrow> sends m P"
  by (auto simp: sends_upto_def sends_def)

text \<open>A pool call sends what its calls send, each of them at most once.\<close>

definition futures_ok :: "nat \<Rightarrow> 'b futures \<Rightarrow> bool" where
  "futures_ok n finished \<longleftrightarrow> distinct (map fst finished) \<and> fst ` set finished \<subseteq> {..<n}"

lemma futures_length: "futures_ok n finished \<Longrightarrow> length finished \<le> n"
proof -
  assume a: "futures_ok n finished"
  then have "length finished = card (fst ` set finished)"
    by (metis distinct_card futures_ok_def length_map set_map)
  also have "\<dots> \<le> card {..<n}" using a by (intro card_mono) (auto simp: futures_ok_def)
  finally show ?thesis by simp
qed

lemma pool_run_log:
  assumes "\<And>x. x \<in> set xs \<Longrightarrow> sends_upto 1 (f x) P" and "futures_ok (length xs) finished"
  shows "\<exists>new rs j. pool_run skip f xs ks finished i = (Inr (finished @ new), j) \<and>
    io_requests j = io_requests i @ rs \<and> list_all P rs \<and> length rs \<le> length new \<and>
    futures_ok (length xs) (finished @ new)"
  using assms(2)
proof (induction ks arbitrary: finished i)
  case Nil
  then show ?case by (auto simp: ret_def)
next
  case (Cons k ks)
  show ?case
  proof (cases "length xs \<le> k \<or> dhas finished k \<or> skip k finished")
    case True
    with Cons show ?thesis by simp
  next
    case False
    obtain r j where r: "f (xs ! k) i = (r, j)" by fastforce
    have "sends_upto 1 (f (xs ! k)) P" using assms(1) False by simp
    then obtain rs where rs: "io_requests j = io_requests i @ rs" "list_all P rs" "length rs \<le> 1"
      using r by (rule sends_uptoE)
    have "futures_ok (length xs) (finished @ [(k, r)])"
      using Cons.prems False by (auto simp: futures_ok_def dhas_def)
    from Cons.IH [OF this, of j] obtain new rs' h where
      h: "pool_run skip f xs ks (finished @ [(k, r)]) j = (Inr ((finished @ [(k, r)]) @ new), h)"
      "io_requests h = io_requests j @ rs'" "list_all P rs'" "length rs' \<le> length new"
      "futures_ok (length xs) ((finished @ [(k, r)]) @ new)" by blast
    show ?thesis
      by (rule exI [of _ "(k, r) # new"], rule exI [of _ "rs @ rs'"], rule exI [of _ h])
        (use False r rs h in \<open>simp add: ebind_def attempted_def\<close>)
  qed
qed

lemma sends_upto_pool_map:
  assumes "\<And>x. x \<in> set xs \<Longrightarrow> sends_upto 1 (f x) P"
  shows "sends_upto (length xs) (pool_map schedule f xs) P"
  unfolding sends_upto_def
proof
  fix i
  have "futures_ok (length xs) ([] :: 'c futures)" by (simp add: futures_ok_def)
  from pool_run_log [where f = f, OF assms this, where skip = "\<lambda>_ _. False" and ks = schedule and i = i]
  obtain new rs j where n: "pool_run (\<lambda>_ _. False) f xs schedule [] i = (Inr new, j)"
    "io_requests j = io_requests i @ rs" "list_all P rs" "length rs \<le> length new"
    "futures_ok (length xs) new" by auto
  from pool_run_log [where f = f, OF assms n(5), where skip = "\<lambda>k finished. cancellable finished k"
      and ks = "[0..<length xs]" and i = j]
  obtain new' rs' h where n': "pool_run (\<lambda>k finished. cancellable finished k) f xs [0..<length xs] new j =
      (Inr (new @ new'), h)" "io_requests h = io_requests j @ rs'" "list_all P rs'"
    "length rs' \<le> length new'" "futures_ok (length xs) (new @ new')" by blast
  show "\<exists>rs. io_requests (snd (pool_map schedule f xs i)) = io_requests i @ rs \<and> list_all P rs \<and>
      length rs \<le> length xs"
    by (rule exI [of _ "rs @ rs'"])
      (use n n' futures_length [OF n'(5)] in \<open>simp add: pool_map_def ebind_def of_sum_def\<close>)
qed

lemma smap_length: "smap f xs = Inr ys \<Longrightarrow> length ys = length xs"
  by (auto simp: smap_Inr_iff dest: list_all2_lengthD)

lemma pool_map_length: "pool_map schedule f xs i = (Inr ys, j) \<Longrightarrow> length ys = length xs"
  by (auto simp: pool_map_def ebind_def of_sum_def dest!: smap_length split: prod.splits sum.splits)

end
