(* ===== verification/Tree_Facts.thy ===== *)
theory Tree_Facts
  imports Tool_Facts
begin

text \<open>
  The creation of a work item tree, level by level: which requests it sends, which entries it reports
  and in which order, for every schedule of the pool.
\<close>

section \<open>The rolled-up tree\<close>

lemma list_of_map_children:
  assumes "snd (rollup_assignee_usernames known (PDict d)) = PDict d'"
  shows "pget d' ''children'' = (if list_of (pget d ''children'') = [] then pget d ''children''
    else PList (map (\<lambda>c. snd (rollup_assignee_usernames known c)) (list_of (pget d ''children''))))"
  using assms by (auto simp: Let_def split: if_splits)

lemma rollup_tree_ok: "tree_ok n v \<Longrightarrow> tree_ok n (snd (rollup_assignee_usernames known v))"
proof (induction n v rule: tree_ok.induct)
  case (2 n v)
  obtain d where v: "v = PDict d" using tree_ok_dict [OF "2.prems"] by blast
  obtain d' where d': "snd (rollup_assignee_usernames known (PDict d)) = PDict d'"
    by (simp add: Let_def)
  have t: "text_field d' ''title'' = text_field d ''title''"
    using rollup_title [OF refl _ _ d', of "''title''"] by (simp add: text_field_def)
  show ?case
  proof (cases "pget d ''children''")
    case (PList xs)
    then show ?thesis
      using 2 list_of_map_children [OF d'] t
      by (auto simp: v d' list_all_iff simp del: rollup_assignee_usernames.simps)
  qed (use 2 list_of_map_children [OF d'] t in
      \<open>auto simp: v d' simp del: rollup_assignee_usernames.simps\<close>)
qed simp


section \<open>Requests\<close>

definition title_ok :: "pydict \<Rightarrow> bool" where
  "title_ok p \<longleftrightarrow>
     (case dget p ''title'' of Some (PStr t) \<Rightarrow> t \<noteq> [] \<and> length t \<le> 100 | _ \<Rightarrow> False)"

text \<open>A request that creates one item of the project, with values the API takes.\<close>

definition creates_item :: "tool_env \<Rightarrow> string \<Rightarrow> (string, string) dict \<Rightarrow> api_request \<Rightarrow> bool" where
  "creates_item env project_id known rq \<longleftrightarrow>
     rq_method rq = ''POST'' \<and>
     rq_path rq = str_or (client_base_url env) [] @ project_path project_id @ ''/work-items/internal'' \<and>
     (case rq_payload rq of Some (PDict p) \<Rightarrow> payload_ok known p \<and> title_ok p | _ \<Rightarrow> False)"

lemma node_title_ok: "text_field d ''title'' \<noteq> [] \<Longrightarrow> node_title d \<noteq> [] \<and> length (node_title d) \<le> 100"
  by (auto simp: node_title_def text_field_def str_or_empty_def por_def strip_def split: if_splits)

lemma title_ok_cong: "dget q ''title'' = dget p ''title'' \<Longrightarrow> title_ok q = title_ok p"
  by (simp add: title_ok_def)

lemma payload_ok_parent: "payload_ok known (dset ''parentId'' v p) = payload_ok known p"
  by (rule payload_ok_cong) auto

lemma level_payload_ok:
  assumes "level_payload action known (node, parent, depth) = Inr p" and "tree_ok n node"
  shows "payload_ok known p \<and> title_ok p"
proof -
  obtain d where d: "node = PDict d" "text_field d ''title'' \<noteq> []"
    using assms(2) by (cases n; cases node) auto
  define q where "q = dsetdefault ''description''
      (PStr (py_str (por (pget d ''description'') (PStr (pa_instruction action)))))
      (dset ''title'' (PStr (node_title d)) (filter_payload node WORK_ITEM_TREE_NODE_FIELDS))"
  have p: "p = (if opt_truthy parent then dset ''parentId'' (pstr_opt parent) (normalize_node_payload known q)
      else normalize_node_payload known q)"
    using assms(1) d(1) by (auto simp: level_payload_def q_def dict_entity_def Let_def split: if_splits)
  have "payload_ok known p"
    using payload_ok_normalized [of known q] by (simp add: p payload_ok_parent)
  moreover have "dget p ''title'' = Some (PStr (node_title d))"
    by (simp add: p normalize_other q_def dget_dsetdefault)
  ultimately show ?thesis using node_title_ok [OF d(2)] by (simp add: title_ok_def)
qed

lemma create_work_item_sends:
  assumes "payload_ok known p" and "title_ok p"
  shows "sends_upto 1 (create_work_item env project_id p) (creates_item env project_id known)"
  unfolding create_work_item_def
  by (rule sends_upto_request) (use assms in \<open>simp add: creates_item_def\<close>)

lemma smap_mem: "smap f xs = Inr ys \<Longrightarrow> y \<in> set ys \<Longrightarrow> \<exists>x \<in> set xs. f x = Inr y"
  by (induction xs arbitrary: ys) (auto simp: sbind_Inr_iff)

lemma create_level_sends:
  assumes "\<forall>p \<in> set level. \<exists>n. tree_ok n (fst p)"
  shows "sends_upto (length level) (create_level env action cx known start level)
    (creates_item env (project_of action cx) known)"
  unfolding create_level_def Let_def
proof (rule sends_upto_then [OF preserves_of_sum])
  fix payloads and i j :: io
  assume "of_sum (smap (level_payload action known) level) i = (Inr payloads, j)"
  then have s: "smap (level_payload action known) level = Inr payloads" by (simp add: of_sum_def)
  then have n: "length payloads = length level" by (rule smap_length)
  let ?rb = "requester_default (requested_by_user_id (pa_input action) cx)"
  have good: "payload_ok known (?rb p) \<and> title_ok (?rb p)" if "p \<in> set payloads" for p
  proof -
    from that s obtain q where "q \<in> set level" "level_payload action known q = Inr p"
      using smap_mem by metis
    with assms have "payload_ok known p \<and> title_ok p"
      by (cases q) (metis fst_conv level_payload_ok)
    then show ?thesis using title_ok_cong [of "?rb p" p] by (simp add: requester_default_get)
  qed
  let ?pool = "\<lambda>sched. pool_map sched (create_work_item env (project_of action cx)) (map ?rb payloads)"
  have "sends_upto (length level) (?pool sched) (creates_item env (project_of action cx) known)" for sched
    using sends_upto_pool_map [of "map ?rb payloads"] good create_work_item_sends n
    by (metis (no_types, lifting) imageE length_map set_map)
  then show "sends_upto (length level)
      (ebind (if is_configured env
              then ebind (gets (\<lambda>i. te_schedule env (io_requests i) (length payloads))) ?pool
              else ret (local_outputs action cx (project_of action cx) start payloads))
         (\<lambda>outputs. of_sum (smap (created_item_id action) outputs)))
      (creates_item env (project_of action cx) known)"
    by (intro sends_upto_finally sends_upto_if sends_upto_then pres) (auto intro!: sends_upto_quiet pres)
qed

lemma node_children_ok: "tree_ok n v \<Longrightarrow> c \<in> set (node_children v) \<Longrightarrow> \<exists>m. tree_ok m c"
  by (cases n; cases v) (auto simp: node_children_def list_of_def list_all_iff split: pyval.splits)

lemma next_level_ok:
  "\<forall>p \<in> set pending. \<exists>n. tree_ok n (fst p) \<Longrightarrow>
     \<forall>p \<in> set (next_level pending ids). \<exists>n. tree_ok n (fst p)"
  by (fastforce simp: next_level_def dest!: set_zip_leftD dest: node_children_ok)

lemma flatten_node_dict: "tree_ok n v \<Longrightarrow> flatten_node v = (case v of PDict d \<Rightarrow> d | _ \<Rightarrow> []) # flatten (node_children v)"
  by (auto simp: node_children_def dest!: tree_ok_dict)

lemma next_level_Cons:
  "next_level (p # ps) (i # js) = map (\<lambda>c. (c, Some i, Suc (snd (snd p)))) (node_children (fst p)) @ next_level ps js"
  by (cases p) (simp add: next_level_def)

lemma next_level_Nil [simp]: "next_level ps [] = []" "next_level [] js = []"
  by (simp_all add: next_level_def)

lemma next_level_nodes:
  "\<forall>p \<in> set pending. \<exists>n. tree_ok n (fst p) \<Longrightarrow>
     length pending + length (flatten (map fst (next_level pending ids))) \<le> length (flatten (map fst pending))"
proof (induction pending arbitrary: ids)
  case (Cons p ps)
  obtain n where n: "tree_ok n (fst p)" using Cons.prems by auto
  have "length ps + length (flatten (map fst (next_level ps js))) \<le> length (flatten (map fst ps))" for js
    using Cons by simp
  from this [of "tl ids"] this [of "[]"] show ?case
    by (cases ids) (auto simp: flatten_node_dict [OF n] next_level_Cons o_def)
qed simp

lemma create_levels_sends:
  "\<forall>p \<in> set pending. \<exists>n. tree_ok n (fst p) \<Longrightarrow>
   sends_upto (length (flatten (map fst pending)))
     (create_levels (create_level env action cx known) pending created)
     (creates_item env (project_of action cx) known)"
proof (induction "create_level env action cx known" pending created rule: create_levels.induct)
  case (1 pending created)
  show ?case
  proof (cases "pending = []")
    case True
    then show ?thesis
      by (auto simp: create_levels.simps [of _ "[]"] intro!: sends_upto_quiet pres)
  next
    case False
    let ?rest = "\<lambda>ids. length (flatten (map fst (next_level pending ids)))"
    have "sends_upto (length pending + (length (flatten (map fst pending)) - length pending))
        (ebind (create_level env action cx known (length created) pending) (\<lambda>ids.
           create_levels (create_level env action cx known) (next_level pending ids)
             (created @ created_entries pending ids))) (creates_item env (project_of action cx) known)"
    proof (rule sends_upto_ebind [OF create_level_sends [OF 1(2)]])
      fix ids
      have "sends_upto (?rest ids) (create_levels (create_level env action cx known) (next_level pending ids)
             (created @ created_entries pending ids)) (creates_item env (project_of action cx) known)"
        by (rule 1(1) [OF False next_level_ok [OF 1(2)]])
      then show "sends_upto (length (flatten (map fst pending)) - length pending)
          (create_levels (create_level env action cx known) (next_level pending ids)
             (created @ created_entries pending ids)) (creates_item env (project_of action cx) known)"
        by (rule sends_upto_mono) (use next_level_nodes [OF 1(2), of ids] in linarith)
    qed
    moreover have "length pending \<le> length (flatten (map fst pending))"
      using next_level_nodes [OF 1(2), of "[]"] by simp
    ultimately show ?thesis by (simp add: create_levels.simps [of _ pending] False)
  qed
qed


section \<open>Reported entries\<close>

text \<open>
  An entry stands for a root of the tree, or its parent is the item of an earlier entry, one level up.
\<close>

definition entry_justified :: "pyval \<Rightarrow> pydict list \<Rightarrow> pydict \<Rightarrow> bool" where
  "entry_justified root earlier e \<longleftrightarrow>
     (pget e ''depth'' = PInt 1 \<and> pget e ''parentId'' = root) \<or>
     (\<exists>p \<in> set earlier. pget p ''itemId'' = pget e ''parentId'' \<and>
        (\<exists>d. pget p ''depth'' = PInt d \<and> pget e ''depth'' = PInt (d + 1)))"

definition parents_first :: "pyval \<Rightarrow> pydict list \<Rightarrow> bool" where
  "parents_first root entries \<longleftrightarrow>
     (\<forall>k < length entries. entry_justified root (take k entries) (entries ! k))"

lemma entry_justified_mono:
  "entry_justified root earlier e \<Longrightarrow> set earlier \<subseteq> set later \<Longrightarrow> entry_justified root later e"
  unfolding entry_justified_def by blast

lemma parents_first_append:
  assumes "parents_first root es" and "\<forall>e \<in> set new. entry_justified root es e"
  shows "parents_first root (es @ new)"
  unfolding parents_first_def
proof (intro allI impI)
  fix k
  assume k: "k < length (es @ new)"
  show "entry_justified root (take k (es @ new)) ((es @ new) ! k)"
  proof (cases "k < length es")
    case True
    then show ?thesis using assms(1) by (simp add: parents_first_def nth_append)
  next
    case False
    then have "entry_justified root es ((es @ new) ! k)" using assms(2) k by (simp add: nth_append)
    then show ?thesis by (rule entry_justified_mono) (use False in auto)
  qed
qed

definition pending_justified :: "pyval \<Rightarrow> pydict list \<Rightarrow> pending_node list \<Rightarrow> bool" where
  "pending_justified root created pending \<longleftrightarrow>
     (\<forall>(node, parent, depth) \<in> set pending.
        entry_justified root created [(''parentId'', pstr_opt parent), (''depth'', PInt (int depth))])"

lemma entry_justified_cong:
  "pget e ''depth'' = pget e' ''depth'' \<Longrightarrow> pget e ''parentId'' = pget e' ''parentId'' \<Longrightarrow>
     entry_justified root es e = entry_justified root es e'"
  by (simp add: entry_justified_def)

lemma created_entries_justified:
  assumes "pending_justified root created pending" and "e \<in> set (created_entries pending ids)"
  shows "entry_justified root created e"
proof -
  from assms(2) obtain node parent depth i where z: "((node, parent, depth), i) \<in> set (zip pending ids)"
    and e: "pget e ''depth'' = PInt (int depth)" "pget e ''parentId'' = pstr_opt parent"
    by (auto simp: created_entries_def)
  have "entry_justified root created [(''parentId'', pstr_opt parent), (''depth'', PInt (int depth))]"
    using assms(1) set_zip_leftD [OF z] by (auto simp: pending_justified_def)
  then show ?thesis using e by (simp add: entry_justified_def)
qed

lemma next_level_justified:
  "pending_justified root (created @ created_entries pending ids) (next_level pending ids)"
  unfolding pending_justified_def
proof (intro ballI)
  fix x
  assume "x \<in> set (next_level pending ids)"
  then obtain node parent depth i c where z: "((node, parent, depth), i) \<in> set (zip pending ids)"
    and x: "x = (c, Some i, depth + 1)" by (auto simp: next_level_def)
  then have "[(''itemId'', PStr i), (''parentId'', pstr_opt parent), (''depth'', PInt (int depth)),
      (''title'', PStr (case node of PDict d \<Rightarrow> node_title d | _ \<Rightarrow> []))] \<in> set (created_entries pending ids)"
    by (force simp: created_entries_def)
  then show "case x of (node, parent, depth) \<Rightarrow>
      entry_justified root (created @ created_entries pending ids)
        [(''parentId'', pstr_opt parent), (''depth'', PInt (int depth))]"
    unfolding x entry_justified_def by (force simp: pstr_opt_def)
qed

text \<open>The titles reported are the titles of the tree.\<close>

definition titles_of :: "pyval list \<Rightarrow> pyval multiset" where
  "titles_of nodes = mset (map (\<lambda>d. PStr (node_title d)) (flatten nodes))"

definition entry_titles :: "pydict list \<Rightarrow> pyval multiset" where
  "entry_titles es = mset (map (\<lambda>e. pget e ''title'') es)"

lemma level_titles:
  assumes "length ids = length pending" and "\<forall>p \<in> set pending. \<exists>n. tree_ok n (fst p)"
  shows "entry_titles (created_entries pending ids) + titles_of (map fst (next_level pending ids)) =
    titles_of (map fst pending)"
  using assms
proof (induction ids pending rule: list_induct2)
  case Nil
  then show ?case by (simp add: created_entries_def entry_titles_def titles_of_def)
next
  case (Cons i js p ps)
  obtain n where "tree_ok n (fst p)" using Cons.prems by auto
  then obtain d where n: "tree_ok n (fst p)" "fst p = PDict d" using tree_ok_dict by blast
  have e: "created_entries (p # ps) (i # js) = [(''itemId'', PStr i), (''parentId'', pstr_opt (fst (snd p))),
      (''depth'', PInt (int (snd (snd p)))), (''title'', PStr (node_title d))] # created_entries ps js"
    using n(2) by (cases p) (simp add: created_entries_def)
  have ih: "entry_titles (created_entries ps js) + titles_of (map fst (next_level ps js)) = titles_of (map fst ps)"
    using Cons by simp
  show ?case
    unfolding e next_level_Cons using ih n
    by (simp add: entry_titles_def titles_of_def o_def flatten_node_dict [OF n(1)] node_children_def ac_simps)
qed

lemma length_local_outputs [simp]: "length (local_outputs action cx project start payloads) = length payloads"
  by (simp add: local_outputs_def)

lemma create_level_length:
  assumes "create_level env action cx known start level i = (Inr ids, j)"
  shows "length ids = length level"
proof -
  have "\<exists>payloads. smap (level_payload action known) level = Inr payloads \<and> length ids = length payloads"
    using assms by (auto simp: create_level_def Let_def ebind_def of_sum_def gets_def ret_def
        dest!: pool_map_length dest: smap_length split: prod.splits sum.splits if_splits)
  then show ?thesis by (metis smap_length)
qed

lemma create_levels_result:
  assumes "create_levels (create_level env action cx known) pending created i = (Inr out, j)"
    and "\<forall>p \<in> set pending. \<exists>n. tree_ok n (fst p)" and "parents_first root created"
    and "pending_justified root created pending"
  shows "parents_first root out \<and> entry_titles out = entry_titles created + titles_of (map fst pending)"
  using assms
proof (induction "create_level env action cx known" pending created arbitrary: i rule: create_levels.induct)
  case (1 pending created)
  show ?case
  proof (cases "pending = []")
    case True
    with 1 show ?thesis by (simp add: create_levels.simps [of _ "[]"] ret_def titles_of_def)
  next
    case False
    from 1(2) False obtain ids h where
      ids: "create_level env action cx known (length created) pending i = (Inr ids, h)" and
      rest: "create_levels (create_level env action cx known) (next_level pending ids)
        (created @ created_entries pending ids) h = (Inr out, j)"
      by (auto simp: create_levels.simps [of _ pending] ebind_def split: prod.splits sum.splits)
    have "parents_first root (created @ created_entries pending ids)"
      using 1(4) created_entries_justified [OF 1(5)] by (intro parents_first_append) auto
    from 1(1) [OF False rest next_level_ok [OF 1(3)] this next_level_justified]
    have "parents_first root out" and
      "entry_titles out = entry_titles (created @ created_entries pending ids) +
        titles_of (map fst (next_level pending ids))" by blast+
    moreover have "entry_titles (created @ created_entries pending ids) =
        entry_titles created + entry_titles (created_entries pending ids)"
      by (simp add: entry_titles_def)
    ultimately show ?thesis
      using level_titles [OF create_level_length [OF ids] 1(3)] by (simp add: ac_simps)
  qed
qed


text \<open>Without an API nothing can fail: the identifiers are made up locally.\<close>

lemma smap_total: "(\<And>x. x \<in> set xs \<Longrightarrow> \<exists>y. f x = Inr y) \<Longrightarrow> \<exists>ys. smap f xs = Inr ys"
proof (induction xs)
  case (Cons x xs)
  then obtain y ys where "f x = Inr y" "smap f xs = Inr ys" by fastforce
  then show ?case by simp
qed simp

lemma create_level_local:
  assumes "\<not> is_configured env" and "\<forall>p \<in> set level. \<exists>n. tree_ok n (fst p)"
  shows "\<exists>ids. create_level env action cx known start level i = (Inr ids, i)"
proof -
  have "\<exists>payloads. smap (level_payload action known) level = Inr payloads"
    by (rule smap_total) (use assms(2) in \<open>fastforce simp: level_payload_def dict_entity_def Let_def dest: tree_ok_dict\<close>)
  moreover have "\<exists>ids. smap (created_item_id action) (local_outputs action cx pr start payloads) = Inr ids" for pr payloads
    by (rule smap_total) (auto simp: local_outputs_def created_item_id_def dict_entity_def)
  ultimately show ?thesis
    using assms(1) by (auto simp: create_level_def Let_def ebind_def of_sum_def ret_def split: sum.splits)
qed

lemma create_levels_local:
  assumes "\<not> is_configured env" and "\<forall>p \<in> set pending. \<exists>n. tree_ok n (fst p)"
  shows "\<exists>out. create_levels (create_level env action cx known) pending created i = (Inr out, i)"
  using assms(2)
proof (induction "create_level env action cx known" pending created rule: create_levels.induct)
  case (1 pending created)
  show ?case
  proof (cases "pending = []")
    case True
    then show ?thesis by (simp add: create_levels.simps [of _ "[]"] ret_def)
  next
    case False
    obtain ids where "create_level env action cx known (length created) pending i = (Inr ids, i)"
      using create_level_local [OF assms(1) 1(2)] by blast
    then show ?thesis
      using 1(1) [OF False next_level_ok [OF 1(2)], of ids] False
      by (simp add: create_levels.simps [of _ pending] ebind_def)
  qed
qed


section \<open>Bulk updates\<close>

lemma dget_dpop_if: "dget (if b then dpop f q else q) k = (if b \<and> k = f then None else dget q k)"
  by simp

lemma dget_drop_protected:
  "dget (snd (drop_protected_fields p current)) k =
     (if k = ''title'' \<or> k = ''status'' \<or>
         k = ''description'' \<and> 30 \<le> length (text_field current ''description'') \<or>
         k = ''assigneeUsernames'' \<and> truthy (pget current ''assigneeUsernames'')
      then None else dget p k)"
proof -
  have p1: "dget (fold dpop PROTECTED_UPDATE_FIELDS p) k = (if k = ''title'' \<or> k = ''status'' then None else dget p k)" for k
    by (simp add: PROTECTED_UPDATE_FIELDS_def)
  show ?thesis
    unfolding drop_protected_fields_def Let_def snd_conv dget_dpop_if p1 dhas_iff by auto
qed

text \<open>A request that changes only what a bulk update may change, of an item it may change.\<close>

definition safe_update :: "tool_env \<Rightarrow> string \<Rightarrow> AgentContext \<Rightarrow> api_request \<Rightarrow> bool" where
  "safe_update env project_id context rq \<longleftrightarrow>
     (\<exists>item_id current p.
        rq_method rq = ''PATCH'' \<and> rq_payload rq = Some (PDict p) \<and>
        rq_path rq = str_or (client_base_url env) [] @ project_path project_id
          @ ''/work-items/internal/'' @ quote item_id \<and>
        dget (context_item_index context) item_id = Some current \<and>
        str_or_empty (pget current ''status'') = ''todo'' \<and>
        dget p ''title'' = None \<and> dget p ''status'' = None \<and>
        (dget p ''description'' = None \<or> length (text_field current ''description'') < 30) \<and>
        (dget p ''assigneeUsernames'' = None \<or> \<not> truthy (pget current ''assigneeUsernames'')) \<and>
        payload_ok (known_member_usernames context) p)"

lemma apply_update_sends:
  "sends_upto 1 (apply_update env action cx (decide_update (known_member_usernames cx) (context_item_index cx) u))
     (safe_update env (project_of action cx) cx)"
proof (cases "decide_update (known_member_usernames cx) (context_item_index cx) u")
  case (Skip_Update entry)
  then show ?thesis by (auto simp: apply_update_def intro!: sends_upto_quiet pres)
next
  case (Apply_Update item_id payload dropped)
  let ?known = "known_member_usernames cx"
  obtain current q where c: "dget (context_item_index cx) item_id = Some current"
    "str_or_empty (pget current ''status'') = ''todo''"
    "q = snd (drop_protected_fields (filter_payload (PDict u) BULK_UPDATE_FIELDS) current)"
    "payload = normalize_node_payload ?known q"
    using Apply_Update
    by (auto simp: decide_update_def Let_def MUTABLE_UPDATE_STATUSES_def split: option.splits if_splits prod.splits)
  let ?sent = "requester_default (requested_by_user_id (pa_input action) cx) payload"
  have kept: "dget ?sent k = dget payload k" if "k \<noteq> ''requestedByUserId''" for k
    using that by (rule requester_default_get)
  have none: "dget payload ''title'' = None" "dget payload ''status'' = None"
    unfolding c(4) by (intro normalize_keys; simp add: c(3) dget_drop_protected)+
  have desc: "dget payload ''description'' = None \<or> length (text_field current ''description'') < 30"
    by (auto simp: c(3,4) normalize_other dget_drop_protected)
  have own: "dget payload ''assigneeUsernames'' = None \<or> \<not> truthy (pget current ''assigneeUsernames'')"
  proof (cases "truthy (pget current ''assigneeUsernames'')")
    case True
    then have "dget q ''assigneeUsernames'' = None" by (simp add: c(3) dget_drop_protected)
    then show ?thesis unfolding c(4) by (intro disjI1 normalize_keys)
  qed simp
  have ok: "payload_ok ?known payload" by (simp add: c(4) payload_ok_normalized)
  have "sends_upto 1 (update_work_item env (project_of action cx) item_id ?sent)
      (safe_update env (project_of action cx) cx)"
    unfolding update_work_item_def
  proof (rule sends_upto_request)
    fix hs
    show "safe_update env (project_of action cx) cx
        (Api_Request ''PATCH'' (str_or (client_base_url env) [] @ project_path (project_of action cx)
           @ ''/work-items/internal/'' @ quote item_id) (Some (PDict ?sent)) hs)"
      unfolding safe_update_def
      by (rule exI [of _ item_id], rule exI [of _ current], rule exI [of _ ?sent])
        (simp add: c(1,2) none desc own ok kept)
  qed
  then show ?thesis
    unfolding apply_update_def Apply_Update update_decision.case Let_def eseq_def
    by (intro sends_upto_finally sends_upto_if pres) (auto intro!: sends_upto_quiet sends_upto_finally pres)
qed

lemma validate_updates_length: "validate_work_item_updates (Some us) = None \<Longrightarrow> length us \<le> 50"
  by (auto simp: validate_work_item_updates_def split: if_splits)

end
