(* ===== verification/Planning_Agent.thy ===== *)
theory Planning_Agent
  imports Plan_Quality
begin

text \<open>
  \<open>infrastructure/llm\<close>: the planning agent around the language model. The prompts it renders, the
  choice of the model, the defects that cost an attempt, and the loop that asks the model at most three
  times within a time budget, with one revision for soft findings. The call of the model itself is the
  parameter \<open>ll_run\<close>; the monotonic clock is the parameter \<open>monotonic_at\<close>, in microseconds, read at the
  positions the clock counter takes.
\<close>

record llm_settings =
  ls_gemini_api_key :: "string option"
  ls_default_gemini_model :: string
  ls_gemini_flash_model :: string
  ls_env_has_key :: bool

record llm_env = io_env +
  monotonic_at :: "nat \<Rightarrow> int"
  ll_settings :: llm_settings
  ll_run :: "string \<Rightarrow> string \<Rightarrow> string \<Rightarrow> (io, AgentPlan) eff"

definition monotonic :: "llm_env \<Rightarrow> (io, int) eff" where
  "monotonic env =
     (\<lambda>i. (Inr (monotonic_at env (io_clock i)), i\<lparr>io_clock := Suc (io_clock i)\<rparr>))"


section \<open>The model\<close>

definition model_name_for :: "llm_settings \<Rightarrow> WorkflowPromptDefinition \<Rightarrow> string" where
  "model_name_for s prompt = or_str (wp_model_name prompt) (ls_default_gemini_model s)"

definition model_name_for_tier :: "llm_settings \<Rightarrow> string option \<Rightarrow> string option" where
  "model_name_for_tier s tier =
     (case tier of
        None \<Rightarrow> None
      | Some t \<Rightarrow> dget [(''pro'', ls_default_gemini_model s), (''flash'', ls_gemini_flash_model s)] t)"

definition pydantic_ai_model_ref :: "llm_settings \<Rightarrow> WorkflowPromptDefinition \<Rightarrow> string option \<Rightarrow> string" where
  "pydantic_ai_model_ref s prompt model_tier =
     ''google:'' @ str_or (model_name_for_tier s model_tier) (model_name_for s prompt)"

text \<open>Setting the key and reading it back: only a missing key is an error.\<close>

definition configure_environment :: "llm_settings \<Rightarrow> exn + unit" where
  "configure_environment s =
     (if \<not> opt_truthy (ls_gemini_api_key s) \<and> \<not> ls_env_has_key s
      then Inl (RuntimeError ''GEMINI_API_KEY or GOOGLE_API_KEY is required for Gemini planning.'')
      else Inr ())"


section \<open>JSON in prompts\<close>

text \<open>\<open>json.dumps(v, ensure_ascii=False)\<close>\<close>

definition raw_json_char :: "char \<Rightarrow> string" where
  "raw_json_char c = (if 127 \<le> (of_char c :: nat) then [c] else json_char c)"

definition raw_json_str :: "string \<Rightarrow> string" where
  "raw_json_str s = [CHR 0x22] @ concat (map raw_json_char s) @ [CHR 0x22]"

fun json_dumps_raw :: "pyval \<Rightarrow> string" where
  "json_dumps_raw PNone = ''null''"
| "json_dumps_raw (PBool b) = (if b then ''true'' else ''false'')"
| "json_dumps_raw (PInt i) = int_str i"
| "json_dumps_raw (PFloat r) = r"
| "json_dumps_raw (PStr s) = raw_json_str s"
| "json_dumps_raw (PList xs) = ''['' @ join '', '' (map json_dumps_raw xs) @ '']''"
| "json_dumps_raw (PDict d) =
     ''{'' @ join '', '' (map (\<lambda>p. raw_json_str (fst p) @ '': '' @ json_dumps_raw (snd p)) d) @ ''}''"

text \<open>\<open>json.dumps(v, indent=2, sort_keys=True)\<close>, at a nesting level.\<close>

definition new_line :: "nat \<Rightarrow> string" where
  "new_line level = nl @ replicate (2 * level) CHR '' ''"

fun json_dumps_indented :: "nat \<Rightarrow> pyval \<Rightarrow> string" where
  "json_dumps_indented l (PList xs) =
     (if xs = [] then ''[]''
      else ''['' @ new_line (l + 1) @ join ('','' @ new_line (l + 1)) (map (json_dumps_indented (l + 1)) xs)
           @ new_line l @ '']'')"
| "json_dumps_indented l (PDict d) =
     (if d = [] then ''{}''
      else ''{'' @ new_line (l + 1)
           @ join ('','' @ new_line (l + 1)) (map snd (sort_key fst
               (map (\<lambda>p. (fst p, json_str (fst p) @ '': '' @ json_dumps_indented (l + 1) (snd p))) d)))
           @ new_line l @ ''}'')"
| "json_dumps_indented l v = json_dumps_sorted v"


section \<open>Prompts\<close>

definition bullets :: "string list \<Rightarrow> string" where
  "bullets xs = join nl (map (\<lambda>x. ''- '' @ x) xs)"

definition planning_view :: "AgentContext \<Rightarrow> pydict" where
  "planning_view context =
     (let event = en_event (cx_source_event context) in
      [(''workspace_id'', PStr (cx_workspace_id context)), (''project_id'', pstr_opt (cx_project_id context)),
       (''workflow_id'', PStr (cx_workflow_id context)),
       (''trigger'', PDict [(''event_type'', PStr (ev_event_type event)), (''event_id'', PStr (ev_event_id event))]),
       (''entities'', PDict (cx_entities context)), (''entity_versions'', versions_val (cx_entity_versions context)),
       (''permissions'', PDict (map (\<lambda>(k, b). (k, PBool b)) (cx_permissions context))),
       (''retrieved_documents'', PList (map PDict (cx_retrieved_documents context))),
       (''previous_agent_outputs'', PList (map PDict (cx_previous_agent_outputs context))),
       (''runtime_metadata'', PDict (cx_runtime_metadata context))]
      @ (case pget (ev_payload event) ''_agent_replan'' of
           PDict replan \<Rightarrow> [(''replan_feedback'', PDict replan)] | _ \<Rightarrow> []))"

definition render_workflow_prompt :: "WorkflowPromptDefinition \<Rightarrow> string" where
  "render_workflow_prompt p =
     join nl ([''Workflow: '' @ wp_name p @ '' ('' @ wp_id p @ '')'', ''Goal: '' @ wp_goal p,
               ''Output schema: '' @ wp_output_schema p]
       @ (if wp_required_context p \<noteq> [] then [''Required context:'' @ nl @ bullets (wp_required_context p)] else [])
       @ (if wp_constraints p \<noteq> [] then [''Workflow constraints:'' @ nl @ bullets (wp_constraints p)] else []))"

definition render_skill_prompts :: "SkillPromptDefinition list \<Rightarrow> string" where
  "render_skill_prompts skills =
     (if skills = [] then [] else ''Skills:'' @ nl @ join (nl @ nl) (map render_instruction skills))"

definition render_tool :: "ToolPromptDefinition \<Rightarrow> string" where
  "render_tool d =
     join nl ([''Tool: '' @ tp_name d @ '' ('' @ tp_id d @ '')'', ''Description: '' @ tp_description d,
               ''Risk level: '' @ tp_risk_level d, ''Approval policy: '' @ tp_approval_policy d]
       @ (if tp_usage d \<noteq> [] then [''Use when:'' @ nl @ bullets (tp_usage d)] else [])
       @ (if tp_do_not_use d \<noteq> [] then [''Do not use when:'' @ nl @ bullets (tp_do_not_use d)] else [])
       @ (if tp_input_contract d \<noteq> []
          then [''Input contract:'' @ nl @ json_dumps_indented 0 (PDict (tp_input_contract d))] else []))"

definition render_tool_prompts :: "agent_tool list \<Rightarrow> string" where
  "render_tool_prompts tools =
     (if tools = [] then []
      else ''Tool permissions:'' @ nl @ join (nl @ nl) (map (\<lambda>t. render_tool (tool_definition t)) tools))"

definition compile_system_prompt ::
  "WorkflowPromptDefinition \<Rightarrow> SkillPromptDefinition list \<Rightarrow> agent_tool list \<Rightarrow> string" where
  "compile_system_prompt p skills tools =
     strip (join (nl @ nl) (filter (\<lambda>s. s \<noteq> [])
       [wp_system p, render_workflow_prompt p, render_skill_prompts skills, render_tool_prompts tools]))"

definition render_user_prompt ::
  "WorkflowPromptDefinition \<Rightarrow> AgentContext \<Rightarrow> string \<Rightarrow> string option \<Rightarrow> string" where
  "render_user_prompt p context context_snapshot_ref retry_feedback =
     ''Goal: '' @ wp_goal p @ nl @ ''Workflow: '' @ cx_workflow_id context @ nl
     @ ''Context snapshot: '' @ context_snapshot_ref @ nl
     @ ''Context: '' @ json_dumps_raw (PDict (planning_view context))
     @ (if opt_truthy retry_feedback
        then nl @ nl @ ''Planning retry feedback: '' @ str_or retry_feedback [] else [])"

definition quality_review_feedback :: "string list \<Rightarrow> string" where
  "quality_review_feedback issues =
     ''A reviewer found these problems in your previous plan:'' @ nl
     @ join nl (map (\<lambda>(k, issue). nat_str k @ ''. '' @ issue) (enumerate 1 issues)) @ nl
     @ ''Regenerate the plan fixing every problem above while keeping the rest of its content.''"

definition generate_plan_with_pydantic_ai ::
  "llm_env \<Rightarrow> WorkflowPromptDefinition \<Rightarrow> SkillPromptDefinition list \<Rightarrow> agent_tool list \<Rightarrow> string option
   \<Rightarrow> AgentContext \<Rightarrow> string \<Rightarrow> string option \<Rightarrow> (io, AgentPlan) eff" where
  "generate_plan_with_pydantic_ai env prompt skills tools model_tier context ref retry_feedback =
     ebind (of_sum (configure_environment (ll_settings env))) (\<lambda>_.
     ll_run env (pydantic_ai_model_ref (ll_settings env) prompt model_tier)
       (compile_system_prompt prompt skills tools) (render_user_prompt prompt context ref retry_feedback))"


section \<open>Defects\<close>

definition EMPTY_PLAN_FEEDBACK :: string where
  "EMPTY_PLAN_FEEDBACK =
     ''The previous planning attempt produced zero executable actions. Return an AgentPlan with at least ''
     @ ''one action using an allowed tool when the workflow goal requires work. Do not leave actions empty ''
     @ ''for feature provisioning, task decomposition, or other actionable workflows unless the hydrated ''
     @ ''context proves there is no safe action.''"

definition action_defect :: "PlannedAction \<Rightarrow> string option" where
  "action_defect action =
     (if pa_tool_name action = ''create_workitem_tree'' then
        (case validate_work_item_tree (coerce_work_item_tree_items (pa_input action)) of
           None \<Rightarrow> None
         | Some error \<Rightarrow> Some (''The previous create_workitem_tree action was invalid: '' @ error
             @ '' Put the complete work item breakdown into the action's work_items field: a non-empty array ''
             @ ''of objects, each with a title, a description, and an optional children array of nested work items.''))
      else if pa_tool_name action = ''update_workitems_bulk'' then
        (case validate_work_item_updates (coerce_work_item_updates (pa_input action)) of
           None \<Rightarrow> None
         | Some error \<Rightarrow> Some (''The previous update_workitems_bulk action was invalid: '' @ error
             @ '' Put every change into the action's work_item_updates field: a non-empty array of objects, ''
             @ ''each with the item_id of an existing work item and only the fields that should change.''))
      else if pa_tool_name action = ''add_sprint_work_items'' \<and> \<not> truthy (pget (pa_input action) ''itemIds'')
      then Some (''The previous add_sprint_work_items action listed no work items. Put the chosen existing ''
             @ ''work item ids into the action's target_item_ids field.'')
      else None)"

definition plan_defect :: "AgentPlan \<Rightarrow> string option" where
  "plan_defect plan =
     (if ap_actions plan = [] then Some EMPTY_PLAN_FEEDBACK else first_error action_defect (ap_actions plan))"


section \<open>The planning loop\<close>

definition PLAN_GENERATION_ATTEMPTS :: nat where "PLAN_GENERATION_ATTEMPTS = 3"
definition PLANNING_TIME_BUDGET :: int where "PLANNING_TIME_BUDGET = 180 * 1000000"
definition CRITIC_SKIP_GENERATION :: int where "CRITIC_SKIP_GENERATION = 60 * 1000000"

definition budget_spent :: "llm_env \<Rightarrow> int \<Rightarrow> (io, bool) eff" where
  "budget_spent env started_at = ebind (monotonic env) (\<lambda>t. ret (t - started_at > PLANNING_TIME_BUDGET))"

text \<open>
  The critic's conditions, in the order they are evaluated: the clock is read only when a review is
  still possible.
\<close>

definition may_review :: "llm_env \<Rightarrow> int \<Rightarrow> nat \<Rightarrow> bool \<Rightarrow> int \<Rightarrow> (io, bool) eff" where
  "may_review env started_at attempt review_used generation =
     (if review_used \<or> attempt \<ge> PLAN_GENERATION_ATTEMPTS then ret False
      else ebind (budget_spent env started_at) (\<lambda>spent. ret (\<not> spent \<and> generation \<le> CRITIC_SKIP_GENERATION)))"

text \<open>
  The rounds of the \<open>for\<close> statement that are left, with the plan, the retry feedback and the review flag
  so far. \<open>generate\<close> is the model call for a feedback.
\<close>

primrec planning_rounds ::
  "llm_env \<Rightarrow> (string option \<Rightarrow> (io, AgentPlan) eff) \<Rightarrow> pydict \<Rightarrow> int \<Rightarrow> nat list \<Rightarrow> AgentPlan option
   \<Rightarrow> string option \<Rightarrow> bool \<Rightarrow> (io, AgentPlan option) eff" where
  "planning_rounds env generate entities started_at [] plan feedback review_used = ret plan"
| "planning_rounds env generate entities started_at (attempt # rest) plan feedback review_used =
     ebind (monotonic env) (\<lambda>attempt_started_at.
     ebind (attempted (generate feedback)) (\<lambda>generated.
     ebind (monotonic env) (\<lambda>generated_at.
     case generated of
       Inl e \<Rightarrow>
         if attempt \<ge> PLAN_GENERATION_ATTEMPTS then raise e
         else ebind (budget_spent env started_at) (\<lambda>spent.
           if spent then raise e
           else planning_rounds env generate entities started_at rest plan feedback review_used)
     | Inr raw \<Rightarrow>
         ebind (materialize_typed_action_inputs env raw) (\<lambda>p.
         case plan_defect p of
           Some defect \<Rightarrow>
             ebind (budget_spent env started_at) (\<lambda>spent.
               if spent then ret (Some p)
               else planning_rounds env generate entities started_at rest (Some p) (Some defect) review_used)
         | None \<Rightarrow>
             ebind (may_review env started_at attempt review_used (generated_at - attempt_started_at)) (\<lambda>review.
               let issues = plan_quality_issues p entities in
               if review \<and> issues \<noteq> []
               then planning_rounds env generate entities started_at rest (Some p)
                      (Some (quality_review_feedback issues)) True
               else ret (Some p))))))"

definition generate_plan ::
  "llm_env \<Rightarrow> WorkflowPromptDefinition \<Rightarrow> SkillPromptDefinition list \<Rightarrow> agent_tool list \<Rightarrow> string option
   \<Rightarrow> AgentContext \<Rightarrow> string \<Rightarrow> ActionApprovalPolicy \<Rightarrow> (io, AgentPlan option) eff" where
  "generate_plan env prompt skills tools model_tier context ref approval =
     ebind (monotonic env) (\<lambda>started_at.
     planning_rounds env
       (generate_plan_with_pydantic_ai env prompt skills tools model_tier context ref)
       (cx_entities context) started_at [1..<PLAN_GENERATION_ATTEMPTS + 1] None None False)"

end
