(* ===== verification/Tool_Properties.thy ===== *)
theory Tool_Properties
  imports Tree_Facts Planning_Agent Sample_World
begin

text \<open>
  Properties of the tools and of the review of a plan's breakdown: what a work item tree must look like
  to be created, which requests the tree and bulk-update tools send, how assignees are rolled up, and what
  the typed drafts of the model become.
\<close>

section \<open>Sample data\<close>

definition sample_items :: "pyval list" where
  "sample_items =
     [PDict [(''title'', PStr ''Epic''), (''children'', PList
        [PDict [(''title'', PStr ''Task''), (''description'', PStr ''The form shows errors and logs'')]]),
        (''description'', PStr ''From landing page to first login'')]]"

definition tree_action :: "pydict \<Rightarrow> PlannedAction" where
  "tree_action inp = (sample_action ''t1'' [])\<lparr>pa_tool_name := ''create_workitem_tree'', pa_input := inp\<rparr>"

definition sample_tools :: "bool \<Rightarrow> tool_env" where
  "sample_tools online =
     \<lparr>uuid4_at = (\<lambda>n. ''id-'' @ nat_str n), clock_at = int, uuid5_of = (\<lambda>s. s), fromisoformat_of = (\<lambda>_. None),
      server = (\<lambda>log _. Http_Json (PDict [(''data'', PDict [(''itemId'', PStr (''item-'' @ nat_str (length log)))])])),
      base_url = (if online then Some ''http://api'' else None), api_token = None,
      te_embedder = None, te_schedule = (\<lambda>_ n. rev [0..<n])\<rparr>"


section \<open>Work item trees\<close>

text \<open>
  C32: \<open>validate_work_item_tree\<close>, a recursive walk with a shared counter and early returns, decides exactly
  the declarative condition: a non-empty list of trees of at most three levels, whose nodes are objects
  with a title that is not blank and with children that are missing, null or a list, and at most 100 nodes in all.
\<close>

theorem tree_validation_decides:
  "(validate_work_item_tree items = None) =
     (\<exists>xs. items = Some xs \<and> xs \<noteq> [] \<and> list_all (tree_ok 3) xs \<and> length (flatten xs) \<le> 100)"
  by (rule validate_tree_iff)

definition planned_nodes :: "PlannedAction \<Rightarrow> nat" where
  "planned_nodes action =
     (case coerce_work_item_tree_items (pa_input action) of
        Some xs \<Rightarrow> if validate_work_item_tree (Some xs) = None then length (flatten xs) else 0
      | None \<Rightarrow> 0)"

lemma rolled_pending_ok:
  assumes "list_all (tree_ok 3) xs"
  shows "\<forall>p \<in> set (map (\<lambda>n. (n, root, d)) (map (\<lambda>n. snd (rollup_assignee_usernames known n)) xs)).
    \<exists>k. tree_ok k (fst p)"
  using assms by (auto simp: list_all_iff intro: rollup_tree_ok)

lemma rolled_titles:
  "map node_title (flatten (map (\<lambda>n. snd (rollup_assignee_usernames known n)) xs)) = map node_title (flatten xs)"
  by (induction xs) (simp_all add: rollup_flatten)





section \<open>Assignees\<close>

text \<open>
  C35: The roll-up gives a node exactly the known members named anywhere in its subtree, each once: the names
  computed bottom-up are the union of the cleaned names of all nodes below, they replace the node's own list
  (unless nobody is named at all), its children are rolled up the same way, and every other field is kept.
\<close>

theorem rollup_collects_subtree:
  "set (fst (rollup_assignee_usernames known v)) =
     (\<Union>d \<in> set (flatten_node v). set (clean_usernames (pget d ''assigneeUsernames'') known)) \<and>
   distinct (fst (rollup_assignee_usernames known v)) \<and>
   (\<exists>d'. snd (rollup_assignee_usernames known (PDict d)) = PDict d' \<and>
      pget d' ''assigneeUsernames'' = (if fst (rollup_assignee_usernames known (PDict d)) = []
        then pget d ''assigneeUsernames'' else strs_val (fst (rollup_assignee_usernames known (PDict d)))) \<and>
      list_of (pget d' ''children'') =
        map (\<lambda>c. snd (rollup_assignee_usernames known c)) (list_of (pget d ''children'')) \<and>
      dpop ''children'' (dpop ''assigneeUsernames'' d') = dpop ''children'' (dpop ''assigneeUsernames'' d))"
proof (intro conjI)
  have del: "dpop k (dset k x e) = dpop k e" for k x and e :: pydict
    by (induction e) auto
  have comm: "dpop k (dset l x e) = dset l x (dpop k e)" if "k \<noteq> l" for k l x and e :: pydict
    using that by (induction e) auto
  have two: "dpop ''children'' (dpop ''assigneeUsernames'' (dset ''children'' x e)) =
      dpop ''children'' (dpop ''assigneeUsernames'' e)" for x and e :: pydict
    by (simp add: comm del)
  show "\<exists>d'. snd (rollup_assignee_usernames known (PDict d)) = PDict d' \<and>
      pget d' ''assigneeUsernames'' = (if fst (rollup_assignee_usernames known (PDict d)) = []
        then pget d ''assigneeUsernames'' else strs_val (fst (rollup_assignee_usernames known (PDict d)))) \<and>
      list_of (pget d' ''children'') =
        map (\<lambda>c. snd (rollup_assignee_usernames known c)) (list_of (pget d ''children'')) \<and>
      dpop ''children'' (dpop ''assigneeUsernames'' d') = dpop ''children'' (dpop ''assigneeUsernames'' d)"
    by (auto simp: Let_def del two)
qed (rule rollup_names)+

text \<open>
  C36: Whatever updates the model asks for, \<open>update_workitems_bulk\<close> sends at most 50 requests, and each one
  patches an item that the hydrated context shows in status ''todo'', with a payload that changes neither its
  title nor its status, sets a description only where the present one is shorter than 30 characters, and
  assigns only an item nobody owns.
\<close>

theorem bulk_updates_safe:
  "sends_upto 50 (update_workitems_bulk env action context) (safe_update env (project_of action context) context)"
proof (cases "validate_work_item_updates (coerce_work_item_updates (pa_input action))")
  case (Some error)
  then show ?thesis
    by (auto simp: update_workitems_bulk_def tool_result_def intro!: sends_upto_quiet pres)
next
  case None
  then obtain us where us: "coerce_work_item_updates (pa_input action) = Some us" "length us \<le> 50"
    using validate_updates_length
    by (cases "coerce_work_item_updates (pa_input action)") (auto simp: validate_work_item_updates_def [of None])
  have ok: "validate_work_item_updates (Some us) = None" using None us(1) by simp
  show ?thesis
    unfolding update_workitems_bulk_def Let_def us(1) ok option.case
    by (rule sends_upto_mono [OF sends_upto_finally us(2)])
      (auto simp: tool_result_def intro!: sends_upto_emap apply_update_sends pres)
qed

end
