(* ===== verification/Planning_Properties.thy ===== *)
theory Planning_Properties
  imports Tool_Properties
begin

text \<open>
  Properties of the planning agent: what the review of a breakdown guarantees, what the typed drafts of
  the model become, how often the model is asked and what the loop returns, and the one way in which it
  loses a usable plan.
\<close>

section \<open>The review\<close>

definition titled :: "pydict list \<Rightarrow> string list" where
  "titled nodes = filter (\<lambda>t. t \<noteq> []) (map (\<lambda>n. normalize_title (pget n ''title'')) nodes)"

lemma titled_simps [simp]:
  "titled [] = []"
  "titled (n # ns) = (let t = normalize_title (pget n ''title'') in if t = [] then titled ns else t # titled ns)"
  by (simp_all add: titled_def)

lemma duplicate_fold:
  assumes "fold duplicate_step nodes (seen, dups) = (seen', dups')"
  shows "(dups' = [] \<longleftrightarrow> dups = [] \<and> distinct (titled nodes) \<and> (\<forall>t \<in> set (titled nodes). \<not> dhas seen t))"
  using assms
proof (induction nodes arbitrary: seen dups)
  case Nil
  then show ?case by simp
next
  case (Cons n ns)
  obtain seen1 dups1 where s1: "duplicate_step n (seen, dups) = (seen1, dups1)" by fastforce
  have ih: "(dups' = [] \<longleftrightarrow> dups1 = [] \<and> distinct (titled ns) \<and> (\<forall>t \<in> set (titled ns). \<not> dhas seen1 t))"
    by (rule Cons.IH) (use Cons.prems s1 in simp)
  let ?t = "normalize_title (pget n ''title'')"
  consider "?t = []" | "?t \<noteq> []" "dhas seen ?t" | "?t \<noteq> []" "\<not> dhas seen ?t" by blast
  then show ?case
  proof cases
    case 1
    then show ?thesis using ih s1 by (auto simp: duplicate_step_def)
  next
    case 2
    then have "dups1 \<noteq> []" using s1 by (auto simp: duplicate_step_def dhas_iff Let_def split: if_splits)
    then show ?thesis using ih 2 by (auto simp: Let_def)
  next
    case 3
    then have "seen1 = dset ?t (py_str (pget n ''title'')) seen" "dups1 = dups"
      using s1 by (auto simp: duplicate_step_def dhas_iff Let_def split: option.splits)
    then show ?thesis using ih 3 by (auto simp: Let_def)
  qed
qed

lemma no_duplicates_iff: "duplicate_titles nodes = [] \<longleftrightarrow> distinct (titled nodes)"
  using duplicate_fold [of nodes "[]" "[]"]
  by (cases "fold duplicate_step nodes ([], [])") (simp add: duplicate_titles_def dhas_def)

lemma existing_titles_has:
  "dhas (existing_titles entities) t \<longleftrightarrow> t \<noteq> [] \<and>
     t \<in> (\<lambda>d. normalize_title (pget d ''title'')) ` set (entity_dicts EXISTING_WORK_ENTITY_KEYS entities)"
proof -
  have "dhas (fold (\<lambda>item titles. let normalized = normalize_title (pget item ''title'')
         in if normalized = [] then titles else dsetdefault normalized (py_str (pget item ''title'')) titles) ds acc) t \<longleftrightarrow>
      dhas acc t \<or> t \<noteq> [] \<and> t \<in> (\<lambda>d. normalize_title (pget d ''title'')) ` set ds" for ds acc
    by (induction ds arbitrary: acc) (auto simp: Let_def dsetdefault_def)
  then show ?thesis by (simp add: existing_titles_def dhas_def)
qed

lemma target_issues_none:
  assumes "target_item_issues ids entities tool b = []" and "known_item_index entities \<noteq> []"
    and "i \<in> set ids" and "i \<noteq> []"
  shows "\<exists>item. dget (known_item_index entities) i = Some item \<and>
    str_or_empty (pget item ''status'') \<notin> set (blocked_statuses b)"
proof -
  have u: "unknown_ids (known_item_index entities) ids = []" and
    bl: "blocked_titles (known_item_index entities) b ids = []"
    using assms(1,2) by (auto simp: target_item_issues_def Let_def split: if_splits)
  then obtain item where item: "dget (known_item_index entities) i = Some item"
    using assms(3,4) by (auto simp: unknown_ids_def filter_empty_conv dhas_iff)
  have "set (blocked_titles (known_item_index entities) b ids) = {}" using bl by simp
  then have "str_or_empty (pget item ''status'') \<notin> set (blocked_statuses b)"
    using item assms(3) by (auto simp: blocked_titles_def set_map_filter split: option.splits if_splits)
  then show ?thesis using item by blast
qed

lemma titled_disjoint:
  "(\<And>n. n \<in> set ns \<Longrightarrow> \<not> (normalize_title (pget n ''title'') \<noteq> [] \<and> normalize_title (pget n ''title'') \<in> S)) \<Longrightarrow>
     set (titled ns) \<inter> S = {}"
  by (auto simp: titled_def)

text \<open>
  C37: A plan that passes the review has no work item tree with two nodes of the same title or with a node
  titled like an existing item (titles compared up to case and white space), or with a description of fewer
  than 30 characters; and, when the context shows any items, every item its bulk updates name is there and
  neither started nor closed.
\<close>

theorem reviewed_plan_is_clean:
  assumes "plan_quality_issues plan entities = []" and "a \<in> set (ap_actions plan)"
  shows "(pa_tool_name a = ''create_workitem_tree'' \<and> coerce_work_item_tree_items (pa_input a) = Some items \<longrightarrow>
      distinct (titled (flatten items)) \<and>
      set (titled (flatten items)) \<inter>
        (\<lambda>d. normalize_title (pget d ''title'')) ` set (entity_dicts EXISTING_WORK_ENTITY_KEYS entities) = {} \<and>
      (\<forall>n \<in> set (flatten items). 30 \<le> length (text_field n ''description''))) \<and>
    (pa_tool_name a = ''update_workitems_bulk'' \<and> coerce_work_item_updates (pa_input a) = Some updates \<and>
      known_item_index entities \<noteq> [] \<longrightarrow>
      (\<forall>u \<in> set updates. str_or_empty (pget u ''itemId'') \<noteq> [] \<longrightarrow>
        (\<exists>item. dget (known_item_index entities) (str_or_empty (pget u ''itemId'')) = Some item \<and>
           str_or_empty (pget item ''status'') \<notin> {''in_progress'', ''in_review'', ''done'', ''archived''})))"
proof (intro conjI impI)
  have none: "action_issues a entities = []"
    using assms by (auto simp: plan_quality_issues_def)
  {
    assume t: "pa_tool_name a = ''create_workitem_tree'' \<and> coerce_work_item_tree_items (pa_input a) = Some items"
    have issues: "items = [] \<or> duplicate_title_issues (flatten items) = [] \<and>
        existing_duplicate_issues (flatten items) entities = [] \<and> description_issues (flatten items) = []"
      using none t by (auto simp: action_issues_def Let_def split: if_splits)
    then have dups: "duplicate_titles (flatten items) = []"
      by (auto simp: duplicate_title_issues_def duplicate_titles_def split: if_splits)
    then show "distinct (titled (flatten items))" by (simp add: no_duplicates_iff)
    have "\<not> dhas (existing_titles entities) (normalize_title (pget n ''title''))" if "n \<in> set (flatten items)" for n
      using issues that by (auto simp: existing_duplicate_issues_def Let_def filter_empty_conv dhas_def split: if_splits)
    then show "set (titled (flatten items)) \<inter>
        (\<lambda>d. normalize_title (pget d ''title'')) ` set (entity_dicts EXISTING_WORK_ENTITY_KEYS entities) = {}"
      unfolding existing_titles_has by (rule titled_disjoint)
    have weak: "\<not> weak_description n" if "n \<in> set (flatten items)" for n
      using issues that by (auto simp: description_issues_def Let_def filter_empty_conv split: if_splits)
    show "\<forall>n \<in> set (flatten items). 30 \<le> length (text_field n ''description'')"
      using weak by (auto simp: weak_description_def Let_def not_less)
  next
    assume u: "pa_tool_name a = ''update_workitems_bulk'' \<and> coerce_work_item_updates (pa_input a) = Some updates \<and>
      known_item_index entities \<noteq> []"
    then have t: "target_item_issues (map (\<lambda>u. str_or_empty (pget u ''itemId'')) updates) entities
        (pa_tool_name a) True = []"
      using none by (simp add: action_issues_def)
    show "\<forall>u \<in> set updates. str_or_empty (pget u ''itemId'') \<noteq> [] \<longrightarrow>
        (\<exists>item. dget (known_item_index entities) (str_or_empty (pget u ''itemId'')) = Some item \<and>
           str_or_empty (pget item ''status'') \<notin> {''in_progress'', ''in_review'', ''done'', ''archived''})"
    proof (intro ballI impI)
      fix v assume v: "v \<in> set updates" "str_or_empty (pget v ''itemId'') \<noteq> []"
      have "set (blocked_statuses True) = {''in_progress'', ''in_review'', ''done'', ''archived''}"
        by (simp add: blocked_statuses_def Plan_Quality.CLOSED_STATUSES_def)
      then show "\<exists>item. dget (known_item_index entities) (str_or_empty (pget v ''itemId'')) = Some item \<and>
           str_or_empty (pget item ''status'') \<notin> {''in_progress'', ''in_review'', ''done'', ''archived''}"
        using target_issues_none [OF t, of "str_or_empty (pget v ''itemId'')"] u v by auto
    qed
  }
qed


definition reviewed_plan :: AgentPlan where
  "reviewed_plan = sample_plan\<lparr>ap_actions := [tree_action [(''items'', PList sample_items)]]\<rparr>"

theorem reviewed_plan_is_clean_witness:
  "plan_quality_issues reviewed_plan [] = [] \<and> distinct (titled (flatten sample_items))"
proof -
  have c: "coerce_work_item_tree_items [(''items'', PList sample_items)] = Some sample_items"
    by (simp add: coerce_work_item_tree_items_def TREE_ITEMS_KEYS_def decoded_list_def sample_items_def)
  have d: "duplicate_title_issues (flatten sample_items) = []" by code_simp
  have e: "existing_duplicate_issues (flatten sample_items) [] = []" by code_simp
  have "list_all (\<lambda>n. \<not> weak_description n) (flatten sample_items)" by code_simp
  then have w: "description_issues (flatten sample_items) = []"
    by (auto simp: description_issues_def Let_def list_all_iff filter_empty_conv)
  have m: "assignment_issues (flatten sample_items) [] = []" by code_simp
  have n: "plan_quality_issues reviewed_plan [] = []"
    by (simp add: plan_quality_issues_def reviewed_plan_def action_issues_def tree_action_def c d e w m Let_def)
  have a: "tree_action [(''items'', PList sample_items)] \<in> set (ap_actions reviewed_plan)"
    by (simp add: reviewed_plan_def)
  from reviewed_plan_is_clean [OF n a, of sample_items] show ?thesis
    using n by (simp add: tree_action_def c)
qed


section \<open>Typed drafts\<close>

definition draft_ok :: "'a WorkItemLeafDraft_scheme \<Rightarrow> bool" where
  "draft_ok d \<longleftrightarrow> strip (wd_title d) \<noteq> []"

definition drafts_ok :: "WorkItemDraft list \<Rightarrow> bool" where
  "drafts_ok ds \<longleftrightarrow> list_all (\<lambda>d. draft_ok d \<and>
     list_all (\<lambda>c. draft_ok c \<and> list_all draft_ok (wcd_children c)) (wid_children d)) ds"

definition draft_count :: "WorkItemDraft list \<Rightarrow> nat" where
  "draft_count ds =
     sum_list (map (\<lambda>d. 1 + sum_list (map (\<lambda>c. 1 + length (wcd_children c)) (wid_children d))) ds)"

lemma field_key:
  "(k', v) \<in> set (opt_text_field k t) \<Longrightarrow> k' = k" "(k', v) \<in> set (names_field k ns) \<Longrightarrow> k' = k"
  by (auto simp: opt_text_field_def names_field_def split: option.splits if_splits)

lemma leaf_node_keys: "''children'' \<notin> fst ` set (leaf_node d)"
  by (auto simp: leaf_node_def dest: field_key)

lemma pget_append: "k \<notin> fst ` set d \<Longrightarrow> pget (d @ e) k = pget e k"
  by (induction d) auto

lemma leaf_node_get:
  "pget (leaf_node d @ children_field ns) ''title'' = PStr (wd_title d)"
  "pget (leaf_node d @ children_field ns) ''children'' = (if ns = [] then PNone else PList (map PDict ns))"
  "pget (leaf_node d) ''title'' = PStr (wd_title d)" "pget (leaf_node d) ''children'' = PNone"
proof -
  show "pget (leaf_node d @ children_field ns) ''title'' = PStr (wd_title d)"
    "pget (leaf_node d) ''title'' = PStr (wd_title d)" by (simp_all add: leaf_node_def)
  show "pget (leaf_node d @ children_field ns) ''children'' = (if ns = [] then PNone else PList (map PDict ns))"
    by (simp add: pget_append [OF leaf_node_keys] children_field_def)
  show "pget (leaf_node d) ''children'' = PNone"
    using pget_append [OF leaf_node_keys, of d "[]"] by simp
qed

lemma draft_title: "(text_field (leaf_node d @ children_field ns) ''title'' = []) = (\<not> draft_ok d)"
  "(text_field (leaf_node d) ''title'' = []) = (\<not> draft_ok d)"
  by (simp_all add: text_field_def leaf_node_get draft_ok_def)

lemma leaf_tree: "tree_ok (Suc n) (PDict (leaf_node d)) \<longleftrightarrow> draft_ok d"
  "flatten_node (PDict (leaf_node d)) = [leaf_node d]"
  by (simp_all add: leaf_node_get draft_title)

lemma child_tree:
  "tree_ok (Suc (Suc n)) (PDict (child_node c)) \<longleftrightarrow> draft_ok c \<and> list_all draft_ok (wcd_children c)"
  "length (flatten_node (PDict (child_node c))) = 1 + length (wcd_children c)"
proof -
  have "length (flatten (map PDict (map leaf_node ls))) = length ls" for ls :: "WorkItemLeafDraft list"
    by (induction ls) (simp_all add: leaf_node_get)
  then show "length (flatten_node (PDict (child_node c))) = 1 + length (wcd_children c)"
    by (simp add: child_node_def leaf_node_get)
  show "tree_ok (Suc (Suc n)) (PDict (child_node c)) \<longleftrightarrow> draft_ok c \<and> list_all draft_ok (wcd_children c)"
    by (simp add: tree_ok.simps(2) [of "Suc n"] child_node_def leaf_node_get draft_title
        list.pred_map o_def leaf_tree(1) del: tree_ok.simps(2))
qed

lemma draft_tree:
  "tree_ok 3 (PDict (draft_to_node d)) \<longleftrightarrow> draft_ok d \<and>
     list_all (\<lambda>c. draft_ok c \<and> list_all draft_ok (wcd_children c)) (wid_children d)"
  "length (flatten_node (PDict (draft_to_node d))) = 1 + sum_list (map (\<lambda>c. 1 + length (wcd_children c)) (wid_children d))"
proof -
  have "length (flatten (map PDict (map child_node cs))) = sum_list (map (\<lambda>c. 1 + length (wcd_children c)) cs)"
    for cs :: "WorkItemChildDraft list"
    using child_tree(2) by (induction cs) (simp_all del: flatten_node_children)
  then show "length (flatten_node (PDict (draft_to_node d))) =
      1 + sum_list (map (\<lambda>c. 1 + length (wcd_children c)) (wid_children d))"
    by (simp add: draft_to_node_def leaf_node_get)
  have three: "tree_ok 3 = tree_ok (Suc (Suc (Suc 0)))" by (simp add: numeral_3_eq_3)
  show "tree_ok 3 (PDict (draft_to_node d)) \<longleftrightarrow> draft_ok d \<and>
     list_all (\<lambda>c. draft_ok c \<and> list_all draft_ok (wcd_children c)) (wid_children d)"
    unfolding three
    by (simp add: tree_ok.simps(2) [of "Suc (Suc 0)"] draft_to_node_def leaf_node_get draft_title
        list.pred_map o_def child_tree(1) del: tree_ok.simps(2))
qed

text \<open>
  C38: An input the model filled in itself is never overwritten by the typed drafts; and when it left the
  input empty, any typed breakdown whose drafts all have a title that is not blank becomes, if it has at most
  100 drafts in all, an input that the tree tool accepts: the draft types cannot exceed the depth limit.
\<close>

theorem typed_drafts_become_valid_trees:
  assumes "pa_tool_name a = ''create_workitem_tree''"
  shows "(\<not> no_items (coerce_work_item_tree_items (pa_input a)) \<longrightarrow> materialized_input a = None) \<and>
    (no_items (coerce_work_item_tree_items (pa_input a)) \<and> pa_work_items a \<noteq> [] \<and>
      drafts_ok (pa_work_items a) \<and> draft_count (pa_work_items a) \<le> 100 \<longrightarrow>
      (\<exists>inp. materialized_input a = Some inp \<and>
         coerce_work_item_tree_items inp = Some (work_item_drafts_to_items (pa_work_items a)) \<and>
         validate_work_item_tree (coerce_work_item_tree_items inp) = None))"
proof (intro conjI impI)
  assume "\<not> no_items (coerce_work_item_tree_items (pa_input a))"
  then show "materialized_input a = None" using assms by (simp add: materialized_input_def)
next
  assume a: "no_items (coerce_work_item_tree_items (pa_input a)) \<and> pa_work_items a \<noteq> [] \<and>
      drafts_ok (pa_work_items a) \<and> draft_count (pa_work_items a) \<le> 100"
  let ?items = "work_item_drafts_to_items (pa_work_items a)"
  let ?inp = "dset ''items'' (PList ?items) (pa_input a)"
  have ne: "?items \<noteq> []" using a by (simp add: work_item_drafts_to_items_def)
  have m: "materialized_input a = Some ?inp" using a assms by (simp add: materialized_input_def)
  have c: "coerce_work_item_tree_items ?inp = Some ?items"
    using ne by (simp add: coerce_work_item_tree_items_def TREE_ITEMS_KEYS_def decoded_list_def)
  have "length (flatten (work_item_drafts_to_items ds)) = draft_count ds" for ds
    using draft_tree(2) by (induction ds) (simp_all add: work_item_drafts_to_items_def draft_count_def del: flatten_node_children)
  moreover have "list_all (tree_ok 3) ?items"
    using a by (simp add: work_item_drafts_to_items_def drafts_ok_def list_all_iff draft_tree(1))
  ultimately have "validate_work_item_tree (Some ?items) = None"
    using a ne by (auto simp: validate_tree_iff)
  with m c show "\<exists>inp. materialized_input a = Some inp \<and> coerce_work_item_tree_items inp = Some ?items \<and>
         validate_work_item_tree (coerce_work_item_tree_items inp) = None" by simp
qed

definition sample_draft :: WorkItemDraft where
  "sample_draft =
     \<lparr>wd_title = ''Epic'', wd_description = [], wd_start_date = None, wd_due_date = None, wd_priority = None,
      wd_status = None, wd_assignee_usernames = [''ana''], wd_label_names = [],
      wid_children = [\<lparr>wd_title = ''Task'', wd_description = [], wd_start_date = None, wd_due_date = None,
        wd_priority = Some ''high'', wd_status = None, wd_assignee_usernames = [], wd_label_names = [],
        wcd_children = []\<rparr>]\<rparr>"

theorem typed_drafts_become_valid_trees_witness:
  "\<exists>inp. materialized_input ((tree_action [])\<lparr>pa_work_items := [sample_draft]\<rparr>) = Some inp \<and>
     validate_work_item_tree (coerce_work_item_tree_items inp) = None"
proof -
  let ?a = "(tree_action [])\<lparr>pa_work_items := [sample_draft]\<rparr>"
  have "pa_tool_name ?a = ''create_workitem_tree''" by (simp add: tree_action_def)
  moreover have "no_items (coerce_work_item_tree_items (pa_input ?a))"
    by (simp add: tree_action_def no_items_def coerce_work_item_tree_items_def TREE_ITEMS_KEYS_def
        decoded_list_def text_field_def strip_def)
  moreover have "drafts_ok (pa_work_items ?a)" "draft_count (pa_work_items ?a) \<le> 100"
    by (simp_all add: drafts_ok_def draft_count_def draft_ok_def sample_draft_def strip_def is_space_def)
  ultimately show ?thesis using typed_drafts_become_valid_trees [of ?a] by auto
qed


section \<open>The planning loop\<close>

abbreviation calls :: "io \<Rightarrow> nat" where
  "calls i \<equiv> length (io_requests i)"

lemma wp_monotonic [wp_rules]:
  "wp (monotonic env) Q E i = Q (monotonic_at env (io_clock i)) (i\<lparr>io_clock := Suc (io_clock i)\<rparr>)"
  by (simp add: wp_def monotonic_def)

text \<open>Filling in the inputs only reads the clock, and cannot fail.\<close>

lemma materialize_runs:
  "wp (materialize_typed_action_inputs env raw) (\<lambda>_ j. calls j = calls i) (\<lambda>_ _. False) i"
proof -
  have "wp (fold (\<lambda>action m. ebind m (\<lambda>updated_plan.
         case materialized_input action of
           None \<Rightarrow> ret updated_plan
         | Some input \<Rightarrow> ebind (utc_now env) (\<lambda>t. ret (replace_action t (action\<lparr>pa_input := input\<rparr>) updated_plan)))) as m)
      (\<lambda>_ j. calls j = n) (\<lambda>_ _. False) i"
    if "wp m (\<lambda>_ j. calls j = n) (\<lambda>_ _. False) i" for as m n
    using that
  proof (induction as arbitrary: m)
    case (Cons a as)
    show ?case
      unfolding fold.simps o_apply
      by (rule Cons.IH) (use Cons.prems in \<open>auto simp: wp_rules elim!: wp_mono split: option.splits\<close>)
  qed simp
  then show ?thesis unfolding materialize_typed_action_inputs_def by (simp add: wp_rules)
qed

definition overrun :: "llm_env \<Rightarrow> bool" where
  "overrun env \<longleftrightarrow> (\<exists>m n. monotonic_at env n - monotonic_at env m > PLANNING_TIME_BUDGET)"

definition round_result :: "llm_env \<Rightarrow> nat \<Rightarrow> nat \<Rightarrow> AgentPlan option \<Rightarrow> AgentPlan option \<Rightarrow> io \<Rightarrow> bool" where
  "round_result env before rounds plan r j \<longleftrightarrow>
     calls j \<le> before + rounds \<and> (r = None \<longrightarrow> rounds = 0 \<and> plan = None) \<and>
     (\<forall>p. r = Some p \<longrightarrow> plan_defect p = None \<or> calls j = before + rounds \<or> overrun env)"

lemma wp_budget_spent:
  assumes "started_at = monotonic_at env m"
    and "\<And>spent j. calls j = calls i \<Longrightarrow> (spent \<Longrightarrow> overrun env) \<Longrightarrow> Q spent j"
  shows "wp (budget_spent env started_at) Q E i"
  unfolding budget_spent_def wp_rules by (rule assms(2)) (auto simp: overrun_def assms(1))

lemma wp_may_review:
  assumes "started_at = monotonic_at env m" and "\<And>b j. calls j = calls i \<Longrightarrow> Q b j"
  shows "wp (may_review env started_at attempt used generation) Q E i"
  unfolding may_review_def
  by (auto simp: wp_rules assms(2) intro!: wp_budget_spent [OF assms(1)])

lemma planning_rounds_result:
  assumes exact: "\<And>fb i. calls (snd (generate fb i)) = Suc (calls i)"
    and started: "started_at = monotonic_at env m"
    and "rounds \<noteq> [] \<longrightarrow> last rounds \<ge> PLAN_GENERATION_ATTEMPTS"
  shows "wp (planning_rounds env generate entities started_at rounds plan feedback used)
    (round_result env (calls i) (length rounds) plan) (\<lambda>_ j. calls j \<le> calls i + length rounds) i"
  using assms(3)
proof (induction rounds arbitrary: plan feedback used i)
  case Nil
  then show ?case by (simp add: wp_rules round_result_def)
next
  case (Cons attempt rest)
  let ?Q = "round_result env (calls i) (Suc (length rest)) plan"
  let ?E = "\<lambda>_ j. calls j \<le> Suc (calls i + length rest)"
  have again: "wp (planning_rounds env generate entities started_at rest plan' feedback' used') ?Q ?E j"
    if "calls j = Suc (calls i)" "rest \<noteq> [] \<or> plan' \<noteq> None" for plan' feedback' used' and j :: io
    by (rule wp_mono [OF Cons.IH]) (use that Cons.prems in \<open>auto simp: round_result_def\<close>)
  have exact': "wp (generate fb) (\<lambda>_ j. calls j = Suc (calls k)) (\<lambda>_ j. calls j = Suc (calls k)) k" for fb k
    using exact [of fb k] by (simp add: wp_iff_snd)
  have failed: "wp (if attempt \<ge> PLAN_GENERATION_ATTEMPTS then raise e
         else ebind (budget_spent env started_at) (\<lambda>spent.
           if spent then raise e
           else planning_rounds env generate entities started_at rest plan feedback used)) ?Q ?E j"
    if "calls j = Suc (calls i)" for e and j :: io
    using that Cons.prems
    by (auto simp: wp_rules intro!: wp_budget_spent [OF started] again split: if_splits)
  have made: "wp (ebind (materialize_typed_action_inputs env raw) (\<lambda>p.
         case plan_defect p of
           Some defect \<Rightarrow>
             ebind (budget_spent env started_at) (\<lambda>spent.
               if spent then ret (Some p)
               else planning_rounds env generate entities started_at rest (Some p) (Some defect) used)
         | None \<Rightarrow>
             ebind (may_review env started_at attempt used t) (\<lambda>review.
               let issues = plan_quality_issues p entities in
               if review \<and> issues \<noteq> []
               then planning_rounds env generate entities started_at rest (Some p)
                      (Some (quality_review_feedback issues)) True
               else ret (Some p)))) ?Q ?E j"
    if j: "calls j = Suc (calls i)" for raw t and j :: io
    unfolding wp_rules
  proof (rule wp_mono [OF materialize_runs])
    fix p k
    assume k: "calls k = calls j"
    show "wp (case plan_defect p of
           Some defect \<Rightarrow>
             ebind (budget_spent env started_at) (\<lambda>spent.
               if spent then ret (Some p)
               else planning_rounds env generate entities started_at rest (Some p) (Some defect) used)
         | None \<Rightarrow>
             ebind (may_review env started_at attempt used t) (\<lambda>review.
               let issues = plan_quality_issues p entities in
               if review \<and> issues \<noteq> []
               then planning_rounds env generate entities started_at rest (Some p)
                      (Some (quality_review_feedback issues)) True
               else ret (Some p))) ?Q ?E k"
    proof (cases "plan_defect p")
      case None
      then show ?thesis
        using j k by (auto simp: wp_rules Let_def round_result_def intro!: wp_may_review [OF started] again)
    next
      case (Some defect)
      then show ?thesis
        using j k by (auto simp: wp_rules round_result_def intro!: wp_budget_spent [OF started] again)
    qed
  qed simp
  show ?case
    unfolding planning_rounds.simps wp_rules
    by (rule wp_mono [OF exact']) (auto simp: failed made)
qed


text \<open>Without a key the model is never called, and no plan comes back.\<close>

lemma planning_rounds_unconfigured:
  assumes "rounds \<noteq> []" and "last rounds \<ge> PLAN_GENERATION_ATTEMPTS"
  shows "wp (planning_rounds env (\<lambda>_. raise e) entities started_at rounds plan feedback used)
     (\<lambda>_ _. False) (\<lambda>_ j. calls j = calls i) i"
  using assms
proof (induction rounds arbitrary: plan feedback used i)
  case (Cons attempt rest)
  have "wp (planning_rounds env (\<lambda>_. raise e) entities started_at rest plan feedback used)
      (\<lambda>_ _. False) (\<lambda>_ j. calls j = calls i) j" if "rest \<noteq> []" "calls j = calls i" for j
    by (rule wp_mono [OF Cons.IH]) (use that Cons.prems in auto)
  then show ?case using Cons.prems by (cases "rest = []") (auto simp: wp_rules budget_spent_def)
qed simp


text \<open>A model that answers its first request with \<open>plan\<close> and fails every later one.\<close>

definition review_prompt :: WorkflowPromptDefinition where
  "review_prompt =
     \<lparr>wp_id = ''flow'', wp_version = ''1'', wp_name = ''Flow'', wp_description = [], wp_model_name = [],
      wp_output_schema = ''AgentPlan'', wp_goal = ''plan'', wp_system = ''system'', wp_constraints = [],
      wp_required_context = [], wp_trigger_types = [], wp_required_skills = [],
      wp_default_execution_mode = ''suggest'', wp_approval_policy = [], wp_max_recursion_depth = 10,
      wp_orchestration = None\<rparr>"

definition one_shot_model :: "AgentPlan \<Rightarrow> llm_env" where
  "one_shot_model plan =
     \<lparr>uuid4_at = (\<lambda>n. ''id-'' @ nat_str n), clock_at = int, uuid5_of = (\<lambda>s. s), fromisoformat_of = (\<lambda>_. None),
      server = (\<lambda>_ _. Http_Empty), base_url = None, api_token = None, monotonic_at = (\<lambda>_. 0),
      ll_settings = \<lparr>ls_gemini_api_key = Some ''key'', ls_default_gemini_model = ''pro'',
        ls_gemini_flash_model = ''flash'', ls_env_has_key = False\<rparr>,
      ll_run = (\<lambda>model_ref system user i.
        (if io_requests i = [] then Inr plan else Inl (RuntimeError ''truncated output''),
         i\<lparr>io_requests := io_requests i @ [Api_Request ''POST'' model_ref (Some (PStr user)) []]\<rparr>))\<rparr>"



definition thin_plan :: AgentPlan where
  "thin_plan = sample_plan\<lparr>ap_actions := [tree_action [(''items'', PList [PDict [(''title'', PStr ''Epic'')]])]]\<rparr>"


end
