(* ===== verification/Prompt_Loading.thy ===== *)
theory Prompt_Loading
  imports Registries
begin

text \<open>
  \<open>infrastructure/registries/prompt_registry.py\<close>: the prompt definitions read from the YAML files of a
  directory, by id and version, loaded on the first use of an empty table. The directory is a parameter:
  whether it exists, and its files in the order of their paths, each with what \<open>yaml.safe_load\<close> makes of
  it. So is the validation of a definition by its pydantic model.
\<close>

record prompt_file =
  pf_path :: string
  pf_parent :: string
  pf_content :: "exn + pyval"

datatype PromptDefinition =
    Workflow_Prompt WorkflowPromptDefinition
  | Skill_Prompt SkillPromptDefinition
  | Tool_Prompt ToolPromptDefinition

record prompt_source =
  pd_path :: string
  pd_exists :: bool
  pd_files :: "prompt_file list"
  pd_workflow_model :: "pydict \<Rightarrow> exn + WorkflowPromptDefinition"
  pd_skill_model :: "pydict \<Rightarrow> exn + SkillPromptDefinition"
  pd_tool_model :: "pydict \<Rightarrow> exn + ToolPromptDefinition"

type_synonym 'd prompt_table = "(string \<times> string, 'd) dict"

record prompt_registry =
  pr_prompts :: "PromptDefinition prompt_table"
  pr_workflows :: "WorkflowPromptDefinition prompt_table"
  pr_skills :: "SkillPromptDefinition prompt_table"
  pr_tools :: "ToolPromptDefinition prompt_table"

definition new_prompt_registry :: prompt_registry where
  "new_prompt_registry = \<lparr>pr_prompts = [], pr_workflows = [], pr_skills = [], pr_tools = []\<rparr>"

fun prompt_key :: "PromptDefinition \<Rightarrow> string \<times> string" where
  "prompt_key (Workflow_Prompt d) = (wp_id d, wp_version d)"
| "prompt_key (Skill_Prompt d) = (sk_id d, sk_version d)"
| "prompt_key (Tool_Prompt d) = (tp_id d, tp_version d)"

definition infer_kind :: "prompt_file \<Rightarrow> exn + string" where
  "infer_kind file =
     (if pf_parent file = ''workflows'' then Inr ''workflow''
      else if pf_parent file = ''skills'' then Inr ''skill''
      else if pf_parent file = ''tools'' then Inr ''tool''
      else Inl (ValueError (''Prompt kind is required outside prompts/workflows, prompts/skills, or prompts/tools: ''
                 @ pf_path file)))"

definition parse_prompt :: "prompt_source \<Rightarrow> pydict \<Rightarrow> prompt_file \<Rightarrow> exn + PromptDefinition" where
  "parse_prompt src data file =
     sbind (if truthy (pget data ''kind'') then Inr (pget data ''kind'')
            else sbind (infer_kind file) (\<lambda>k. Inr (PStr k))) (\<lambda>kind.
     let data = dset ''kind'' kind data in
     if kind = PStr ''workflow'' then sbind (pd_workflow_model src data) (\<lambda>d. Inr (Workflow_Prompt d))
     else if kind = PStr ''skill'' then sbind (pd_skill_model src data) (\<lambda>d. Inr (Skill_Prompt d))
     else if kind = PStr ''tool'' then sbind (pd_tool_model src data) (\<lambda>d. Inr (Tool_Prompt d))
     else Inl (ValueError (''Unsupported prompt kind in '' @ pf_path file @ '': '' @ py_str kind)))"

definition add_prompt :: "PromptDefinition \<Rightarrow> prompt_registry \<Rightarrow> prompt_registry" where
  "add_prompt p r =
     (let r = r\<lparr>pr_prompts := dset (prompt_key p) p (pr_prompts r)\<rparr> in
      case p of
        Workflow_Prompt d \<Rightarrow> r\<lparr>pr_workflows := dset (prompt_key p) d (pr_workflows r)\<rparr>
      | Skill_Prompt d \<Rightarrow> r\<lparr>pr_skills := dset (prompt_key p) d (pr_skills r)\<rparr>
      | Tool_Prompt d \<Rightarrow> r\<lparr>pr_tools := dset (prompt_key p) d (pr_tools r)\<rparr>)"

text \<open>\<open>yaml.safe_load(file) or {}\<close>, which must be a dictionary to be asked for its kind.\<close>

definition file_data :: "prompt_file \<Rightarrow> exn + pydict" where
  "file_data file =
     sbind (pf_content file) (\<lambda>v.
       if \<not> truthy v then Inr [] else case v of PDict d \<Rightarrow> Inr d | _ \<Rightarrow> Inl (no_get v))"

definition load_file :: "prompt_source \<Rightarrow> prompt_file \<Rightarrow> (prompt_registry, unit) eff" where
  "load_file src file =
     ebind (of_sum (sbind (file_data file) (\<lambda>data. parse_prompt src data file))) (\<lambda>p. modify (add_prompt p))"

definition load :: "prompt_source \<Rightarrow> (prompt_registry, unit) eff" where
  "load src =
     (if \<not> pd_exists src
      then raise (OtherError ''FileNotFoundError'' (''Prompt directory not found: '' @ pd_path src))
      else eseq (modify (\<lambda>_. new_prompt_registry)) (efor (pd_files src) (load_file src)))"

definition loaded :: "prompt_source \<Rightarrow> (prompt_registry \<Rightarrow> 'd prompt_table) \<Rightarrow> (prompt_registry, 'd prompt_table) eff" where
  "loaded src table =
     ebind (gets table) (\<lambda>t. eseq (if t = [] then load src else ret ()) (gets table))"

definition lookup_prompt ::
  "prompt_source \<Rightarrow> (prompt_registry \<Rightarrow> 'd prompt_table) \<Rightarrow> string \<Rightarrow> string \<Rightarrow> string \<Rightarrow> (prompt_registry, 'd) eff" where
  "lookup_prompt src table what prompt_id version =
     ebind (loaded src table) (\<lambda>t.
       case dget t (prompt_id, version) of
         Some d \<Rightarrow> ret d
       | None \<Rightarrow> raise (KeyError (what @ '' not registered: '' @ prompt_id @ '':'' @ version)))"

definition pr_get :: "prompt_source \<Rightarrow> string \<Rightarrow> string \<Rightarrow> (prompt_registry, PromptDefinition) eff" where
  "pr_get src = lookup_prompt src pr_prompts ''Prompt''"

definition pr_get_workflow :: "prompt_source \<Rightarrow> string \<Rightarrow> string \<Rightarrow> (prompt_registry, WorkflowPromptDefinition) eff" where
  "pr_get_workflow src = lookup_prompt src pr_workflows ''Workflow prompt''"

definition pr_get_skill :: "prompt_source \<Rightarrow> string \<Rightarrow> string \<Rightarrow> (prompt_registry, SkillPromptDefinition) eff" where
  "pr_get_skill src = lookup_prompt src pr_skills ''Skill prompt''"

definition pr_get_tool :: "prompt_source \<Rightarrow> string \<Rightarrow> string \<Rightarrow> (prompt_registry, ToolPromptDefinition) eff" where
  "pr_get_tool src = lookup_prompt src pr_tools ''Tool prompt''"

definition pr_list :: "prompt_source \<Rightarrow> (prompt_registry, PromptDefinition list) eff" where
  "pr_list src = ebind (loaded src pr_prompts) (\<lambda>t. ret (map snd t))"

definition list_workflows :: "prompt_source \<Rightarrow> (prompt_registry, WorkflowPromptDefinition list) eff" where
  "list_workflows src = ebind (loaded src pr_workflows) (\<lambda>t. ret (map snd t))"

definition list_skills :: "prompt_source \<Rightarrow> (prompt_registry, SkillPromptDefinition list) eff" where
  "list_skills src = ebind (loaded src pr_skills) (\<lambda>t. ret (map snd t))"

definition list_tools :: "prompt_source \<Rightarrow> (prompt_registry, ToolPromptDefinition list) eff" where
  "list_tools src = ebind (loaded src pr_tools) (\<lambda>t. ret (map snd t))"


section \<open>Facts\<close>

text \<open>Every table holds its definitions under their own id and version, each once, and agrees with the common table.\<close>

definition prompts_ok :: "prompt_registry \<Rightarrow> bool" where
  "prompts_ok r \<longleftrightarrow>
     (\<forall>(k, p) \<in> set (pr_prompts r). prompt_key p = k) \<and> distinct (map fst (pr_prompts r)) \<and>
     (\<forall>(k, d) \<in> set (pr_workflows r). prompt_key (Workflow_Prompt d) = k) \<and> distinct (map fst (pr_workflows r)) \<and>
     (\<forall>(k, d) \<in> set (pr_skills r). prompt_key (Skill_Prompt d) = k) \<and> distinct (map fst (pr_skills r)) \<and>
     (\<forall>(k, d) \<in> set (pr_tools r). prompt_key (Tool_Prompt d) = k) \<and> distinct (map fst (pr_tools r))"

lemma prompts_ok_new: "prompts_ok new_prompt_registry"
  by (simp add: prompts_ok_def new_prompt_registry_def)

lemma dset_keyed:
  assumes "\<forall>(k, d) \<in> set t. f d = k"
  shows "\<forall>(k, d') \<in> set (dset (f d) d t). f d' = k"
  using assms by (induction t) (auto split: if_splits)

lemma prompts_ok_add: "prompts_ok r \<Longrightarrow> prompts_ok (add_prompt p r)"
  by (cases p)
    (auto simp: prompts_ok_def add_prompt_def Let_def distinct_update
      simp del: prompt_key.simps intro!: dset_keyed [where f = prompt_key, simplified]
        dset_keyed [where f = "\<lambda>d. prompt_key (Workflow_Prompt d)", simplified]
        dset_keyed [where f = "\<lambda>d. prompt_key (Skill_Prompt d)", simplified]
        dset_keyed [where f = "\<lambda>d. prompt_key (Tool_Prompt d)", simplified])

lemma load_ok: "wp (load src) (\<lambda>_. prompts_ok) (\<lambda>_ r. prompts_ok r) r" if "prompts_ok r"
  unfolding load_def
  by (auto simp: wp_rules that prompts_ok_new load_file_def prompts_ok_add split: sum.splits
      intro!: wp_efor_inv)

end
