(* ===== verification/Runtime_Config.thy ===== *)
theory Runtime_Config
  imports Planning_Agent Workitem_Tools
begin

text \<open>
  \<open>infrastructure/config/settings.py\<close> and \<open>infrastructure/oci_auth.py\<close>: the settings read from the
  environment, their validation, and the choice of the credentials. The environment is the dictionary
  of its variables. Of pydantic's \<open>ValidationError\<close> the model keeps the field that is refused first.
\<close>

type_synonym environ = "(string, string) dict"

definition getenv :: "environ \<Rightarrow> string \<Rightarrow> string \<Rightarrow> string" where
  "getenv env key d = (case dget env key of Some v \<Rightarrow> v | None \<Rightarrow> d)"

text \<open>\<open>os.getenv(key) or None\<close>\<close>

definition getenv_or_none :: "environ \<Rightarrow> string \<Rightarrow> string option" where
  "getenv_or_none env key = (case dget env key of Some (c # cs) \<Rightarrow> Some (c # cs) | _ \<Rightarrow> None)"

lemma getenv_or_none_truthy: "getenv_or_none env key \<noteq> Some []"
  by (auto simp: getenv_or_none_def split: option.splits list.splits)


section \<open>Decimal integers\<close>

text \<open>\<open>int(s)\<close>: a sign, decimal digits with single underscores between them, white space around.\<close>

definition dec_digit_val :: "char \<Rightarrow> int option" where
  "dec_digit_val c = (let n = (of_char c :: int) in if 48 \<le> n \<and> n \<le> 57 then Some (n - 48) else None)"

fun dec_digits :: "int \<Rightarrow> string \<Rightarrow> int option" where
  "dec_digits acc [] = Some acc"
| "dec_digits acc (c # cs) =
     (case dec_digit_val c of
        Some d \<Rightarrow> dec_digits (10 * acc + d) cs
      | None \<Rightarrow>
          if c = CHR ''_'' then
            (case cs of
               [] \<Rightarrow> None
             | c' # cs' \<Rightarrow> (case dec_digit_val c' of
                   Some d \<Rightarrow> dec_digits (10 * acc + d) cs'
                 | None \<Rightarrow> None))
          else None)"

definition dec_number :: "string \<Rightarrow> int option" where
  "dec_number s =
     (case s of
        [] \<Rightarrow> None
      | c # cs \<Rightarrow> (case dec_digit_val c of Some d \<Rightarrow> dec_digits d cs | None \<Rightarrow> None))"

definition py_int :: "string \<Rightarrow> exn + int" where
  "py_int s =
     (let t = strip s;
          u = (if take 1 t = ''-'' \<or> take 1 t = ''+'' then drop 1 t else t)
      in case dec_number u of
           Some n \<Rightarrow> Inr (if take 1 t = ''-'' then - n else n)
         | None \<Rightarrow> Inl (ValueError (''invalid literal for int() with base 10: '' @ repr_str s)))"

lemma dec_digit_char: "d < 10 \<Longrightarrow> dec_digit_val (digit_char d) = Some (int d)"
proof -
  assume d: "d < 10"
  then have "(of_char (char_of (48 + d)) :: nat) = 48 + d" by (simp add: of_char_of)
  then have "(of_char (digit_char d) :: int) = 48 + int d"
    unfolding digit_char_def by (metis of_nat_add of_nat_numeral of_nat_of_char)
  with d show ?thesis by (simp add: dec_digit_val_def)
qed

lemma dec_digits_snoc: "dec_digits acc s = Some n \<Longrightarrow> d < 10 \<Longrightarrow> dec_digits acc (s @ [digit_char d]) = Some (10 * n + int d)"
proof (induction acc s rule: dec_digits.induct)
  case (1 acc)
  then show ?case by (simp add: dec_digit_char)
next
  case (2 acc c cs)
  then show ?case
    by (auto simp: dec_digit_char split: option.splits if_splits list.splits)
qed

lemma dec_number_nat_str: "dec_number (nat_str n) = Some (int n)"
proof (induction n rule: nat_str.induct)
  case (1 n)
  show ?case
  proof (cases "n < 10")
    case True
    then show ?thesis by (subst nat_str.simps) (simp add: dec_number_def dec_digit_char)
  next
    case False
    define s where "s = nat_str (n div 10)"
    have IH: "dec_number s = Some (int (n div 10))" using 1 False by (simp add: s_def)
    then obtain c cs d where s: "s = c # cs" "dec_digit_val c = Some d" "dec_digits d cs = Some (int (n div 10))"
      by (auto simp: dec_number_def split: list.splits option.splits)
    have "dec_digits d (cs @ [digit_char (n mod 10)]) = Some (10 * int (n div 10) + int (n mod 10))"
      by (rule dec_digits_snoc [OF s(3)]) simp
    moreover have "10 * int (n div 10) + int (n mod 10) = int n"
      by (metis mult_div_mod_eq of_nat_add of_nat_mult of_nat_numeral)
    ultimately show ?thesis using False s
      by (subst nat_str.simps) (simp add: dec_number_def s_def [symmetric])
  qed
qed


section \<open>Settings\<close>

record Settings =
  st_app_env :: string
  st_state_backend :: string
  st_queue_backend :: string
  st_llm_provider :: string
  st_gemini_api_key :: "string option"
  st_default_gemini_model :: string
  st_gemini_flash_model :: string
  st_embedding_model :: string
  st_embedding_dimensions :: int
  st_max_recursion_depth :: int
  st_oci_queue_ocid :: "string option"
  st_oci_queue_messages_endpoint :: "string option"
  st_object_storage_bucket_name :: "string option"
  st_object_storage_namespace :: "string option"
  st_prism_api_base_url :: "string option"
  st_prism_api_token :: "string option"
  st_discord_webhook_url :: "string option"
  st_log_level :: string
  st_log_traces :: bool
  st_persist_agent_memories :: bool

definition default_settings :: Settings where
  "default_settings =
     \<lparr>st_app_env = ''local'', st_state_backend = ''memory'', st_queue_backend = ''memory'',
      st_llm_provider = ''gemini'', st_gemini_api_key = None,
      st_default_gemini_model = ''gemini-3.1-pro-preview'', st_gemini_flash_model = ''gemini-2.5-flash'',
      st_embedding_model = ''gemini-embedding-001'', st_embedding_dimensions = 1536,
      st_max_recursion_depth = 10, st_oci_queue_ocid = None, st_oci_queue_messages_endpoint = None,
      st_object_storage_bucket_name = None, st_object_storage_namespace = None,
      st_prism_api_base_url = None, st_prism_api_token = None, st_discord_webhook_url = None,
      st_log_level = ''INFO'', st_log_traces = False, st_persist_agent_memories = True\<rparr>"

text \<open>The constraints the fields declare, checked in the order of the fields.\<close>

definition settings_defect :: "Settings \<Rightarrow> string option" where
  "settings_defect s =
     (if st_app_env s \<notin> {''local'', ''prod''} then Some ''app_env''
      else if st_state_backend s \<notin> {''memory'', ''prism_api''} then Some ''state_backend''
      else if st_queue_backend s \<notin> {''memory'', ''oci''} then Some ''queue_backend''
      else if st_llm_provider s \<noteq> ''gemini'' then Some ''llm_provider''
      else if st_max_recursion_depth s < 1 then Some ''max_recursion_depth''
      else None)"

definition validated_settings :: "Settings \<Rightarrow> exn + Settings" where
  "validated_settings s =
     (case settings_defect s of Some field \<Rightarrow> Inl (ValidationError field) | None \<Rightarrow> Inr s)"

definition env_flag :: "environ \<Rightarrow> string \<Rightarrow> bool" where
  "env_flag env key \<longleftrightarrow> lower (getenv env key ''true'') = ''true''"

definition from_env :: "environ \<Rightarrow> exn + Settings" where
  "from_env env =
     sbind (py_int (getenv env ''EMBEDDING_DIMENSIONS'' ''1536'')) (\<lambda>dimensions.
     sbind (py_int (getenv env ''MAX_RECURSION_DEPTH'' ''10'')) (\<lambda>max_depth.
     validated_settings
       \<lparr>st_app_env = getenv env ''APP_ENV'' ''local'',
        st_state_backend = getenv env ''STATE_BACKEND'' ''memory'',
        st_queue_backend = getenv env ''QUEUE_BACKEND'' ''memory'',
        st_llm_provider = getenv env ''LLM_PROVIDER'' ''gemini'',
        st_gemini_api_key = getenv_or_none env ''GEMINI_API_KEY'',
        st_default_gemini_model = getenv env ''DEFAULT_GEMINI_MODEL'' ''gemini-3.1-pro-preview'',
        st_gemini_flash_model = getenv env ''GEMINI_FLASH_MODEL'' ''gemini-2.5-flash'',
        st_embedding_model = getenv env ''EMBEDDING_MODEL'' ''gemini-embedding-001'',
        st_embedding_dimensions = dimensions,
        st_max_recursion_depth = max_depth,
        st_oci_queue_ocid = dget env ''OCI_QUEUE_OCID'',
        st_oci_queue_messages_endpoint = getenv_or_none env ''OCI_QUEUE_MESSAGES_ENDPOINT'',
        st_object_storage_bucket_name = getenv_or_none env ''OCI_OBJECT_STORAGE_BUCKET_NAME'',
        st_object_storage_namespace = getenv_or_none env ''OCI_OBJECT_STORAGE_NAMESPACE'',
        st_prism_api_base_url = dget env ''PRISM_API_BASE_URL'',
        st_prism_api_token = getenv_or_none env ''PRISM_API_TOKEN'',
        st_discord_webhook_url = getenv_or_none env ''DISCORD_WEBHOOK_URL'',
        st_log_level = getenv env ''LOG_LEVEL'' ''INFO'',
        st_log_traces = env_flag env ''LOG_TRACES'',
        st_persist_agent_memories = env_flag env ''PERSIST_AGENT_MEMORIES''\<rparr>))"

lemma from_env_valid:
  assumes "from_env env = Inr s"
  shows "settings_defect s = None"
  using assms
  by (auto simp: from_env_def sbind_Inr_iff validated_settings_def split: option.splits)

lemma from_env_depth: "from_env env = Inr s \<Longrightarrow> 1 \<le> st_max_recursion_depth s"
  by (drule from_env_valid) (auto simp: settings_defect_def split: if_splits)

text \<open>What the planning agent and the embedder take from the settings.\<close>

definition llm_settings_of :: "environ \<Rightarrow> Settings \<Rightarrow> llm_settings" where
  "llm_settings_of env s =
     \<lparr>ls_gemini_api_key = st_gemini_api_key s, ls_default_gemini_model = st_default_gemini_model s,
      ls_gemini_flash_model = st_gemini_flash_model s,
      ls_env_has_key = (getenv env ''GEMINI_API_KEY'' [] \<noteq> [] \<or> getenv env ''GOOGLE_API_KEY'' [] \<noteq> [])\<rparr>"

definition embedder_of :: "Settings \<Rightarrow> (string \<Rightarrow> pydict \<Rightarrow> pyval option) \<Rightarrow> embedder" where
  "embedder_of s post =
     \<lparr>em_api_key = st_gemini_api_key s, em_model = st_embedding_model s,
      em_dimensions = st_embedding_dimensions s, em_post = post\<rparr>"


section \<open>Credentials\<close>

definition strip_char :: "char \<Rightarrow> string \<Rightarrow> string" where
  "strip_char q s = rev (dropWhile (\<lambda>c. c = q) (rev (dropWhile (\<lambda>c. c = q) s)))"

text \<open>\<open>s.replace("\\n", "\n")\<close>: an escaped line break becomes one.\<close>

fun unescape_newlines :: "string \<Rightarrow> string" where
  "unescape_newlines (c # d # cs) =
     (if c = CHR 0x5C \<and> d = CHR ''n'' then CHR 0x0A # unescape_newlines cs
      else c # unescape_newlines (d # cs))"
| "unescape_newlines s = s"

definition base64_val :: "char \<Rightarrow> nat option" where
  "base64_val c =
     (let n = (of_char c :: nat)
      in if 65 \<le> n \<and> n \<le> 90 then Some (n - 65)
         else if 97 \<le> n \<and> n \<le> 122 then Some (n - 71)
         else if 48 \<le> n \<and> n \<le> 57 then Some (n + 4)
         else if n = 43 then Some 62
         else if n = 47 then Some 63
         else None)"

text \<open>
  \<open>binascii.a2b_base64\<close> in its lenient mode: other characters are skipped, and once a group has two
  characters enough padding ends the input. The state is the place in the group of four, the bits left
  over and the number of padding characters in a row; an incomplete group is an error.
\<close>

fun a2b_base64 :: "nat \<Rightarrow> nat \<Rightarrow> nat \<Rightarrow> string \<Rightarrow> string option" where
  "a2b_base64 quad left pads [] = (if quad = 0 then Some [] else None)"
| "a2b_base64 quad left pads (c # cs) =
     (if c = CHR ''='' then
        (if quad \<ge> 2 then (if quad + pads + 1 \<ge> 4 then Some [] else a2b_base64 quad left (pads + 1) cs)
         else a2b_base64 quad left pads cs)
      else case base64_val c of
        None \<Rightarrow> a2b_base64 quad left pads cs
      | Some v \<Rightarrow>
          if quad = 0 then a2b_base64 1 v 0 cs
          else if quad = 1 then
            map_option ((#) (char_of (left * 4 + v div 16))) (a2b_base64 2 (v mod 16) 0 cs)
          else if quad = 2 then
            map_option ((#) (char_of (left * 16 + v div 4))) (a2b_base64 3 (v mod 4) 0 cs)
          else map_option ((#) (char_of (left * 64 + v))) (a2b_base64 0 0 0 cs))"

definition is_ascii :: "string \<Rightarrow> bool" where
  "is_ascii s \<longleftrightarrow> list_all (\<lambda>c. (of_char c :: nat) < 128) s"

definition b64decode :: "string \<Rightarrow> string option" where
  "b64decode s = (if is_ascii s then a2b_base64 0 0 0 s else None)"

text \<open>\<open>utf8\<close> is \<open>bytes.decode("utf-8")\<close>, without a result where it raises.\<close>

definition private_key_content :: "(string \<Rightarrow> string option) \<Rightarrow> string \<Rightarrow> string option" where
  "private_key_content utf8 value =
     (let stripped = strip_char (CHR 0x27) (strip_char (CHR 0x22) (strip value)) in
      if stripped = [] then None
      else
        let normalized = unescape_newlines stripped in
        if contains ''-----BEGIN'' normalized then Some normalized
        else case Option.bind (b64decode normalized) utf8 of
          None \<Rightarrow> Some normalized
        | Some raw \<Rightarrow>
            let decoded = strip raw in
            Some (if contains ''-----BEGIN'' decoded then decoded else normalized))"

definition api_key_config_from_env :: "(string \<Rightarrow> string option) \<Rightarrow> environ \<Rightarrow> environ option" where
  "api_key_config_from_env utf8 env =
     (let key_file = getenv_or_none env ''OCI_PRIVATE_KEY_FILE'';
          key_content = private_key_content utf8 (getenv env ''OCI_PRIVATE_KEY'' []);
          required = [(''tenancy'', getenv_or_none env ''OCI_TENANCY_OCID''),
                      (''user'', getenv_or_none env ''OCI_USER_OCID''),
                      (''fingerprint'', getenv_or_none env ''OCI_FINGERPRINT''),
                      (''region'', getenv_or_none env ''OCI_REGION'')];
          config = required @ [(''key_file'', key_file), (''key_content'', key_content)]
      in if \<not> list_all (\<lambda>(name, v). opt_truthy v) required \<or> \<not> (opt_truthy key_file \<or> opt_truthy key_content)
         then None
         else Some (List.map_filter (\<lambda>(name, v). if opt_truthy v then map_option (Pair name) v else None) config))"

datatype credentials =
    Resource_Principal
  | Instance_Principal
  | Api_Key environ
  | Config_File

definition replace_dashes :: "string \<Rightarrow> string" where
  "replace_dashes s = map (\<lambda>c. if c = CHR ''-'' then CHR ''_'' else c) s"

text \<open>\<open>oci_installed\<close>: whether the OCI library can be imported.\<close>

definition load_oci_config_and_signer ::
  "bool \<Rightarrow> (string \<Rightarrow> string option) \<Rightarrow> environ \<Rightarrow> string \<Rightarrow> exn + credentials" where
  "load_oci_config_and_signer oci_installed utf8 env usage =
     (let auth_mode = replace_dashes (lower (strip (getenv env ''OCI_AUTH_MODE'' []))) in
      if \<not> oci_installed then Inl (RuntimeError (''Install the prod extra to use '' @ usage @ ''.''))
      else if getenv env ''OCI_RESOURCE_PRINCIPAL_VERSION'' [] \<noteq> []
          \<or> auth_mode \<in> {''resource_principal'', ''resource_principals''} then Inr Resource_Principal
      else if auth_mode \<in> {''instance_principal'', ''instance_principals''} then Inr Instance_Principal
      else case api_key_config_from_env utf8 env of
        Some config \<Rightarrow>
          if auth_mode \<in> {''config'', ''config_file''} then Inr Config_File else Inr (Api_Key config)
      | None \<Rightarrow>
          if auth_mode \<in> {''api_key'', ''user_principal''} then
            Inl (RuntimeError (''OCI_AUTH_MODE requires API key environment credentials: ''
              @ ''OCI_TENANCY_OCID, OCI_USER_OCID, OCI_FINGERPRINT, OCI_REGION, ''
              @ ''and OCI_PRIVATE_KEY or OCI_PRIVATE_KEY_FILE.''))
          else Inr Config_File)"

lemma api_key_config_complete:
  assumes "api_key_config_from_env utf8 env = Some config"
  shows "\<forall>name \<in> {''tenancy'', ''user'', ''fingerprint'', ''region''}. \<exists>v. dget config name = Some v \<and> v \<noteq> []"
    and "(\<exists>v. dget config ''key_file'' = Some v \<and> v \<noteq> []) \<or> (\<exists>v. dget config ''key_content'' = Some v \<and> v \<noteq> [])"
  using assms
  by (auto simp: api_key_config_from_env_def Let_def opt_truthy_def List.map_filter_def split: if_splits)

end
