(* ===== verification/Oci_Adapters.thy ===== *)
theory Oci_Adapters
  imports Runtime_Config Memory_Transport Memory_Queue
begin

text \<open>
  The adapters of \<open>infrastructure/queue/oci_queue.py\<close>, \<open>infrastructure/object_storage\<close> (payload
  stores) and \<open>infrastructure/vault\<close>: what they check and raise around the OCI clients. The clients
  themselves are parameters, a \<open>get_object\<close> answering as a function of object name and version, a
  \<open>put_messages\<close> acting on a remote state. Bytes and text are identified.
\<close>

definition NotImplementedError :: "string \<Rightarrow> exn" where
  "NotImplementedError m = OtherError ''NotImplementedError'' m"

definition JSONDecodeError :: exn where
  "JSONDecodeError = OtherError ''JSONDecodeError'' ''Expecting value''"


section \<open>Payload stores\<close>

text \<open>A fetch takes an object's name and version; the version is \<open>None\<close> where the call leaves it out.\<close>

type_synonym payload_fetch = "pyval \<Rightarrow> pyval \<Rightarrow> exn + pydict"

record payload_client =
  pc_get_object :: "pyval \<Rightarrow> pyval \<Rightarrow> exn + response_data"

definition object_storage_payload_store ::
  "string option \<Rightarrow> string option \<Rightarrow> payload_client \<Rightarrow> exn + payload_client" where
  "object_storage_payload_store namespace bucket_name client =
     (if \<not> opt_truthy namespace \<or> \<not> opt_truthy bucket_name
      then Inl (ValueError ''OCI payload namespace and bucket name are required for feature provisioning.'')
      else Inr client)"

definition fetch_json :: "payload_client \<Rightarrow> payload_fetch" where
  "fetch_json client name version_id =
     sbind (pc_get_object client name (if truthy version_id then version_id else PNone)) (\<lambda>data.
     sbind (response_data_to_bytes data) (\<lambda>raw.
       case json_loads raw of
         None \<Rightarrow> Inl JSONDecodeError
       | Some (PDict decoded) \<Rightarrow> Inr decoded
       | Some _ \<Rightarrow> Inl (ValueError (''Payload object must contain a JSON object: '' @ py_str name))))"

definition memory_fetch_json :: "(string, pydict) dict \<Rightarrow> payload_fetch" where
  "memory_fetch_json payloads name version_id =
     (case Option.bind (case name of PStr n \<Rightarrow> Some n | _ \<Rightarrow> None) (dget payloads) of
        Some payload \<Rightarrow> Inr payload
      | None \<Rightarrow> Inl (KeyError (''Payload object not found: '' @ py_str name)))"

text \<open>A payload written as JSON is fetched as it was; any version is served by the memory store.\<close>

lemma fetch_json_written:
  assumes "pc_get_object client name (if truthy v then v else PNone) = Inr (Data_Bytes (json_dumps (PDict d)))"
    and "json_ok (PDict d)"
  shows "fetch_json client name v = Inr d"
  using assms(1) json_round_trip [OF assms(2)]
  by (simp add: fetch_json_def del: json_dumps.simps)

lemma memory_fetch_version: "memory_fetch_json ps name v = memory_fetch_json ps name PNone"
  by (simp add: memory_fetch_json_def)


section \<open>The queue\<close>

text \<open>
  What \<open>put_messages\<close> answers: the ids of \<open>response.data.messages\<close>, each possibly missing, or nothing
  where the answer has no such list.
\<close>

record 'r oci_queue =
  oq_queue_ocid :: string
  oq_put_messages :: "string \<Rightarrow> string \<Rightarrow> ('r, string option list option) eff"
  oq_dump_envelope :: "EventEnvelope \<Rightarrow> string"

definition new_oci_queue ::
  "string option \<Rightarrow> (string \<Rightarrow> string \<Rightarrow> ('r, string option list option) eff) \<Rightarrow> (EventEnvelope \<Rightarrow> string)
   \<Rightarrow> exn + 'r oci_queue" where
  "new_oci_queue queue_ocid put_messages dump =
     (case queue_ocid of
        Some (c # cs) \<Rightarrow> Inr \<lparr>oq_queue_ocid = c # cs, oq_put_messages = put_messages, oq_dump_envelope = dump\<rparr>
      | _ \<Rightarrow> Inl (ValueError ''OCI_QUEUE_OCID is required when QUEUE_BACKEND=oci''))"

fun published_message_id :: "string option list option \<Rightarrow> string \<Rightarrow> string" where
  "published_message_id (Some (Some message_id # _)) fallback = message_id"
| "published_message_id _ fallback = fallback"

definition oci_enqueue :: "'r oci_queue \<Rightarrow> EventEnvelope \<Rightarrow> ('r, QueueMessage) eff" where
  "oci_enqueue q envelope =
     ebind (oq_put_messages q (oq_queue_ocid q) (oq_dump_envelope q envelope)) (\<lambda>response.
     ret \<lparr>qm_message_id = published_message_id response (en_envelope_id envelope),
          qm_envelope = envelope, qm_receipt = None\<rparr>)"

definition oci_dequeue :: "('r, QueueMessage option) eff" where
  "oci_dequeue = raise (NotImplementedError ''OCI Functions receive queue messages via trigger payloads.'')"

definition oci_ack :: "QueueMessage \<Rightarrow> ('r, unit) eff" where
  "oci_ack message =
     raise (NotImplementedError ''OCI Functions queue trigger acknowledgements are managed by OCI.'')"

definition oci_fail :: "QueueMessage \<Rightarrow> string \<Rightarrow> ('r, unit) eff" where
  "oci_fail message reason = raise (NotImplementedError ''OCI Functions queue trigger failures are managed by OCI.'')"

definition oci_is_empty :: "('r, bool) eff" where
  "oci_is_empty = raise (NotImplementedError ''OCI Queue emptiness checks are not used by OCI Functions.'')"

text \<open>An enqueued message carries the envelope it was given, and only the provider can make it fail.\<close>

lemma oci_enqueue_envelope:
  "wp (oci_enqueue q e) (\<lambda>m _. qm_envelope m = e \<and> qm_receipt m = None)
     (\<lambda>x s'. oq_put_messages q (oq_queue_ocid q) (oq_dump_envelope q e) s = (Inl x, s')) s"
  by (auto simp: oci_enqueue_def wp_def ebind_def ret_def split: prod.splits sum.splits)


section \<open>Clients\<close>

text \<open>\<open>build_queue_client\<close>: the credentials and the endpoint the client is made from.\<close>

definition build_queue_client ::
  "bool \<Rightarrow> (string \<Rightarrow> string option) \<Rightarrow> environ \<Rightarrow> string option \<Rightarrow> exn + credentials \<times> string option" where
  "build_queue_client oci_installed utf8 env messages_endpoint =
     (if \<not> oci_installed then Inl (RuntimeError ''Install the prod extra to use OCI Queue.'')
      else sbind (load_oci_config_and_signer oci_installed utf8 env ''OCI Queue'')
             (\<lambda>c. Inr (c, if opt_truthy messages_endpoint then messages_endpoint else None)))"

definition build_object_storage_client ::
  "bool \<Rightarrow> (string \<Rightarrow> string option) \<Rightarrow> environ \<Rightarrow> exn + credentials" where
  "build_object_storage_client oci_installed utf8 env =
     (if \<not> oci_installed then Inl (RuntimeError ''Install the prod extra to use OCI Object Storage.'')
      else load_oci_config_and_signer oci_installed utf8 env ''OCI Object Storage'')"

definition build_secrets_client ::
  "bool \<Rightarrow> (string \<Rightarrow> string option) \<Rightarrow> environ \<Rightarrow> exn + credentials" where
  "build_secrets_client oci_installed utf8 env =
     (if \<not> oci_installed then Inl (RuntimeError ''Install the prod extra to use OCI Vault secrets.'')
      else load_oci_config_and_signer oci_installed utf8 env ''OCI Vault secrets'')"


section \<open>Secrets\<close>

text \<open>The content of a secret bundle; nothing where it is absent or no string.\<close>

definition secret_bundle_content :: "string option \<Rightarrow> exn + string" where
  "secret_bundle_content content =
     (case content of
        Some (c # cs) \<Rightarrow> Inr (c # cs)
      | _ \<Rightarrow> Inl (ValueError ''OCI Vault secret bundle did not contain base64 text content.''))"

definition fetch_secret_text ::
  "exn + (string \<Rightarrow> exn + string option) \<Rightarrow> (string \<Rightarrow> string option) \<Rightarrow> string \<Rightarrow> exn + string" where
  "fetch_secret_text client utf8 secret_ocid =
     sbind client (\<lambda>get_secret_bundle.
     sbind (get_secret_bundle secret_ocid) (\<lambda>bundle.
     sbind (secret_bundle_content bundle) (\<lambda>content.
       if \<not> is_ascii content
       then Inl (ValueError ''string argument should contain only ASCII characters'')
       else case b64decode content of
         None \<Rightarrow> Inl (OtherError ''Error'' ''Incorrect padding'')
       | Some raw \<Rightarrow>
           (case utf8 raw of
              None \<Rightarrow> Inl (OtherError ''UnicodeDecodeError'' ''invalid utf-8'')
            | Some t \<Rightarrow> Inr t))))"

end
