(* ===== verification/Reporting.thy ===== *)
theory Reporting
  imports Recursion_Runner Runtime_Config
begin

text \<open>
  What the runtime tells its operators: the trace log line of \<open>infrastructure/state/logging_state_store.py\<close>,
  the JSON lines of \<open>infrastructure/observability/logging_config.py\<close>, the Discord messages of
  \<open>infrastructure/notifications/discord_notifier.py\<close>, and the labels, summaries and failure texts that
  \<open>interfaces/oci_function_entry.py\<close> composes from the traces. Three emoji lie outside the model's
  characters: each of their code points is represented by its low byte, so that lengths are kept.
\<close>

definition FAILURE_EVENTS :: "string list" where
  "FAILURE_EVENTS =
     [''event.failed'', ''plan.failed'', ''plan.empty'', ''action.failed'', ''action.execution_error'',
      ''action.validation_failed'', ''action.stale_context'', ''orchestration.failed'',
      ''orchestration.blocked'', ''recursion.max_depth'']"

definition is_failure :: "TraceEvent \<Rightarrow> bool" where
  "is_failure t \<longleftrightarrow> te_event_name t \<in> set FAILURE_EVENTS"


section \<open>Log lines\<close>

datatype log_level = INFO | WARNING | ERROR

text \<open>Levels are ordered by their numbers in the \<open>logging\<close> library.\<close>

fun severity :: "log_level \<Rightarrow> nat" where
  "severity INFO = 20" | "severity WARNING = 30" | "severity ERROR = 40"

instantiation log_level :: linorder
begin

definition less_eq_log_level :: "log_level \<Rightarrow> log_level \<Rightarrow> bool" where
  "less_eq_log_level a b \<longleftrightarrow> severity a \<le> severity b"

definition less_log_level :: "log_level \<Rightarrow> log_level \<Rightarrow> bool" where
  "less_log_level a b \<longleftrightarrow> severity a < severity b"

instance
proof
  show "a = b" if "a \<le> b" "b \<le> a" for a b :: log_level
    using that by (cases a; cases b) (simp_all add: less_eq_log_level_def)
qed (auto simp: less_eq_log_level_def less_log_level_def)

end

type_synonym log_line = "log_level \<times> pydict"

definition DETAIL_KEYS :: "string list" where
  "DETAIL_KEYS =
     [''tool_name'', ''status'', ''plan_status'', ''node_id'', ''skill_ids'', ''attempt'', ''reason'',
      ''error'', ''error_type'']"

definition trace_detail :: "pydict \<Rightarrow> pydict" where
  "trace_detail data = List.map_filter (\<lambda>k. map_option (Pair k) (dget data k)) DETAIL_KEYS"

definition trace_line :: "TraceEvent \<Rightarrow> log_line" where
  "trace_line t =
     ((if is_failure t then ERROR else INFO),
      [(''log'', PStr ''trace''), (''event'', PStr (te_event_name t)),
       (''workspace_id'', PStr (te_workspace_id t)), (''project_id'', pstr_opt (te_project_id t)),
       (''plan_id'', pstr_opt (te_plan_id t)), (''action_id'', pstr_opt (te_action_id t)),
       (''message'', PStr (te_message t))]
      @ (if trace_detail (te_data t) = [] then [] else [(''detail'', PDict (trace_detail (te_data t)))]))"

text \<open>The logging proxy: the line, then the call on the wrapped store.\<close>

definition logged_append_trace_event ::
  "TraceEvent \<Rightarrow> log_line list \<times> memory_store \<Rightarrow> log_line list \<times> memory_store" where
  "logged_append_trace_event t = (\<lambda>(lines, s). (lines @ [trace_line t], append_trace_event t s))"

definition LEVELS :: "(string, nat) dict" where
  "LEVELS =
     [(''CRITICAL'', 50), (''FATAL'', 50), (''ERROR'', 40), (''WARN'', 30), (''WARNING'', 30),
      (''INFO'', 20), (''DEBUG'', 10), (''NOTSET'', 0)]"

text \<open>\<open>logger.setLevel(level.upper())\<close> refuses a name it does not know.\<close>

definition configure_logging :: "string \<Rightarrow> exn + unit" where
  "configure_logging level =
     (let name = map upper_char level in
      if dget LEVELS name \<noteq> None then Inr () else Inl (ValueError (''Unknown level: '' @ repr_str name)))"

text \<open>
  The lines \<open>logger.log\<close> lets through at a level. A logger without a level of its own takes the
  root logger's, which is \<open>WARNING\<close>.
\<close>

definition shown_lines :: "string \<Rightarrow> log_line list \<Rightarrow> log_line list" where
  "shown_lines level lines =
     (case dget LEVELS (map upper_char level) of
        None \<Rightarrow> []
      | Some n \<Rightarrow> filter (\<lambda>l. (if n = 0 then severity WARNING else n) \<le> severity (fst l)) lines)"

lemma shown_lines_upward:
  assumes "l \<in> set (shown_lines level lines)" and "fst l \<le> fst k" and "k \<in> set lines"
  shows "k \<in> set (shown_lines level lines)"
  using assms by (cases "dget LEVELS (map upper_char level)") (auto simp: shown_lines_def less_eq_log_level_def)

text \<open>Only the two topmost levels silence the line of a failure.\<close>

lemma failures_shown:
  assumes "configure_logging level = Inr ()" and "(ERROR, d) \<in> set lines"
    and "map upper_char level \<notin> {''CRITICAL'', ''FATAL''}"
  shows "(ERROR, d) \<in> set (shown_lines level lines)"
proof -
  obtain n where n: "dget LEVELS (map upper_char level) = Some n"
    using assms(1) by (auto simp: configure_logging_def Let_def split: if_splits)
  then have "n \<le> 40" using assms(3) by (simp add: LEVELS_def split: if_splits)
  with n assms(2) show ?thesis by (simp add: shown_lines_def)
qed

text \<open>The text of a line: \<open>json.dumps(record, default=str, ensure_ascii=False)\<close>.\<close>

definition line_text :: "log_line \<Rightarrow> string" where
  "line_text l = json_dumps_raw (PDict (snd l))"

lemma logging_is_transparent:
  "snd (logged_append_trace_event t (ls, s)) = append_trace_event t s"
  "set (map fst (fst (logged_append_trace_event t ([], s)))) = {if is_failure t then ERROR else INFO}"
  by (simp_all add: logged_append_trace_event_def trace_line_def)


section \<open>The notifier\<close>

definition MAX_CONTENT :: nat where
  "MAX_CONTENT = 1900"

text \<open>\<open>nt_post\<close> is the transport, which may raise; \<open>nt_sent\<close> in the state logs what it was given.\<close>

record notifier =
  nt_webhook_url :: "string option"
  nt_post :: "string \<Rightarrow> string \<Rightarrow> exn + unit"

definition notifier_enabled :: "notifier \<Rightarrow> bool" where
  "notifier_enabled n = opt_truthy (nt_webhook_url n)"

definition notification_body :: "string \<Rightarrow> string" where
  "notification_body content = ''{'' @ json_str ''content'' @ '': '' @ json_str (take MAX_CONTENT content) @ ''}''"

record 's reported =
  rp_inner :: 's
  rp_lines :: "log_line list"
  rp_sent :: "(string \<times> string) list"

definition send :: "notifier \<Rightarrow> string \<Rightarrow> ('s reported, unit) eff" where
  "send n content =
     (case nt_webhook_url n of
        None \<Rightarrow> ret ()
      | Some url \<Rightarrow>
          if url = [] \<or> content = [] then ret ()
          else
            let body = notification_body content in
            eseq (modify (\<lambda>s. s\<lparr>rp_sent := rp_sent s @ [(url, body)]\<rparr>))
              (catch (of_sum (nt_post n url body)) (\<lambda>_. ret ())))"

text \<open>\<open>log_json\<close> never raises.\<close>

definition log_json :: "log_level \<Rightarrow> pydict \<Rightarrow> ('s reported, unit) eff" where
  "log_json level line = modify (\<lambda>s. s\<lparr>rp_lines := rp_lines s @ [(level, line)]\<rparr>)"

definition inner :: "('s, 'a) eff \<Rightarrow> ('s reported, 'a) eff" where
  "inner m = on_part rp_inner rp_inner_update m"

lemma send_never_fails:
  "send n content s = (Inr (), s\<lparr>rp_sent := rp_sent s @
     (if notifier_enabled n \<and> content \<noteq> [] then [(the (nt_webhook_url n), notification_body content)] else [])\<rparr>)"
  by (auto simp: send_def notifier_enabled_def opt_truthy_def Let_def eff_defs
      split: option.split sum.split prod.split)

lemma wp_send [wp_rules]:
  "wp (send n content) Q E s = Q () (s\<lparr>rp_sent := rp_sent s @
     (if notifier_enabled n \<and> content \<noteq> [] then [(the (nt_webhook_url n), notification_body content)] else [])\<rparr>)"
  by (simp add: wp_def send_never_fails)

lemma wp_log_json [wp_rules]:
  "wp (log_json level line) Q E s = Q () (s\<lparr>rp_lines := rp_lines s @ [(level, line)]\<rparr>)"
  by (simp add: log_json_def wp_modify)

lemma wp_inner [wp_rules]:
  "wp (inner m) Q E s = wp m (\<lambda>x i. Q x (s\<lparr>rp_inner := i\<rparr>)) (\<lambda>e i. E e (s\<lparr>rp_inner := i\<rparr>)) (rp_inner s)"
  by (simp add: inner_def wp_def on_part_def split: prod.splits sum.splits)


section \<open>Labels and summaries\<close>

definition EMOJI_WARNING :: string where "EMOJI_WARNING = [CHR 0xA0, CHR 0x0F]"
definition EMOJI_DONE :: string where "EMOJI_DONE = [CHR 0x05]"
definition EMOJI_FAILED :: string where "EMOJI_FAILED = [CHR 0x4C]"
definition BACKTICK :: string where "BACKTICK = [CHR 0x60]"

definition quoted :: "string \<Rightarrow> string" where
  "quoted s = BACKTICK @ s @ BACKTICK"

definition is_feature_provisioning_pointer :: "pydict \<Rightarrow> bool" where
  "is_feature_provisioning_pointer payload \<longleftrightarrow> pget payload ''type'' = PStr ''feature.provisioning.requested''"

definition payload_fields :: "pydict \<Rightarrow> pydict" where
  "payload_fields payload =
     (if is_feature_provisioning_pointer payload then
        [(''event_type'', PStr ''feature.provisioning.requested''),
         (''workspace_id'', por (pget payload ''workspaceId'') (pget payload ''workspace_id'')),
         (''request_id'', pget payload ''requestId'')]
      else
        let event = (case pget payload ''event'' of PDict d \<Rightarrow> d | _ \<Rightarrow> payload) in
        map (\<lambda>k. (k, pget event k)) [''event_type'', ''event_id'', ''workspace_id'', ''correlation_id''])"

definition format_label :: "pyval \<Rightarrow> pyval \<Rightarrow> string" where
  "format_label event_type workspace_id =
     quoted (py_str event_type)
     @ (if truthy workspace_id then [CHR 0x20, CHR 0xB7] @ '' ws '' @ quoted (py_str workspace_id) else [])"

definition payload_label :: "pydict \<Rightarrow> string" where
  "payload_label payload =
     (let fs = payload_fields payload
      in format_label (por (pget fs ''event_type'') (PStr ''unknown'')) (pget fs ''workspace_id''))"

definition completed_tool :: "TraceEvent \<Rightarrow> string option" where
  "completed_tool t =
     (if te_event_name t \<noteq> ''action.completed'' then None
      else case pget (te_data t) ''tool_name'' of
        PStr (c # cs) \<Rightarrow> Some (c # cs)
      | _ \<Rightarrow> None)"

definition completed_tools :: "TraceEvent list \<Rightarrow> string list" where
  "completed_tools traces =
     fold (\<lambda>name tools. if name \<in> set tools then tools else tools @ [name])
       (List.map_filter completed_tool traces) []"

fun trace_run_id :: "TraceEvent list \<Rightarrow> string option" where
  "trace_run_id [] = None"
| "trace_run_id (t # ts) = (if opt_truthy (te_plan_id t) then te_plan_id t else trace_run_id ts)"

definition issue_text :: "TraceEvent \<Rightarrow> string" where
  "issue_text t = te_event_name t @ '': '' @ te_message t"

definition summary_message :: "string \<Rightarrow> TraceEvent list \<Rightarrow> string" where
  "summary_message label traces =
     (let tools = completed_tools traces;
          issues = map issue_text (filter is_failure traces)
      in join nl (
           [(if issues \<noteq> [] then EMOJI_WARNING else EMOJI_DONE) @ '' '' @ label]
           @ (case trace_run_id traces of None \<Rightarrow> [] | Some run_id \<Rightarrow> [''run: '' @ quoted run_id])
           @ [if tools \<noteq> []
              then ''actions('' @ nat_str (length tools) @ ''): '' @ join '', '' tools
              else ''actions: none'']
           @ (if issues \<noteq> []
              then [''issues:'' @ nl @ join nl (map (\<lambda>i. ''- '' @ i) (take 5 issues))] else [])))"

definition failure_message :: "string \<Rightarrow> exn \<Rightarrow> string" where
  "failure_message label exc =
     EMOJI_FAILED @ '' Failed: '' @ label @ nl @ quoted (exn_type_name exc @ '': '' @ exn_str exc)"

lemma completed_tools_distinct: "distinct (completed_tools ts)"
proof -
  have "distinct (fold (\<lambda>name tools. if name \<in> set tools then tools else tools @ [name]) xs acc)"
    if "distinct acc" for xs acc :: "string list"
    using that by (induction xs arbitrary: acc) auto
  then show ?thesis by (simp add: completed_tools_def)
qed

lemma completed_tools_set: "set (completed_tools ts) = set (List.map_filter completed_tool ts)"
proof -
  have "set (fold (\<lambda>name tools. if name \<in> set tools then tools else tools @ [name]) xs acc) = set acc \<union> set xs"
    for xs acc :: "string list"
    by (induction xs arbitrary: acc) auto
  then show ?thesis by (simp add: completed_tools_def)
qed

lemma join_nonempty: "x \<noteq> [] \<Longrightarrow> join sep (x # xs) \<noteq> []"
  by (cases xs) auto

lemma summary_message_nonempty: "summary_message label ts \<noteq> []"
  by (simp add: summary_message_def Let_def join_nonempty EMOJI_WARNING_def EMOJI_DONE_def)

lemma failure_message_nonempty: "failure_message label e \<noteq> []"
  by (simp add: failure_message_def EMOJI_FAILED_def)

end
