(* ===== verification/Container.thy ===== *)
theory Container
  imports Recursion_Runner Prompt_Loading Agent_Tools Oci_Adapters Reporting
begin

text \<open>
  \<open>app/container.py\<close>: how the settings choose the backends and how the parts are wired together. What a
  process has besides its settings is the record \<open>runtime\<close>: the standard library's sources of ids, time
  and text conversions, the API server, the embedding service, the language model, the bucket, the
  prompt directory and the scheduling of thread pools. \<open>build_container\<close> closes the model: the tools,
  the planning agent and the payload store of the resulting \<^typ>\<open>app_env\<close> are the definitions of this
  development.
\<close>

record runtime = io_env +
  rt_environ :: environ
  rt_monotonic_at :: "nat \<Rightarrow> int"
  rt_run_model :: "string \<Rightarrow> string \<Rightarrow> string \<Rightarrow> (io, AgentPlan) eff"
  rt_embed :: "string \<Rightarrow> pydict \<Rightarrow> pyval option"
  rt_schedule :: "api_request list \<Rightarrow> nat \<Rightarrow> nat list"
  rt_bucket :: payload_client
  rt_prompts :: prompt_source

datatype queue_backend = Memory_Backend | Oci_Backend string "string option"

definition build_queue :: "Settings \<Rightarrow> exn + queue_backend" where
  "build_queue s =
     (if st_queue_backend s = ''memory'' then Inr Memory_Backend
      else case st_oci_queue_ocid s of
        Some (c # cs) \<Rightarrow> Inr (Oci_Backend (c # cs) (st_oci_queue_messages_endpoint s))
      | _ \<Rightarrow> Inl (ValueError ''OCI_QUEUE_OCID is required when QUEUE_BACKEND=oci''))"

text \<open>The persistent store: whether it writes memories, and the namespace and bucket if it writes them there.\<close>

datatype store_backend = Memory_Store | Prism_Store bool "(string \<times> string) option"

definition bucket_of :: "Settings \<Rightarrow> (string \<times> string) option" where
  "bucket_of s =
     (if opt_truthy (st_object_storage_namespace s) \<and> opt_truthy (st_object_storage_bucket_name s)
      then Some (the (st_object_storage_namespace s), the (st_object_storage_bucket_name s)) else None)"

definition build_state_store :: "Settings \<Rightarrow> store_backend" where
  "build_state_store s =
     (if st_state_backend s = ''memory'' then Memory_Store
      else Prism_Store (st_persist_agent_memories s) (bucket_of s))"

definition io_part :: "'e io_env_scheme \<Rightarrow> Settings \<Rightarrow> io_env" where
  "io_part R s =
     \<lparr>uuid4_at = uuid4_at R, clock_at = clock_at R, uuid5_of = uuid5_of R, fromisoformat_of = fromisoformat_of R,
      server = server R, base_url = st_prism_api_base_url s, api_token = st_prism_api_token s\<rparr>"

definition tool_env_of :: "runtime \<Rightarrow> Settings \<Rightarrow> tool_env" where
  "tool_env_of R s =
     io_env.extend (io_part R s)
       (tool_env.fields (Some (embedder_of s (rt_embed R))) (rt_schedule R))"

definition llm_env_of :: "runtime \<Rightarrow> Settings \<Rightarrow> llm_env" where
  "llm_env_of R s =
     io_env.extend (io_part R s)
       (llm_env.fields (rt_monotonic_at R) (llm_settings_of (rt_environ R) s) (rt_run_model R))"

text \<open>The planner uses the plan it gets; a missing one would be an \<open>AttributeError\<close>.\<close>

definition planned ::
  "llm_env \<Rightarrow> WorkflowPromptDefinition \<Rightarrow> SkillPromptDefinition list \<Rightarrow> agent_tool list \<Rightarrow> string option
   \<Rightarrow> AgentContext \<Rightarrow> string \<Rightarrow> ActionApprovalPolicy \<Rightarrow> (io, AgentPlan) eff" where
  "planned env prompt skills tools tier context ref approval =
     ebind (generate_plan env prompt skills tools tier context ref approval) (\<lambda>r.
       case r of Some plan \<Rightarrow> ret plan | None \<Rightarrow> raise (no_get PNone))"

record AppContainer =
  ac_settings :: Settings
  ac_queue :: queue_backend
  ac_store :: store_backend
  ac_env :: app_env

text \<open>Loading the registries in the container's order: tools, skills, workflows.\<close>

definition load_registries ::
  "runtime \<Rightarrow> Settings \<Rightarrow> (prompt_registry, tool_registry \<times> skill_registry \<times> workflow_registry) eff" where
  "load_registries R s =
     ebind (list_tools (rt_prompts R)) (\<lambda>tool_definitions.
     ebind (of_sum (runtime_tools (tool_env_of R s) tool_definitions)) (\<lambda>tools.
     ebind (list_skills (rt_prompts R)) (\<lambda>skills.
     ebind (list_workflows (rt_prompts R)) (\<lambda>prompts.
     ebind (of_sum (workflows_from_prompt_registry prompts)) (\<lambda>workflows.
     ret (tools, skills_from_prompt_registry skills, workflows))))))"

definition build_container :: "runtime \<Rightarrow> Settings \<Rightarrow> exn + AppContainer" where
  "build_container R s =
     sbind (build_queue s) (\<lambda>queue.
     sbind (if st_log_traces s then configure_logging (st_log_level s) else Inr ()) (\<lambda>_.
     case load_registries R s new_prompt_registry of
       (Inl e, _) \<Rightarrow> Inl e
     | (Inr (tools, skills, workflows), prompts) \<Rightarrow>
         Inr \<lparr>ac_settings = s, ac_queue = queue, ac_store = build_state_store s,
              ac_env = io_env.extend (io_part R s)
                (app_env.fields (st_state_backend s = ''prism_api'') (pr_workflows prompts) workflows skills tools
                   (planned (llm_env_of R s))
                   (if bucket_of s \<noteq> None then Some (fetch_json (rt_bucket R)) else None)
                   (st_max_recursion_depth s))\<rparr>))"


section \<open>Facts\<close>

text \<open>What a container's parts take from the settings.\<close>

lemma build_container_env:
  assumes "build_container R s = Inr c"
  shows "ac_settings c = s" and "ac_store c = build_state_store s" and "build_queue s = Inr (ac_queue c)"
    and "ae_max_recursion_depth (ac_env c) = st_max_recursion_depth s"
    and "base_url (ac_env c) = st_prism_api_base_url s" and "api_token (ac_env c) = st_prism_api_token s"
    and "ae_sync_enabled (ac_env c) = (st_state_backend s = ''prism_api'')"
    and "registry_ok (ae_workflows (ac_env c))"
  using assms workflows_from_prompt_registry_ok
  by (auto simp: build_container_def sbind_Inr_iff io_env.defs app_env.defs io_part_def load_registries_def
      eff_defs split: prod.splits sum.splits)

text \<open>Every registered tool is one of the fifteen implementations, registered under its own name.\<close>

lemma tools_from_prompt_registry_known:
  assumes "tools_from_prompt_registry impls ds r = Inr tools" and "dget tools name = Some t"
  shows "dget r name = Some t \<or> dget impls name = Some (tool_execute t) \<and> tool_name t = name \<and>
    tp_id (tool_definition t) = name"
  using assms
proof (induction ds arbitrary: r)
  case Nil
  then show ?case by simp
next
  case (Cons d ds)
  then show ?case
    by (auto simp: sbind_Inr_iff new_tool_def register_tool_def update_conv' split: option.splits if_splits
        dest!: Cons.IH)
qed

lemma container_tools:
  assumes "build_container R s = Inr c" and "get_tool (ae_tools (ac_env c)) name = Inr t"
  shows "dget (TOOL_IMPLEMENTATIONS (tool_env_of R s)) name = Some (tool_execute t)" and "tool_name t = name"
  using assms tools_from_prompt_registry_known [of "TOOL_IMPLEMENTATIONS (tool_env_of R s)" _ "[]" _ name t]
  by (auto simp: build_container_def sbind_Inr_iff io_env.defs app_env.defs load_registries_def
      eff_defs runtime_tools_def get_tool_def split: prod.splits sum.splits option.splits)

end
