(* ===== verification/Provisioning.thy ===== *)
theory Provisioning
  imports Domain_Handler Persistent_Store Oci_Adapters
begin

text \<open>
  \<open>domain/feature_provisioning.py\<close> and \<open>application/feature_provisioning_worker.py\<close>: the pointer a
  queue message carries, the payload it refers to, and the worker that turns the pair into a seed event
  and dispatches it once. The fields of the two models are read the way their declarations say (alias
  first, then name; extra keys refused or kept); a refused message is a \<open>ValidationError\<close> with the alias
  of a field at fault. \<open>read_datetime\<close> is pydantic's reader of time stamps. A time stamp inside a payload
  is represented by its ISO text.
\<close>

section \<open>Reading fields\<close>

text \<open>The key under which a field is found: its alias before its name.\<close>

definition field_key :: "pydict \<Rightarrow> string \<times> string \<Rightarrow> string option" where
  "field_key d = (\<lambda>(alias, name). if dhas d alias then Some alias else if dhas d name then Some name else None)"

definition field_val :: "pydict \<Rightarrow> string \<times> string \<Rightarrow> pyval option" where
  "field_val d f = Option.bind (field_key d f) (dget d)"

definition refused :: "string \<times> string \<Rightarrow> exn + 'a" where
  "refused f = Inl (ValidationError (fst f))"

definition str_field :: "pydict \<Rightarrow> string \<times> string \<Rightarrow> exn + string" where
  "str_field d f = (case field_val d f of Some (PStr s) \<Rightarrow> Inr s | _ \<Rightarrow> refused f)"

definition opt_str_field :: "pydict \<Rightarrow> string \<times> string \<Rightarrow> exn + string option" where
  "opt_str_field d f =
     (case field_val d f of
        None \<Rightarrow> Inr None
      | Some PNone \<Rightarrow> Inr None
      | Some (PStr s) \<Rightarrow> Inr (Some s)
      | Some _ \<Rightarrow> refused f)"

definition literal_field :: "string \<Rightarrow> pydict \<Rightarrow> string \<times> string \<Rightarrow> exn + string" where
  "literal_field s d f = (if field_val d f = Some (PStr s) then Inr s else refused f)"

definition opt_dict_field :: "pydict \<Rightarrow> string \<times> string \<Rightarrow> exn + pydict option" where
  "opt_dict_field d f =
     (case field_val d f of
        None \<Rightarrow> Inr None
      | Some PNone \<Rightarrow> Inr None
      | Some (PDict x) \<Rightarrow> Inr (Some x)
      | Some _ \<Rightarrow> refused f)"

definition as_dict :: "pyval \<Rightarrow> pydict option" where
  "as_dict v = (case v of PDict d \<Rightarrow> Some d | _ \<Rightarrow> None)"

definition dict_list_field :: "pydict \<Rightarrow> string \<times> string \<Rightarrow> exn + pydict list" where
  "dict_list_field d f =
     (case field_val d f of
        None \<Rightarrow> Inr []
      | Some (PList xs) \<Rightarrow>
          if list_all (\<lambda>x. as_dict x \<noteq> None) xs then Inr (List.map_filter as_dict xs) else refused f
      | Some _ \<Rightarrow> refused f)"

definition used_keys :: "pydict \<Rightarrow> (string \<times> string) list \<Rightarrow> string list" where
  "used_keys d fs = List.map_filter (field_key d) fs"

definition extra_keys :: "pydict \<Rightarrow> (string \<times> string) list \<Rightarrow> pydict" where
  "extra_keys d fs = filter (\<lambda>(k, v). k \<notin> set (used_keys d fs)) d"


section \<open>The pointer\<close>

record FeatureProvisioningPointerEvent =
  fp_request_id :: string
  fp_agent_run_id :: "string option"
  fp_payload_id :: "string option"
  fp_payload_object_name :: string
  fp_payload_version_id :: "string option"
  fp_workspace_id :: string
  fp_project_id :: string
  fp_requested_by_user_id :: "string option"
  fp_requested_at :: "datetime option"

definition POINTER_TYPE :: string where
  "POINTER_TYPE = ''feature.provisioning.requested''"

definition POINTER_FIELDS :: "(string \<times> string) list" where
  "POINTER_FIELDS =
     [(''type'', ''type''), (''version'', ''version''), (''requestId'', ''request_id''),
      (''agentRunId'', ''agent_run_id''), (''payloadId'', ''payload_id''),
      (''payloadObjectName'', ''payload_object_name''), (''payloadVersionId'', ''payload_version_id''),
      (''workspaceId'', ''workspace_id''), (''projectId'', ''project_id''),
      (''requestedByUserId'', ''requested_by_user_id''), (''requestedAt'', ''requested_at'')]"

definition requested_at_field :: "(pyval \<Rightarrow> datetime option) \<Rightarrow> pydict \<Rightarrow> exn + datetime option" where
  "requested_at_field read_datetime d =
     (let f = (''requestedAt'', ''requested_at'') in
      case field_val d f of
        None \<Rightarrow> Inr None
      | Some PNone \<Rightarrow> Inr None
      | Some v \<Rightarrow> (case read_datetime v of None \<Rightarrow> refused f | Some t \<Rightarrow> Inr (Some t)))"

definition validate_pointer ::
  "(pyval \<Rightarrow> datetime option) \<Rightarrow> pydict \<Rightarrow> exn + FeatureProvisioningPointerEvent" where
  "validate_pointer read_datetime d =
     sbind (literal_field POINTER_TYPE d (''type'', ''type'')) (\<lambda>_.
     sbind (literal_field ''1.0'' d (''version'', ''version'')) (\<lambda>_.
     sbind (str_field d (''requestId'', ''request_id'')) (\<lambda>request_id.
     sbind (opt_str_field d (''agentRunId'', ''agent_run_id'')) (\<lambda>agent_run_id.
     sbind (opt_str_field d (''payloadId'', ''payload_id'')) (\<lambda>payload_id.
     sbind (str_field d (''payloadObjectName'', ''payload_object_name'')) (\<lambda>object_name.
     sbind (opt_str_field d (''payloadVersionId'', ''payload_version_id'')) (\<lambda>version_id.
     sbind (str_field d (''workspaceId'', ''workspace_id'')) (\<lambda>workspace_id.
     sbind (str_field d (''projectId'', ''project_id'')) (\<lambda>project_id.
     sbind (opt_str_field d (''requestedByUserId'', ''requested_by_user_id'')) (\<lambda>user_id.
     sbind (requested_at_field read_datetime d) (\<lambda>requested_at.
     case extra_keys d POINTER_FIELDS of
       (k, v) # _ \<Rightarrow> Inl (ValidationError k)
     | [] \<Rightarrow>
         Inr \<lparr>fp_request_id = request_id, fp_agent_run_id = agent_run_id, fp_payload_id = payload_id,
              fp_payload_object_name = object_name, fp_payload_version_id = version_id,
              fp_workspace_id = workspace_id, fp_project_id = project_id,
              fp_requested_by_user_id = user_id, fp_requested_at = requested_at\<rparr>)))))))))))"

definition worker_idempotency_key :: "FeatureProvisioningPointerEvent \<Rightarrow> string" where
  "worker_idempotency_key p = ''feature_provisioning:'' @ fp_request_id p"

definition opt_entry :: "string \<Rightarrow> string option \<Rightarrow> pydict" where
  "opt_entry k v = (case v of None \<Rightarrow> [] | Some s \<Rightarrow> [(k, PStr s)])"

text \<open>\<open>pointer.model_dump(by_alias=True, exclude_none=True)\<close>\<close>

definition dump_pointer :: "FeatureProvisioningPointerEvent \<Rightarrow> pydict" where
  "dump_pointer p =
     [(''type'', PStr POINTER_TYPE), (''version'', PStr ''1.0''), (''requestId'', PStr (fp_request_id p))]
     @ opt_entry ''agentRunId'' (fp_agent_run_id p)
     @ opt_entry ''payloadId'' (fp_payload_id p)
     @ [(''payloadObjectName'', PStr (fp_payload_object_name p))]
     @ opt_entry ''payloadVersionId'' (fp_payload_version_id p)
     @ [(''workspaceId'', PStr (fp_workspace_id p)), (''projectId'', PStr (fp_project_id p))]
     @ opt_entry ''requestedByUserId'' (fp_requested_by_user_id p)
     @ opt_entry ''requestedAt'' (map_option isoformat (fp_requested_at p))"


section \<open>The payload\<close>

record FeatureProvisioningPayload =
  pl_request_id :: "string option"
  pl_workspace_id :: "string option"
  pl_project_id :: "string option"
  pl_feature_specification :: pyval
  pl_workspace :: "pydict option"
  pl_project :: "pydict option"
  pl_workspace_members :: "pydict list"
  pl_extra :: pydict

definition PAYLOAD_FIELDS :: "(string \<times> string) list" where
  "PAYLOAD_FIELDS =
     [(''requestId'', ''request_id''), (''workspaceId'', ''workspace_id''), (''projectId'', ''project_id''),
      (''featureSpecification'', ''feature_specification''), (''workspace'', ''workspace''),
      (''project'', ''project''), (''workspaceMembers'', ''workspace_members'')]"

definition validate_payload :: "pydict \<Rightarrow> exn + FeatureProvisioningPayload" where
  "validate_payload d =
     sbind (opt_str_field d (''requestId'', ''request_id'')) (\<lambda>request_id.
     sbind (opt_str_field d (''workspaceId'', ''workspace_id'')) (\<lambda>workspace_id.
     sbind (opt_str_field d (''projectId'', ''project_id'')) (\<lambda>project_id.
     sbind (opt_dict_field d (''workspace'', ''workspace'')) (\<lambda>workspace.
     sbind (opt_dict_field d (''project'', ''project'')) (\<lambda>project.
     sbind (dict_list_field d (''workspaceMembers'', ''workspace_members'')) (\<lambda>members.
     Inr \<lparr>pl_request_id = request_id, pl_workspace_id = workspace_id, pl_project_id = project_id,
          pl_feature_specification =
            (case field_val d (''featureSpecification'', ''feature_specification'') of Some v \<Rightarrow> v | None \<Rightarrow> PNone),
          pl_workspace = workspace, pl_project = project, pl_workspace_members = members,
          pl_extra = extra_keys d PAYLOAD_FIELDS\<rparr>))))))"

definition not_none :: "string \<times> pyval \<Rightarrow> bool" where
  "not_none e \<longleftrightarrow> snd e \<noteq> PNone"

text \<open>\<open>self.model_dump(by_alias=True, exclude_none=True)\<close>: the fields, then the extra keys.\<close>

definition dump_payload :: "FeatureProvisioningPayload \<Rightarrow> pydict" where
  "dump_payload p =
     dmerge
       (opt_entry ''requestId'' (pl_request_id p)
        @ opt_entry ''workspaceId'' (pl_workspace_id p)
        @ opt_entry ''projectId'' (pl_project_id p)
        @ filter not_none [(''featureSpecification'', pl_feature_specification p)]
        @ (case pl_workspace p of None \<Rightarrow> [] | Some d \<Rightarrow> [(''workspace'', PDict d)])
        @ (case pl_project p of None \<Rightarrow> [] | Some d \<Rightarrow> [(''project'', PDict d)])
        @ [(''workspaceMembers'', PList (map PDict (pl_workspace_members p)))])
       (filter not_none (pl_extra p))"

datatype identity_path = Top string | Nested string string

fun path_value :: "pydict \<Rightarrow> pydict \<Rightarrow> identity_path \<Rightarrow> pyval option" where
  "path_value data extra (Top k) =
     (case dget data k of Some v \<Rightarrow> Some v | None \<Rightarrow> dget extra k)"
| "path_value data extra (Nested parent k) =
     (case por (pget data parent) (pget extra parent) of PDict c \<Rightarrow> dget c k | _ \<Rightarrow> None)"

fun first_path :: "pydict \<Rightarrow> pydict \<Rightarrow> identity_path list \<Rightarrow> pyval" where
  "first_path data extra [] = PNone"
| "first_path data extra (p # ps) =
     (case path_value data extra p of Some v \<Rightarrow> v | None \<Rightarrow> first_path data extra ps)"

definition first_present :: "FeatureProvisioningPayload \<Rightarrow> identity_path list \<Rightarrow> pyval" where
  "first_present p paths = first_path (dump_payload p) (pl_extra p) paths"

definition actual_identity :: "FeatureProvisioningPayload \<Rightarrow> pydict" where
  "actual_identity p =
     [(''requestId'', first_present p [Top ''requestId'', Top ''request_id'']),
      (''workspaceId'', first_present p [Top ''workspaceId'', Top ''workspace_id'',
         Nested ''workspace'' ''workspaceId'', Nested ''workspace'' ''id'']),
      (''projectId'', first_present p [Top ''projectId'', Top ''project_id'',
         Nested ''project'' ''projectId'', Nested ''project'' ''id''])]"

definition expected_identity :: "FeatureProvisioningPointerEvent \<Rightarrow> (string, string) dict" where
  "expected_identity pointer =
     [(''requestId'', fp_request_id pointer), (''workspaceId'', fp_workspace_id pointer),
      (''projectId'', fp_project_id pointer)]"

definition has_specification :: "FeatureProvisioningPayload \<Rightarrow> bool" where
  "has_specification p = (case pl_feature_specification p of PStr s \<Rightarrow> strip s \<noteq> [] | _ \<Rightarrow> False)"

text \<open>The missing fields in sorted order, and the mismatches in the order of the expected fields.\<close>

definition missing_identity :: "FeatureProvisioningPayload \<Rightarrow> string list" where
  "missing_identity p =
     filter (\<lambda>f. pget (actual_identity p) f = PNone) [''projectId'', ''requestId'', ''workspaceId'']"

definition identity_mismatches ::
  "FeatureProvisioningPointerEvent \<Rightarrow> FeatureProvisioningPayload \<Rightarrow> pydict" where
  "identity_mismatches pointer p =
     List.map_filter (\<lambda>(f, e).
       let a = pget (actual_identity p) f in
       if py_str a \<noteq> e then Some (f, PDict [(''pointer'', PStr e), (''payload'', a)]) else None)
       (expected_identity pointer)"

definition validate_matches ::
  "FeatureProvisioningPointerEvent \<Rightarrow> FeatureProvisioningPayload \<Rightarrow> exn + unit" where
  "validate_matches pointer p =
     (if \<not> has_specification p then
        Inl (ValueError ''Feature provisioning payload missing featureSpecification.'')
      else if missing_identity p \<noteq> [] then
        Inl (ValueError (''Feature provisioning payload missing identity fields: ''
          @ py_repr (PList (map PStr (missing_identity p)))))
      else if identity_mismatches pointer p \<noteq> [] then
        Inl (ValueError (''Feature provisioning payload does not match pointer: ''
          @ py_repr (PDict (identity_mismatches pointer p))))
      else Inr ())"

definition event_payload ::
  "FeatureProvisioningPointerEvent \<Rightarrow> FeatureProvisioningPayload \<Rightarrow> pydict" where
  "event_payload pointer p =
     (let payload = dset ''queue_pointer'' (PDict (dump_pointer pointer))
            (dset ''workspace_members'' (PList (map PDict (pl_workspace_members p)))
            (dset ''feature_specification'' (pl_feature_specification p) (dump_payload p)))
      in if opt_truthy (fp_agent_run_id pointer)
         then dset ''agentRunId'' (pstr_opt (fp_agent_run_id pointer)) payload else payload)"

definition to_domain_event ::
  "'e io_env_scheme \<Rightarrow> FeatureProvisioningPayload \<Rightarrow> FeatureProvisioningPointerEvent
   \<Rightarrow> (io, RuntimeEvent) eff" where
  "to_domain_event env p pointer =
     ebind (case fp_requested_at pointer of Some t \<Rightarrow> ret t | None \<Rightarrow> utc_now env) (\<lambda>occurred_at.
     ebind (uuid4 env) (\<lambda>eid.
     ret \<lparr>ev_class = DomainEvent, ev_event_id = eid, ev_event_type = POINTER_TYPE,
          ev_workspace_id = fp_workspace_id pointer, ev_project_id = Some (fp_project_id pointer),
          ev_payload = event_payload pointer p, ev_occurred_at = occurred_at,
          ev_correlation_id = Some (fp_request_id pointer), ev_causality = empty_causality,
          ev_idempotency_key = Some (fp_request_id pointer)\<rparr>))"

definition resolve_seed_event ::
  "'e io_env_scheme \<Rightarrow> payload_fetch \<Rightarrow> FeatureProvisioningPointerEvent \<Rightarrow> (io, RuntimeEvent) eff" where
  "resolve_seed_event env fetch pointer =
     ebind (of_sum (fetch (PStr (fp_payload_object_name pointer)) (pstr_opt (fp_payload_version_id pointer)))) (\<lambda>payload_data.
     ebind (of_sum (validate_payload payload_data)) (\<lambda>payload.
     eseq (of_sum (validate_matches pointer payload))
       (to_domain_event env payload pointer)))"


section \<open>The worker\<close>

record FeatureProvisioningResult =
  fr_request_id :: string
  fr_event_id :: "string option"
  fr_duplicate :: bool

text \<open>
  \<open>_check_idempotency_key\<close> and \<open>_record_idempotency_key\<close> (workspace, key, run) on the two kinds of
  store: the persistent one has the workspace-scoped operations, the memory one only the plain ones.
\<close>

record 's key_store =
  ks_check :: "string \<Rightarrow> string \<Rightarrow> string \<Rightarrow> ('s, bool) eff"
  ks_record :: "string \<Rightarrow> string \<Rightarrow> string \<Rightarrow> ('s, unit) eff"

definition memory_keys :: "world key_store" where
  "memory_keys =
     \<lparr>ks_check = (\<lambda>workspace_id key run_id. store_get (check_idempotency_key key)),
      ks_record = (\<lambda>workspace_id key run_id. store_do (record_idempotency_key key))\<rparr>"

definition prism_keys :: "'r persistence \<Rightarrow> 'r prism_store key_store" where
  "prism_keys P =
     \<lparr>ks_check = (\<lambda>workspace_id key run_id. check_workspace_idempotency_key P workspace_id key (Some run_id)),
      ks_record = (\<lambda>workspace_id key run_id. record_workspace_idempotency_key P workspace_id key (Some run_id))\<rparr>"

text \<open>
  The worker's collaborators: the keys, the payload store, and the two things it does with the rest of
  the state, draw the seed event from the clock and the identifiers, and wrap and handle it.
\<close>

record 's provisioning_worker =
  fw_keys :: "'s key_store"
  fw_seed :: "FeatureProvisioningPointerEvent \<Rightarrow> ('s, RuntimeEvent) eff"
  fw_dispatch :: "RuntimeEvent \<Rightarrow> ('s, unit) eff"

definition pointer_run_id :: "FeatureProvisioningPointerEvent \<Rightarrow> string" where
  "pointer_run_id p = str_or (fp_agent_run_id p) (fp_request_id p)"

definition handle_pointer ::
  "(pyval \<Rightarrow> datetime option) \<Rightarrow> 's provisioning_worker \<Rightarrow> pydict \<Rightarrow> ('s, FeatureProvisioningResult) eff" where
  "handle_pointer read_datetime W content =
     ebind (of_sum (validate_pointer read_datetime content)) (\<lambda>pointer.
     let key = worker_idempotency_key pointer; run_id = pointer_run_id pointer;
         ws = fp_workspace_id pointer in
     ebind (ks_check (fw_keys W) ws key run_id) (\<lambda>known.
     if known then
       ret \<lparr>fr_request_id = fp_request_id pointer, fr_event_id = None, fr_duplicate = True\<rparr>
     else
     ebind (fw_seed W pointer) (\<lambda>event.
     eseq (fw_dispatch W event)
     (eseq (ks_record (fw_keys W) ws key run_id)
       (ret \<lparr>fr_request_id = fp_request_id pointer, fr_event_id = Some (ev_event_id event),
             fr_duplicate = False\<rparr>)))))"

definition world_worker :: "app_env \<Rightarrow> payload_fetch \<Rightarrow> world provisioning_worker" where
  "world_worker env fetch =
     \<lparr>fw_keys = memory_keys,
      fw_seed = (\<lambda>pointer. io_do (resolve_seed_event env fetch pointer)),
      fw_dispatch = (\<lambda>event. ebind (io_do (wrap env event)) (handle_trigger env))\<rparr>"


section \<open>What the worker needs of a store\<close>

text \<open>
  A key once recorded is known, a known key is found without touching the state, and a key found is
  known. Both stores give this.
\<close>

locale idempotency_keys =
  fixes keys :: "'s key_store" and known :: "'s \<Rightarrow> string \<Rightarrow> bool"
  assumes record_known: "wp (ks_record keys ws k r) (\<lambda>_ s'. known s' k) (\<lambda>_ s'. known s' k) s"
    and check_known: "known s k \<Longrightarrow> ks_check keys ws k r s = (Inr True, s)"
    and check_sound: "wp (ks_check keys ws k r) (\<lambda>b s'. b \<longrightarrow> known s' k) (\<lambda>_ _. True) s"
begin

lemma settled_pointer_known:
  assumes W: "fw_keys W = keys" and pointer: "validate_pointer rd content = Inr pointer"
  shows "wp (handle_pointer rd W content) (\<lambda>_ s'. known s' (worker_idempotency_key pointer)) (\<lambda>_ _. True) s"
proof -
  have recorded: "wp (eseq (ks_record keys ws k r) (ret y)) (\<lambda>_ s'. known s' k) (\<lambda>_ _. True) s" for ws k r y s
    by (simp add: wp_rules) (rule wp_mono [OF record_known], simp_all add: wp_ret)
  have dispatched: "wp (eseq (fw_dispatch W event) (eseq (ks_record keys ws k r) (ret y)))
      (\<lambda>_ s'. known s' k) (\<lambda>_ _. True) s" for event ws k r y s
    unfolding wp_eseq [of "fw_dispatch W event"] by (rule wp_mono [OF wp_True recorded]) simp
  have seeded: "wp (ebind (fw_seed W pointer) (\<lambda>event. eseq (fw_dispatch W event) (eseq (ks_record keys ws k r) (ret (y event)))))
      (\<lambda>_ s'. known s' k) (\<lambda>_ _. True) s" for ws k r y s
    unfolding wp_ebind by (rule wp_mono [OF wp_True dispatched]) simp
  show ?thesis
    unfolding handle_pointer_def pointer W Let_def wp_ebind [of "of_sum _"] wp_of_sum sum.case
      wp_ebind [of "ks_check _ _ _ _"]
    by (rule wp_mono [OF check_sound]) (simp_all add: wp_ret seeded)
qed

lemma known_pointer_skipped:
  assumes W: "fw_keys W = keys" and pointer: "validate_pointer rd content = Inr pointer"
    and "known s (worker_idempotency_key pointer)"
  shows "handle_pointer rd W content s =
    (Inr \<lparr>fr_request_id = fp_request_id pointer, fr_event_id = None, fr_duplicate = True\<rparr>, s)"
  using assms check_known by (simp add: handle_pointer_def Let_def eff_defs)

end

definition memory_knows :: "world \<Rightarrow> string \<Rightarrow> bool" where
  "memory_knows w k \<longleftrightarrow> k \<in> ms_idempotency_keys (w_store w)"

definition prism_knows :: "'r prism_store \<Rightarrow> string \<Rightarrow> bool" where
  "prism_knows s k \<longleftrightarrow> k \<in> ms_idempotency_keys (ps_fallback s)"

lemma persist_idempotency_key_frame: "preserves (persist_idempotency_key P ws run key) ps_fallback"
  unfolding persist_idempotency_key_def persist_state_memory_def Let_def
  by (intro pres) (simp add: preserves_def on_backend_def on_part_def split: prod.splits)

interpretation memory_key_store: idempotency_keys memory_keys memory_knows
proof
  fix s ws k r
  show "wp (ks_record memory_keys ws k r) (\<lambda>_ s'. memory_knows s' k) (\<lambda>_ s'. memory_knows s' k) s"
    by (simp add: memory_keys_def memory_knows_def wp_rules record_idempotency_key_def)
  show "wp (ks_check memory_keys ws k r) (\<lambda>b s'. b \<longrightarrow> memory_knows s' k) (\<lambda>_ _. True) s"
    by (simp add: memory_keys_def memory_knows_def wp_rules check_idempotency_key_def)
qed (simp add: memory_keys_def memory_knows_def store_get_def gets_def check_idempotency_key_def)

interpretation prism_key_store: idempotency_keys "prism_keys P" prism_knows for P :: "'r persistence"
proof
  fix s :: "'r prism_store" and ws k r
  let ?put = "case candidate_run_id (Some r) k of None \<Rightarrow> ret () | Some c \<Rightarrow> persist_idempotency_key P ws c k"
  have "preserves ?put ps_fallback"
    by (intro pres persist_idempotency_key_frame)
  then have put: "wp ?put (\<lambda>_ s'. prism_knows s' k) (\<lambda>_ s'. prism_knows s' k) t" if "prism_knows t k" for t
    using that unfolding wp_iff_snd prism_knows_def by (simp add: preserves_def)
  have "prism_knows (s\<lparr>ps_fallback := record_idempotency_key k (ps_fallback s)\<rparr>) k"
    by (simp add: prism_knows_def record_idempotency_key_def)
  with put show "wp (ks_record (prism_keys P) ws k r) (\<lambda>_ s'. prism_knows s' k) (\<lambda>_ s'. prism_knows s' k) s"
    unfolding prism_keys_def record_workspace_idempotency_key_def fallback_do_def
    by (simp add: wp_eseq wp_modify)
  have found: "wp (fallback_get (check_idempotency_key k)) (\<lambda>b s'. b \<longrightarrow> prism_knows s' k) (\<lambda>_ _. True) t" for t
    by (simp add: fallback_get_def wp_gets prism_knows_def check_idempotency_key_def)
  have restored: "wp (eseq m (fallback_get (check_idempotency_key k))) (\<lambda>b s'. b \<longrightarrow> prism_knows s' k) (\<lambda>_ _. True) t"
    for m t unfolding wp_eseq by (rule wp_mono [OF wp_True found]) simp
  show "wp (ks_check (prism_keys P) ws k r) (\<lambda>b s'. b \<longrightarrow> prism_knows s' k) (\<lambda>_ _. True) s"
    unfolding prism_keys_def check_workspace_idempotency_key_def
    by (simp add: wp_ebind, rule wp_mono [OF found])
      (auto simp: wp_ret restored split: option.split)
qed (simp add: prism_keys_def prism_knows_def check_workspace_idempotency_key_def fallback_get_def
    check_idempotency_key_def eff_defs)

end
