(* ===== verification/Function_Entry.thy ===== *)
theory Function_Entry
  imports Container Provisioning
begin

text \<open>
  \<open>interfaces/oci_function_entry.py\<close>: one invocation of the deployed function. The message is unpacked,
  its event dispatched to the handler of its class (or a provisioning pointer to the worker), and the
  outcome logged and announced. The validation of an \<open>EventEnvelope\<close> by its pydantic model and the reader
  of time stamps are parameters. Bytes and text are identified.
\<close>

record entry_env =
  fe_runtime :: runtime
  fe_validate_envelope :: "pydict \<Rightarrow> exn + EventEnvelope"
  fe_read_datetime :: "pyval \<Rightarrow> datetime option"
  fe_post :: "string \<Rightarrow> string \<Rightarrow> exn + unit"


section \<open>Unpacking the message\<close>

datatype invocation_data = Raw_Bytes string | Raw_Text string | Decoded pyval

definition json_loads_or_raise :: "string \<Rightarrow> exn + pyval" where
  "json_loads_or_raise s = (case json_loads s of Some v \<Rightarrow> Inr v | None \<Rightarrow> Inl JSONDecodeError)"

fun decode_payload :: "invocation_data \<Rightarrow> exn + pyval" where
  "decode_payload (Raw_Bytes b) = json_loads_or_raise b"
| "decode_payload (Raw_Text t) = json_loads_or_raise t"
| "decode_payload (Decoded v) = Inr v"

fun raw_preview :: "invocation_data \<Rightarrow> string" where
  "raw_preview (Raw_Bytes b) = take 500 b"
| "raw_preview (Raw_Text t) = take 500 t"
| "raw_preview (Decoded v) = take 500 (py_repr v)"

definition single_message :: "pyval list \<Rightarrow> exn + pyval" where
  "single_message messages =
     (case messages of
        [m] \<Rightarrow> Inr m
      | _ \<Rightarrow> Inl (ValueError (''OCI trigger delivered '' @ nat_str (length messages)
          @ '' messages; this function processes exactly one event per invocation. ''
          @ ''Configure the connector/queue batch size to 1.'')))"

fun content_under :: "string list \<Rightarrow> pydict \<Rightarrow> exn + pydict" where
  "content_under [] payload = Inr payload"
| "content_under (k # ks) payload =
     (case pget payload k of
        PStr s \<Rightarrow>
          sbind (json_loads_or_raise s) (\<lambda>decoded. case decoded of
            PDict d \<Rightarrow> Inr d
          | _ \<Rightarrow> Inl (ValueError (''Queue message '' @ k @ '' must decode to a JSON object.'')))
      | PDict d \<Rightarrow> Inr d
      | _ \<Rightarrow> content_under ks payload)"

text \<open>A batch is a list or an object with a list of \<open>messages\<close>, possibly nested.\<close>

lemma size_pget_list: "pget d k = PList xs \<Longrightarrow> size (PList xs) < size (PDict d)"
proof (induction d)
  case (Cons e d)
  then show ?case by (cases e) (auto simp: pget_def split: if_splits)
qed (simp add: pget_def)

lemma single_message_Inr: "single_message ms = Inr m \<longleftrightarrow> ms = [m]"
  by (auto simp: single_message_def split: list.splits)

function queue_message_content :: "pyval \<Rightarrow> exn + pydict" where
  "queue_message_content payload =
     (case payload of
        PList messages \<Rightarrow>
          (case single_message messages of Inl e \<Rightarrow> Inl e | Inr m \<Rightarrow> queue_message_content m)
      | PDict d \<Rightarrow>
          (case pget d ''messages'' of
             PList messages \<Rightarrow>
               (case single_message messages of Inl e \<Rightarrow> Inl e | Inr m \<Rightarrow> queue_message_content m)
           | _ \<Rightarrow> content_under [''content'', ''body'', ''message''] d)
      | v \<Rightarrow> Inl (ValueError (''Unexpected queue payload type: '' @ py_type_name v)))"
  by pat_completeness auto
termination
proof (relation "measure size", goal_cases)
  case (2 payload ms m)
  then show ?case by (simp add: single_message_Inr)
next
  case (3 payload d ms m)
  then show ?case using size_pget_list [of d _ ms] by (fastforce simp: single_message_Inr)
qed simp

declare queue_message_content.simps [simp del]


section \<open>Processing\<close>

text \<open>The result of an invocation, with the traces its store has by then.\<close>

definition response :: "pydict \<Rightarrow> (world, pydict \<times> TraceEvent list) eff" where
  "response result = gets (\<lambda>w. (result, ms_traces (w_store w)))"

definition handle_feature_provisioning_pointer ::
  "entry_env \<Rightarrow> Settings \<Rightarrow> pydict \<Rightarrow> (world, pydict \<times> TraceEvent list) eff" where
  "handle_feature_provisioning_pointer F settings payload =
     ebind (of_sum (object_storage_payload_store (st_object_storage_namespace settings)
              (st_object_storage_bucket_name settings) (rt_bucket (fe_runtime F)))) (\<lambda>payload_store.
     ebind (of_sum (build_container (fe_runtime F) settings)) (\<lambda>c.
     ebind (handle_pointer (fe_read_datetime F) (world_worker (ac_env c) (fetch_json payload_store)) payload)
       (\<lambda>result.
     response
       [(''ok'', PBool True), (''event_id'', pstr_opt (fr_event_id result)),
        (''event_type'', PStr ''feature.provisioning.requested''),
        (''request_id'', PStr (fr_request_id result)), (''duplicate'', PBool (fr_duplicate result))])))"

definition process_envelope :: "app_env \<Rightarrow> EventEnvelope \<Rightarrow> (world, pydict \<times> TraceEvent list) eff" where
  "process_envelope env envelope =
     (let event_id = PStr (en_event_id envelope);
          event_type = PStr (ev_event_type (en_event envelope)) in
      if exceeds_max_depth env (en_event envelope) 0 then
        eseq (record_max_depth_failure env (en_event envelope))
          (response
             [(''ok'', PBool False), (''event_id'', event_id), (''event_type'', event_type),
              (''reason'', PStr ''max_recursion_depth_exceeded'')])
      else
        eseq (dispatch env envelope)
          (response [(''ok'', PBool True), (''event_id'', event_id), (''event_type'', event_type)]))"

definition process_payload :: "entry_env \<Rightarrow> Settings \<Rightarrow> pydict \<Rightarrow> (world, pydict \<times> TraceEvent list) eff" where
  "process_payload F settings payload =
     (if is_feature_provisioning_pointer payload then handle_feature_provisioning_pointer F settings payload
      else
        ebind (of_sum (fe_validate_envelope F payload)) (\<lambda>envelope.
        ebind (of_sum (build_container (fe_runtime F) settings)) (\<lambda>c.
        process_envelope (ac_env c) envelope)))"


section \<open>The invocation\<close>

text \<open>The branch of \<open>except Exception\<close>: log, announce, raise again.\<close>

definition report_failure ::
  "notifier \<Rightarrow> invocation_data \<Rightarrow> string \<Rightarrow> pydict \<Rightarrow> exn \<Rightarrow> (world reported, pydict) eff" where
  "report_failure n data label payload exc =
     eseq (log_json ERROR
       (dmerge [(''log'', PStr ''invocation.error''), (''error_type'', PStr (exn_type_name exc)),
                (''error'', PStr (exn_str exc)), (''raw_payload_preview'', PStr (raw_preview data))]
          (payload_fields payload)))
     (eseq (send n (failure_message label exc)) (raise exc))"

definition report_success ::
  "notifier \<Rightarrow> string \<Rightarrow> pydict \<Rightarrow> pydict \<Rightarrow> TraceEvent list \<Rightarrow> (world reported, pydict) eff" where
  "report_success n label payload result traces =
     eseq (log_json INFO
       (dmerge [(''log'', PStr ''invocation.end''), (''ok'', pget result ''ok''),
                (''run_id'', pstr_opt (trace_run_id traces)),
                (''actions'', PList (map PStr (completed_tools traces))),
                (''issues'', PInt (int (length (filter is_failure traces))))]
          (payload_fields payload)))
     (eseq (send n (summary_message label traces)) (ret result))"

definition handler :: "entry_env \<Rightarrow> invocation_data \<Rightarrow> (world reported, pydict) eff" where
  "handler F data =
     ebind (of_sum (from_env (rt_environ (fe_runtime F)))) (\<lambda>settings.
     eseq (of_sum (configure_logging (st_log_level settings)))
     (let n = \<lparr>nt_webhook_url = st_discord_webhook_url settings, nt_post = fe_post F\<rparr> in
      case sbind (decode_payload data) queue_message_content of
        Inl exc \<Rightarrow> report_failure n data ''unknown'' [] exc
      | Inr payload \<Rightarrow>
          let label = payload_label payload in
          eseq (log_json INFO (dmerge [(''log'', PStr ''invocation.start'')] (payload_fields payload)))
          (ebind (attempted (inner (process_payload F settings payload))) (\<lambda>r.
           case r of
             Inl exc \<Rightarrow> report_failure n data label payload exc
           | Inr (result, traces) \<Rightarrow> report_success n label payload result traces))))"


section \<open>Facts\<close>

lemma queue_message_content_simps [simp]:
  "queue_message_content (PList [m]) = queue_message_content m"
  "pget d ''messages'' = PList [m] \<Longrightarrow> queue_message_content (PDict d) = queue_message_content m"
  by (subst queue_message_content.simps; simp add: single_message_def)+

lemma batch_refused:
  assumes "length ms \<noteq> 1"
  shows "queue_message_content (PList ms) =
      Inl (ValueError (''OCI trigger delivered '' @ nat_str (length ms)
        @ '' messages; this function processes exactly one event per invocation. ''
        @ ''Configure the connector/queue batch size to 1.''))"
    and "pget d ''messages'' = PList ms \<Longrightarrow> queue_message_content (PDict d) = queue_message_content (PList ms)"
proof -
  have "single_message ms =
      Inl (ValueError (''OCI trigger delivered '' @ nat_str (length ms)
        @ '' messages; this function processes exactly one event per invocation. ''
        @ ''Configure the connector/queue batch size to 1.''))"
    using assms by (auto simp: single_message_def split: list.splits)
  then show "queue_message_content (PList ms) =
      Inl (ValueError (''OCI trigger delivered '' @ nat_str (length ms)
        @ '' messages; this function processes exactly one event per invocation. ''
        @ ''Configure the connector/queue batch size to 1.''))"
    by (subst queue_message_content.simps) simp
  show "queue_message_content (PDict d) = queue_message_content (PList ms)" if "pget d ''messages'' = PList ms"
    using that by (subst (1 2) queue_message_content.simps) simp
qed

end
