(* ===== verification/Local_CLI.thy ===== *)
theory Local_CLI
  imports Function_Entry
begin

text \<open>
  \<open>interfaces/test_commands.py\<close>, \<open>interfaces/local_entry.py\<close> and \<open>interfaces/cli.py\<close>: the commands a
  developer runs. The parsed arguments are the record \<open>cli_args\<close> (argparse itself is outside the model);
  the file system is a function from paths to texts, as \<open>read_text\<close> returns them. What is printed is
  collected line by line, what is published to an OCI queue envelope by envelope.
\<close>

record cli_args =
  ar_input_path :: "string option"
  ar_feature_provision :: bool
  ar_payload_file :: "string option"
  ar_live :: bool
  ar_offline :: bool
  ar_env_file :: string
  ar_no_env_file :: bool

datatype seed = Seed_Event RuntimeEvent | Seed_Envelope EventEnvelope

record cli_env =
  ce_entry :: entry_env
  ce_files :: "string \<Rightarrow> (exn + string) option"
  ce_dump_seed :: "seed \<Rightarrow> pyval"

record cli_state =
  lc_world :: world
  lc_out :: "string list"
  lc_err :: "string list"
  lc_published :: "EventEnvelope list"

abbreviation ce_runtime :: "cli_env \<Rightarrow> runtime" where
  "ce_runtime C \<equiv> fe_runtime (ce_entry C)"

definition in_world :: "(world, 'a) eff \<Rightarrow> (cli_state, 'a) eff" where
  "in_world m = on_part lc_world lc_world_update m"

definition print_lines :: "string list \<Rightarrow> (cli_state, unit) eff" where
  "print_lines ls = modify (\<lambda>s. s\<lparr>lc_out := lc_out s @ ls\<rparr>)"


section \<open>Exceptions the commands tell apart\<close>

definition is_ValueError :: "exn \<Rightarrow> bool" where
  "is_ValueError e =
     (case e of
        ValueError _ \<Rightarrow> True | ValidationError _ \<Rightarrow> True
      | OtherError c _ \<Rightarrow> c \<in> {''JSONDecodeError'', ''UnicodeDecodeError''} | _ \<Rightarrow> False)"

definition is_OSError :: "exn \<Rightarrow> bool" where
  "is_OSError e =
     (case e of
        OtherError c _ \<Rightarrow> c \<in> {''OSError'', ''FileNotFoundError'', ''PermissionError'', ''IsADirectoryError'',
                              ''NotADirectoryError''}
      | _ \<Rightarrow> False)"

text \<open>\<open>except (RuntimeError, ValueError)\<close>; \<open>NotImplementedError\<close> is a subclass of \<open>RuntimeError\<close>.\<close>

definition reported_by_cli :: "exn \<Rightarrow> bool" where
  "reported_by_cli e \<longleftrightarrow>
     is_RuntimeError e \<or> is_ValueError e \<or> (case e of OtherError c _ \<Rightarrow> c = ''NotImplementedError'' | _ \<Rightarrow> False)"


section \<open>Files\<close>

definition read_text :: "cli_env \<Rightarrow> string \<Rightarrow> exn + string" where
  "read_text C path =
     (case ce_files C path of
        None \<Rightarrow> Inl (OtherError ''FileNotFoundError'' (''No such file or directory: '' @ path))
      | Some r \<Rightarrow> r)"

definition load_json :: "cli_env \<Rightarrow> string \<Rightarrow> exn + pydict" where
  "load_json C path =
     sbind (read_text C path) (\<lambda>t.
     sbind (json_loads_or_raise t) (\<lambda>v. case v of
       PDict d \<Rightarrow> Inr d
     | _ \<Rightarrow> Inl (ValueError (''Expected JSON object in '' @ path @ ''.''))))"

definition is_feature_provisioning_pointer_path :: "cli_env \<Rightarrow> string \<Rightarrow> exn + bool" where
  "is_feature_provisioning_pointer_path C path =
     (case load_json C path of
        Inr d \<Rightarrow> Inr (pget d ''type'' = PStr ''feature.provisioning.requested'')
      | Inl e \<Rightarrow> if is_OSError e \<or> e = JSONDecodeError then Inr False else Inl e)"

definition load_envelope :: "cli_env \<Rightarrow> string \<Rightarrow> exn + EventEnvelope" where
  "load_envelope C path =
     sbind (load_json C path) (\<lambda>data.
       fe_validate_envelope (ce_entry C) (if dhas data ''event'' then data else [(''event'', PDict data)]))"

definition is_line_break :: "char \<Rightarrow> bool" where
  "is_line_break c \<longleftrightarrow> (of_char c :: nat) \<in> {10, 11, 12, 13, 28, 29, 30, 133}"

text \<open>\<open>splitlines\<close> of a text whose line breaks \<open>read_text\<close> has already made one character each.\<close>

fun split_lines :: "string \<Rightarrow> string \<Rightarrow> string list" where
  "split_lines acc [] = (if acc = [] then [] else [acc])"
| "split_lines acc (c # cs) = (if is_line_break c then acc # split_lines [] cs else split_lines (acc @ [c]) cs)"

text \<open>\<open>os.environ.setdefault\<close>: the system refuses an empty name and null characters.\<close>

definition setdefault_env :: "string \<Rightarrow> string \<Rightarrow> environ \<Rightarrow> exn + environ" where
  "setdefault_env key value env =
     (if dhas env key then Inr env
      else if CHR 0x00 \<in> set key \<union> set value then Inl (ValueError ''embedded null byte'')
      else if key = [] then Inl (OtherError ''OSError'' ''[Errno 22] Invalid argument'')
      else Inr (dset key value env))"

definition env_line :: "string \<Rightarrow> (string \<times> string) option" where
  "env_line raw_line =
     (let line = strip raw_line in
      if line = [] \<or> take 1 line = ''#'' \<or> CHR ''='' \<notin> set line then None
      else Some (strip (takeWhile (\<lambda>c. c \<noteq> CHR ''='') line),
                 strip_char (CHR 0x27) (strip_char (CHR 0x22)
                   (strip (tl (dropWhile (\<lambda>c. c \<noteq> CHR ''='') line))))))"

fun set_env_lines :: "string list \<Rightarrow> environ \<Rightarrow> exn + environ" where
  "set_env_lines [] env = Inr env"
| "set_env_lines (l # ls) env =
     (case env_line l of
        None \<Rightarrow> set_env_lines ls env
      | Some (key, value) \<Rightarrow> sbind (setdefault_env key value env) (set_env_lines ls))"

definition load_env_file :: "cli_env \<Rightarrow> string \<Rightarrow> environ \<Rightarrow> exn + environ" where
  "load_env_file C path env =
     (case ce_files C path of
        None \<Rightarrow> Inr env
      | Some r \<Rightarrow> sbind r (\<lambda>t. set_env_lines (split_lines [] t) env))"


section \<open>Guards\<close>

definition LOCAL_PLACEHOLDER_IDS :: "string list" where
  "LOCAL_PLACEHOLDER_IDS = [''workspace-local'', ''project-local'']"

definition has_placeholder :: "string \<Rightarrow> bool" where
  "has_placeholder s \<longleftrightarrow> (\<exists>p \<in> set LOCAL_PLACEHOLDER_IDS. contains p s)"

lemma size_enumerate [termination_simp]:
  "(i, x) \<in> set (enumerate n xs) \<Longrightarrow> size x < Suc (size_list size xs)"
proof (induction xs arbitrary: n)
  case (Cons y ys)
  then show ?case using Cons.IH [of "Suc n"] by fastforce
qed simp

fun placeholder_paths :: "pyval \<Rightarrow> string \<Rightarrow> string list" where
  "placeholder_paths (PStr s) path = (if has_placeholder s then [path @ ''='' @ s] else [])"
| "placeholder_paths (PList xs) path =
     concat (map (\<lambda>(i, x). placeholder_paths x (path @ ''['' @ nat_str i @ '']'')) (enumerate 0 xs))"
| "placeholder_paths (PDict d) path =
     concat (map (\<lambda>(k, v).
       (if has_placeholder k then [path @ ''.'' @ k @ ''=<key>''] else [])
       @ placeholder_paths v (path @ ''.'' @ k)) d)"
| "placeholder_paths v path = []"

definition reject_placeholder_values :: "pyval \<Rightarrow> bool \<Rightarrow> exn + unit" where
  "reject_placeholder_values v offline =
     (let placeholders = placeholder_paths v ''$'' in
      if offline \<or> placeholders = [] then Inr ()
      else Inl (RuntimeError (''Refusing to call Prism API with placeholder value(s): ''
        @ join '', '' (take 5 placeholders)
        @ (if length placeholders \<le> 5 then [] else '' and '' @ nat_str (length placeholders - 5) @ '' more'')
        @ ''. Use an input JSON file with real Prism IDs, or pass --offline for an in-memory dry run.'')))"

definition require_prism_api_config :: "Settings \<Rightarrow> exn + unit" where
  "require_prism_api_config s =
     (let missing = (if opt_truthy (st_prism_api_base_url s) then [] else [''PRISM_API_BASE_URL''])
            @ (if opt_truthy (st_prism_api_token s) then [] else [''PRISM_API_TOKEN''])
      in if missing = [] then Inr ()
         else Inl (RuntimeError (''agent-local requires '' @ join '', '' missing @ '' for real Prism API calls. ''
                @ ''Set them in .env or the shell, or pass --offline for an in-memory dry run.'')))"

definition settings_for_run :: "environ \<Rightarrow> bool \<Rightarrow> bool \<Rightarrow> exn + Settings" where
  "settings_for_run env is_live offline =
     sbind (from_env env) (\<lambda>s0.
     let settings = s0\<lparr>st_log_traces := False\<rparr> in
     if is_live \<and> offline then Inl (ValueError ''--live and --offline cannot be used together.'')
     else if offline then
       Inr (settings\<lparr>st_app_env := ''local'', st_state_backend := ''memory'', st_queue_backend := ''memory'',
                     st_prism_api_base_url := None, st_prism_api_token := None\<rparr>)
     else if is_live then Inr settings
     else
       sbind (require_prism_api_config settings) (\<lambda>_.
       Inr (settings\<lparr>st_app_env := ''local'', st_state_backend := ''prism_api'', st_queue_backend := ''memory'',
                     st_persist_agent_memories := False\<rparr>)))"

definition local_feature_payload :: "FeatureProvisioningPointerEvent \<Rightarrow> pydict" where
  "local_feature_payload pointer =
     [(''requestId'', PStr (fp_request_id pointer)),
      (''workspace'', PDict [(''workspaceId'', PStr (fp_workspace_id pointer)), (''name'', PStr ''Local Workspace'')]),
      (''project'', PDict [(''projectId'', PStr (fp_project_id pointer)), (''name'', PStr ''Local Project'')]),
      (''featureSpecification'', PStr ''Provision a placeholder feature for an offline dry run.''),
      (''workspaceMembers'', PList [])]"

definition payload_store :: "cli_env \<Rightarrow> cli_args \<Rightarrow> FeatureProvisioningPointerEvent \<Rightarrow> exn + payload_fetch" where
  "payload_store C args pointer =
     (if opt_truthy (ar_payload_file args) then
        sbind (load_json C (the (ar_payload_file args))) (\<lambda>d.
          Inr (memory_fetch_json [(fp_payload_object_name pointer, d)]))
      else if ar_offline args then
        Inr (memory_fetch_json [(fp_payload_object_name pointer, local_feature_payload pointer)])
      else
        sbind (from_env (rt_environ (ce_runtime C))) (\<lambda>settings.
        if bucket_of settings = None then
          Inl (RuntimeError (''agent-local feature provisioning API mode requires a real payload source. ''
            @ ''Pass --payload-file with the hydrated feature request JSON, or set ''
            @ ''OCI_OBJECT_STORAGE_NAMESPACE and OCI_OBJECT_STORAGE_BUCKET_NAME so the ''
            @ ''pointer can be hydrated from OCI Object Storage. Pass --offline only for ''
            @ ''generated dry-run payloads.''))
        else sbind (object_storage_payload_store (st_object_storage_namespace settings)
               (st_object_storage_bucket_name settings) (rt_bucket (ce_runtime C)))
               (\<lambda>client. Inr (fetch_json client))))"


section \<open>Local runs\<close>

definition example_seed_event :: "'e io_env_scheme \<Rightarrow> (io, RuntimeEvent) eff" where
  "example_seed_event env =
     new_event env DomainEvent ''story.created'' ''workspace-local'' (Some ''project-local'')
       [(''story'', PDict [(''id'', PStr ''story-1''),
           (''title'', PStr ''Invite teammates to a Prism workspace''), (''version'', PInt 1)]),
        (''entity_versions'', PDict [(''story:story-1'', PInt 1)])]
       None empty_causality None"

definition format_trace_data :: "pydict \<Rightarrow> string" where
  "format_trace_data data =
     join nl (map (\<lambda>line. ''  '' @ line) (split_lines [] (json_dumps_indented 0 (PDict data))))"

definition trace_lines :: "TraceEvent \<Rightarrow> string list" where
  "trace_lines t =
     [''['' @ te_event_name t @ '']''
      @ (if opt_truthy (te_plan_id t) then '' plan='' @ the (te_plan_id t) else [])
      @ (if opt_truthy (te_action_id t) then '' action='' @ the (te_action_id t) else [])
      @ '' '' @ te_message t]
     @ (if te_data t = [] then [] else [format_trace_data (te_data t)])"

definition print_trace :: "TraceEvent list \<Rightarrow> (cli_state, unit) eff" where
  "print_trace traces = print_lines (concat (map trace_lines traces))"

text \<open>
  \<open>RecursionRunner.run\<close> on the configured queue. An OCI queue accepts the seed and then raises on the
  loop's first \<open>is_empty\<close>.
\<close>

definition seed_envelope :: "app_env \<Rightarrow> seed \<Rightarrow> (world, EventEnvelope) eff" where
  "seed_envelope env s = (case s of Seed_Event e \<Rightarrow> io_do (wrap env e) | Seed_Envelope en \<Rightarrow> ret en)"

definition run_container :: "AppContainer \<Rightarrow> seed \<Rightarrow> (cli_state, TraceEvent list) eff" where
  "run_container c s =
     ebind (in_world (seed_envelope (ac_env c) s)) (\<lambda>envelope.
     case ac_queue c of
       Memory_Backend \<Rightarrow> in_world (run (ac_env c) envelope)
     | Oci_Backend _ _ \<Rightarrow>
         eseq (modify (\<lambda>st. st\<lparr>lc_published := lc_published st @ [envelope]\<rparr>))
         (ebind oci_is_empty (\<lambda>_. ret [])))"

definition run_local :: "cli_env \<Rightarrow> seed \<Rightarrow> Settings \<Rightarrow> (cli_state, TraceEvent list) eff" where
  "run_local C s settings =
     ebind (of_sum (build_container (ce_runtime C) settings)) (\<lambda>c.
     ebind (run_container c s) (\<lambda>traces.
     eseq (print_trace traces) (ret traces)))"

definition PIPELINE_FAILURE_TRACES :: "string list" where
  "PIPELINE_FAILURE_TRACES = [''event.failed'', ''action.failed'', ''plan.failed'', ''recursion.max_depth'']"

definition run_feature_provisioning :: "cli_env \<Rightarrow> cli_args \<Rightarrow> (cli_state, int) eff" where
  "run_feature_provisioning C args =
     ebind (of_sum (load_json C (str_or (ar_input_path args) []))) (\<lambda>pointer_data.
     ebind (of_sum (validate_pointer (fe_read_datetime (ce_entry C)) pointer_data)) (\<lambda>pointer.
     eseq (of_sum (reject_placeholder_values (PDict pointer_data) (ar_offline args)))
     (ebind (of_sum (settings_for_run (rt_environ (ce_runtime C)) (ar_live args) (ar_offline args))) (\<lambda>settings.
     ebind (of_sum (build_container (ce_runtime C) (settings\<lparr>st_queue_backend := ''memory''\<rparr>))) (\<lambda>c.
     ebind (of_sum (payload_store C args pointer)) (\<lambda>fetch.
     ebind (in_world (io_do (resolve_seed_event (ac_env c) fetch pointer))) (\<lambda>event.
     ebind (run_container c (Seed_Event event)) (\<lambda>traces.
     eseq (print_trace traces)
     (let failures = filter (\<lambda>t. te_event_name t \<in> set PIPELINE_FAILURE_TRACES) traces in
      if failures \<noteq> [] then raise (RuntimeError (te_message (last failures)))
      else
        eseq (print_lines [json_dumps_indented 0 (PDict
               [(''ok'', PBool True), (''request_id'', PStr (fp_request_id pointer)),
                (''event_id'', PStr (ev_event_id event)), (''duplicate'', PBool False)])])
          (ret 0))))))))))"


section \<open>The commands\<close>

definition with_environ :: "cli_env \<Rightarrow> environ \<Rightarrow> cli_env" where
  "with_environ C env =
     C\<lparr>ce_entry := (ce_entry C)\<lparr>fe_runtime := (ce_runtime C)\<lparr>rt_environ := env\<rparr>\<rparr>\<rparr>"

definition run_seed_command :: "cli_env \<Rightarrow> cli_args \<Rightarrow> (cli_state, int) eff" where
  "run_seed_command C args =
     ebind (if opt_truthy (ar_input_path args)
            then ebind (of_sum (load_envelope C (the (ar_input_path args)))) (\<lambda>en. ret (Seed_Envelope en))
            else ebind (in_world (io_do (example_seed_event (ce_runtime C)))) (\<lambda>e. ret (Seed_Event e))) (\<lambda>seed.
     eseq (of_sum (reject_placeholder_values (ce_dump_seed C seed) (ar_offline args)))
     (ebind (of_sum (settings_for_run (rt_environ (ce_runtime C)) (ar_live args) (ar_offline args))) (\<lambda>settings.
     eseq (ebind (run_local C seed settings) (\<lambda>_. ret ())) (ret 0))))"

definition agent_local_body :: "cli_env \<Rightarrow> cli_args \<Rightarrow> (cli_state, int) eff" where
  "agent_local_body C0 args =
     ebind (of_sum (if ar_no_env_file args then Inr (rt_environ (ce_runtime C0))
                    else load_env_file C0 (ar_env_file args) (rt_environ (ce_runtime C0)))) (\<lambda>env.
     let C = with_environ C0 env in
     if ar_feature_provision args then
       (if \<not> opt_truthy (ar_input_path args)
        then raise (OtherError ''SystemExit'' ''--feature-provision requires a pointer JSON path.'')
        else run_feature_provisioning C args)
     else
     ebind (of_sum (if opt_truthy (ar_input_path args)
                    then is_feature_provisioning_pointer_path C (the (ar_input_path args)) else Inr False))
       (\<lambda>is_pointer.
       if is_pointer then run_feature_provisioning C args else run_seed_command C args))"

definition agent_local :: "cli_env \<Rightarrow> cli_args \<Rightarrow> (cli_state, int) eff" where
  "agent_local C args =
     catch (agent_local_body C args)
       (\<lambda>exc.
          if reported_by_cli exc
          then eseq (modify (\<lambda>s. s\<lparr>lc_err := lc_err s @ [''error: '' @ exn_str exc]\<rparr>)) (ret 2)
          else raise exc)"

text \<open>
  \<open>python -m interfaces.cli\<close>: the first argument is the path of a seed event, run on local settings.
  Numbers, \<open>None\<close> and booleans have no \<open>in\<close>; other texts than objects are refused as events.
\<close>

definition seed_of_json :: "entry_env \<Rightarrow> pyval \<Rightarrow> exn + EventEnvelope" where
  "seed_of_json F v =
     (case v of
        PDict data \<Rightarrow> fe_validate_envelope F (if dhas data ''event'' then data else [(''event'', PDict data)])
      | PList _ \<Rightarrow> Inl (ValidationError ''event'')
      | PStr _ \<Rightarrow> Inl (ValidationError ''event'')
      | _ \<Rightarrow> Inl (TypeError (''argument of type '' @ repr_str (py_type_name v) @ '' is not iterable'')))"

definition cli_main :: "cli_env \<Rightarrow> string list \<Rightarrow> (cli_state, int) eff" where
  "cli_main C argv =
     (case argv of
        [] \<Rightarrow> eseq (print_lines [''Usage: python -m interfaces.cli <seed-event.json>'']) (ret 2)
      | path # _ \<Rightarrow>
          ebind (of_sum (sbind (read_text C path) (\<lambda>t. sbind (json_loads_or_raise t) (seed_of_json (ce_entry C)))))
            (\<lambda>envelope.
          eseq (ebind (run_local C (Seed_Envelope envelope) default_settings) (\<lambda>_. ret ())) (ret 0)))"

end
