(* ===== verification/Entry_Facts.thy ===== *)
theory Entry_Facts
  imports Local_CLI Key_Safety
begin

text \<open>
  Facts about the entry points: a pointer survives its own dump, and what a command may publish.
\<close>

section \<open>Deliveries\<close>

text \<open>
  The shapes in which a message with content \<open>d\<close> may be delivered: an object that carries it under one of
  three keys, as JSON text or as an object, or that is the content itself; alone, in a list of one, or in an
  object with a list of one \<open>messages\<close>, at any depth.
\<close>

definition carries :: "pydict \<Rightarrow> string \<Rightarrow> pydict \<Rightarrow> bool" where
  "carries m k d \<longleftrightarrow> pget m k = PStr (json_dumps (PDict d)) \<or> pget m k = PDict d"

definition idle :: "pydict \<Rightarrow> string \<Rightarrow> bool" where
  "idle m k \<longleftrightarrow> (case pget m k of PStr _ \<Rightarrow> False | PDict _ \<Rightarrow> False | _ \<Rightarrow> True)"

definition is_batch :: "pydict \<Rightarrow> bool" where
  "is_batch m \<longleftrightarrow> (case pget m ''messages'' of PList _ \<Rightarrow> True | _ \<Rightarrow> False)"

inductive delivery :: "pyval \<Rightarrow> pydict \<Rightarrow> bool" where
  content: "\<not> is_batch m \<Longrightarrow> carries m ''content'' d \<Longrightarrow> delivery (PDict m) d"
| body: "\<not> is_batch m \<Longrightarrow> idle m ''content'' \<Longrightarrow> carries m ''body'' d \<Longrightarrow> delivery (PDict m) d"
| message: "\<not> is_batch m \<Longrightarrow> idle m ''content'' \<Longrightarrow> idle m ''body'' \<Longrightarrow> carries m ''message'' d \<Longrightarrow>
    delivery (PDict m) d"
| bare: "\<not> is_batch m \<Longrightarrow> idle m ''content'' \<Longrightarrow> idle m ''body'' \<Longrightarrow> idle m ''message'' \<Longrightarrow> delivery (PDict m) m"
| listed: "delivery v d \<Longrightarrow> delivery (PList [v]) d"
| wrapped: "delivery v d \<Longrightarrow> pget m ''messages'' = PList [v] \<Longrightarrow> delivery (PDict m) d"

lemma content_under_carries:
  assumes "carries m k d" and "json_ok (PDict d)"
  shows "content_under (k # ks) m = Inr d"
proof -
  have "json_loads_or_raise (json_dumps (PDict d)) = Inr (PDict d)"
    unfolding json_loads_or_raise_def by (simp only: json_round_trip [OF assms(2)] option.case)
  with assms(1) show ?thesis unfolding carries_def content_under.simps by fastforce
qed

lemma content_under_idle: "idle m k \<Longrightarrow> content_under (k # ks) m = content_under ks m"
  unfolding idle_def content_under.simps(2) by (cases "pget m k") simp_all

lemma unbatched_content:
  "\<not> is_batch m \<Longrightarrow> queue_message_content (PDict m) = content_under [''content'', ''body'', ''message''] m"
  unfolding is_batch_def queue_message_content.simps [of "PDict m"] by (cases "pget m ''messages''") simp_all

lemma delivered_content:
  assumes "delivery v d" and "json_ok (PDict d)"
  shows "queue_message_content v = Inr d"
  using assms
proof (induction rule: delivery.induct)
  case (bare m)
  then show ?case by (simp add: unbatched_content content_under_idle del: content_under.simps(2))
qed (simp_all add: unbatched_content content_under_carries content_under_idle del: content_under.simps json_ok.simps)


section \<open>What the commands publish\<close>

lemma published_frame [pres]:
  "preserves (in_world m) lc_published" "preserves (print_lines ls) lc_published" "preserves (print_trace ts) lc_published"
  by (simp_all add: preserves_def in_world_def on_part_def print_trace_def print_lines_def modify_def split: prod.splits)

lemma memory_run_publishes_nothing:
  "ac_queue c = Memory_Backend \<Longrightarrow> preserves (run_container c s) lc_published"
  unfolding run_container_def by (simp add: pres)

lemma memory_container:
  "build_container R s = Inr c \<Longrightarrow> st_queue_backend s = ''memory'' \<Longrightarrow> ac_queue c = Memory_Backend"
  using build_container_env(3) [of R s c] by (simp add: build_queue_def)

lemma settings_for_run_memory:
  "settings_for_run env False offline = Inr s \<Longrightarrow> st_queue_backend s = ''memory''"
  by (auto simp: settings_for_run_def Let_def sbind_Inr_iff split: if_splits)

lemma preserves_when:
  "(\<And>x. r = Inr x \<Longrightarrow> preserves (k x) f) \<Longrightarrow> preserves (ebind (of_sum r) k) f"
  by (cases r) (auto simp: preserves_def eff_defs)

lemma run_local_publishes_nothing:
  "st_queue_backend s = ''memory'' \<Longrightarrow> preserves (run_local C seed s) lc_published"
  unfolding run_local_def by (intro preserves_when pres memory_run_publishes_nothing memory_container) simp_all

lemma run_feature_provisioning_publishes_nothing: "preserves (run_feature_provisioning C args) lc_published"
  unfolding run_feature_provisioning_def Let_def
  by (intro preserves_when pres memory_run_publishes_nothing) (auto dest: memory_container)

lemma run_seed_command_publishes_nothing:
  "\<not> ar_live args \<Longrightarrow> preserves (run_seed_command C args) lc_published"
  unfolding run_seed_command_def
  by (intro preserves_when pres run_local_publishes_nothing) (auto dest: settings_for_run_memory)

lemma agent_local_publishes_nothing:
  assumes "\<not> ar_live args"
  shows "preserves (agent_local C args) lc_published"
  unfolding agent_local_def agent_local_body_def Let_def
  by (intro pres run_feature_provisioning_publishes_nothing run_seed_command_publishes_nothing assms preserves_modify)
    simp

lemma cli_main_publishes_nothing: "preserves (cli_main C argv) lc_published"
  unfolding cli_main_def
  by (auto intro!: pres run_local_publishes_nothing simp: default_settings_def split: list.split)


section \<open>Placeholders\<close>

text \<open>The texts of a value: its strings and the keys of its objects, at any depth.\<close>

fun texts_of :: "pyval \<Rightarrow> string set" where
  "texts_of (PStr s) = {s}"
| "texts_of (PList xs) = (\<Union>x \<in> set xs. texts_of x)"
| "texts_of (PDict d) = (\<Union>e \<in> set d. insert (fst e) (texts_of (snd e)))"
| "texts_of v = {}"

lemma set_enumerate_snd: "snd ` set (enumerate n xs) = set xs"
  by (induction xs arbitrary: n) auto

lemma placeholder_paths_empty: "placeholder_paths v path = [] \<longleftrightarrow> (\<forall>t \<in> texts_of v. \<not> has_placeholder t)"
proof (induction v arbitrary: path)
  case (PList xs)
  have "placeholder_paths (PList xs) path = [] \<longleftrightarrow>
      (\<forall>e \<in> set (enumerate 0 xs). placeholder_paths (snd e) (path @ ''['' @ nat_str (fst e) @ '']'') = [])"
    by (simp add: case_prod_beta)
  also have "\<dots> \<longleftrightarrow> (\<forall>e \<in> set (enumerate 0 xs). \<forall>t \<in> texts_of (snd e). \<not> has_placeholder t)"
    by (intro ball_cong refl PList.IH) (metis imageI set_enumerate_snd)
  also have "\<dots> \<longleftrightarrow> (\<forall>x \<in> snd ` set (enumerate 0 xs). \<forall>t \<in> texts_of x. \<not> has_placeholder t)"
    by simp
  finally show ?case by (simp add: set_enumerate_snd)
next
  case (PDict d)
  have IH: "placeholder_paths (snd e) q = [] \<longleftrightarrow> (\<forall>t \<in> texts_of (snd e). \<not> has_placeholder t)" if "e \<in> set d" for e q
    by (rule PDict.IH [OF that]) (cases e, simp)
  have "placeholder_paths (PDict d) path = [] \<longleftrightarrow>
      (\<forall>e \<in> set d. \<not> has_placeholder (fst e) \<and> placeholder_paths (snd e) (path @ ''.'' @ fst e) = [])"
    by (auto simp: case_prod_beta)
  also have "\<dots> \<longleftrightarrow> (\<forall>e \<in> set d. \<not> has_placeholder (fst e) \<and> (\<forall>t \<in> texts_of (snd e). \<not> has_placeholder t))"
    by (intro ball_cong refl) (simp add: IH)
  finally show ?case by simp
qed simp_all


section \<open>A live run on an OCI queue\<close>

text \<open>The seed is published, then the loop's first look at the queue raises.\<close>

lemma live_run_publishes_and_fails:
  assumes "ac_queue c = Oci_Backend ocid endpoint"
  shows "\<exists>e. run_container c (Seed_Envelope en) s = (Inl e, s\<lparr>lc_published := lc_published s @ [en]\<rparr>) \<and>
    exn_type_name e = ''NotImplementedError'' \<and> reported_by_cli e"
  using assms
  by (simp add: run_container_def seed_envelope_def in_world_def oci_is_empty_def NotImplementedError_def
      reported_by_cli_def eff_defs)

end
