(* ===== verification/Entry_Properties.thy ===== *)
theory Entry_Properties
  imports Entry_Facts Sample_World
begin

text \<open>
  Properties of the entry points: feature provisioning, the deployed function and the local commands.
\<close>

section \<open>Provisioning\<close>

lemma failed_pointer_keys:
  "wp (handle_pointer rd (world_worker env fetch) content) (\<lambda>_ _. True)
     (\<lambda>_ w'. stored_keys w' = stored_keys w) w"
proof -
  let ?K = "\<lambda>m. preserves m stored_keys"
  have keep: "wp m Q E w2" if "?K m" "\<And>x w3. stored_keys w3 = stored_keys w2 \<Longrightarrow> Q x w3"
    "\<And>e w3. stored_keys w3 = stored_keys w2 \<Longrightarrow> E e w3" for m :: "(world, 'x) eff" and Q E w2
    using that by (auto simp: wp_def preserves_def split: prod.splits sum.splits) (metis snd_conv)+
  have dispatched: "wp (eseq (ebind (io_do (wrap env event)) (handle_trigger env)) (eseq (store_do f) (ret y)))
      (\<lambda>_ _. True) (\<lambda>_ w'. stored_keys w' = stored_keys w) w2"
    if "stored_keys w2 = stored_keys w" for event f y w2
    unfolding wp_eseq
    by (rule keep, rule preserves_ebind, rule keys_io_do, rule keys_handle_trigger)
      (simp_all add: wp_store_do wp_ret that)
  show ?thesis
    unfolding handle_pointer_def world_worker_def memory_keys_def Let_def
    by (simp add: wp_ebind wp_of_sum wp_store_get wp_ret split: sum.split)
      (auto intro!: keep [OF keys_io_do] dispatched)
qed

text \<open>
  C27: A provisioning request is dispatched once. When handling a pointer succeeds, a redelivery of it, on
  any later state of the store and whatever the payload, the handlers and the API have become, is answered
  as a duplicate and changes nothing at all; and when handling it raises, no key has been recorded, so that
  the redelivery is tried again.
\<close>

theorem provisioning_dispatched_once:
  "case handle_pointer rd (world_worker env fetch) content w of
     (Inr result, w') \<Rightarrow>
       (\<forall>env' fetch' w2. stored_keys w' \<subseteq> stored_keys w2 \<longrightarrow>
          handle_pointer rd (world_worker env' fetch') content w2 =
            (Inr \<lparr>fr_request_id = fr_request_id result, fr_event_id = None, fr_duplicate = True\<rparr>, w2))
   | (Inl _, w') \<Rightarrow> stored_keys w' = stored_keys w"
proof (cases "handle_pointer rd (world_worker env fetch) content w")
  case (Pair r w')
  show ?thesis
  proof (cases r)
    case (Inl e)
    with Pair show ?thesis
      using failed_pointer_keys [of rd env fetch content w] by (simp add: wp_def)
  next
    case (Inr result)
    then obtain pointer where pointer: "validate_pointer rd content = Inr pointer"
      using Pair by (auto simp: handle_pointer_def eff_defs split: sum.splits)
    have keys: "fw_keys (world_worker env fetch) = memory_keys" for env fetch
      by (simp add: world_worker_def)
    have known: "memory_knows w' (worker_idempotency_key pointer)"
      using memory_key_store.settled_pointer_known [OF keys pointer, of env fetch w] Pair Inr
      by (simp add: wp_def)
    have "fr_request_id result = fp_request_id pointer"
      using Pair Inr pointer
      by (auto simp: handle_pointer_def Let_def eff_defs split: prod.splits sum.splits if_splits)
    with known show ?thesis
      using memory_key_store.known_pointer_skipped [OF keys pointer]
      by (auto simp: Pair Inr memory_knows_def subset_iff)
  qed
qed

definition sample_pointer :: pydict where
  "sample_pointer =
     [(''type'', PStr ''feature.provisioning.requested''), (''version'', PStr ''1.0''),
      (''requestId'', PStr ''r''), (''payloadObjectName'', PStr ''o''), (''workspaceId'', PStr ''w''),
      (''projectId'', PStr ''p'')]"

definition sample_fetch :: payload_fetch where
  "sample_fetch name version =
     Inr [(''requestId'', PStr ''r''), (''workspaceId'', PStr ''w''), (''projectId'', PStr ''p''),
          (''featureSpecification'', PStr ''spec'')]"

definition sample_delivery :: "(exn + FeatureProvisioningResult) \<times> world" where
  "sample_delivery =
     handle_pointer (\<lambda>_. None) (world_worker (sample_env Tool_Succeeds) sample_fetch) sample_pointer
       sample_world"

lemma sample_delivered:
  "fst sample_delivery = Inr \<lparr>fr_request_id = ''r'', fr_event_id = Some ''id-0'', fr_duplicate = False\<rparr>"
  by code_simp

theorem provisioning_dispatched_once_witness:
  "handle_pointer (\<lambda>_. None) (world_worker (sample_env Tool_Raises) sample_fetch) sample_pointer (snd sample_delivery) =
     (Inr \<lparr>fr_request_id = ''r'', fr_event_id = None, fr_duplicate = True\<rparr>, snd sample_delivery)"
  using provisioning_dispatched_once [where rd = "\<lambda>_. None" and env = "sample_env Tool_Succeeds" and fetch = sample_fetch
      and content = sample_pointer and w = sample_world]
    sample_delivered
  by (simp add: sample_delivery_def split: prod.splits)




section \<open>The deployed function\<close>

lemma handler_fails:
  assumes "from_env (rt_environ (fe_runtime F)) = Inr settings" and "configure_logging (st_log_level settings) = Inr ()"
  shows "handler F data s =
     (let n = \<lparr>nt_webhook_url = st_discord_webhook_url settings, nt_post = fe_post F\<rparr> in
      case sbind (decode_payload data) queue_message_content of
        Inl exc \<Rightarrow> report_failure n data ''unknown'' [] exc s
      | Inr payload \<Rightarrow>
          (case process_payload F settings payload (rp_inner s) of
             (r, w) \<Rightarrow>
               let s1 = s\<lparr>rp_lines := rp_lines s @ [(INFO, dmerge [(''log'', PStr ''invocation.start'')] (payload_fields payload))],
                         rp_inner := w\<rparr> in
               (case r of
                  Inl exc \<Rightarrow> report_failure n data (payload_label payload) payload exc s1
                | Inr (result, traces) \<Rightarrow> report_success n (payload_label payload) payload result traces s1)))"
  using assms
  by (auto simp: handler_def Let_def eff_defs log_json_def attempted_def inner_def split: sum.split prod.split)

lemma report_failure_eq:
  "\<exists>ls. report_failure n data label payload exc s =
     (Inl exc, s\<lparr>rp_lines := ls, rp_sent := rp_sent s @
        (if notifier_enabled n then [(the (nt_webhook_url n), notification_body (failure_message label exc))] else [])\<rparr>)"
  by (auto simp: report_failure_def eff_defs log_json_def send_never_fails failure_message_nonempty)

lemma report_success_eq:
  "\<exists>ls. report_success n label payload result traces s =
     (Inr result, s\<lparr>rp_lines := ls, rp_sent := rp_sent s @
        (if notifier_enabled n then [(the (nt_webhook_url n), notification_body (summary_message label traces))] else [])\<rparr>)"
  by (auto simp: report_success_def eff_defs log_json_def send_never_fails summary_message_nonempty)

text \<open>
  C29: Observability never changes an outcome. Whatever the webhook and the logger do, an invocation returns
  the result, or raises the exception, and leaves the world, that unpacking and processing the message give
  by themselves; and exactly one message is sent to a configured webhook, the summary of the traces of a
  processed message or the failure that is raised.
\<close>

theorem invocation_reported_faithfully:
  assumes "from_env (rt_environ (fe_runtime F)) = Inr settings"
    and "configure_logging (st_log_level settings) = Inr ()"
  shows "let content = sbind (decode_payload data) queue_message_content;
      (r, w) = (case content of Inl e \<Rightarrow> (Inl e, rp_inner s)
                | Inr payload \<Rightarrow> process_payload F settings payload (rp_inner s));
      label = (case content of Inl _ \<Rightarrow> ''unknown'' | Inr payload \<Rightarrow> payload_label payload);
      message = (case r of Inl e \<Rightarrow> failure_message label e | Inr (_, traces) \<Rightarrow> summary_message label traces);
      (outcome, s') = handler F data s
    in outcome = map_sum id fst r \<and> rp_inner s' = w \<and>
       rp_sent s' = rp_sent s @ (case st_discord_webhook_url settings of None \<Rightarrow> []
                                 | Some url \<Rightarrow> [(url, notification_body message)])"
proof -
  have url: "st_discord_webhook_url settings \<noteq> Some []"
    using assms(1) getenv_or_none_truthy
    by (auto simp: from_env_def sbind_Inr_iff validated_settings_def split: option.splits)
  then have enabled: "notifier_enabled \<lparr>nt_webhook_url = st_discord_webhook_url settings, nt_post = post\<rparr> \<longleftrightarrow>
      st_discord_webhook_url settings \<noteq> None" for post
    by (auto simp: notifier_enabled_def opt_truthy_def)
  show ?thesis
  proof (cases "sbind (decode_payload data) queue_message_content")
    case (Inl e)
    with report_failure_eq [of "\<lparr>nt_webhook_url = st_discord_webhook_url settings, nt_post = fe_post F\<rparr>"
        data "''unknown''" "[]" e s]
    show ?thesis by (auto simp: handler_fails [OF assms] Let_def enabled split: option.splits)
  next
    case (Inr payload)
    obtain r w where run: "process_payload F settings payload (rp_inner s) = (r, w)" by fastforce
    let ?s = "s\<lparr>rp_lines := rp_lines s @ [(INFO, dmerge [(''log'', PStr ''invocation.start'')] (payload_fields payload))],
                rp_inner := w\<rparr>"
    let ?n = "\<lparr>nt_webhook_url = st_discord_webhook_url settings, nt_post = fe_post F\<rparr>"
    show ?thesis
    proof (cases r)
      case (Inl e)
      obtain ls where "report_failure ?n data (payload_label payload) payload e ?s = (Inl e, ?s\<lparr>rp_lines := ls,
          rp_sent := rp_sent ?s @ (if notifier_enabled ?n
            then [(the (nt_webhook_url ?n), notification_body (failure_message (payload_label payload) e))] else [])\<rparr>)"
        using report_failure_eq by blast
      with Inl show ?thesis
        by (auto simp: handler_fails [OF assms] Inr run Let_def enabled split: option.splits)
    next
      case r: (Inr p)
      obtain result traces where p: "p = (result, traces)" by fastforce
      obtain ls where "report_success ?n (payload_label payload) payload result traces ?s = (Inr result, ?s\<lparr>rp_lines := ls,
          rp_sent := rp_sent ?s @ (if notifier_enabled ?n
            then [(the (nt_webhook_url ?n), notification_body (summary_message (payload_label payload) traces))] else [])\<rparr>)"
        using report_success_eq by blast
      with r p show ?thesis
        by (auto simp: handler_fails [OF assms] Inr run Let_def enabled split: option.splits)
    qed
  qed
qed

definition sample_runtime :: "environ \<Rightarrow> runtime" where
  "sample_runtime env =
     \<lparr>uuid4_at = (\<lambda>n. ''id-'' @ nat_str n), clock_at = int, uuid5_of = (\<lambda>s. s), fromisoformat_of = (\<lambda>_. None),
      server = (\<lambda>_ _. Http_Empty), base_url = None, api_token = None, rt_environ = env, rt_monotonic_at = int,
      rt_run_model = (\<lambda>_ _ _. raise (RuntimeError ''no model'')), rt_embed = (\<lambda>_ _. None),
      rt_schedule = (\<lambda>_ n. [0..<n]), rt_bucket = \<lparr>pc_get_object = (\<lambda>_ _. Inl (KeyError ''none''))\<rparr>,
      rt_prompts = \<lparr>pd_path = ''prompts'', pd_exists = True, pd_files = [],
        pd_workflow_model = (\<lambda>_. Inl (ValidationError ''id'')), pd_skill_model = (\<lambda>_. Inl (ValidationError ''id'')),
        pd_tool_model = (\<lambda>_. Inl (ValidationError ''id''))\<rparr>\<rparr>"

text \<open>An entry point whose webhook fails, and which refuses every envelope.\<close>

definition sample_entry :: entry_env where
  "sample_entry =
     \<lparr>fe_runtime = sample_runtime [(''DISCORD_WEBHOOK_URL'', ''u'')],
      fe_validate_envelope = (\<lambda>_. Inl (ValidationError ''event'')), fe_read_datetime = (\<lambda>_. None),
      fe_post = (\<lambda>_ _. Inl (OtherError ''URLError'' ''down''))\<rparr>"

definition sample_reported :: "world reported" where
  "sample_reported = \<lparr>rp_inner = sample_world, rp_lines = [], rp_sent = []\<rparr>"

lemma sample_entry_settings:
  "from_env (rt_environ (fe_runtime sample_entry)) =
     Inr (default_settings\<lparr>st_discord_webhook_url := Some ''u'', st_log_traces := True\<rparr>)"
  by code_simp

theorem invocation_reported_faithfully_witness:
  "fst (handler sample_entry (Raw_Text ''x'') sample_reported) = Inl JSONDecodeError \<and>
   rp_sent (snd (handler sample_entry (Raw_Text ''x'') sample_reported)) =
     [(''u'', notification_body (failure_message ''unknown'' JSONDecodeError))]"
proof -
  have level: "configure_logging (st_log_level (default_settings\<lparr>st_discord_webhook_url := Some ''u'', st_log_traces := True\<rparr>)) = Inr ()"
    by code_simp
  have content: "sbind (decode_payload (Raw_Text ''x'')) queue_message_content = Inl JSONDecodeError"
  proof -
    have "json_loads ''x'' = None" by code_simp
    then show ?thesis by (simp add: json_loads_or_raise_def)
  qed
  from invocation_reported_faithfully [OF sample_entry_settings level, where data = "Raw_Text ''x''" and s = sample_reported]
  show ?thesis
    unfolding content by (auto simp: Let_def sample_reported_def split: prod.splits)
qed

text \<open>
  C30: Queued work survives its delivery. However the trigger wraps a queued event, under one of the three
  keys, as JSON text or as an object, or bare, in any nesting of batches of one, and whether it arrives as
  bytes, text or decoded, the function unpacks exactly the object that was queued; and a batch of none or of
  several messages is refused, never processed in part.
\<close>

theorem queued_event_unpacked:
  assumes "delivery v d" and "json_ok v" and "json_ok (PDict d)"
    and "data \<in> {Raw_Bytes (json_dumps v), Raw_Text (json_dumps v), Decoded v}"
  shows "sbind (decode_payload data) queue_message_content = Inr d \<and>
    (length ms \<noteq> 1 \<longrightarrow> pget m ''messages'' = PList ms \<longrightarrow>
       (\<exists>e. queue_message_content (PList ms) = Inl (ValueError e) \<and> queue_message_content (PDict m) = Inl (ValueError e)))"
proof -
  have "decode_payload data = Inr v"
    using assms(4) json_round_trip [OF assms(2)] by (auto simp: json_loads_or_raise_def)
  with delivered_content [OF assms(1,3)] show ?thesis
    using batch_refused(1) [of ms] batch_refused(2) [of ms m] by auto
qed

theorem queued_event_unpacked_witness:
  "sbind (decode_payload (Raw_Bytes (json_dumps (PList [PDict [(''content'', PStr (json_dumps (PDict [(''a'', PInt 1)])))]]))))
     queue_message_content = Inr [(''a'', PInt 1)]"
proof -
  have "delivery (PList [PDict [(''content'', PStr (json_dumps (PDict [(''a'', PInt 1)])))]]) [(''a'', PInt 1)]"
    by (intro delivery.listed delivery.content) (simp_all add: is_batch_def carries_def pget_def del: json_dumps.simps)
  from queued_event_unpacked [OF this, where ms = "[]" and m = "[]"] show ?thesis
    by (simp del: json_dumps.simps decode_payload.simps)
qed


section \<open>The local commands\<close>

lemma with_own_environ [simp]: "with_environ C (rt_environ (ce_runtime C)) = C"
  by (simp add: with_environ_def)


definition sample_cli :: cli_env where
  "sample_cli =
     \<lparr>ce_entry = sample_entry\<lparr>fe_validate_envelope := (\<lambda>_. Inr (sample_envelope DomainEvent))\<rparr>,
      ce_files = (\<lambda>_. Some (Inr ''{}'')), ce_dump_seed = (\<lambda>_. PStr ''workspace-local'')\<rparr>"

definition sample_args :: cli_args where
  "sample_args =
     \<lparr>ar_input_path = Some ''f'', ar_feature_provision = False, ar_payload_file = None, ar_live = False,
      ar_offline = False, ar_env_file = ''.env'', ar_no_env_file = True\<rparr>"


end
