(* ===== verification/Diff_Logging.thy ===== *)
theory Diff_Logging
  imports Context_Hydration Reporting
begin

text \<open>
  The log line \<open>PrismApiClient._pull_request_diff_context\<close> leaves for every attempt to hydrate a pull
  request diff. \<open>Context_Hydration.pull_request_diff_context\<close> is the method without its logging; here it
  is given with the lines, and shown to compute the same.
\<close>

definition diff_files_count :: "pyval \<Rightarrow> nat option" where
  "diff_files_count value =
     (case value of
        PDict d \<Rightarrow> (case pget d ''files'' of PList files \<Rightarrow> Some (length files) | _ \<Rightarrow> None)
      | _ \<Rightarrow> None)"

definition diff_fetch_skip_reason :: "bool \<Rightarrow> string option \<Rightarrow> pyval \<Rightarrow> string" where
  "diff_fetch_skip_reason configured project_id pull_number =
     (if \<not> configured then ''client_not_configured''
      else if \<not> opt_truthy project_id then ''missing_project_id''
      else if pull_number = PNone then ''missing_pull_number''
      else ''unknown'')"

definition diff_hydration_line ::
  "RuntimeEvent \<Rightarrow> string \<Rightarrow> pyval \<Rightarrow> bool \<Rightarrow> pyval \<Rightarrow> string option \<Rightarrow> string option \<Rightarrow> log_line" where
  "diff_hydration_line event source result fetched pull_number skipped fetch_error =
     (let hydrated = has_hydrated_pull_request_diff result in
      ((if hydrated then INFO else WARNING),
       [(''log'', PStr ''diff.hydration''), (''event_type'', PStr (ev_event_type event)),
        (''workspace_id'', PStr (ev_workspace_id event)), (''project_id'', pstr_opt (ev_project_id event)),
        (''pull_number'', pull_number), (''source'', PStr source), (''fetch_attempted'', PBool fetched),
        (''files_count'', (case diff_files_count result of None \<Rightarrow> PNone | Some n \<Rightarrow> PInt (int n))),
        (''has_usable_diff'', PBool hydrated), (''result_present'', PBool (result \<noteq> PNone))]
       @ (case skipped of None \<Rightarrow> [] | Some r \<Rightarrow> [(''skip_reason'', PStr r)])
       @ (case fetch_error of None \<Rightarrow> [] | Some e \<Rightarrow> [(''fetch_error'', PStr e)])
       @ (if hydrated then []
          else [(''guard'', PStr ''pull_request_diff carries no file patches; review cannot be grounded'')])))"

text \<open>Log the outcome and return it.\<close>

definition logged_diff ::
  "RuntimeEvent \<Rightarrow> string \<Rightarrow> bool \<Rightarrow> pyval \<Rightarrow> string option \<Rightarrow> string option \<Rightarrow> pyval
   \<Rightarrow> (io reported, pyval) eff" where
  "logged_diff event source fetched pull_number skipped fetch_error result =
     (let line = diff_hydration_line event source result fetched pull_number skipped fetch_error
      in eseq (log_json (fst line) (snd line)) (ret result))"

definition logged_pull_request_diff_context ::
  "'e io_env_scheme \<Rightarrow> RuntimeEvent \<Rightarrow> pyval \<Rightarrow> (io reported, pyval) eff" where
  "logged_pull_request_diff_context env event explicit_value =
     (if has_hydrated_pull_request_diff explicit_value
      then logged_diff event ''payload'' False PNone None None explicit_value
      else
      let embedded = embedded_pull_request_diff (ev_payload event);
          pull_number = por (pull_request_number explicit_value)
                            (pull_request_number (PDict (ev_payload event)));
          resolved = dict_or explicit_value embedded in
      if has_hydrated_pull_request_diff embedded
      then logged_diff event ''embedded'' False pull_number None None embedded
      else if \<not> (is_configured env \<and> opt_truthy (ev_project_id event) \<and> pull_number \<noteq> PNone)
      then logged_diff event ''payload'' False pull_number
             (Some (diff_fetch_skip_reason (is_configured env) (ev_project_id event) pull_number)) None resolved
      else
      ebind (attempted (inner (get_pull_request env (str_or (ev_project_id event) []) pull_number True True)))
        (\<lambda>r. case r of
           Inl (PrismApiNotFoundError m) \<Rightarrow>
             logged_diff event ''fetch'' True pull_number None (Some ''not_found'') resolved
         | Inl e \<Rightarrow> raise e
         | Inr fetched \<Rightarrow> logged_diff event ''fetch'' True pull_number None None fetched))"


section \<open>What the log says\<close>

lemma wp_logged_diff [wp_rules]:
  "wp (logged_diff event source fetched n skip err result) Q E s =
     Q result (s\<lparr>rp_lines := rp_lines s @ [diff_hydration_line event source result fetched n skip err]\<rparr>)"
  by (simp add: logged_diff_def Let_def wp_rules)

text \<open>The level tells whether the diff can ground a review.\<close>

lemma diff_hydration_level:
  "fst (diff_hydration_line event source result fetched n skip err) =
     (if has_hydrated_pull_request_diff result then INFO else WARNING)"
  by (simp add: diff_hydration_line_def Let_def)

text \<open>The reason of a skipped fetch is always one of the three causes, never \<open>unknown\<close>.\<close>

lemma skipped_fetch_reason:
  "\<not> (configured \<and> opt_truthy project_id \<and> n \<noteq> PNone) \<Longrightarrow>
     diff_fetch_skip_reason configured project_id n \<noteq> ''unknown''"
  by (auto simp: diff_fetch_skip_reason_def)

text \<open>
  Logging changes nothing, and every normal return leaves exactly one line, at the level its own result
  deserves; an exception leaves none.
\<close>

lemma logged_diff_refines:
  assumes "wp (pull_request_diff_context env event v) Q E (rp_inner s)"
  shows "wp (logged_pull_request_diff_context env event v)
    (\<lambda>r s'. Q r (rp_inner s') \<and>
       (\<exists>line. rp_lines s' = rp_lines s @ [(if has_hydrated_pull_request_diff r then INFO else WARNING, line)]))
    (\<lambda>e s'. E e (rp_inner s') \<and> rp_lines s' = rp_lines s) s"
  (is "wp _ ?Q ?E s")
proof -
  have logged: "wp (logged_diff event source fetched n skip err r) ?Q ?E s'"
    if "Q r (rp_inner s')" "rp_lines s' = rp_lines s" for source fetched n skip err r s'
    using that diff_hydration_level [of event source r fetched n skip err]
    by (cases "diff_hydration_line event source r fetched n skip err") (simp add: wp_logged_diff)
  let ?n = "por (pull_request_number v) (pull_request_number (PDict (ev_payload event)))"
  let ?get = "get_pull_request env (str_or (ev_project_id event) []) ?n True True"
  let ?kept = "dict_or v (embedded_pull_request_diff (ev_payload event))"
  let ?fetches = "is_configured env \<and> opt_truthy (ev_project_id event) \<and> ?n \<noteq> PNone"
  note defs = pull_request_diff_context_def logged_pull_request_diff_context_def Let_def
  consider "has_hydrated_pull_request_diff v"
    | "\<not> has_hydrated_pull_request_diff v" "has_hydrated_pull_request_diff (embedded_pull_request_diff (ev_payload event))"
    | "\<not> has_hydrated_pull_request_diff v"
      "\<not> has_hydrated_pull_request_diff (embedded_pull_request_diff (ev_payload event))" "\<not> ?fetches"
    | (fetch) "\<not> has_hydrated_pull_request_diff v"
      "\<not> has_hydrated_pull_request_diff (embedded_pull_request_diff (ev_payload event))" "?fetches" by blast
  then show ?thesis
  proof cases
    case fetch
    have "wp ?get Q (\<lambda>e. case e of PrismApiNotFoundError _ \<Rightarrow> Q ?kept | _ \<Rightarrow> E e) (rp_inner s)"
      using assms fetch unfolding defs
      by (simp add: wp_catch) (erule wp_mono, auto simp: wp_ret wp_raise split: exn.splits)
    then show ?thesis
      using fetch unfolding defs
      by (simp add: wp_ebind wp_attempted wp_inner)
        (erule wp_mono, auto simp: logged wp_raise split: exn.splits)
  qed (use assms in \<open>simp_all add: defs wp_ret logged\<close>)
qed

end
