(* ===== verification/Spec2Isabelle.thy ===== *)
theory Spec2Isabelle
  imports Task_Properties Action_Properties Run_Properties Boundary_Properties Store_Properties
    Tool_Properties Planning_Properties Entry_Properties Diff_Logging
begin

text \<open>
  A verification development for prism-agent, the Python runtime under \<open>src/src\<close> that turns events of a
  project management system into plans made by a language model and carries those plans out with tools.

  \<^bold>\<open>The program.\<close> An event arrives in an envelope, from the deployed function
  (\<open>interfaces/oci_function_entry.py\<close>), a feature provisioning pointer
  (\<open>application/feature_provisioning_worker.py\<close>) or a local command (\<open>interfaces/test_commands.py\<close>).
  \<open>DomainEventHandler\<close> routes a trigger to a workflow, hydrates the planning context, and either asks the
  planner for one plan or, for an orchestrated workflow, builds a task graph whose nodes are planned as
  sub-plans. \<open>ActionEventHandler\<close> executes one action of a plan: it validates, runs the tool, validates the
  result, records the outcome and continues with the next action, in the same invocation while its
  budget lasts and through the queue afterwards. \<open>SubAgentCoordinator\<close> dispatches the nodes of a graph
  and joins their reports. \<open>RecursionRunner\<close> drains the queue. Everything they remember is in the state
  store; the run, its steps and its actions are mirrored to the Prizmatic API by \<open>AgentRunSync\<close>.

  \<^bold>\<open>How the code is represented.\<close> A pydantic model or dataclass is a record with the fields of the class
  under a short prefix, an enumeration a datatype with the source's constructors, a method a definition
  of the same name. A method that reads the clock, draws an identifier, talks to the API or changes the
  state is an effect (theory Effects): a function from a state to an exception or a result, and the state
  reached, which is kept when an exception is raised, as in Python. \<open>catch\<close> is \<open>try/except\<close>, \<open>efor\<close> a
  \<open>for\<close> loop; an operation of a component runs on its part of the state of the container, the record
  \<open>world\<close> (the API boundary, the queue, the store, the inline budget and the seen events). What a container
  is built from is the record \<open>app_env\<close>. Decoded JSON is the datatype \<open>pyval\<close>, a Python dictionary an
  association list in insertion order. Python integers are \<open>int\<close>. Proofs about effects use weakest
  preconditions (\<open>wp\<close>, with rules in \<open>wp_rules\<close> and \<open>vc\<close>) and frame conditions (\<open>preserves\<close>, with rules
  in \<open>pres\<close>); predicates closed under sequencing, such as \<open>only_enqueues\<close> and \<open>keys_grow\<close>, have collections
  of their own.
\<close>

text \<open>
  \<^bold>\<open>Foundations.\<close>
  \<^item> Py_Prelude, Effects, Py_Text, Py_Json, Py_Float: values, exceptions and dictionaries; the effect and its
    logics; \<open>str\<close>, \<open>repr\<close>, \<open>strip\<close>, ISO time stamps, percent-encoding; \<open>json.dumps\<close> and \<open>json.loads\<close> with their
    round trip; the reader of \<open>float\<close>.
  \<^item> Runtime_IO: identifiers, clock, name-based UUIDs, the ISO reader, and the API server as a function of
    the requests sent so far.

  \<^bold>\<open>Domain\<close> (\<open>domain/\<close>).
  \<^item> Events, Plans, Policies, Results: events and envelopes with their causality, plans and the status
    derived from their actions, trigger and approval policies, tool results, contexts and suggestions.
  \<^item> Subtasks: the task graph (\<open>claim_ready\<close>, \<open>plan_advance\<close>). Graph_Runs: what a sequence of claims and reports
    does to it, as the step relation \<open>gstep\<close> and as the function \<open>advance_all\<close>.
  \<^item> Agent_Run, Trace_Data, Backlog: payloads of the run API, data of traces, workload and backlog signals.
  \<^item> Provisioning: pointers, payloads, the seed event and the worker.

  \<^bold>\<open>Infrastructure\<close> (\<open>infrastructure/\<close>).
  \<^item> Memory_Queue: the queue, with the interface \<open>fifo_queue\<close> it implements. State_Store: the memory store,
    with the interfaces \<open>keyed_store\<close> and \<open>state_store\<close>.
  \<^item> Prism_Client: requests, error mapping, the version cache and the endpoints. Diff_Logging: the log line
    of a diff hydration.
  \<^item> Memory_Transport, Persistent_Store, Store_Durability: the store kept in agent memories, through the API or
    through a bucket, and its contract: \<open>durable_transport\<close> says what a transport must guarantee, and the
    sublocale of \<open>bucket_store\<close> shows that the object storage transport does on any bucket.
  \<^item> Registries, Prompt_Loading: workflow, skill and tool registries and the prompt definitions they hold.
  \<^item> Planning_Agent: rendering of prompts, the attempt loop and its budget.
  \<^item> Runtime_Config, Oci_Adapters, Reporting: settings and credentials, OCI queue and payload stores, log
    lines, notifications and summaries.

  \<^bold>\<open>Application and capabilities\<close> (\<open>application/\<close>, \<open>capabilities/\<close>).
  \<^item> World, Run_Sync: the shared state and the API mirror.
  \<^item> Context_Hydration, Planner, Domain_Handler: hydration, planning with tool authorisation and approval,
    orchestration, routing and triggers.
  \<^item> Validator, Action_Handler, Action_Safety: the action handler and the outcome of each of its branches.
  \<^item> Coordinator, Coordinator_Safety, Recursion_Runner, Runner_Safety: dispatch and join of nodes, the loop.
    Coordinator_Runs: the coordinator over any sequence of events of a run, related to \<open>advance_all\<close>.
    Key_Safety: idempotency keys over everything the runtime may do, as the step relation \<open>moves\<close>.
  \<^item> Tool_Inputs, Workitem_Tools, Agent_Tools, Plan_Quality: the tools and the plan critic, with Tool_Facts
    and Tree_Facts about the creation of work item trees under every schedule of the thread pool.

  \<^bold>\<open>Entry points\<close> (\<open>app/\<close>, \<open>interfaces/\<close>). Container, Function_Entry and Local_CLI, with Entry_Facts.

  Samples, Sample_World and Sample_Bucket hold the concrete data, runtime and bucket at which the
  properties are instantiated.
\<close>

text \<open>
  \<^bold>\<open>What is proved.\<close>
  \<^item> Task_Properties: the graph of an orchestrated run progresses and finishes exactly once (C1) and respects
    dependencies (C3); the queue neither loses nor reorders messages (C4).
  \<^item> Action_Properties: which actions never reach a tool (C5) and how they are settled (C6); what success,
    failure with and without attempts left, and an exception leave behind (C7, C9 to C11); an action that
    succeeded is never executed again, whatever is handled later (C8).
  \<^item> Run_Properties: from its trigger on, an orchestrated run starts every node at most once (C2); over any
    sequence of sub-agent events the coordinator implements the pure graph (C12), and a failed node starts
    nothing (C13); the loop terminates, settles every message (C14) and handles a bounded number of events
    (C15).
  \<^item> Boundary_Properties: plans are authorised and approved by policy (C16, C17), their actions are all run
    (C18); triggers that cannot be routed or were already planned (C19, C20); the API contract (C21, C22).
  \<^item> Store_Properties: graphs and keys survive in the durable store, which refines the pure operations, and
    a node is claimed by one process only (C23 to C26).
  \<^item> Entry_Properties: provisioning, reporting, unpacking of deliveries and the isolation of local runs (C27
    to C31).
  \<^item> Tool_Properties and Planning_Properties: work item trees, bulk updates, the roll-up of assignees (C32 to
    C36); the critic, the typed drafts and the planning loop (C37 to C40).

  \<^bold>\<open>Interfaces.\<close> \<open>fifo_queue\<close> is interpreted by the memory queue (\<open>mq\<close>), \<open>state_store\<close>, which extends
  \<open>keyed_store\<close>, by the memory store (\<open>ms\<close>), \<open>idempotency_keys\<close> by the keys of both stores, and
  \<open>durable_transport\<close> by the object storage transport over \<open>bucket\<close>. A bucket is a service outside
  the repository; the dictionary bucket of Sample_Bucket shows that its laws can be met.

  \<^bold>\<open>Bounds and termination.\<close> No fuel is used: every recursion is structural or has a measure. The loop of
  the runner decreases the events left below the recursion limit, then the length of the queue; the inline
  continuation of actions decreases the budget of \<open>INLINE_ACTION_CHAIN_BUDGET\<close>; the planning loop counts
  its attempts; walks over JSON decrease its size.
\<close>

text \<open>
  \<^bold>\<open>Parameters.\<close> What the repository does not contain is an argument of the definitions that use it: the API
  server, the language model (\<open>rt_run_model\<close>, \<open>ll_run\<close>), the embedding service, the OCI clients and their
  credentials, the schedule of the thread pool (\<open>te_schedule\<close>), the clocks and \<open>uuid4\<close>; of the standard
  library and pydantic, SHA-256 and UUID 5, \<open>fromisoformat\<close>, UTF-8 decoding, dumping and validating of
  plans, envelopes, prompts and provisioning models (\<open>model_codec\<close>, \<open>fe_validate_envelope\<close>,
  \<open>read_datetime\<close>), \<open>argparse\<close>, YAML and the file system. Theorems about the durable store assume of a
  codec that it reads what it wrote, and Sample_Bucket gives one that does.

  \<^bold>\<open>Conventions and limits.\<close>
  \<^item> Characters are code points below 256; three emoji of the notifications are represented by their low
    bytes. Bytes and the text they decode to are identified.
  \<^item> A float in JSON is kept as its literal; a time stamp inside a payload as its ISO text.
  \<^item> The handlers run on the memory store and queue. The persistent store and the OCI queue are modelled on
    their own, and C24 relates the stores.
  \<^item> Log lines are left out of what the handlers call: the logging store forwards every call (Reporting),
    Diff_Logging gives the hydration of a diff with its lines and shows that it computes the same, and the
    warnings of the planning loop, the embedder and the reader of diff payloads are dropped. The lines of
    the function entry point are modelled with it.
  \<^item> Assignees rolled up in place are returned as a new tree; the set \<open>PROTECTED_UPDATE_FIELDS\<close> is iterated in
    a fixed order; a listing of a bucket fits in one page; the limit on the digits \<open>int\<close> reads is left out.

  \<^bold>\<open>Not modelled.\<close> The abstract base classes of queue, store and object storage, whose contracts are the
  locales above; \<open>prism_api/models.py\<close>, a model nothing uses; \<open>ManualInvocationHandler\<close> and
  \<open>ScheduledEventHandler\<close>, which only forward to the trigger handler; constructors that only store
  their arguments; the HTTP call of the notifier and the OCI calls, which are parameters; the tests and
  the evaluations.
\<close>

end
